(* ===== verification/Prelude.thy ===== *)
theory Prelude
  imports Main "HOL-Library.AList"
begin

text \<open>
  The shared vocabulary of the development: Go errors and results, Go maps as association
  lists with distinct keys, the string functions of the Go standard library that the
  program uses, JSON documents, and the automation (collections of rewrite rules and
  generic lemmas) that the component theories rest on.
\<close>

named_theorems go_defs \<open>definitions a proof about the program unfolds\<close>

named_theorems go_consts \<open>the string constants of the program\<close>

section \<open>Errors and results\<close>

text \<open>
  A Go \<open>error\<close> is an interface value. The program tells errors apart by their dynamic type
  (\<open>IsNotFoundError\<close> and friends look at the value itself and not below a wrapper), by the
  reason of a Kubernetes status error, by identity (\<open>TemporaryError\<close>, Helm's
  \<open>ErrReleaseNotFound\<close>, an absent path) and by their text. The wrapper of \<open>github.com/pkg/errors\<close> keeps the
  cause and puts the message in front of its text.
\<close>

datatype apiReason = ApiNotFound | ApiAlreadyExists | ApiConflict | ApiForbidden | ApiOther

datatype errorKind = Unknown | LoadingErrorKind | FetchingErrorKind

datatype error =
    NotFoundError
  | AlreadyExistsError
  | ActiveOperationInProgressError
  | TemporaryError
  | ErrReleaseNotFound string
  | PathNotExist string
  | StatusError apiReason string
  | ErrorString string
  | AddonError errorKind error
  | Wrapped error string

type_synonym 'a result = "error + 'a"

primrec Error :: "error \<Rightarrow> string" where
  "Error NotFoundError = ''element not found''"
| "Error AlreadyExistsError = ''element already exists''"
| "Error ActiveOperationInProgressError = ''there is an active operation in progres for instance''"
| "Error TemporaryError = ''Temporary error''"
| "Error (ErrReleaseNotFound m) = m"
| "Error (PathNotExist p) = p @ '': no such file or directory''"
| "Error (StatusError r m) = m"
| "Error (ErrorString m) = m"
| "Error (AddonError k e) = Error e"
| "Error (Wrapped e m) = m @ '': '' @ Error e"

text \<open>\<open>errors.Cause\<close> strips the wrappers; an addon error is not a wrapper.\<close>

fun Cause :: "error \<Rightarrow> error" where
  "Cause (Wrapped e m) = Cause e"
| "Cause e = e"

text \<open>The three tests of \<open>internal/broker/operation_state.go\<close> and \<open>internal/storage/ext.go\<close>.\<close>

definition IsNotFoundError :: "error \<Rightarrow> bool" where
  "IsNotFoundError e \<longleftrightarrow> e = NotFoundError"

definition IsAlreadyExistsError :: "error \<Rightarrow> bool" where
  "IsAlreadyExistsError e \<longleftrightarrow> e = AlreadyExistsError"

definition IsActiveOperationInProgressError :: "error \<Rightarrow> bool" where
  "IsActiveOperationInProgressError e \<longleftrightarrow> e = ActiveOperationInProgressError"

lemma IsNotFoundError_simps [simp]:
  "IsNotFoundError NotFoundError"
  "\<not> IsNotFoundError AlreadyExistsError"
  "\<not> IsNotFoundError ActiveOperationInProgressError"
  "\<not> IsNotFoundError (ErrorString m)"
  "\<not> IsNotFoundError (Wrapped e m)"
  by (simp_all add: IsNotFoundError_def)

lemma Cause_not_wrapped: "Cause e \<noteq> Wrapped e' m"
  by (induction e rule: Cause.induct) simp_all

lemma Cause_idem [simp]: "Cause (Cause e) = Cause e"
  by (induction e rule: Cause.induct) simp_all

section \<open>Go maps\<close>

text \<open>
  A Go map is an association list with distinct keys. Reading is \<open>map_of\<close>, assignment is
  \<open>AList.update\<close>, the built-in \<open>delete\<close> is \<open>AList.delete\<close>. The order in which Go ranges over
  a map is unspecified; here it is the order of the list, so a statement about every list
  is a statement about every order.
\<close>

type_synonym ('k, 'v) gomap = "('k \<times> 'v) list"

abbreviation keys :: "('k, 'v) gomap \<Rightarrow> 'k list" where
  "keys m \<equiv> map fst m"

definition wf_map :: "('k, 'v) gomap \<Rightarrow> bool" where
  "wf_map m \<longleftrightarrow> distinct (keys m)"

lemma wf_map_Nil [simp]: "wf_map []"
  by (simp add: wf_map_def)

lemma wf_map_Cons [simp]: "wf_map ((k, v) # m) \<longleftrightarrow> k \<notin> set (keys m) \<and> wf_map m"
  by (simp add: wf_map_def)

lemma wf_map_update [simp, intro]: "wf_map m \<Longrightarrow> wf_map (AList.update k v m)"
  by (simp add: wf_map_def distinct_update)

lemma wf_map_delete [simp, intro]: "wf_map m \<Longrightarrow> wf_map (AList.delete k m)"
  by (simp add: wf_map_def distinct_delete)

lemma map_of_update [simp]: "map_of (AList.update k v m) = (map_of m)(k \<mapsto> v)"
  by (rule update_conv')

lemma map_of_delete [simp]: "map_of (AList.delete k m) = (map_of m)(k := None)"
  by (rule delete_conv')

lemma wf_map_in_iff: "wf_map m \<Longrightarrow> (k, v) \<in> set m \<longleftrightarrow> map_of m k = Some v"
  by (simp add: wf_map_def)

lemma wf_map_values:
  "wf_map m \<Longrightarrow> v \<in> set (map snd m) \<longleftrightarrow> (\<exists>k. map_of m k = Some v)"
  by (force simp: wf_map_in_iff [symmetric])

lemma in_update_iff:
  assumes "wf_map m"
  shows "(k', v') \<in> set (AList.update k v m) \<longleftrightarrow>
    (if k' = k then v' = v else (k', v') \<in> set m)"
  using assms by (auto simp: wf_map_in_iff)

lemma in_delete_iff:
  "(k', v') \<in> set (AList.delete k m) \<longleftrightarrow> k' \<noteq> k \<and> (k', v') \<in> set m"
  by (auto simp: AList.delete_eq)

lemma delete_eq_Nil_iff:
  "AList.delete k m = [] \<longleftrightarrow> set (keys m) \<subseteq> {k}"
  by (auto simp: AList.delete_eq filter_empty_conv)

lemma delete_Nil_lookup: "AList.delete k m = [] \<Longrightarrow> k' \<noteq> k \<Longrightarrow> map_of m k' = None"
  by (auto simp: delete_eq_Nil_iff map_of_eq_None_iff)

text \<open>A map of maps: reading the inner map of an absent key gives the nil map.\<close>

definition inner :: "('a, ('b, 'c) gomap) gomap \<Rightarrow> 'a \<Rightarrow> ('b, 'c) gomap" where
  "inner m i = (case map_of m i of None \<Rightarrow> [] | Some x \<Rightarrow> x)"

definition lookup2 :: "('a, ('b, 'c) gomap) gomap \<Rightarrow> 'a \<Rightarrow> 'b \<Rightarrow> 'c option" where
  "lookup2 m i = map_of (inner m i)"

definition wf_map2 :: "('a, ('b, 'c) gomap) gomap \<Rightarrow> bool" where
  "wf_map2 m \<longleftrightarrow> wf_map m \<and> (\<forall>i x. map_of m i = Some x \<longrightarrow> wf_map x)"

lemma wf_map2_Nil [simp]: "wf_map2 []"
  by (simp add: wf_map2_def)

lemma wf_map2_Cons [simp]:
  "wf_map2 ((i, x) # m) \<longleftrightarrow> i \<notin> set (keys m) \<and> wf_map x \<and> wf_map2 m"
proof (cases "i \<in> set (keys m)")
  case True
  then show ?thesis by (simp add: wf_map2_def)
next
  case False
  then have "map_of m i = None" by (simp add: map_of_eq_None_iff)
  with False show ?thesis by (auto simp: wf_map2_def split: if_splits)
qed

lemma wf_map_inner [simp]: "wf_map2 m \<Longrightarrow> wf_map (inner m i)"
  by (auto simp: wf_map2_def inner_def split: option.splits)

lemma wf_map2_update [simp]: "wf_map2 m \<Longrightarrow> wf_map x \<Longrightarrow> wf_map2 (AList.update i x m)"
  by (auto simp: wf_map2_def)

lemma wf_map2_delete [simp]: "wf_map2 m \<Longrightarrow> wf_map2 (AList.delete i m)"
  by (auto simp: wf_map2_def split: if_splits)

lemma inner_update [simp]: "inner (AList.update i x m) j = (if j = i then x else inner m j)"
  by (simp add: inner_def)

lemma inner_delete [simp]: "inner (AList.delete i m) j = (if j = i then [] else inner m j)"
  by (simp add: inner_def)

lemma inner_Nil [simp]: "inner [] i = []"
  by (simp add: inner_def)

lemma inner_absent [simp]: "map_of m i = None \<Longrightarrow> inner m i = []"
  by (simp add: inner_def)

lemma inner_present [simp]: "map_of m i = Some x \<Longrightarrow> inner m i = x"
  by (simp add: inner_def)

lemma lookup2_update:
  "lookup2 (AList.update i x m) = (lookup2 m)(i := map_of x)"
  by (auto simp: lookup2_def)

lemma lookup2_delete:
  "lookup2 (AList.delete i m) = (lookup2 m)(i := Map.empty)"
  by (auto simp: lookup2_def)

lemma lookup2_Nil [simp]: "lookup2 [] i = Map.empty"
  by (simp add: lookup2_def)

text \<open>Deleting an inner key, and the inner map with its last key.\<close>

lemma lookup2_remove:
  defines "x k m i \<equiv> AList.delete k (inner m i)"
  shows "lookup2 (AList.update i (x k m i) m) = (lookup2 m)(i := (lookup2 m i)(k := None))"
    and "x k m i = [] \<Longrightarrow>
      lookup2 (AList.delete i (AList.update i [] m)) = (lookup2 m)(i := (lookup2 m i)(k := None))"
proof -
  show *: "lookup2 (AList.update i (x k m i) m) = (lookup2 m)(i := (lookup2 m i)(k := None))"
    by (simp add: x_def lookup2_update) (simp add: lookup2_def)
  assume "x k m i = []"
  with * show "lookup2 (AList.delete i (AList.update i [] m)) =
      (lookup2 m)(i := (lookup2 m i)(k := None))"
    by (simp add: lookup2_delete lookup2_update)
qed

lemma set_values_inner:
  "wf_map2 m \<Longrightarrow> set (map snd (inner m i)) = ran (lookup2 m i)"
  by (auto simp: lookup2_def ran_def wf_map_in_iff [OF wf_map_inner, symmetric]) force+

section \<open>Strings of the Go standard library\<close>

text \<open>\<open>strings.Join\<close>, \<open>strings.Split\<close> on a single byte, and the trimming by a set of bytes.\<close>

fun strJoin :: "string list \<Rightarrow> string \<Rightarrow> string" where
  "strJoin [] sep = []"
| "strJoin [x] sep = x"
| "strJoin (x # y # xs) sep = x @ sep @ strJoin (y # xs) sep"

fun strSplit :: "char \<Rightarrow> string \<Rightarrow> string list" where
  "strSplit c [] = [[]]"
| "strSplit c (x # xs) =
     (if x = c then [] # strSplit c xs
      else (case strSplit c xs of [] \<Rightarrow> [[x]] | p # ps \<Rightarrow> (x # p) # ps))"

definition strTrimLeft :: "string \<Rightarrow> string \<Rightarrow> string" where
  "strTrimLeft s cutset = dropWhile (\<lambda>c. c \<in> set cutset) s"

definition strTrimRight :: "string \<Rightarrow> string \<Rightarrow> string" where
  "strTrimRight s cutset = rev (dropWhile (\<lambda>c. c \<in> set cutset) (rev s))"

definition strTrim :: "string \<Rightarrow> string \<Rightarrow> string" where
  "strTrim s cutset = strTrimRight (strTrimLeft s cutset) cutset"

fun strHasPrefix :: "string \<Rightarrow> string \<Rightarrow> bool" where
  "strHasPrefix s [] = True"
| "strHasPrefix [] (p # ps) = False"
| "strHasPrefix (c # s) (p # ps) = (c = p \<and> strHasPrefix s ps)"

fun strContains :: "string \<Rightarrow> string \<Rightarrow> bool" where
  "strContains [] sub = (sub = [])"
| "strContains (c # s) sub = (strHasPrefix (c # s) sub \<or> strContains s sub)"

text \<open>
  The verb \<open>%q\<close> of \<open>fmt\<close>: a double-quoted Go string. Control bytes are escaped; bytes from 128
  on belong to UTF-8 sequences, which are taken to be printable.
\<close>

definition hexDigit :: "nat \<Rightarrow> char" where
  "hexDigit n = ''0123456789abcdef'' ! n"

definition quoteChar :: "char \<Rightarrow> string" where
  "quoteChar c =
     (let n = of_char c :: nat in
      if c = CHR 0x22 then [CHR 0x5C, CHR 0x22]
      else if c = CHR 0x5C then [CHR 0x5C, CHR 0x5C]
      else if n = 7 then CHR 0x5C # ''a''
      else if n = 8 then CHR 0x5C # ''b''
      else if n = 9 then CHR 0x5C # ''t''
      else if n = 10 then CHR 0x5C # ''n''
      else if n = 11 then CHR 0x5C # ''v''
      else if n = 12 then CHR 0x5C # ''f''
      else if n = 13 then CHR 0x5C # ''r''
      else if n < 32 \<or> n = 127 then CHR 0x5C # ''x'' @ [hexDigit (n div 16), hexDigit (n mod 16)]
      else [c])"

definition goQuote :: "string \<Rightarrow> string" where
  "goQuote s = CHR 0x22 # concat (map quoteChar s) @ [CHR 0x22]"

text \<open>Decimal text of a natural number, as \<open>%d\<close> and \<open>%v\<close> print it.\<close>

fun natText :: "nat \<Rightarrow> string" where
  "natText n = (if n < 10 then [hexDigit n] else natText (n div 10) @ [hexDigit (n mod 10)])"

definition intText :: "int \<Rightarrow> string" where
  "intText i = (if i < 0 then ''-'' @ natText (nat (- i)) else natText (nat i))"

declare natText.simps [simp del]

lemma strSplit_not_Nil [simp]: "strSplit c s \<noteq> []"
  by (induction s) (auto split: list.splits)

lemma strJoin_strSplit: "strJoin (strSplit c s) [c] = s"
proof (induction s)
  case Nil
  then show ?case by simp
next
  case (Cons x xs)
  obtain p ps where split: "strSplit c xs = p # ps"
    by (cases "strSplit c xs") auto
  then show ?case
    using Cons.IH by (cases ps) auto
qed

lemma strSplit_no_sep: "p \<in> set (strSplit c s) \<Longrightarrow> c \<notin> set p"
  by (induction s arbitrary: p) (auto split: list.splits if_splits)

lemma length_strTrim: "length (strTrim s cs) \<le> length s"
proof -
  have "length (dropWhile P xs) \<le> length xs" for P and xs :: string
    by (rule length_dropWhile_le)
  then show ?thesis
    unfolding strTrim_def strTrimRight_def strTrimLeft_def
    by (metis le_trans length_rev)
qed

lemma strHasPrefix_iff: "strHasPrefix s p \<longleftrightarrow> (\<exists>r. s = p @ r)"
  by (induction s p rule: strHasPrefix.induct) auto

lemma strHasPrefix_append [simp]: "strHasPrefix (p @ s) p"
  by (simp add: strHasPrefix_iff)

lemma dropWhile_suffix_stop:
  assumes "\<And>x. x \<in> set ys \<Longrightarrow> P x" "\<not> P z"
  shows "dropWhile P (ys @ z # zs) = z # zs"
  using assms by (simp add: dropWhile_append2)

text \<open>A key built with a separator that the first part does not contain has unique parts.\<close>

lemma sep_append_inj:
  assumes "c \<notin> set xs" "c \<notin> set ys" "xs @ c # s = ys @ c # t"
  shows "xs = ys \<and> s = t"
  using assms
proof (induction xs arbitrary: ys)
  case Nil
  then show ?case by (cases ys) auto
next
  case (Cons x xs)
  then show ?case by (cases ys) auto
qed

section \<open>JSON documents\<close>

text \<open>
  \<open>map[string]interface{}\<close> values come from JSON or YAML text. A number is a Go float64 and
  is represented by its shortest decimal text, the text that \<open>%v\<close> prints.
\<close>

datatype json =
    JNull
  | JBool bool
  | JNum string
  | JStr string
  | JArr "json list"
  | JObj "(string \<times> json) list"

type_synonym jobject = "(string \<times> json) list"

section \<open>Small facts on options and results\<close>

lemmas go_splits = sum.splits option.splits prod.splits if_splits

end
