(* ===== verification/Model.thy ===== *)
theory Model
  imports Prelude
begin

text \<open>
  The data model: \<open>internal/model.go\<close> and the part of \<open>pkg/apis/addons/v1alpha1\<close> it uses.
  Named string types of the program are strings; structs are records whose fields carry a
  short prefix. Values of third-party types are kept to what the program reads of them:
  a \<open>semver.Version\<close> is observed through \<open>Original\<close> and \<open>String\<close>, a Helm chart through its
  metadata, its template files and its dependencies.
\<close>

section \<open>Identifiers\<close>

type_synonym AddonID = string
type_synonym AddonName = string
type_synonym AddonVersion = string
type_synonym AddonPlanID = string
type_synonym AddonPlanName = string
type_synonym PlanSchemaType = string
type_synonym PlanSchema = json
type_synonym ChartName = string
type_synonym AddonTag = string
type_synonym InstanceID = string
type_synonym OperationID = string
type_synonym ReleaseName = string
type_synonym ServiceID = string
type_synonym ServicePlanID = string
type_synonym Namespace = string
type_synonym BindingID = string
type_synonym OperationState = string
type_synonym OperationType = string
type_synonym ChartValues = jobject
type_synonym AddonPlanBindTemplate = "string option"
type_synonym Labels = "(string, string) gomap"
type_synonym InstanceCredentials = "(string, string) gomap"
type_synonym time = int

definition IsZero :: "string \<Rightarrow> bool" where
  "IsZero i \<longleftrightarrow> i = ''''"

definition ClusterWide :: Namespace where [go_consts]:
  "ClusterWide = ''''"

definition SchemaTypeBind :: PlanSchemaType where [go_consts]:
  "SchemaTypeBind = ''bind''"

definition SchemaTypeProvision :: PlanSchemaType where [go_consts]:
  "SchemaTypeProvision = ''provision''"

definition SchemaTypeUpdate :: PlanSchemaType where [go_consts]:
  "SchemaTypeUpdate = ''update''"

definition OperationStateInProgress :: OperationState where [go_consts]:
  "OperationStateInProgress = ''in progress''"

definition OperationStateSucceeded :: OperationState where [go_consts]:
  "OperationStateSucceeded = ''succeeded''"

definition OperationStateFailed :: OperationState where [go_consts]:
  "OperationStateFailed = ''failed''"

definition OperationTypeCreate :: OperationType where [go_consts]:
  "OperationTypeCreate = ''create''"

definition OperationTypeRemove :: OperationType where [go_consts]:
  "OperationTypeRemove = ''remove''"

definition OperationTypeUndefined :: OperationType where [go_consts]:
  "OperationTypeUndefined = ''''"

lemma operation_states_distinct [simp]:
  "OperationStateInProgress \<noteq> OperationStateSucceeded"
  "OperationStateInProgress \<noteq> OperationStateFailed"
  "OperationStateSucceeded \<noteq> OperationStateInProgress"
  "OperationStateSucceeded \<noteq> OperationStateFailed"
  "OperationStateFailed \<noteq> OperationStateInProgress"
  "OperationStateFailed \<noteq> OperationStateSucceeded"
  by (simp_all add: go_consts)

lemma operation_types_distinct [simp]:
  "OperationTypeCreate \<noteq> OperationTypeRemove"
  "OperationTypeRemove \<noteq> OperationTypeCreate"
  "OperationTypeCreate \<noteq> OperationTypeUndefined"
  "OperationTypeUndefined \<noteq> OperationTypeCreate"
  "OperationTypeRemove \<noteq> OperationTypeUndefined"
  "OperationTypeUndefined \<noteq> OperationTypeRemove"
  by (simp_all add: go_consts)

section \<open>Versions and charts (third-party values)\<close>

record Version =
  Original :: string
  String :: string

record ChartMetadata =
  cm_Name :: string
  cm_Version :: string

datatype Chart =
  Chart (ch_Metadata: "ChartMetadata option") (ch_Templates: "(string \<times> string) list")
    (ch_Dependencies: "Chart list")

section \<open>Repository index\<close>

record IndexEntry =
  ie_Name :: AddonName
  ie_DisplayName :: string
  ie_Description :: string
  ie_Version :: AddonVersion

record Index =
  idx_Entries :: "(AddonName, IndexEntry list) gomap"

section \<open>Addons and plans\<close>

record ChartRef =
  cr_Name :: ChartName
  cr_Version :: Version

record AddonPlanMetadata =
  pm_DisplayName :: string

record AddonPlan =
  pl_ID :: AddonPlanID
  pl_Name :: AddonPlanName
  pl_Description :: string
  pl_Schemas :: "(PlanSchemaType, PlanSchema) gomap"
  pl_ChartRef :: ChartRef
  pl_ChartValues :: ChartValues
  pl_Metadata :: AddonPlanMetadata
  pl_Bindable :: "bool option"
  pl_Free :: "bool option"
  pl_BindTemplate :: AddonPlanBindTemplate

record DocsSource =
  src_URL :: string
  src_rest :: string

record AddonDocs =
  docs_DisplayName :: string
  docs_Description :: string
  docs_Sources :: "DocsSource list"

record AddonMetadata =
  am_DisplayName :: string
  am_ProviderDisplayName :: string
  am_LongDescription :: string
  am_DocumentationURL :: string
  am_SupportURL :: string
  am_ProvisionOnlyOnce :: bool
  am_ImageURL :: string
  am_Labels :: "Labels option"

section \<open>Status types of the addons API\<close>

datatype AddonsConfigurationPhase =
    PhaseUnset
  | AddonsConfigurationReady
  | AddonsConfigurationPending
  | AddonsConfigurationFailed

datatype AddonStatus = AddonStatusUnset | AddonStatusReady | AddonStatusFailed

datatype RepositoryStatus = RepositoryStatusUnset | RepositoryStatusFailed | RepositoryStatusReady

datatype AddonStatusReason =
    AddonReasonUnset
  | AddonLoadingError
  | AddonFetchingError
  | AddonConflictInSpecifiedRepositories
  | AddonConflictWithAlreadyRegisteredAddons
  | AddonUnregisteringError
  | AddonRegisteringError

datatype RepositoryStatusReason =
    RepositoryReasonUnset
  | RepositoryURLFetchingError
  | RepositoryURLTemplatingError
  | RepositoryEmptyURLError

record SecretReference =
  sr_Name :: string
  sr_Namespace :: string

record SpecRepository =
  sp_URL :: string
  sp_SecretRef :: "SecretReference option"

record CommonAddonsConfigurationSpec =
  spec_ReprocessRequest :: int
  spec_Repositories :: "SpecRepository list"

record StatusAddon =
  sa_Name :: string
  sa_Version :: string
  sa_Status :: AddonStatus
  sa_Reason :: AddonStatusReason
  sa_Message :: string

definition Key :: "StatusAddon \<Rightarrow> string" where
  "Key a = sa_Name a @ ''/'' @ sa_Version a"

record StatusRepository =
  sre_URL :: string
  sre_Status :: RepositoryStatus
  sre_Reason :: RepositoryStatusReason
  sre_Message :: string
  sre_Addons :: "StatusAddon list"

definition StatusRepository_Equal :: "StatusRepository \<Rightarrow> StatusRepository \<Rightarrow> bool" where
  "StatusRepository_Equal sr obj \<longleftrightarrow>
     sre_URL sr = sre_URL obj \<and> sre_Status sr = sre_Status obj \<and>
     sre_Reason sr = sre_Reason obj \<and> sre_Message sr = sre_Message obj"

record CommonAddonsConfigurationStatus =
  st_Phase :: AddonsConfigurationPhase
  st_LastProcessedTime :: "time option"
  st_ObservedGeneration :: int
  st_Repositories :: "StatusRepository list"

definition Status_Equals ::
  "CommonAddonsConfigurationStatus \<Rightarrow> CommonAddonsConfigurationStatus \<Rightarrow> bool" where
  "Status_Equals st other \<longleftrightarrow>
     (if st_Phase st \<noteq> st_Phase other then False
      else if length (st_Repositories st) \<noteq> length (st_Repositories other) then False
      else list_all2 StatusRepository_Equal (st_Repositories st) (st_Repositories other))"

definition EmptyStatus :: CommonAddonsConfigurationStatus where
  "EmptyStatus = \<lparr>st_Phase = PhaseUnset, st_LastProcessedTime = None,
     st_ObservedGeneration = 0, st_Repositories = []\<rparr>"

record ObjectMeta =
  meta_Name :: string
  meta_Namespace :: string
  meta_Generation :: int
  meta_DeletionTimestamp :: "time option"
  meta_Finalizers :: "string list"

record Addon =
  ad_ID :: AddonID
  ad_Name :: AddonName
  ad_Version :: Version
  ad_Description :: string
  ad_Plans :: "(AddonPlanID, AddonPlan) gomap"
  ad_Metadata :: AddonMetadata
  ad_RepositoryURL :: string
  ad_Tags :: "AddonTag list"
  ad_Requires :: "string list"
  ad_Bindable :: bool
  ad_BindingsRetrievable :: bool
  ad_PlanUpdatable :: "bool option"
  ad_Docs :: "AddonDocs list"
  ad_Status :: AddonStatus
  ad_Reason :: AddonStatusReason
  ad_Message :: string
  ad_SecretRef :: SecretReference

record AddonWithCharts =
  awc_Addon :: Addon
  awc_Charts :: "Chart list"

record CommonAddon =
  ca_Meta :: ObjectMeta
  ca_Spec :: CommonAddonsConfigurationSpec
  ca_Status :: CommonAddonsConfigurationStatus

definition IsReadyForInitialProcessing :: "CommonAddon \<Rightarrow> bool" where
  "IsReadyForInitialProcessing ca \<longleftrightarrow>
     st_ObservedGeneration (ca_Status ca) = 0 \<or>
     st_Phase (ca_Status ca) = AddonsConfigurationPending"

definition IsReadyForReprocessing :: "CommonAddon \<Rightarrow> bool" where
  "IsReadyForReprocessing ca \<longleftrightarrow>
     (if meta_Generation (ca_Meta ca) > st_ObservedGeneration (ca_Status ca) then True
      else list_ex (\<lambda>r. sre_Status r = RepositoryStatusFailed \<and>
                        sre_Reason r = RepositoryURLFetchingError)
             (st_Repositories (ca_Status ca)))"

section \<open>Instances, operations and bindings\<close>

text \<open>The parameters of a request are a map that may be nil.\<close>

record RequestParameters =
  rp_Data :: "jobject option"

record ReleaseInfo =
  ri_Time :: "time option"
  ri_ReleaseTime :: "time option"
  ri_Revision :: int
  ri_Config :: "string option"
  ri_ConfigValues :: jobject

definition EmptyReleaseInfo :: ReleaseInfo where
  "EmptyReleaseInfo = \<lparr>ri_Time = None, ri_ReleaseTime = None, ri_Revision = 0,
     ri_Config = None, ri_ConfigValues = []\<rparr>"

record Instance =
  in_ID :: InstanceID
  in_ServiceID :: ServiceID
  in_ServicePlanID :: ServicePlanID
  in_ReleaseName :: ReleaseName
  in_Namespace :: Namespace
  in_ReleaseInfo :: ReleaseInfo
  in_ProvisioningParameters :: "RequestParameters option"
  in_ParamsHash :: string

fun instances_conflict :: "Addon \<Rightarrow> Namespace \<Rightarrow> Instance list \<Rightarrow> bool" where
  "instances_conflict b ns [] = False"
| "instances_conflict b ns (i # is) =
     (if ns \<noteq> in_Namespace i then instances_conflict b ns is
      else if ad_ID b = in_ServiceID i then True
      else instances_conflict b ns is)"

definition IsProvisioningAllowed :: "Addon \<Rightarrow> Namespace \<Rightarrow> Instance list \<Rightarrow> bool" where
  "IsProvisioningAllowed b ns coll =
     (if \<not> am_ProvisionOnlyOnce (ad_Metadata b) then True
      else \<not> instances_conflict b ns coll)"

record InstanceOperation =
  io_InstanceID :: InstanceID
  io_OperationID :: OperationID
  io_Type :: OperationType
  io_State :: OperationState
  io_StateDescription :: "string option"
  io_ProvisioningParameters :: "RequestParameters option"
  io_CreatedAt :: time

record BindOperation =
  bo_InstanceID :: InstanceID
  bo_BindingID :: BindingID
  bo_OperationID :: OperationID
  bo_Type :: OperationType
  bo_State :: OperationState
  bo_StateDescription :: "string option"
  bo_CreatedAt :: time

definition EmptyBindOperation :: BindOperation where
  "EmptyBindOperation = \<lparr>bo_InstanceID = '''', bo_BindingID = '''', bo_OperationID = '''',
     bo_Type = '''', bo_State = '''', bo_StateDescription = None, bo_CreatedAt = 0\<rparr>"

record InstanceBindData =
  bd_InstanceID :: InstanceID
  bd_Credentials :: InstanceCredentials

section \<open>Facts on the data model\<close>

lemma instances_conflict_iff:
  "instances_conflict b ns coll \<longleftrightarrow>
     (\<exists>i \<in> set coll. in_Namespace i = ns \<and> in_ServiceID i = ad_ID b)"
  by (induction coll) auto

lemma Status_Equals_refl: "Status_Equals st st"
  by (simp add: Status_Equals_def StatusRepository_Equal_def list.rel_refl)

end
