(* ===== verification/Storage_Interface.thy ===== *)
theory Storage_Interface
  imports Model
begin

text \<open>
  The contracts of \<open>internal/storage/ext.go\<close> that the broker and the controller rely on,
  as locales over an abstraction of the storage to maps. The drivers interpret them.
\<close>

section \<open>Operations of service instances\<close>

text \<open>An operation that has been accepted and has not ended.\<close>

definition in_progress :: "InstanceOperation \<Rightarrow> bool" where
  "in_progress op \<longleftrightarrow> io_State op = OperationStateInProgress"

text \<open>
  \<open>ops s i\<close> is the map of the operations stored for the instance \<open>i\<close>. A storage never
  accepts an operation next to one that is in progress, reports an absent entry by the
  not-found error, and leaves the entries alone when it refuses a call.
\<close>

locale operation_storage =
  fixes Insert :: "InstanceOperation \<Rightarrow> 's \<Rightarrow> error option \<times> 's"
    and Get :: "InstanceID \<Rightarrow> OperationID \<Rightarrow> 's \<Rightarrow> InstanceOperation result"
    and GetAll :: "InstanceID \<Rightarrow> 's \<Rightarrow> InstanceOperation list result"
    and UpdateStateDesc :: "InstanceID \<Rightarrow> OperationID \<Rightarrow> OperationState \<Rightarrow> string option \<Rightarrow> 's
      \<Rightarrow> error option \<times> 's"
    and ops :: "'s \<Rightarrow> InstanceID \<Rightarrow> OperationID \<Rightarrow> InstanceOperation option"
    and invar :: "'s \<Rightarrow> bool"
  assumes GetAll_Inr: "invar s \<Longrightarrow> GetAll i s = Inr xs \<Longrightarrow> set xs = ran (ops s i)"
    and GetAll_Inl: "invar s \<Longrightarrow> GetAll i s = Inl e \<Longrightarrow> e = NotFoundError \<and> ops s i = Map.empty"
    and Get_Inr: "invar s \<Longrightarrow> Get i opid s = Inr op \<Longrightarrow> ops s i opid = Some op"
    and Get_found: "invar s \<Longrightarrow> i \<noteq> '''' \<Longrightarrow> opid \<noteq> '''' \<Longrightarrow> ops s i opid = Some op \<Longrightarrow>
      Get i opid s = Inr op"
    and Get_absent: "invar s \<Longrightarrow> i \<noteq> '''' \<Longrightarrow> opid \<noteq> '''' \<Longrightarrow> ops s i opid = None \<Longrightarrow>
      Get i opid s = Inl NotFoundError"
    and Insert_ok: "invar s \<Longrightarrow> Insert io s = (None, s') \<Longrightarrow>
      io_InstanceID io \<noteq> '''' \<and> io_OperationID io \<noteq> '''' \<and>
      ops s (io_InstanceID io) (io_OperationID io) = None \<and>
      (\<forall>op \<in> ran (ops s (io_InstanceID io)). \<not> in_progress op) \<and>
      (\<exists>now. ops s' = (ops s)(io_InstanceID io :=
        (ops s (io_InstanceID io))(io_OperationID io \<mapsto> io\<lparr>io_CreatedAt := now\<rparr>)))"
    and Insert_refused: "invar s \<Longrightarrow> Insert io s = (Some e, s') \<Longrightarrow> ops s' = ops s"
    and Insert_accepts: "invar s \<Longrightarrow> io_InstanceID io \<noteq> '''' \<Longrightarrow> io_OperationID io \<noteq> '''' \<Longrightarrow>
      ops s (io_InstanceID io) (io_OperationID io) = None \<Longrightarrow>
      (\<forall>op \<in> ran (ops s (io_InstanceID io)). \<not> in_progress op) \<Longrightarrow>
      fst (Insert io s) = None"
    and Insert_invar: "invar s \<Longrightarrow> invar (snd (Insert io s))"
    and UpdateStateDesc_found: "invar s \<Longrightarrow> i \<noteq> '''' \<Longrightarrow> opid \<noteq> '''' \<Longrightarrow> ops s i opid = Some op \<Longrightarrow>
      fst (UpdateStateDesc i opid st d s) = None \<and>
      ops (snd (UpdateStateDesc i opid st d s)) = (ops s)(i := (ops s i)(opid \<mapsto>
        op\<lparr>io_State := st, io_StateDescription := d\<rparr>))"
    and UpdateStateDesc_absent: "invar s \<Longrightarrow> ops s i opid = None \<or> i = '''' \<or> opid = '''' \<Longrightarrow>
      fst (UpdateStateDesc i opid st d s) \<noteq> None \<and>
      ops (snd (UpdateStateDesc i opid st d s)) = ops s"
    and UpdateStateDesc_invar: "invar s \<Longrightarrow> invar (snd (UpdateStateDesc i opid st d s))"
begin

text \<open>A second operation for an instance is refused while one is in progress.\<close>

lemma Insert_exclusive:
  assumes "invar s" "ops s (io_InstanceID io) opid = Some op" "in_progress op"
  shows "fst (Insert io s) \<noteq> None"
proof
  assume "fst (Insert io s) = None"
  then obtain s' where "Insert io s = (None, s')"
    by (cases "Insert io s") auto
  from Insert_ok [OF assms(1) this] assms(2,3) show False
    by (auto simp: ran_def)
qed

lemma Insert_then_Get:
  assumes "invar s" "Insert io s = (None, s')"
  shows "\<exists>now. Get (io_InstanceID io) (io_OperationID io) s' = Inr (io\<lparr>io_CreatedAt := now\<rparr>)"
proof -
  from Insert_invar [OF assms(1), of io] assms(2) have "invar s'" by simp
  with Insert_ok [OF assms] show ?thesis
    by (auto intro!: Get_found)
qed

end

text \<open>
  The in-progress operations of an instance, and the property the storage keeps: there is at
  most one of them.
\<close>

definition one_in_progress :: "('o \<Rightarrow> InstanceOperation option) \<Rightarrow> bool" where
  "one_in_progress m \<longleftrightarrow>
     (\<forall>a b x y. m a = Some x \<longrightarrow> m b = Some y \<longrightarrow> in_progress x \<longrightarrow> in_progress y \<longrightarrow> a = b)"

lemma one_in_progress_empty [simp]: "one_in_progress Map.empty"
  by (simp add: one_in_progress_def)

lemma one_in_progress_insert:
  "\<forall>op \<in> ran m. \<not> in_progress op \<Longrightarrow> one_in_progress (m(k \<mapsto> v))"
  by (auto simp: one_in_progress_def ran_def split: if_splits)

lemma one_in_progress_finish:
  "one_in_progress m \<Longrightarrow> \<not> in_progress v \<Longrightarrow> one_in_progress (m(k \<mapsto> v))"
  by (auto simp: one_in_progress_def split: if_splits)

lemma one_in_progress_remove:
  "one_in_progress m \<Longrightarrow> one_in_progress (m(k := None))"
  by (auto simp: one_in_progress_def split: if_splits)

context operation_storage
begin

lemma Insert_one_in_progress:
  assumes "invar s" "\<forall>i. one_in_progress (ops s i)"
  shows "one_in_progress (ops (snd (Insert io s)) j)"
proof (cases "Insert io s")
  case (Pair r s')
  show ?thesis
  proof (cases r)
    case None
    with Insert_ok [OF assms(1)] Pair assms(2) show ?thesis
      by (force simp: one_in_progress_insert)
  next
    case (Some e)
    with Insert_refused [OF assms(1)] Pair assms(2) show ?thesis by simp
  qed
qed

lemma UpdateStateDesc_one_in_progress:
  assumes "invar s" "\<forall>i. one_in_progress (ops s i)" "st \<noteq> OperationStateInProgress"
  shows "one_in_progress (ops (snd (UpdateStateDesc i opid st d s)) j)"
proof (cases "i \<noteq> '''' \<and> opid \<noteq> '''' \<and> ops s i opid \<noteq> None")
  case True
  then obtain op where "ops s i opid = Some op" by auto
  with True UpdateStateDesc_found [OF assms(1), of i opid op st d] assms(2,3) show ?thesis
    by (auto intro!: one_in_progress_finish simp: in_progress_def)
next
  case False
  with UpdateStateDesc_absent [OF assms(1), of i opid st d] assms(2) show ?thesis by auto
qed

end

section \<open>Entities stored under their identifier\<close>

text \<open>
  The contract that the storages of instances and of bind data share: an entity has a key,
  inserting over an existing key is refused, an absent key is reported by the not-found
  error, and a refused call changes nothing.
\<close>

locale entity_storage =
  fixes Insert :: "'v \<Rightarrow> 's \<Rightarrow> error option \<times> 's"
    and Get :: "string \<Rightarrow> 's \<Rightarrow> 'v result"
    and Remove :: "string \<Rightarrow> 's \<Rightarrow> error option \<times> 's"
    and key :: "'v \<Rightarrow> string"
    and entries :: "'s \<Rightarrow> string \<Rightarrow> 'v option"
  assumes Get_eq: "Get k s = (case entries s k of None \<Rightarrow> Inl NotFoundError | Some v \<Rightarrow> Inr v)"
    and Insert_invalid: "key v = '''' \<Longrightarrow> fst (Insert v s) \<noteq> None \<and> snd (Insert v s) = s"
    and Insert_taken: "key v \<noteq> '''' \<Longrightarrow> entries s (key v) \<noteq> None \<Longrightarrow>
      Insert v s = (Some AlreadyExistsError, s)"
    and Insert_new: "key v \<noteq> '''' \<Longrightarrow> entries s (key v) = None \<Longrightarrow>
      fst (Insert v s) = None \<and> entries (snd (Insert v s)) = (entries s)(key v \<mapsto> v)"
    and Remove_absent: "entries s k = None \<Longrightarrow> Remove k s = (Some NotFoundError, s)"
    and Remove_present: "entries s k \<noteq> None \<Longrightarrow>
      fst (Remove k s) = None \<and> entries (snd (Remove k s)) = (entries s)(k := None)"
begin

lemma Insert_accepted:
  assumes "Insert v s = (None, s')"
  shows "key v \<noteq> '''' \<and> entries s (key v) = None \<and> entries s' = (entries s)(key v \<mapsto> v)"
  using assms Insert_invalid [of v s] Insert_taken [of v s] Insert_new [of v s]
  by (cases "key v = ''''"; cases "entries s (key v)") auto

lemma Insert_rejected:
  assumes "Insert v s = (Some e, s')"
  shows "s' = s"
  using assms Insert_invalid [of v s] Insert_taken [of v s] Insert_new [of v s]
  by (cases "key v = ''''"; cases "entries s (key v)") auto

text \<open>An accepted entity is read back, the other entries are untouched, and removing it
  restores the entries.\<close>

lemma Insert_round_trip:
  assumes "Insert v s = (None, s')"
  shows "Get (key v) s' = Inr v"
    and "k \<noteq> key v \<Longrightarrow> Get k s' = Get k s"
    and "fst (Insert w s') = None \<Longrightarrow> key w \<noteq> key v"
    and "fst (Remove (key v) s') = None"
    and "entries (snd (Remove (key v) s')) = entries s"
proof -
  note acc = Insert_accepted [OF assms]
  then show "Get (key v) s' = Inr v" "k \<noteq> key v \<Longrightarrow> Get k s' = Get k s"
    by (simp_all add: Get_eq)
  show "fst (Insert w s') = None \<Longrightarrow> key w \<noteq> key v"
    using acc Insert_taken [of w s'] by auto
  have "entries s' (key v) \<noteq> None" using acc by simp
  from Remove_present [OF this] acc
  show "fst (Remove (key v) s') = None" "entries (snd (Remove (key v) s')) = entries s"
    by auto
qed

lemma Remove_then_Get: "Remove k s = (None, s') \<Longrightarrow> Get k s' = Inl NotFoundError"
  using Remove_absent [of s k] Remove_present [of s k]
  by (cases "entries s k") (auto simp: Get_eq)

lemma Remove_other: "j \<noteq> k \<Longrightarrow> Get j (snd (Remove k s)) = Get j s"
  using Remove_absent [of s k] Remove_present [of s k]
  by (cases "entries s k") (auto simp: Get_eq)

end

section \<open>Addons\<close>

text \<open>
  What the broker and the controller rely on in a storage of addons: \<open>addons s ns\<close> is the map
  of the addons stored in the namespace \<open>ns\<close>.
\<close>

locale addon_storage =
  fixes Upsert :: "Namespace \<Rightarrow> Addon \<Rightarrow> 's \<Rightarrow> bool result \<times> 's"
    and GetByID :: "Namespace \<Rightarrow> AddonID \<Rightarrow> 's \<Rightarrow> Addon result"
    and FindAll :: "Namespace \<Rightarrow> 's \<Rightarrow> Addon list result"
    and RemoveByID :: "Namespace \<Rightarrow> AddonID \<Rightarrow> 's \<Rightarrow> error option \<times> 's"
    and addons :: "'s \<Rightarrow> Namespace \<Rightarrow> AddonID \<Rightarrow> Addon option"
    and invar :: "'s \<Rightarrow> bool"
  assumes GetByID_eq: "GetByID ns aid s =
      (case addons s ns aid of None \<Rightarrow> Inl NotFoundError | Some a \<Rightarrow> Inr a)"
    and FindAll_ok: "invar s \<Longrightarrow> \<exists>xs. FindAll ns s = Inr xs \<and> distinct (map ad_ID xs) \<and>
      set xs = ran (addons s ns)"
    and stored_under_ID: "invar s \<Longrightarrow> addons s ns aid = Some a \<Longrightarrow> ad_ID a = aid"
    and Upsert_refused: "ad_Name a = '''' \<or> Original (ad_Version a) = '''' \<Longrightarrow>
      (\<exists>e. fst (Upsert ns a s) = Inl e) \<and> snd (Upsert ns a s) = s"
    and Upsert_ok: "ad_Name a \<noteq> '''' \<Longrightarrow> Original (ad_Version a) \<noteq> '''' \<Longrightarrow>
      (\<exists>r. fst (Upsert ns a s) = Inr r) \<and>
      addons (snd (Upsert ns a s)) = (addons s)(ns := (addons s ns)(ad_ID a \<mapsto> a))"
    and Upsert_invar: "invar s \<Longrightarrow> invar (snd (Upsert ns a s))"
    and RemoveByID_absent: "addons s ns aid = None \<Longrightarrow> RemoveByID ns aid s = (Some NotFoundError, s)"
    and RemoveByID_ok: "addons s ns aid \<noteq> None \<Longrightarrow> fst (RemoveByID ns aid s) = None \<and>
      addons (snd (RemoveByID ns aid s)) = (addons s)(ns := (addons s ns)(aid := None))"
    and RemoveByID_invar: "invar s \<Longrightarrow> invar (snd (RemoveByID ns aid s))"
begin

lemma Upsert_GetByID:
  assumes "Upsert ns a s = (Inr r, s')"
  shows "GetByID ns (ad_ID a) s' = Inr a"
    and "(ns', aid) \<noteq> (ns, ad_ID a) \<Longrightarrow> GetByID ns' aid s' = GetByID ns' aid s"
proof -
  from assms Upsert_refused [of a ns s] have "ad_Name a \<noteq> ''''" "Original (ad_Version a) \<noteq> ''''"
    by auto
  from Upsert_ok [OF this, of ns s] assms show "GetByID ns (ad_ID a) s' = Inr a"
    and "(ns', aid) \<noteq> (ns, ad_ID a) \<Longrightarrow> GetByID ns' aid s' = GetByID ns' aid s"
    by (auto simp: GetByID_eq split: option.splits)
qed

lemma FindAll_other_namespace:
  assumes "invar s" "ns' \<noteq> ns" "FindAll ns' s = Inr xs"
  shows "\<exists>ys. FindAll ns' (snd (Upsert ns a s)) = Inr ys \<and> set ys = set xs"
proof -
  have "addons (snd (Upsert ns a s)) ns' = addons s ns'"
    using Upsert_refused [of a ns s] Upsert_ok [of a ns s] assms(2)
    by (cases "ad_Name a = ''''"; cases "Original (ad_Version a) = ''''") auto
  with FindAll_ok [OF assms(1), of ns'] FindAll_ok [OF Upsert_invar [OF assms(1)], of ns'] assms(3)
  show ?thesis by fastforce
qed

end

end
