(* ===== verification/Broker_Interface.thy ===== *)
theory Broker_Interface
  imports Storage_Interface
begin

text \<open>
  The interfaces that \<open>internal/broker/broker.go\<close> declares for the broker's collaborators, as a
  record of functions over a state \<open>'s\<close> that holds the storages and everything outside the
  process (\<open>newWithIDProvider\<close> wires the services with exactly these). A call that only reads is
  a function of the state, a call that may write returns the state it leaves. The Helm client,
  the renderer and resolver of bind templates, the generator of operation identifiers and the
  text of an OSB error are parameters of the broker and fields of this record.
\<close>

section \<open>Collaborators\<close>

record Release =
  rel_Name :: string
  rel_Version :: int
  rel_LastDeployed :: time
  rel_Config :: jobject

record ResolveOutput =
  ro_Credentials :: InstanceCredentials

record 's deps =
  addonGetByID :: "Namespace \<Rightarrow> AddonID \<Rightarrow> 's \<Rightarrow> Addon result"
  addonFindAll :: "Namespace \<Rightarrow> 's \<Rightarrow> Addon list result"
  chartGet :: "Namespace \<Rightarrow> ChartName \<Rightarrow> Version \<Rightarrow> 's \<Rightarrow> Chart result"
  opInsert :: "InstanceOperation \<Rightarrow> 's \<Rightarrow> error option \<times> 's"
  opGet :: "InstanceID \<Rightarrow> OperationID \<Rightarrow> 's \<Rightarrow> InstanceOperation result"
  opGetAll :: "InstanceID \<Rightarrow> 's \<Rightarrow> InstanceOperation list result"
  opUpdateStateDesc :: "InstanceID \<Rightarrow> OperationID \<Rightarrow> OperationState \<Rightarrow> string option \<Rightarrow> 's
    \<Rightarrow> error option \<times> 's"
  bopInsert :: "BindOperation \<Rightarrow> 's \<Rightarrow> error option \<times> 's"
  bopGet :: "InstanceID \<Rightarrow> BindingID \<Rightarrow> OperationID \<Rightarrow> 's \<Rightarrow> BindOperation result"
  bopGetAll :: "InstanceID \<Rightarrow> 's \<Rightarrow> BindOperation list result"
  bopUpdateStateDesc :: "InstanceID \<Rightarrow> BindingID \<Rightarrow> OperationID \<Rightarrow> OperationState \<Rightarrow> string option \<Rightarrow> 's
    \<Rightarrow> error option \<times> 's"
  instUpsert :: "Instance \<Rightarrow> 's \<Rightarrow> bool result \<times> 's"
  instGet :: "InstanceID \<Rightarrow> 's \<Rightarrow> Instance result"
  instGetAll :: "'s \<Rightarrow> Instance list result"
  instRemove :: "InstanceID \<Rightarrow> 's \<Rightarrow> error option \<times> 's"
  ibdGet :: "InstanceID \<Rightarrow> 's \<Rightarrow> InstanceBindData result"
  ibdInsert :: "InstanceBindData \<Rightarrow> 's \<Rightarrow> error option \<times> 's"
  ibdRemove :: "InstanceID \<Rightarrow> 's \<Rightarrow> error option \<times> 's"
  bindRender :: "AddonPlanBindTemplate \<Rightarrow> Instance \<Rightarrow> Chart \<Rightarrow> 's \<Rightarrow> string result"
  bindResolve :: "string \<Rightarrow> Namespace \<Rightarrow> 's \<Rightarrow> ResolveOutput result"
  helmInstall :: "Chart \<Rightarrow> ChartValues \<Rightarrow> ReleaseName \<Rightarrow> Namespace \<Rightarrow> 's \<Rightarrow> Release result \<times> 's"
  helmDelete :: "ReleaseName \<Rightarrow> Namespace \<Rightarrow> 's \<Rightarrow> error option \<times> 's"
  operationIDProvider :: "'s \<Rightarrow> OperationID result \<times> 's"
  httpErrorText :: "nat \<Rightarrow> string \<Rightarrow> string"

section \<open>Requests and replies\<close>

text \<open>
  A handler replies, fails with an HTTP status and a message (\<open>osb.HTTPStatusCodeError\<close>), or the
  goroutine panics.
\<close>

datatype 'a reply = Reply 'a | Failure nat string | Panic

definition StatusBadRequest :: nat where "StatusBadRequest = 400"
definition StatusNotFound :: nat where "StatusNotFound = 404"
definition StatusConflict :: nat where "StatusConflict = 409"
definition StatusInternalServerError :: nat where "StatusInternalServerError = 500"

record OsbContext =
  ctx_APIVersion :: string
  ctx_OriginatingIdentity :: string
  ctx_BrokerNamespace :: Namespace

record ProvisionRequest =
  pr_InstanceID :: string
  pr_AcceptsIncomplete :: bool
  pr_ServiceID :: string
  pr_PlanID :: string
  pr_Parameters :: "jobject option"
  pr_Context :: jobject

text \<open>\<open>osb.ProvisionResponse\<close>, \<open>osb.DeprovisionResponse\<close>: synchronous or with an operation key.\<close>

record AsyncResponse =
  ar_Async :: bool
  ar_OperationKey :: "OperationID option"

record DeprovisionRequest =
  dr_InstanceID :: string
  dr_AcceptsIncomplete :: bool
  dr_ServiceID :: string
  dr_PlanID :: string

record BindRequest =
  br_InstanceID :: string
  br_BindingID :: string
  br_AcceptsIncomplete :: bool
  br_ServiceID :: string
  br_PlanID :: string
  br_Parameters :: "jobject option"

record BindResponse =
  bre_Async :: bool
  bre_OperationKey :: "OperationID option"
  bre_Credentials :: "jobject option"

record LastOperationResponse =
  lo_State :: OperationState
  lo_Description :: "string option"

end
