(* ===== verification/Catalog.thy ===== *)
theory Catalog
  imports Broker_Interface
begin

text \<open>
  The catalog of the broker (\<open>catalog.go\<close>): the addons of a namespace as Open Service Broker
  services, with the conversions \<open>ToMap\<close> and \<open>DeepCopy\<close> of the metadata (\<open>model.go\<close>).
\<close>

section \<open>Services and plans of the Open Service Broker API\<close>

record ServiceInstanceSchema =
  sis_Create :: "PlanSchema option"
  sis_Update :: "PlanSchema option"

record Schemas =
  sch_ServiceInstance :: "ServiceInstanceSchema option"
  sch_ServiceBinding :: "PlanSchema option"

record osbPlan =
  op_ID :: string
  op_Name :: string
  op_Bindable :: "bool option"
  op_Description :: string
  op_Metadata :: jobject
  op_Free :: "bool option"
  op_Schemas :: "Schemas option"

record osbService =
  os_ID :: string
  os_Name :: string
  os_Description :: string
  os_Bindable :: bool
  os_BindingsRetrievable :: bool
  os_Requires :: "string list"
  os_PlanUpdatable :: "bool option"
  os_Plans :: "osbPlan list"
  os_Metadata :: jobject
  os_Tags :: "string list"

section \<open>Metadata\<close>

definition AddonPlanMetadata_ToMap :: "AddonPlanMetadata \<Rightarrow> jobject" where
  "AddonPlanMetadata_ToMap b = [(''displayName'', JStr (pm_DisplayName b))]"

definition labelsValue :: "Labels option \<Rightarrow> json" where
  "labelsValue ls = (case ls of None \<Rightarrow> JNull | Some m \<Rightarrow> JObj (map (\<lambda>(k, v). (k, JStr v)) m))"

definition AddonMetadata_ToMap :: "AddonMetadata \<Rightarrow> jobject" where
  "AddonMetadata_ToMap b =
     [(''displayName'', JStr (am_DisplayName b)),
      (''providerDisplayName'', JStr (am_ProviderDisplayName b)),
      (''longDescription'', JStr (am_LongDescription b)),
      (''documentationUrl'', JStr (am_DocumentationURL b)),
      (''supportUrl'', JStr (am_SupportURL b)),
      (''provisionOnlyOnce'', JBool (am_ProvisionOnlyOnce b)),
      (''imageUrl'', JStr (am_ImageURL b)),
      (''labels'', labelsValue (am_Labels b))]"

fun copyLabels :: "Labels \<Rightarrow> Labels \<Rightarrow> Labels" where
  "copyLabels [] out = out"
| "copyLabels ((k, v) # ls) out = copyLabels ls (AList.update k v out)"

definition AddonMetadata_DeepCopy :: "AddonMetadata \<Rightarrow> AddonMetadata" where
  "AddonMetadata_DeepCopy b =
     (case am_Labels b of
        None \<Rightarrow> b
      | Some ls \<Rightarrow> b\<lparr>am_Labels := Some (copyLabels ls [])\<rparr>)"

definition applyOverridesOnAddonMetadata :: "AddonMetadata \<Rightarrow> AddonMetadata" where
  "applyOverridesOnAddonMetadata m =
     (let metaCopy = AddonMetadata_DeepCopy m;
          labels = (case am_Labels metaCopy of None \<Rightarrow> [] | Some ls \<Rightarrow> ls);
          labels1 = AList.update ''local'' ''true'' labels;
          labels2 = (if am_ProvisionOnlyOnce m then AList.update ''provisionOnlyOnce'' ''true'' labels1
                     else labels1)
      in metaCopy\<lparr>am_Labels := Some labels2\<rparr>)"

section \<open>Conversion\<close>

definition mapToParametersSchemas :: "(PlanSchemaType, PlanSchema) gomap \<Rightarrow> Schemas" where
  "mapToParametersSchemas planSchemas =
     (let init = (\<lambda>i. case i of None \<Rightarrow> \<lparr>sis_Create = None, sis_Update = None\<rparr> | Some x \<Rightarrow> x);
          out = \<lparr>sch_ServiceInstance = None, sch_ServiceBinding = None\<rparr>;
          out1 = (case map_of planSchemas SchemaTypeProvision of
                    None \<Rightarrow> out
                  | Some schema \<Rightarrow>
                      out\<lparr>sch_ServiceInstance := Some ((init (sch_ServiceInstance out))\<lparr>sis_Create := Some schema\<rparr>)\<rparr>);
          out2 = (case map_of planSchemas SchemaTypeUpdate of
                    None \<Rightarrow> out1
                  | Some schema \<Rightarrow>
                      out1\<lparr>sch_ServiceInstance := Some ((init (sch_ServiceInstance out1))\<lparr>sis_Update := Some schema\<rparr>)\<rparr>)
      in case map_of planSchemas SchemaTypeBind of
           None \<Rightarrow> out2
         | Some schema \<Rightarrow> out2\<lparr>sch_ServiceBinding := Some schema\<rparr>)"

definition convertPlan :: "AddonPlan \<Rightarrow> osbPlan" where
  "convertPlan bPlan =
     \<lparr>op_ID = pl_ID bPlan, op_Name = pl_Name bPlan, op_Bindable = pl_Bindable bPlan,
      op_Description = pl_Description bPlan, op_Metadata = AddonPlanMetadata_ToMap (pl_Metadata bPlan),
      op_Free = pl_Free bPlan,
      op_Schemas = (if length (pl_Schemas bPlan) > 0
                    then Some (mapToParametersSchemas (pl_Schemas bPlan)) else None)\<rparr>"

definition Convert :: "Addon \<Rightarrow> osbService result" where
  "Convert addon =
     Inr \<lparr>os_ID = ad_ID addon, os_Name = ad_Name addon, os_Description = ad_Description addon,
      os_Bindable = ad_Bindable addon, os_BindingsRetrievable = True, os_Requires = ad_Requires addon,
      os_PlanUpdatable = ad_PlanUpdatable addon,
      os_Plans = map (\<lambda>(_, p). convertPlan p) (ad_Plans addon),
      os_Metadata = AddonMetadata_ToMap (applyOverridesOnAddonMetadata (ad_Metadata addon)),
      os_Tags = ad_Tags addon\<rparr>"

fun convertAll :: "Addon list \<Rightarrow> osbService list result" where
  "convertAll [] = Inr []"
| "convertAll (b # bs) =
     (case Convert b of
        Inl err \<Rightarrow> Inl (Wrapped err ''while converting addon to service'')
      | Inr s \<Rightarrow> (case convertAll bs of Inl err \<Rightarrow> Inl err | Inr ss \<Rightarrow> Inr (s # ss)))"

definition GetCatalog :: "'s deps \<Rightarrow> OsbContext \<Rightarrow> 's \<Rightarrow> osbService list result" where
  "GetCatalog d osbCtx s =
     (case addonFindAll d (ctx_BrokerNamespace osbCtx) s of
        Inl err \<Rightarrow> Inl (Wrapped err ''while finding all addons'')
      | Inr addons \<Rightarrow> convertAll addons)"

section \<open>Facts\<close>

lemma convertAll_eq: "convertAll bs = Inr (map (\<lambda>b. projr (Convert b)) bs)"
  by (induction bs) (simp_all add: Convert_def)

lemma copyLabels_map_of: "wf_map ls \<Longrightarrow> map_of (copyLabels ls out) = map_of out ++ map_of ls"
proof (induction ls out rule: copyLabels.induct)
  case (2 k v ls out)
  then have "map_of ls k = None" by (simp add: map_of_eq_None_iff)
  with 2 show ?case by (auto simp: fun_eq_iff map_add_def split: option.splits)
qed simp

text \<open>The labels of a converted addon: those of the addon, with the broker's own over them.\<close>

lemma applyOverrides_labels:
  assumes "\<And>ls. am_Labels m = Some ls \<Longrightarrow> wf_map ls"
  shows "\<exists>ls. am_Labels (applyOverridesOnAddonMetadata m) = Some ls \<and>
    map_of ls = (if am_ProvisionOnlyOnce m then (\<lambda>f. f(''provisionOnlyOnce'' \<mapsto> ''true'')) else id)
      ((case am_Labels m of None \<Rightarrow> Map.empty | Some l \<Rightarrow> map_of l)(''local'' \<mapsto> ''true''))"
  using assms
  by (auto simp: applyOverridesOnAddonMetadata_def AddonMetadata_DeepCopy_def Let_def copyLabels_map_of
      split: option.splits)

end
