(* ===== verification/MemoryOperation.thy ===== *)
theory MemoryOperation
  imports Storage_Interface
begin

text \<open>
  The in-memory driver for operations, \<open>internal/storage/driver/memory/entity_operation.go\<close>
  and \<open>entity_bind_operation.go\<close>. A stored pointer is modelled by the value it points to; an
  operation holds the driver's lock from its first to its last line, so that each call is
  one step. The clock is a field of the state and stands for the value that
  \<open>nowProvider.Now()\<close> returns next.
\<close>

section \<open>Operations on instances\<close>

record MemInstanceOperation =
  mio_storage :: "(InstanceID, (OperationID, InstanceOperation) gomap) gomap"
  mio_nowProvider :: time

definition NewInstanceOperation :: "time \<Rightarrow> MemInstanceOperation" where
  "NewInstanceOperation now = \<lparr>mio_storage = [], mio_nowProvider = now\<rparr>"

definition mem_io_Insert ::
  "InstanceOperation option \<Rightarrow> MemInstanceOperation \<Rightarrow> error option \<times> MemInstanceOperation" where
  "mem_io_Insert arg s =
     (case arg of
        None \<Rightarrow> (Some (ErrorString ''entity may not be nil''), s)
      | Some io \<Rightarrow>
          if IsZero (io_InstanceID io) \<or> IsZero (io_OperationID io)
          then (Some (ErrorString ''both instance and operation id must be set''), s)
          else
            let st = (if map_of (mio_storage s) (io_InstanceID io) = None
                      then AList.update (io_InstanceID io) [] (mio_storage s)
                      else mio_storage s);
                s1 = s\<lparr>mio_storage := st\<rparr>;
                opsFor = inner st (io_InstanceID io)
            in if map_of opsFor (io_OperationID io) \<noteq> None then (Some AlreadyExistsError, s1)
               else if list_ex (\<lambda>(oID, op). io_State op = OperationStateInProgress) opsFor
               then (Some ActiveOperationInProgressError, s1)
               else (None, s1\<lparr>mio_storage := AList.update (io_InstanceID io)
                      (AList.update (io_OperationID io)
                         (io\<lparr>io_CreatedAt := mio_nowProvider s\<rparr>) opsFor) st\<rparr>))"

definition mem_io_get ::
  "InstanceID \<Rightarrow> OperationID \<Rightarrow> MemInstanceOperation \<Rightarrow> InstanceOperation result" where
  "mem_io_get iID opID s =
     (if IsZero iID \<or> IsZero opID
      then Inl (ErrorString ''both instance and operation id must be set'')
      else case map_of (mio_storage s) iID of
             None \<Rightarrow> Inl NotFoundError
           | Some opsFor \<Rightarrow>
               (case map_of opsFor opID of
                  None \<Rightarrow> Inl NotFoundError
                | Some io \<Rightarrow> Inr io))"

definition mem_io_Get ::
  "InstanceID \<Rightarrow> OperationID \<Rightarrow> MemInstanceOperation \<Rightarrow> InstanceOperation result" where
  "mem_io_Get iID opID s = mem_io_get iID opID s"

definition mem_io_GetAll ::
  "InstanceID \<Rightarrow> MemInstanceOperation \<Rightarrow> InstanceOperation list result" where
  "mem_io_GetAll iID s =
     (case map_of (mio_storage s) iID of
        None \<Rightarrow> Inl NotFoundError
      | Some opsFor \<Rightarrow> Inr (map snd opsFor))"

text \<open>Writing through the pointer that \<open>get\<close> returned.\<close>

definition mem_io_write ::
  "InstanceID \<Rightarrow> OperationID \<Rightarrow> InstanceOperation \<Rightarrow> MemInstanceOperation \<Rightarrow> MemInstanceOperation"
  where
  "mem_io_write iID opID op s =
     s\<lparr>mio_storage := AList.update iID (AList.update opID op (inner (mio_storage s) iID))
         (mio_storage s)\<rparr>"

definition mem_io_UpdateStateDesc ::
  "InstanceID \<Rightarrow> OperationID \<Rightarrow> OperationState \<Rightarrow> string option \<Rightarrow> MemInstanceOperation
    \<Rightarrow> error option \<times> MemInstanceOperation" where
  "mem_io_UpdateStateDesc iID opID state desc s =
     (case mem_io_get iID opID s of
        Inl e \<Rightarrow> (Some e, s)
      | Inr op \<Rightarrow> (None, mem_io_write iID opID
                     (op\<lparr>io_State := state, io_StateDescription := desc\<rparr>) s))"

definition mem_io_UpdateState ::
  "InstanceID \<Rightarrow> OperationID \<Rightarrow> OperationState \<Rightarrow> MemInstanceOperation
    \<Rightarrow> error option \<times> MemInstanceOperation" where
  "mem_io_UpdateState iID opID state s =
     (case mem_io_get iID opID s of
        Inl e \<Rightarrow> (Some e, s)
      | Inr op \<Rightarrow> (None, mem_io_write iID opID
                     (op\<lparr>io_State := state, io_StateDescription := None\<rparr>) s))"

definition mem_io_Remove ::
  "InstanceID \<Rightarrow> OperationID \<Rightarrow> MemInstanceOperation \<Rightarrow> error option \<times> MemInstanceOperation" where
  "mem_io_Remove iID opID s =
     (case mem_io_get iID opID s of
        Inl e \<Rightarrow> (Some e, s)
      | Inr op \<Rightarrow>
          let opsFor = AList.delete opID (inner (mio_storage s) iID);
              st = AList.update iID opsFor (mio_storage s)
          in (None, s\<lparr>mio_storage := (if opsFor = [] then AList.delete iID st else st)\<rparr>))"

text \<open>The representation invariant and the abstraction to a map of maps.\<close>

definition mem_io_invar :: "MemInstanceOperation \<Rightarrow> bool" where
  "mem_io_invar s \<longleftrightarrow> wf_map2 (mio_storage s)"

definition mem_io_ops ::
  "MemInstanceOperation \<Rightarrow> InstanceID \<Rightarrow> OperationID \<Rightarrow> InstanceOperation option" where
  "mem_io_ops s = lookup2 (mio_storage s)"

lemmas mem_io_defs = mem_io_Insert_def mem_io_get_def mem_io_Get_def mem_io_GetAll_def
  mem_io_write_def mem_io_UpdateStateDesc_def mem_io_UpdateState_def mem_io_Remove_def
  mem_io_invar_def mem_io_ops_def IsZero_def

lemma lookup2_absent [simp]: "map_of m i = None \<Longrightarrow> lookup2 m i = Map.empty"
  by (simp add: lookup2_def)

lemma lookup2_present: "map_of m i = Some x \<Longrightarrow> lookup2 m i = map_of x"
  by (simp add: lookup2_def)

lemma mem_io_get_eq:
  "mem_io_get i opid s =
     (if i = '''' \<or> opid = '''' then Inl (ErrorString ''both instance and operation id must be set'')
      else case mem_io_ops s i opid of None \<Rightarrow> Inl NotFoundError | Some op \<Rightarrow> Inr op)"
  by (auto simp: mem_io_defs lookup2_present split: option.splits)

text \<open>Ranging over the operations of an instance sees exactly the stored ones.\<close>

lemma list_ex_values:
  "wf_map m \<Longrightarrow> list_ex (\<lambda>(k, v). P v) m \<longleftrightarrow> (\<exists>v \<in> ran (map_of m). P v)"
  by (force simp: list_ex_iff ran_def wf_map_in_iff [symmetric])

lemma mem_io_Insert_cases:
  assumes "mem_io_invar s"
  shows "mem_io_Insert (Some io) s = (r, s') \<Longrightarrow>
     (if io_InstanceID io = '''' \<or> io_OperationID io = ''''
      then r = Some (ErrorString ''both instance and operation id must be set'') \<and> s' = s
      else if mem_io_ops s (io_InstanceID io) (io_OperationID io) \<noteq> None
      then r = Some AlreadyExistsError \<and> s' = s
      else if \<exists>op \<in> ran (mem_io_ops s (io_InstanceID io)). in_progress op
      then r = Some ActiveOperationInProgressError \<and> s' = s
      else r = None \<and> mem_io_invar s' \<and> mio_nowProvider s' = mio_nowProvider s \<and>
        mem_io_ops s' = (mem_io_ops s)(io_InstanceID io :=
          (mem_io_ops s (io_InstanceID io))(io_OperationID io \<mapsto>
             io\<lparr>io_CreatedAt := mio_nowProvider s\<rparr>)))"
proof -
  have wf: "wf_map (inner (mio_storage s) i)" "wf_map2 (mio_storage s)" for i
    using assms by (simp_all add: mem_io_invar_def)
  assume "mem_io_Insert (Some io) s = (r, s')"
  then show ?thesis
  proof (cases "map_of (mio_storage s) (io_InstanceID io)")
    case None
    then show ?thesis
      using \<open>mem_io_Insert (Some io) s = (r, s')\<close> wf
      by (auto simp: mem_io_defs Let_def lookup2_update)
  next
    case (Some x)
    then have "wf_map x" using wf(1) [of "io_InstanceID io"] by simp
    with Some \<open>mem_io_Insert (Some io) s = (r, s')\<close> wf show ?thesis
      by (auto simp: mem_io_defs Let_def lookup2_update lookup2_present list_ex_values
          in_progress_def split: if_splits)
  qed
qed

lemma mem_io_write_ops:
  "mem_io_ops (mem_io_write i opid op s) = (mem_io_ops s)(i := (mem_io_ops s i)(opid \<mapsto> op))"
  by (auto simp: mem_io_defs lookup2_update lookup2_def)

lemma mem_io_write_invar: "mem_io_invar s \<Longrightarrow> mem_io_invar (mem_io_write i opid op s)"
  by (simp add: mem_io_defs)

lemma mem_io_GetAll_Inr:
  "mem_io_invar s \<Longrightarrow> mem_io_GetAll i s = Inr xs \<Longrightarrow> set xs = ran (mem_io_ops s i)"
  using set_values_inner [of "mio_storage s" i]
  by (auto simp: mem_io_invar_def mem_io_GetAll_def mem_io_ops_def split: option.splits)

lemma mem_io_GetAll_Inl:
  "mem_io_GetAll i s = Inl e \<Longrightarrow> e = NotFoundError \<and> mem_io_ops s i = Map.empty"
  by (simp add: mem_io_GetAll_def mem_io_ops_def split: option.splits)

lemma mem_io_Remove_ops:
  assumes "mem_io_get i opid s = Inr op" "mem_io_Remove i opid s = (r, s')"
  shows "r = None \<and> mem_io_ops s' = (mem_io_ops s)(i := (mem_io_ops s i)(opid := None))"
  using assms(2) lookup2_remove [where k = opid and m = "mio_storage s" and i = i]
  by (simp add: mem_io_Remove_def mem_io_ops_def Let_def assms(1)) auto

lemma mem_io_Remove_invar: "mem_io_invar s \<Longrightarrow> mem_io_invar (snd (mem_io_Remove i opid s))"
  by (auto simp: mem_io_Remove_def mem_io_invar_def Let_def split: sum.splits)

text \<open>
  The driver keeps the contract of the operation storage. \<open>mio.<lemma>\<close> are the facts of the
  contract for this driver.
\<close>

lemma mem_io_UpdateStateDesc_found:
  "i \<noteq> '''' \<Longrightarrow> opid \<noteq> '''' \<Longrightarrow> mem_io_ops s i opid = Some op \<Longrightarrow>
   mem_io_UpdateStateDesc i opid st d s =
     (None, mem_io_write i opid (op\<lparr>io_State := st, io_StateDescription := d\<rparr>) s)"
  by (simp add: mem_io_UpdateStateDesc_def mem_io_get_eq)

lemma mem_io_UpdateStateDesc_refused:
  "mem_io_ops s i opid = None \<or> i = '''' \<or> opid = '''' \<Longrightarrow>
   \<exists>e. mem_io_UpdateStateDesc i opid st d s = (Some e, s)"
  by (auto simp: mem_io_UpdateStateDesc_def mem_io_get_eq split: option.splits)

interpretation mio: operation_storage "\<lambda>io. mem_io_Insert (Some io)" mem_io_Get mem_io_GetAll
  mem_io_UpdateStateDesc mem_io_ops mem_io_invar
proof unfold_locales
  fix s s' io e
  assume inv: "mem_io_invar s"
  show "mem_io_Insert (Some io) s = (None, s') \<Longrightarrow>
      io_InstanceID io \<noteq> '''' \<and> io_OperationID io \<noteq> '''' \<and>
      mem_io_ops s (io_InstanceID io) (io_OperationID io) = None \<and>
      (\<forall>op \<in> ran (mem_io_ops s (io_InstanceID io)). \<not> in_progress op) \<and>
      (\<exists>now. mem_io_ops s' = (mem_io_ops s)(io_InstanceID io :=
        (mem_io_ops s (io_InstanceID io))(io_OperationID io \<mapsto> io\<lparr>io_CreatedAt := now\<rparr>)))"
    using mem_io_Insert_cases [OF inv, of io None s'] by (auto split: if_splits)
  show "mem_io_Insert (Some io) s = (Some e, s') \<Longrightarrow> mem_io_ops s' = mem_io_ops s"
    using mem_io_Insert_cases [OF inv, of io "Some e" s'] by (auto split: if_splits)
  show "mem_io_invar (snd (mem_io_Insert (Some io) s))"
    using mem_io_Insert_cases [OF inv, of io] inv
    by (cases "mem_io_Insert (Some io) s") (auto split: if_splits)
  show "fst (mem_io_Insert (Some io) s) = None"
    if "io_InstanceID io \<noteq> ''''" "io_OperationID io \<noteq> ''''"
      "mem_io_ops s (io_InstanceID io) (io_OperationID io) = None"
      "\<forall>op \<in> ran (mem_io_ops s (io_InstanceID io)). \<not> in_progress op"
    using mem_io_Insert_cases [OF inv, of io] that
    by (cases "mem_io_Insert (Some io) s") auto
next
  fix s i opid st d
  assume inv: "mem_io_invar s"
  show "mem_io_invar (snd (mem_io_UpdateStateDesc i opid st d s))"
    using inv mem_io_write_invar
    by (auto simp: mem_io_UpdateStateDesc_def split: sum.splits)
  show "fst (mem_io_UpdateStateDesc i opid st d s) \<noteq> None \<and>
      mem_io_ops (snd (mem_io_UpdateStateDesc i opid st d s)) = mem_io_ops s"
    if "mem_io_ops s i opid = None \<or> i = '''' \<or> opid = ''''"
    using mem_io_UpdateStateDesc_refused [OF that, of st d] by auto
  show "fst (mem_io_UpdateStateDesc i opid st d s) = None \<and>
      mem_io_ops (snd (mem_io_UpdateStateDesc i opid st d s)) = (mem_io_ops s)(i :=
        (mem_io_ops s i)(opid \<mapsto> op\<lparr>io_State := st, io_StateDescription := d\<rparr>))"
    if "i \<noteq> []" "opid \<noteq> []" "mem_io_ops s i opid = Some op" for op
    by (simp add: mem_io_UpdateStateDesc_found [OF that] mem_io_write_ops)
qed (simp_all add: mem_io_GetAll_Inr mem_io_Get_def mem_io_get_eq mem_io_GetAll_Inl
      split: option.splits if_splits)

section \<open>The driver as a state machine\<close>

text \<open>
  The calls the program makes on the storage of operations, in any order: a new operation,
  the end of an operation (the broker only ever stores \<open>succeeded\<close> or \<open>failed\<close> over an existing
  operation), the removal of an operation, and time passing.
\<close>

inductive mem_io_step :: "MemInstanceOperation \<Rightarrow> MemInstanceOperation \<Rightarrow> bool" where
  step_insert: "mem_io_Insert (Some io) s = (r, s') \<Longrightarrow> mem_io_step s s'"
| step_finish: "mem_io_UpdateStateDesc i opid st d s = (r, s') \<Longrightarrow>
    st \<in> {OperationStateSucceeded, OperationStateFailed} \<Longrightarrow> mem_io_step s s'"
| step_finish_nodesc: "mem_io_UpdateState i opid st s = (r, s') \<Longrightarrow>
    st \<in> {OperationStateSucceeded, OperationStateFailed} \<Longrightarrow> mem_io_step s s'"
| step_remove: "mem_io_Remove i opid s = (r, s') \<Longrightarrow> mem_io_step s s'"
| step_tick: "mem_io_step s (s\<lparr>mio_nowProvider := t\<rparr>)"

inductive_cases mem_io_stepE: "mem_io_step s s'"

definition mem_io_reachable :: "MemInstanceOperation \<Rightarrow> bool" where
  "mem_io_reachable s \<longleftrightarrow> (\<exists>now. mem_io_step\<^sup>*\<^sup>* (NewInstanceOperation now) s)"

definition mem_io_safe :: "MemInstanceOperation \<Rightarrow> bool" where
  "mem_io_safe s \<longleftrightarrow> mem_io_invar s \<and> (\<forall>i. one_in_progress (mem_io_ops s i))"

lemma mem_io_UpdateState_eq:
  "mem_io_UpdateState i opid st s = mem_io_UpdateStateDesc i opid st None s"
  by (simp add: mem_io_UpdateState_def mem_io_UpdateStateDesc_def)

lemma mem_io_safe_finish:
  assumes "mem_io_safe s" "mem_io_UpdateStateDesc i opid st d s = (r, s')"
    "st \<noteq> OperationStateInProgress"
  shows "mem_io_safe s'"
  using assms mio.UpdateStateDesc_one_in_progress [of s st i opid d]
    mio.UpdateStateDesc_invar [of s i opid st d]
  by (auto simp: mem_io_safe_def)

lemma mem_io_safe_remove:
  assumes "mem_io_safe s" "mem_io_Remove i opid s = (r, s')"
  shows "mem_io_safe s'"
proof (cases "mem_io_get i opid s")
  case (Inl e)
  with assms show ?thesis by (simp add: mem_io_Remove_def)
next
  case (Inr op)
  with assms mem_io_Remove_ops [OF Inr assms(2)] mem_io_Remove_invar [of s i opid]
  show ?thesis
    by (auto simp: mem_io_safe_def intro: one_in_progress_remove)
qed

lemma mem_io_step_safe: "mem_io_step s s' \<Longrightarrow> mem_io_safe s \<Longrightarrow> mem_io_safe s'"
proof (induction rule: mem_io_step.induct)
  case (step_insert io s r s')
  then show ?case
    using mio.Insert_one_in_progress [of s io] mio.Insert_invar [of s io]
    by (auto simp: mem_io_safe_def)
next
  case (step_finish i opid st d s r s')
  then show ?case by (auto intro: mem_io_safe_finish)
next
  case (step_finish_nodesc i opid st s r s')
  then show ?case by (auto simp: mem_io_UpdateState_eq intro: mem_io_safe_finish)
next
  case (step_remove i opid s r s')
  then show ?case by (auto intro: mem_io_safe_remove)
next
  case (step_tick s t)
  then show ?case by (simp add: mem_io_safe_def mem_io_invar_def mem_io_ops_def)
qed

lemma mem_io_reachable_safe: "mem_io_reachable s \<Longrightarrow> mem_io_safe s"
proof -
  assume "mem_io_reachable s"
  then obtain now where "mem_io_step\<^sup>*\<^sup>* (NewInstanceOperation now) s"
    by (auto simp: mem_io_reachable_def)
  then show ?thesis
  proof (induction rule: rtranclp_induct)
    case base
    then show ?case
      by (simp add: mem_io_safe_def mem_io_invar_def mem_io_ops_def NewInstanceOperation_def)
  next
    case (step s s')
    then show ?case using mem_io_step_safe by blast
  qed
qed

text \<open>
  In every state that the in-memory operation storage can reach from an empty one, by
  inserts, ends and removals of operations in any order, each service instance has at most
  one operation in progress.
\<close>

theorem mem_io_one_in_progress:
  assumes "mem_io_reachable s"
    and "mem_io_Get i a s = Inr x" and "mem_io_Get i b s = Inr y"
    and "io_State x = OperationStateInProgress" and "io_State y = OperationStateInProgress"
  shows "a = b"
proof -
  from mem_io_reachable_safe [OF assms(1)]
  have "mem_io_invar s" and one: "one_in_progress (mem_io_ops s i)"
    by (simp_all add: mem_io_safe_def)
  with assms(2,3) have "mem_io_ops s i a = Some x" "mem_io_ops s i b = Some y"
    by (auto dest: mio.Get_Inr)
  with one assms(4,5) show ?thesis
    by (auto simp: one_in_progress_def in_progress_def)
qed

definition example_op :: InstanceOperation where
  "example_op = \<lparr>io_InstanceID = ''i-1'', io_OperationID = ''op-1'', io_Type = OperationTypeCreate,
     io_State = OperationStateInProgress, io_StateDescription = None,
     io_ProvisioningParameters = None, io_CreatedAt = 0\<rparr>"

theorem mem_io_one_in_progress_witness:
  "let s = snd (mem_io_Insert (Some example_op) (NewInstanceOperation 7)) in
   mem_io_reachable s \<and>
   mem_io_Get ''i-1'' ''op-1'' s = Inr (example_op\<lparr>io_CreatedAt := 7\<rparr>) \<and>
   (\<forall>b y. mem_io_Get ''i-1'' b s = Inr y \<and> io_State y = OperationStateInProgress \<longrightarrow> ''op-1'' = b)"
proof -
  define s where "s = snd (mem_io_Insert (Some example_op) (NewInstanceOperation 7))"
  have "mem_io_step (NewInstanceOperation 7) s"
    unfolding s_def by (rule step_insert) (rule prod.collapse [symmetric])
  then have reach: "mem_io_reachable s"
    unfolding mem_io_reachable_def by blast
  have get: "mem_io_Get ''i-1'' ''op-1'' s = Inr (example_op\<lparr>io_CreatedAt := 7\<rparr>)"
    by (simp add: s_def mem_io_defs example_op_def NewInstanceOperation_def)
  have "''op-1'' = b"
    if "mem_io_Get ''i-1'' b s = Inr y" "io_State y = OperationStateInProgress" for b y
    using mem_io_one_in_progress [OF reach get that(1) _ that(2)]
    by (simp add: example_op_def)
  with reach get show ?thesis
    by (auto simp: s_def [symmetric] Let_def)
qed

text \<open>
  Inserting an operation in the in-memory storage, on every branch: an operation without
  its two identifiers, with an identifier in use, or next to one in progress is refused with
  the error of that case and nothing changes; otherwise exactly the entry of the operation is
  set, with its creation time filled in.
\<close>

theorem mem_io_Insert_correct:
  assumes "mem_io_invar s" and "mem_io_Insert (Some io) s = (r, s')"
  shows "if io_InstanceID io = '''' \<or> io_OperationID io = ''''
      then r = Some (ErrorString ''both instance and operation id must be set'') \<and> s' = s
      else if mem_io_ops s (io_InstanceID io) (io_OperationID io) \<noteq> None
      then r = Some AlreadyExistsError \<and> s' = s
      else if \<exists>op \<in> ran (mem_io_ops s (io_InstanceID io)). in_progress op
      then r = Some ActiveOperationInProgressError \<and> s' = s
      else r = None \<and> mem_io_invar s' \<and>
        mem_io_ops s' = (mem_io_ops s)(io_InstanceID io :=
          (mem_io_ops s (io_InstanceID io))(io_OperationID io \<mapsto>
             io\<lparr>io_CreatedAt := mio_nowProvider s\<rparr>))"
  using mem_io_Insert_cases [OF assms] by (auto split: if_splits)

theorem mem_io_Insert_correct_witness:
  "mem_io_Insert (Some example_op) (snd (mem_io_Insert (Some example_op) (NewInstanceOperation 7))) =
     (Some AlreadyExistsError, snd (mem_io_Insert (Some example_op) (NewInstanceOperation 7)))"
proof -
  let ?s = "snd (mem_io_Insert (Some example_op) (NewInstanceOperation 7))"
  have inv: "mem_io_invar ?s"
    by (simp add: mem_io_defs example_op_def NewInstanceOperation_def)
  have "mem_io_ops ?s ''i-1'' ''op-1'' \<noteq> None"
    by (simp add: mem_io_defs example_op_def NewInstanceOperation_def lookup2_def)
  then show ?thesis
    using mem_io_Insert_correct [OF inv, of example_op "fst (mem_io_Insert (Some example_op) ?s)"
        "snd (mem_io_Insert (Some example_op) ?s)"]
    by (simp add: example_op_def prod_eq_iff)
qed

section \<open>Operations on bindings\<close>

record MemBindOperation =
  mbo_storage :: "(InstanceID, (OperationID, BindOperation) gomap) gomap"
  mbo_nowProvider :: time

definition NewBindOperation :: "time \<Rightarrow> MemBindOperation" where
  "NewBindOperation now = \<lparr>mbo_storage = [], mbo_nowProvider = now\<rparr>"

definition mem_bo_Insert ::
  "BindOperation \<Rightarrow> MemBindOperation \<Rightarrow> error option \<times> MemBindOperation" where
  "mem_bo_Insert bo s =
     (let st = (if map_of (mbo_storage s) (bo_InstanceID bo) = None
                then AList.update (bo_InstanceID bo) [] (mbo_storage s)
                else mbo_storage s);
          s1 = s\<lparr>mbo_storage := st\<rparr>;
          opsFor = inner st (bo_InstanceID bo)
      in if list_ex (\<lambda>(oID, op). bo_State op = OperationStateInProgress) opsFor
         then (Some ActiveOperationInProgressError, s1)
         else (None, s1\<lparr>mbo_storage := AList.update (bo_InstanceID bo)
                (AList.update (bo_OperationID bo)
                   (bo\<lparr>bo_CreatedAt := mbo_nowProvider s\<rparr>) opsFor) st\<rparr>))"

definition mem_bo_get ::
  "InstanceID \<Rightarrow> BindingID \<Rightarrow> OperationID \<Rightarrow> MemBindOperation \<Rightarrow> BindOperation result" where
  "mem_bo_get iID bID opID s =
     (if IsZero iID \<or> IsZero bID \<or> IsZero opID
      then Inl (ErrorString (''all parameters: instance, binding and operation id must be set. InstanceID: ''
             @ goQuote iID @ '' | BindingID: '' @ goQuote bID @ '' | OperationID: '' @ goQuote opID))
      else case map_of (mbo_storage s) iID of
             None \<Rightarrow> Inl NotFoundError
           | Some opsFor \<Rightarrow>
               (case map_of opsFor opID of
                  None \<Rightarrow> Inl NotFoundError
                | Some bo \<Rightarrow> Inr bo))"

definition mem_bo_Get ::
  "InstanceID \<Rightarrow> BindingID \<Rightarrow> OperationID \<Rightarrow> MemBindOperation \<Rightarrow> BindOperation result" where
  "mem_bo_Get iID bID opID s = mem_bo_get iID bID opID s"

definition mem_bo_GetAll :: "InstanceID \<Rightarrow> MemBindOperation \<Rightarrow> BindOperation list result" where
  "mem_bo_GetAll iID s =
     (if IsZero iID then Inl (ErrorString ''instance id cannot be empty'')
      else case map_of (mbo_storage s) iID of
             None \<Rightarrow> Inl NotFoundError
           | Some opsFor \<Rightarrow> Inr (map snd opsFor))"

definition mem_bo_write ::
  "InstanceID \<Rightarrow> OperationID \<Rightarrow> BindOperation \<Rightarrow> MemBindOperation \<Rightarrow> MemBindOperation" where
  "mem_bo_write iID opID op s =
     s\<lparr>mbo_storage := AList.update iID (AList.update opID op (inner (mbo_storage s) iID))
         (mbo_storage s)\<rparr>"

definition mem_bo_UpdateState ::
  "InstanceID \<Rightarrow> BindingID \<Rightarrow> OperationID \<Rightarrow> OperationState \<Rightarrow> MemBindOperation
    \<Rightarrow> error option \<times> MemBindOperation" where
  "mem_bo_UpdateState iID bID opID state s =
     (case mem_bo_get iID bID opID s of
        Inl e \<Rightarrow> (Some (Wrapped e ''while getting bind operation on UpdateState''), s)
      | Inr op \<Rightarrow> (None, mem_bo_write iID opID
                     (op\<lparr>bo_State := state, bo_StateDescription := None\<rparr>) s))"

definition mem_bo_UpdateStateDesc ::
  "InstanceID \<Rightarrow> BindingID \<Rightarrow> OperationID \<Rightarrow> OperationState \<Rightarrow> string option \<Rightarrow> MemBindOperation
    \<Rightarrow> error option \<times> MemBindOperation" where
  "mem_bo_UpdateStateDesc iID bID opID state desc s =
     (case mem_bo_get iID bID opID s of
        Inl e \<Rightarrow> (Some (Wrapped e ''while getting bind operation on UpdateStateDesc''), s)
      | Inr op \<Rightarrow> (None, mem_bo_write iID opID
                     (op\<lparr>bo_State := state, bo_StateDescription := desc\<rparr>) s))"

definition mem_bo_Remove ::
  "InstanceID \<Rightarrow> BindingID \<Rightarrow> OperationID \<Rightarrow> MemBindOperation \<Rightarrow> error option \<times> MemBindOperation"
  where
  "mem_bo_Remove iID bID opID s =
     (case mem_bo_get iID bID opID s of
        Inl e \<Rightarrow> (Some (Wrapped e ''while getting bind operation on Remove''), s)
      | Inr op \<Rightarrow>
          let opsFor = AList.delete opID (inner (mbo_storage s) iID);
              st = AList.update iID opsFor (mbo_storage s)
          in (None, s\<lparr>mbo_storage := (if opsFor = [] then AList.delete iID st else st)\<rparr>))"

definition mem_bo_invar :: "MemBindOperation \<Rightarrow> bool" where
  "mem_bo_invar s \<longleftrightarrow> wf_map2 (mbo_storage s)"

definition mem_bo_ops ::
  "MemBindOperation \<Rightarrow> InstanceID \<Rightarrow> OperationID \<Rightarrow> BindOperation option" where
  "mem_bo_ops s = lookup2 (mbo_storage s)"

lemmas mem_bo_defs = mem_bo_Insert_def mem_bo_get_def mem_bo_Get_def mem_bo_GetAll_def
  mem_bo_write_def mem_bo_UpdateStateDesc_def mem_bo_UpdateState_def mem_bo_Remove_def
  mem_bo_invar_def mem_bo_ops_def IsZero_def

lemma mem_bo_Insert_cases:
  assumes "mem_bo_invar s" "mem_bo_Insert bo s = (r, s')"
  shows "if \<exists>op \<in> ran (mem_bo_ops s (bo_InstanceID bo)). bo_State op = OperationStateInProgress
      then r = Some ActiveOperationInProgressError \<and> s' = s
      else r = None \<and> mem_bo_invar s' \<and>
        mem_bo_ops s' = (mem_bo_ops s)(bo_InstanceID bo :=
          (mem_bo_ops s (bo_InstanceID bo))(bo_OperationID bo \<mapsto>
             bo\<lparr>bo_CreatedAt := mbo_nowProvider s\<rparr>))"
proof (cases "map_of (mbo_storage s) (bo_InstanceID bo)")
  case None
  then show ?thesis
    using assms by (auto simp: mem_bo_defs Let_def lookup2_update)
next
  case (Some x)
  from assms(1) have wf: "wf_map (inner (mbo_storage s) (bo_InstanceID bo))"
    "wf_map2 (mbo_storage s)"
    by (simp_all add: mem_bo_invar_def)
  with Some have "wf_map x" by simp
  with Some assms(2) wf show ?thesis
    by (auto simp: mem_bo_defs Let_def lookup2_update lookup2_present list_ex_values
        split: if_splits)
qed

text \<open>
  A binding operation that was accepted by the in-memory storage is found under its
  identifiers afterwards, is the only operation in progress of its instance if it is in
  progress, and every operation stored before under another identifier is still there.
\<close>

theorem mem_bo_Insert_Get:
  assumes "mem_bo_invar s" and "mem_bo_Insert bo s = (None, s')"
    and "bo_InstanceID bo \<noteq> ''''" and "bo_OperationID bo \<noteq> ''''" and "bID \<noteq> ''''"
  shows "mem_bo_Get (bo_InstanceID bo) bID (bo_OperationID bo) s' =
           Inr (bo\<lparr>bo_CreatedAt := mbo_nowProvider s\<rparr>) \<and>
         (\<forall>op y. op \<noteq> bo_OperationID bo \<and> mem_bo_ops s' (bo_InstanceID bo) op = Some y \<longrightarrow>
            bo_State y \<noteq> OperationStateInProgress) \<and>
         (\<forall>i op. (i, op) \<noteq> (bo_InstanceID bo, bo_OperationID bo) \<longrightarrow>
            mem_bo_ops s' i op = mem_bo_ops s i op)"
proof -
  from mem_bo_Insert_cases [OF assms(1,2)]
  have free: "\<forall>op \<in> ran (mem_bo_ops s (bo_InstanceID bo)). bo_State op \<noteq> OperationStateInProgress"
    and ops: "mem_bo_ops s' = (mem_bo_ops s)(bo_InstanceID bo :=
          (mem_bo_ops s (bo_InstanceID bo))(bo_OperationID bo \<mapsto>
             bo\<lparr>bo_CreatedAt := mbo_nowProvider s\<rparr>))"
    by (auto split: if_splits)
  from ops have "lookup2 (mbo_storage s') (bo_InstanceID bo) (bo_OperationID bo) =
      Some (bo\<lparr>bo_CreatedAt := mbo_nowProvider s\<rparr>)"
    by (simp add: mem_bo_ops_def)
  with assms(3-5) have "mem_bo_Get (bo_InstanceID bo) bID (bo_OperationID bo) s' =
           Inr (bo\<lparr>bo_CreatedAt := mbo_nowProvider s\<rparr>)"
    by (auto simp: mem_bo_Get_def mem_bo_get_def IsZero_def lookup2_def inner_def
        split: option.splits)
  with free ops show ?thesis
    by (auto simp: ran_def)
qed

theorem mem_bo_Insert_Get_witness:
  "mem_bo_Get ''i-1'' ''b-1'' ''op-1''
     (snd (mem_bo_Insert (EmptyBindOperation\<lparr>bo_InstanceID := ''i-1'', bo_OperationID := ''op-1''\<rparr>)
        (NewBindOperation 7))) =
   Inr (EmptyBindOperation\<lparr>bo_InstanceID := ''i-1'', bo_OperationID := ''op-1'', bo_CreatedAt := 7\<rparr>)"
  using mem_bo_Insert_Get [of "NewBindOperation 7"
      "EmptyBindOperation\<lparr>bo_InstanceID := ''i-1'', bo_OperationID := ''op-1''\<rparr>"
      "snd (mem_bo_Insert (EmptyBindOperation\<lparr>bo_InstanceID := ''i-1'', bo_OperationID := ''op-1''\<rparr>)
        (NewBindOperation 7))" "''b-1''"]
  by (simp add: mem_bo_Insert_def mem_bo_invar_def EmptyBindOperation_def NewBindOperation_def)

lemma mem_bo_UpdateStateDesc_Get:
  assumes "mem_bo_Get i b opid m = Inr op"
  shows "mem_bo_Get i b opid (snd (mem_bo_UpdateStateDesc i b opid st de m)) =
     Inr (op\<lparr>bo_State := st, bo_StateDescription := de\<rparr>)"
proof -
  from assms have "mem_bo_get i b opid m = Inr op" and ids: "i \<noteq> ''''" "b \<noteq> ''''" "opid \<noteq> ''''"
    by (auto simp: mem_bo_Get_def mem_bo_get_def IsZero_def split: if_splits)
  then show ?thesis
    by (simp add: mem_bo_UpdateStateDesc_def mem_bo_write_def mem_bo_Get_def)
      (simp add: mem_bo_get_def IsZero_def ids)
qed

end
