(* ===== verification/OperationState.thy ===== *)
theory OperationState
  imports Broker_Interface MemoryOperation
begin

text \<open>
  \<open>internal/broker/operation_state.go\<close>: what the stored operations say about an instance or a
  binding. The loops over the operations are recursive functions; a Go \<open>break\<close> is a branch that
  does not recurse.
\<close>

section \<open>State of an instance\<close>

fun provisionedLoop :: "InstanceOperation list \<Rightarrow> bool \<Rightarrow> bool" where
  "provisionedLoop [] result = result"
| "provisionedLoop (op # ops) result =
     (let result = (if io_Type op = OperationTypeCreate \<and> io_State op = OperationStateSucceeded
                    then True else result)
      in if io_Type op = OperationTypeRemove \<and> io_State op = OperationStateSucceeded
         then False
         else provisionedLoop ops result)"

definition IsProvisioned :: "'s deps \<Rightarrow> InstanceID \<Rightarrow> 's \<Rightarrow> bool result" where
  "IsProvisioned d iID s =
     (case opGetAll d iID s of
        Inl err \<Rightarrow>
          if IsNotFoundError err then Inr False
          else Inl (Wrapped err ''while getting instance operations from storage'')
      | Inr ops \<Rightarrow> Inr (provisionedLoop ops False))"

fun inProgressLoop :: "OperationType \<Rightarrow> InstanceOperation list \<Rightarrow> OperationID \<times> bool" where
  "inProgressLoop ty [] = ('''', False)"
| "inProgressLoop ty (op # ops) =
     (if io_Type op = ty \<and> io_State op = OperationStateInProgress
      then (io_OperationID op, True)
      else inProgressLoop ty ops)"

definition IsProvisioningInProgress ::
  "'s deps \<Rightarrow> InstanceID \<Rightarrow> 's \<Rightarrow> (OperationID \<times> bool) result" where
  "IsProvisioningInProgress d iID s =
     (case opGetAll d iID s of
        Inl err \<Rightarrow>
          if IsNotFoundError err then Inr ('''', False)
          else Inl (Wrapped err ''while getting instance operations from storage'')
      | Inr ops \<Rightarrow> Inr (inProgressLoop OperationTypeCreate ops))"

fun deprovisionedLoop :: "InstanceOperation list \<Rightarrow> bool" where
  "deprovisionedLoop [] = False"
| "deprovisionedLoop (op # ops) =
     (if io_Type op = OperationTypeRemove \<and> io_State op = OperationStateSucceeded then True
      else deprovisionedLoop ops)"

definition IsDeprovisioned :: "'s deps \<Rightarrow> InstanceID \<Rightarrow> 's \<Rightarrow> bool result" where
  "IsDeprovisioned d iID s =
     (case opGetAll d iID s of
        Inl err \<Rightarrow>
          if IsNotFoundError err then Inl err
          else Inl (Wrapped err ''while getting instance operations from storage'')
      | Inr ops \<Rightarrow> Inr (deprovisionedLoop ops))"

definition IsDeprovisioningInProgress ::
  "'s deps \<Rightarrow> InstanceID \<Rightarrow> 's \<Rightarrow> (OperationID \<times> bool) result" where
  "IsDeprovisioningInProgress d iID s =
     (case opGetAll d iID s of
        Inl err \<Rightarrow>
          if IsNotFoundError err then Inr ('''', False)
          else Inl (Wrapped err ''while getting instance operations from storage'')
      | Inr ops \<Rightarrow> Inr (inProgressLoop OperationTypeRemove ops))"

section \<open>State of a binding\<close>

fun boundLoop :: "BindingID \<Rightarrow> BindOperation list \<Rightarrow> BindOperation \<times> bool \<Rightarrow> BindOperation \<times> bool" where
  "boundLoop bID [] acc = acc"
| "boundLoop bID (op # ops) acc =
     (let acc = (if bo_Type op = OperationTypeCreate \<and> bo_State op = OperationStateSucceeded \<and>
                    bo_BindingID op = bID
                 then (op, True) else acc)
      in if bo_Type op = OperationTypeRemove \<and> bo_State op = OperationStateSucceeded \<and>
            bo_BindingID op = bID
         then (EmptyBindOperation, False)
         else boundLoop bID ops acc)"

definition IsBound :: "'s deps \<Rightarrow> InstanceID \<Rightarrow> BindingID \<Rightarrow> 's \<Rightarrow> (BindOperation \<times> bool) result" where
  "IsBound d iID bID s =
     (case bopGetAll d iID s of
        Inl err \<Rightarrow>
          if IsNotFoundError err then Inr (EmptyBindOperation, False)
          else Inl (Wrapped err ''while getting bind operations from storage'')
      | Inr ops \<Rightarrow> Inr (boundLoop bID ops (EmptyBindOperation, False)))"

fun bindingInProgressLoop :: "BindingID \<Rightarrow> BindOperation list \<Rightarrow> OperationID \<times> bool" where
  "bindingInProgressLoop bID [] = ('''', False)"
| "bindingInProgressLoop bID (op # ops) =
     (if bo_Type op = OperationTypeCreate \<and> bo_State op = OperationStateInProgress \<and>
         bo_BindingID op = bID
      then (bo_OperationID op, True)
      else bindingInProgressLoop bID ops)"

definition IsBindingInProgress ::
  "'s deps \<Rightarrow> InstanceID \<Rightarrow> BindingID \<Rightarrow> 's \<Rightarrow> (OperationID \<times> bool) result" where
  "IsBindingInProgress d iID bID s =
     (case bopGetAll d iID s of
        Inl err \<Rightarrow>
          if IsNotFoundError err then Inr ('''', False)
          else Inl (Wrapped err ''while getting bind operations from storage'')
      | Inr ops \<Rightarrow> Inr (bindingInProgressLoop bID ops))"

section \<open>What the loops compute\<close>

text \<open>An instance is provisioned if it was created and never removed, whatever the order in
  which the storage lists the operations.\<close>

definition created :: "InstanceOperation \<Rightarrow> bool" where
  "created op \<longleftrightarrow> io_Type op = OperationTypeCreate \<and> io_State op = OperationStateSucceeded"

definition removed :: "InstanceOperation \<Rightarrow> bool" where
  "removed op \<longleftrightarrow> io_Type op = OperationTypeRemove \<and> io_State op = OperationStateSucceeded"

lemma provisionedLoop_iff:
  "provisionedLoop ops r \<longleftrightarrow>
     (r \<or> (\<exists>op \<in> set ops. created op)) \<and> (\<forall>op \<in> set ops. \<not> removed op)"
  by (induction ops r rule: provisionedLoop.induct)
    (auto simp: Let_def created_def removed_def)

lemma deprovisionedLoop_iff: "deprovisionedLoop ops \<longleftrightarrow> (\<exists>op \<in> set ops. removed op)"
  by (induction ops) (auto simp: removed_def)

lemma inProgressLoop_iff:
  "snd (inProgressLoop ty ops) \<longleftrightarrow> (\<exists>op \<in> set ops. io_Type op = ty \<and> in_progress op)"
  by (induction ops) (auto simp: in_progress_def)

lemma inProgressLoop_id:
  "inProgressLoop ty ops = (opid, True) \<Longrightarrow>
   \<exists>op \<in> set ops. io_Type op = ty \<and> in_progress op \<and> io_OperationID op = opid"
  by (induction ops) (auto simp: in_progress_def split: if_splits)

lemma bindingInProgressLoop_iff:
  "snd (bindingInProgressLoop bID ops) \<longleftrightarrow> (\<exists>op \<in> set ops. bo_BindingID op = bID \<and>
     bo_Type op = OperationTypeCreate \<and> bo_State op = OperationStateInProgress)"
  by (induction ops) auto

definition bound_by :: "BindingID \<Rightarrow> BindOperation \<Rightarrow> bool" where
  "bound_by bID op \<longleftrightarrow> bo_Type op = OperationTypeCreate \<and> bo_State op = OperationStateSucceeded \<and>
     bo_BindingID op = bID"

definition unbound_by :: "BindingID \<Rightarrow> BindOperation \<Rightarrow> bool" where
  "unbound_by bID op \<longleftrightarrow> bo_Type op = OperationTypeRemove \<and> bo_State op = OperationStateSucceeded \<and>
     bo_BindingID op = bID"

lemma boundLoop_iff:
  "snd (boundLoop bID ops acc) \<longleftrightarrow>
     (snd acc \<or> (\<exists>op \<in> set ops. bound_by bID op)) \<and> (\<forall>op \<in> set ops. \<not> unbound_by bID op)"
  by (induction bID ops acc rule: boundLoop.induct)
    (auto simp: Let_def bound_by_def unbound_by_def)

lemma boundLoop_op:
  "snd (boundLoop bID ops acc) \<Longrightarrow>
   fst (boundLoop bID ops acc) = fst acc \<and> snd acc \<or>
   (fst (boundLoop bID ops acc) \<in> set ops \<and> bound_by bID (fst (boundLoop bID ops acc)))"
  by (induction bID ops acc rule: boundLoop.induct)
    (auto simp: Let_def bound_by_def split: if_splits)

text \<open>
  C18. Whether an instance counts as provisioned depends only on the set of its stored
  operations, not on the order in which the storage lists them: a creation has succeeded and
  no removal has. Being deprovisioned is the other case, and the two exclude each other.
\<close>

theorem IsProvisioned_correct:
  assumes "opGetAll d iID s = Inr ops"
  shows "IsProvisioned d iID s =
           Inr ((\<exists>op \<in> set ops. io_Type op = OperationTypeCreate \<and> io_State op = OperationStateSucceeded) \<and>
                \<not> (\<exists>op \<in> set ops. io_Type op = OperationTypeRemove \<and> io_State op = OperationStateSucceeded)) \<and>
         IsDeprovisioned d iID s =
           Inr (\<exists>op \<in> set ops. io_Type op = OperationTypeRemove \<and> io_State op = OperationStateSucceeded)"
  using assms
  by (auto simp: IsProvisioned_def IsDeprovisioned_def provisionedLoop_iff deprovisionedLoop_iff
      created_def removed_def)

definition example_deps :: "InstanceOperation list \<Rightarrow> unit deps" where
  "example_deps ops = \<lparr>
     addonGetByID = \<lambda>ns aid s. Inl NotFoundError, addonFindAll = \<lambda>ns s. Inr [],
     chartGet = \<lambda>ns n v s. Inl NotFoundError,
     opInsert = \<lambda>io s. (None, s), opGet = \<lambda>i opid s. Inl NotFoundError, opGetAll = \<lambda>i s. Inr ops,
     opUpdateStateDesc = \<lambda>i opid st de s. (None, s),
     bopInsert = \<lambda>bo s. (None, s), bopGet = \<lambda>i b opid s. Inl NotFoundError, bopGetAll = \<lambda>i s. Inr [],
     bopUpdateStateDesc = \<lambda>i b opid st de s. (None, s),
     instUpsert = \<lambda>i s. (Inr False, s), instGet = \<lambda>i s. Inl NotFoundError, instGetAll = \<lambda>s. Inr [],
     instRemove = \<lambda>i s. (None, s), ibdGet = \<lambda>i s. Inl NotFoundError, ibdInsert = \<lambda>i s. (None, s),
     ibdRemove = \<lambda>i s. (None, s), bindRender = \<lambda>t i c s. Inr '''',
     bindResolve = \<lambda>y ns s. Inr \<lparr>ro_Credentials = []\<rparr>,
     helmInstall = \<lambda>c v r ns s. (Inl (ErrorString ''no cluster''), s), helmDelete = \<lambda>r ns s. (None, s),
     operationIDProvider = \<lambda>s. (Inr ''op'', s), httpErrorText = \<lambda>c m. m\<rparr>"

theorem IsProvisioned_correct_witness:
  "IsProvisioned (example_deps [example_op\<lparr>io_State := OperationStateSucceeded\<rparr>]) ''i-1'' () = Inr True"
  using IsProvisioned_correct
    [of "example_deps [example_op\<lparr>io_State := OperationStateSucceeded\<rparr>]" "''i-1''" "()"
        "[example_op\<lparr>io_State := OperationStateSucceeded\<rparr>]"]
  by (simp add: example_deps_def example_op_def)

text \<open>
  A binding counts as bound exactly if its creation has succeeded and its removal has not,
  and then the operation that is reported is one of the stored operations that created it; a
  binding is being created exactly if a stored creation of it is in progress.
\<close>

theorem IsBound_correct:
  assumes "bopGetAll d iID s = Inr ops"
  shows "\<exists>op b opid p. IsBound d iID bID s = Inr (op, b) \<and> IsBindingInProgress d iID bID s = Inr (opid, p) \<and>
     (b \<longleftrightarrow> (\<exists>x \<in> set ops. bound_by bID x) \<and> \<not> (\<exists>x \<in> set ops. unbound_by bID x)) \<and>
     (b \<longrightarrow> op \<in> set ops \<and> bound_by bID op) \<and>
     (p \<longleftrightarrow> (\<exists>x \<in> set ops. bo_BindingID x = bID \<and> bo_Type x = OperationTypeCreate \<and>
        bo_State x = OperationStateInProgress))"
proof -
  let ?r = "boundLoop bID ops (EmptyBindOperation, False)"
  have "snd ?r \<longrightarrow> fst ?r \<in> set ops \<and> bound_by bID (fst ?r)"
    using boundLoop_op [of bID ops "(EmptyBindOperation, False)"] by auto
  with assms show ?thesis
    using boundLoop_iff [of bID ops "(EmptyBindOperation, False)"] bindingInProgressLoop_iff [of bID ops]
    by (cases ?r; cases "bindingInProgressLoop bID ops")
      (auto simp: IsBound_def IsBindingInProgress_def)
qed

theorem IsBound_correct_witness:
  "\<exists>op. IsBound (example_deps []) ''i-1'' ''b-1'' () = Inr (op, False)"
  using IsBound_correct [of "example_deps []" "''i-1''" "()" "[]" "''b-1''"]
  by (auto simp: example_deps_def)

end
