(* ===== verification/Values.thy ===== *)
theory Values
  imports Model "HOL-Library.List_Lexorder" "HOL-Library.Char_ord"
begin

text \<open>
  Functions on \<open>map[string]interface{}\<close> values: the text that \<open>%v\<close> prints, \<open>reflect.DeepEqual\<close>,
  and the functions \<open>mergeValues\<close> and \<open>deepCopy\<close> of \<open>internal/broker/provision.go\<close> that compute the
  values of a Helm release.
\<close>

section \<open>Printing\<close>

text \<open>\<open>fmt\<close> prints the entries of a map in the order of the keys.\<close>

fun fmtV :: "json \<Rightarrow> string" and fmtVs :: "json list \<Rightarrow> string list"
  and fmtEntries :: "jobject \<Rightarrow> (string \<times> string) list" where
  "fmtV JNull = ''<nil>''"
| "fmtV (JBool b) = (if b then ''true'' else ''false'')"
| "fmtV (JNum n) = n"
| "fmtV (JStr s) = s"
| "fmtV (JArr xs) = ''['' @ strJoin (fmtVs xs) '' '' @ '']''"
| "fmtV (JObj m) = ''map['' @
     strJoin (map (\<lambda>(k, t). k @ '':'' @ t) (sort_key fst (fmtEntries m))) '' '' @ '']''"
| "fmtVs [] = []"
| "fmtVs (x # xs) = fmtV x # fmtVs xs"
| "fmtEntries [] = []"
| "fmtEntries ((k, v) # m) = (k, fmtV v) # fmtEntries m"

definition fmtParameters :: "jobject option \<Rightarrow> string" where
  "fmtParameters p = fmtV (JObj (case p of None \<Rightarrow> [] | Some m \<Rightarrow> m))"

section \<open>Deep equality\<close>

fun jDeepEqual :: "json \<Rightarrow> json \<Rightarrow> bool" and jDeepEqualArr :: "json list \<Rightarrow> json list \<Rightarrow> bool"
  and jDeepEqualObj :: "jobject \<Rightarrow> jobject \<Rightarrow> bool" where
  "jDeepEqual JNull w = (w = JNull)"
| "jDeepEqual (JBool b) w = (w = JBool b)"
| "jDeepEqual (JNum n) w = (w = JNum n)"
| "jDeepEqual (JStr s) w = (w = JStr s)"
| "jDeepEqual (JArr xs) w = (case w of JArr ys \<Rightarrow> jDeepEqualArr xs ys | _ \<Rightarrow> False)"
| "jDeepEqual (JObj a) w =
     (case w of JObj b \<Rightarrow> length a = length b \<and> jDeepEqualObj a b | _ \<Rightarrow> False)"
| "jDeepEqualArr [] ys = (ys = [])"
| "jDeepEqualArr (x # xs) ys =
     (case ys of [] \<Rightarrow> False | y # ys' \<Rightarrow> jDeepEqual x y \<and> jDeepEqualArr xs ys')"
| "jDeepEqualObj [] b = True"
| "jDeepEqualObj ((k, v) # a) b =
     (case map_of b k of None \<Rightarrow> False | Some w \<Rightarrow> jDeepEqual v w \<and> jDeepEqualObj a b)"

text \<open>\<open>reflect.DeepEqual\<close> on two maps: a nil map differs from an empty one.\<close>

definition DeepEqual :: "jobject option \<Rightarrow> jobject option \<Rightarrow> bool" where
  "DeepEqual p q =
     (case (p, q) of
        (None, None) \<Rightarrow> True
      | (Some a, Some b) \<Rightarrow> jDeepEqual (JObj a) (JObj b)
      | _ \<Rightarrow> False)"

text \<open>A document in which every object has distinct keys, as every Go map has.\<close>

fun wf_json :: "json \<Rightarrow> bool" and wf_jsons :: "json list \<Rightarrow> bool" and wf_entries :: "jobject \<Rightarrow> bool" where
  "wf_json (JArr xs) = wf_jsons xs"
| "wf_json (JObj m) = (wf_map m \<and> wf_entries m)"
| "wf_json v = True"
| "wf_jsons [] = True"
| "wf_jsons (x # xs) = (wf_json x \<and> wf_jsons xs)"
| "wf_entries [] = True"
| "wf_entries ((k, v) # m) = (wf_json v \<and> wf_entries m)"

lemma wf_entries_lookup: "wf_entries m \<Longrightarrow> map_of m k = Some v \<Longrightarrow> wf_json v"
  by (induction m) (auto split: if_splits)

lemma jDeepEqualObj_iff:
  "jDeepEqualObj a b \<longleftrightarrow> (\<forall>(k, v) \<in> set a. \<exists>w. map_of b k = Some w \<and> jDeepEqual v w)"
  by (induction a) (auto split: option.splits)

text \<open>Equality of documents up to the order of keys holds for a document and itself.\<close>

lemma jDeepEqual_refl:
  "wf_json v \<Longrightarrow> jDeepEqual v v"
  "wf_jsons xs \<Longrightarrow> jDeepEqualArr xs xs"
  "wf_entries m \<Longrightarrow> \<forall>b. (\<forall>k v. (k, v) \<in> set m \<longrightarrow> map_of b k = Some v) \<longrightarrow> jDeepEqualObj m b"
proof (induction v and xs and m rule: wf_json_wf_jsons_wf_entries.induct)
  case (2 m)
  then show ?case using wf_map_in_iff [of m] by auto
qed auto

section \<open>Merging values\<close>

function mergeValues :: "jobject \<Rightarrow> jobject \<Rightarrow> jobject" where
  "mergeValues dest [] = dest"
| "mergeValues dest ((k, v) # src) =
     mergeValues
       (AList.update k
          (case map_of dest k of
             None \<Rightarrow> v
           | Some dv \<Rightarrow>
               (case v of
                  JObj nextMap \<Rightarrow>
                    (case dv of
                       JObj destMap \<Rightarrow> JObj (mergeValues destMap nextMap)
                     | _ \<Rightarrow> v)
                | _ \<Rightarrow> v))
          dest)
       src"
  by pat_completeness auto
termination
  by (relation "measure (\<lambda>(d, s). size (JObj s))") auto

text \<open>\<open>deepCopy\<close> writes the values as JSON and reads them back. A nil map gives an empty one.\<close>

definition deepCopy :: "jobject option \<Rightarrow> jobject result" where
  "deepCopy m = Inr (case m of None \<Rightarrow> [] | Some x \<Rightarrow> x)"

text \<open>The value of a key after merging one entry.\<close>

definition mergeEntry :: "json option \<Rightarrow> json \<Rightarrow> json" where
  "mergeEntry old v =
     (case (old, v) of
        (Some (JObj destMap), JObj nextMap) \<Rightarrow> JObj (mergeValues destMap nextMap)
      | _ \<Rightarrow> v)"

lemma mergeValues_Cons:
  "mergeValues dest ((k, v) # src) = mergeValues (AList.update k (mergeEntry (map_of dest k) v) dest) src"
  by (simp add: mergeEntry_def split: option.splits json.splits)

declare mergeValues.simps(2) [simp del]

text \<open>Every key of the merged map, whatever the order in which the source is ranged over.\<close>

lemma mergeValues_lookup:
  "wf_map src \<Longrightarrow>
   map_of (mergeValues dest src) k =
     (case map_of src k of
        None \<Rightarrow> map_of dest k
      | Some v \<Rightarrow> Some (mergeEntry (map_of dest k) v))"
proof (induction src arbitrary: dest)
  case Nil
  then show ?case by simp
next
  case (Cons e src)
  obtain k' v where e: "e = (k', v)" by (cases e)
  with Cons.prems have "wf_map src" and "map_of src k' = None"
    by (simp_all add: map_of_eq_None_iff)
  with Cons.IH [of "AList.update k' (mergeEntry (map_of dest k') v) dest"] show ?case
    unfolding e mergeValues_Cons by (auto split: option.splits)
qed

lemma wf_map_mergeValues: "wf_map dest \<Longrightarrow> wf_map (mergeValues dest src)"
proof (induction src arbitrary: dest)
  case (Cons e src)
  then show ?case by (cases e) (simp add: mergeValues_Cons)
qed simp

text \<open>Following a path of keys into a document.\<close>

fun jpath :: "string list \<Rightarrow> json \<Rightarrow> json option" where
  "jpath [] v = Some v"
| "jpath (k # p) (JObj m) = (case map_of m k of None \<Rightarrow> None | Some v \<Rightarrow> jpath p v)"
| "jpath (k # p) v = None"

definition is_object :: "json \<Rightarrow> bool" where
  "is_object v \<longleftrightarrow> (\<exists>m. v = JObj m)"

lemma mergeValues_override:
  "wf_json (JObj src) \<Longrightarrow> jpath p (JObj src) = Some v \<Longrightarrow> \<not> is_object v \<Longrightarrow>
   jpath p (JObj (mergeValues dest src)) = Some v"
proof (induction p arbitrary: dest src)
  case Nil
  then show ?case by (auto simp: is_object_def)
next
  case (Cons k p)
  from Cons.prems obtain u where u: "map_of src k = Some u" "jpath p u = Some v"
    by (auto split: option.splits)
  have "wf_map src" "wf_json u"
    using Cons.prems(1) u(1) by (auto dest: wf_entries_lookup)
  show ?case
  proof (cases "\<exists>dm m. map_of dest k = Some (JObj dm) \<and> u = JObj m")
    case True
    then obtain dm m where "map_of dest k = Some (JObj dm)" "u = JObj m" by blast
    with Cons.IH [of m dm] Cons.prems(3) u \<open>wf_json u\<close> \<open>wf_map src\<close> show ?thesis
      by (simp add: mergeValues_lookup mergeEntry_def)
  next
    case False
    then have "mergeEntry (map_of dest k) u = u"
      by (auto simp: mergeEntry_def split: option.splits json.splits)
    with u \<open>wf_map src\<close> show ?thesis by (simp add: mergeValues_lookup)
  qed
qed

lemma mergeValues_keep:
  "wf_json (JObj src) \<Longrightarrow> jpath p (JObj src) = None \<Longrightarrow>
   (\<And>q r v. p = q @ r \<Longrightarrow> jpath q (JObj src) = Some v \<Longrightarrow> is_object v) \<Longrightarrow>
   jpath p (JObj (mergeValues dest src)) = jpath p (JObj dest)"
proof (induction p arbitrary: dest src)
  case Nil
  then show ?case by simp
next
  case (Cons k p)
  from Cons.prems(1) have wf: "wf_map src" by simp
  show ?case
  proof (cases "map_of src k")
    case None
    with wf show ?thesis by (simp add: mergeValues_lookup)
  next
    case (Some u)
    with Cons.prems(3) [of "[k]" p u] obtain m where m: "u = JObj m"
      by (auto simp: is_object_def)
    with Some Cons.prems(1) have wfm: "wf_json (JObj m)" by (auto dest: wf_entries_lookup)
    from Some m Cons.prems(2) have none: "jpath p (JObj m) = None" by simp
    have obj: "is_object v" if "p = q @ r" "jpath q (JObj m) = Some v" for q r v
      using Cons.prems(3) [of "k # q" r v] that Some m by simp
    from none have "p \<noteq> []" by auto
    then have other: "jpath p v = None" if "\<not> is_object v" for v
      using that by (cases p; cases v) (auto simp: is_object_def)
    show ?thesis
      using Some m wf none other Cons.IH [OF wfm none obj]
      by (auto simp: mergeValues_lookup mergeEntry_def is_object_def split: option.splits json.splits)
  qed
qed

text \<open>
  C19. Merging the parameters of a request over the values of a plan is a deep merge: at every
  path, the value of the request wins, and a value of the plan that the request does not
  reach is kept.
\<close>

theorem mergeValues_deep:
  assumes "wf_json (JObj src)"
  shows "(jpath p (JObj src) = Some v \<and> \<not> is_object v \<longrightarrow>
            jpath p (JObj (mergeValues dest src)) = Some v) \<and>
         (jpath p (JObj src) = None \<and>
            (\<forall>q r u. p = q @ r \<and> jpath q (JObj src) = Some u \<longrightarrow> is_object u) \<longrightarrow>
            jpath p (JObj (mergeValues dest src)) = jpath p (JObj dest))"
  using mergeValues_override [OF assms] mergeValues_keep [OF assms] by blast

theorem mergeValues_deep_witness:
  "jpath [''image'', ''tag''] (JObj (mergeValues
      [(''image'', JObj [(''name'', JStr ''redis''), (''tag'', JStr ''5'')])]
      [(''image'', JObj [(''tag'', JStr ''6'')])])) = Some (JStr ''6'')"
  using mergeValues_deep [of "[(''image'', JObj [(''tag'', JStr ''6'')])]" "[''image'', ''tag'']"
      "JStr ''6''" "[(''image'', JObj [(''name'', JStr ''redis''), (''tag'', JStr ''5'')])]"]
  by (simp add: is_object_def)

end
