(* ===== verification/Provision.thy ===== *)
theory Provision
  imports OperationState Values
begin

text \<open>
  \<open>internal/broker/provision.go\<close>. The handler \<open>Provision\<close> runs under the service's mutex and is one
  step; the work it starts in a goroutine (\<open>doAsync\<close>) is returned as the input of the task, to be
  run by \<open>provision_do\<close> at some later time.
\<close>

section \<open>Names\<close>

definition normalize :: "string \<Rightarrow> string" where
  "normalize name =
     (let maxLen = 6;
          name = (if length name > maxLen then take maxLen name else name)
      in strTrim name ''-'')"

definition createReleaseName :: "AddonName \<Rightarrow> AddonPlanName \<Rightarrow> InstanceID \<Rightarrow> ReleaseName" where
  "createReleaseName name planName iID =
     ''hb-'' @ normalize name @ ''-'' @ normalize planName @ ''-'' @ iID"

text \<open>\<open>ns.(string)\<close> panics when the value is not a string.\<close>

definition getNamespaceFromContext :: "jobject \<Rightarrow> Namespace result option" where
  "getNamespaceFromContext contextProfile =
     (case map_of contextProfile ''namespace'' of
        None \<Rightarrow> Some (Inl (ErrorString ''namespace does not exists in given context''))
      | Some (JStr ns) \<Rightarrow> Some (Inr ns)
      | Some _ \<Rightarrow> None)"

definition addonsRepositoryURLName :: string where [go_consts]:
  "addonsRepositoryURLName = ''addonsRepositoryURL''"

section \<open>The task\<close>

record provisioningInput =
  pi_instanceID :: InstanceID
  pi_operationID :: OperationID
  pi_namespace :: Namespace
  pi_brokerNamespace :: Namespace
  pi_releaseName :: ReleaseName
  pi_addonPlan :: AddonPlan
  pi_isAddonBindable :: bool
  pi_chartOverrides :: ChartValues
  pi_addonsRepositoryURL :: string
  pi_instanceToUpdate :: Instance

definition IsForbidden :: "error \<Rightarrow> bool" where
  "IsForbidden e = (case e of StatusError r m \<Rightarrow> r = ApiForbidden | _ \<Rightarrow> False)"

text \<open>The values of the release: the plan's values, the request's over them, and the URL of the
  repository.\<close>

definition releaseValues :: "provisioningInput \<Rightarrow> jobject \<Rightarrow> jobject" where
  "releaseValues input planValues =
     AList.update addonsRepositoryURLName (JStr (pi_addonsRepositoryURL input))
       (mergeValues planValues (pi_chartOverrides input))"

definition provision_fDo :: "'s deps \<Rightarrow> provisioningInput \<Rightarrow> 's \<Rightarrow> error option \<times> 's" where
  "provision_fDo d input s =
     (case chartGet d (pi_brokerNamespace input) (cr_Name (pl_ChartRef (pi_addonPlan input)))
             (cr_Version (pl_ChartRef (pi_addonPlan input))) s of
        Inl err \<Rightarrow> (Some (Wrapped err ''while getting chart from storage''), s)
      | Inr c \<Rightarrow>
          (case deepCopy (Some (pl_ChartValues (pi_addonPlan input))) of
             Inl err \<Rightarrow> (Some (Wrapped err ''while coping plan values''), s)
           | Inr out \<Rightarrow>
               (case helmInstall d c (releaseValues input out) (pi_releaseName input)
                       (pi_namespace input) s of
                  (Inl err, s1) \<Rightarrow>
                    if IsForbidden (Cause err)
                    then (Some (Wrapped (Cause err)
                            ''user has no sufficient permissions to provision a service''), s1)
                    else (Some (Wrapped err ''while installing helm release''), s1)
                | (Inr resp, s1) \<Rightarrow>
                    let relInfo = EmptyReleaseInfo\<lparr>
                          ri_ReleaseTime := Some (rel_LastDeployed resp),
                          ri_Revision := rel_Version resp,
                          ri_ConfigValues := rel_Config resp\<rparr>
                    in (case instUpsert d ((pi_instanceToUpdate input)\<lparr>in_ReleaseInfo := relInfo\<rparr>) s1 of
                          (Inl err, s2) \<Rightarrow>
                            (Some (ErrorString (httpErrorText d StatusConflict
                               (''while updating instance in storage: '' @ Error err))), s2)
                        | (Inr exist, s2) \<Rightarrow> (None, s2)))))"

definition provision_do :: "'s deps \<Rightarrow> provisioningInput \<Rightarrow> 's \<Rightarrow> 's" where
  "provision_do d input s =
     (let (err, s1) = provision_fDo d input s;
          (opState, opDesc) =
            (case err of
               None \<Rightarrow> (OperationStateSucceeded, ''provisioning succeeded'')
             | Some e \<Rightarrow> (OperationStateFailed, ''provisioning failed on error: '' @ Error e))
      in snd (opUpdateStateDesc d (pi_instanceID input) (pi_operationID input) opState
                (Some opDesc) s1))"

section \<open>Comparing the parameters\<close>

definition requestedParametersAreDifferent ::
  "'s deps \<Rightarrow> InstanceID \<Rightarrow> RequestParameters \<Rightarrow> 's \<Rightarrow> bool result \<times> 's" where
  "requestedParametersAreDifferent d iID requestedParams s =
     (case instGet d iID s of
        Inl err \<Rightarrow> (Inl (Wrapped err (''while getting instance '' @ iID @ '' from storage'')), s)
      | Inr instance \<Rightarrow>
          if in_ParamsHash instance \<noteq> ''''
          then (case instUpsert d (instance\<lparr>in_ParamsHash := '''',
                        in_ProvisioningParameters := Some requestedParams\<rparr>) s of
                  (Inl err, s1) \<Rightarrow>
                    (Inl (Wrapped err (''while saving instance '' @ iID @ '' to storage'')), s1)
                | (Inr _, s1) \<Rightarrow> (Inr False, s1))
          else if in_ProvisioningParameters instance = None \<and>
                  (case rp_Data requestedParams of None \<Rightarrow> True | Some m \<Rightarrow> m = [])
          then (Inr False, s)
          else if (case in_ProvisioningParameters instance of
                     None \<Rightarrow> False
                   | Some p \<Rightarrow> DeepEqual (rp_Data p) (rp_Data requestedParams))
          then (Inr False, s)
          else (Inr True, s))"

section \<open>The handler\<close>

text \<open>The second part of the handler, once the operation has been inserted.\<close>

definition provision_accepted ::
  "'s deps \<Rightarrow> OsbContext \<Rightarrow> ProvisionRequest \<Rightarrow> Namespace \<Rightarrow> Addon \<Rightarrow> OperationID \<Rightarrow> 's
    \<Rightarrow> AsyncResponse reply \<times> provisioningInput option \<times> 's" where
  "provision_accepted d osbCtx req namespace addon opID s =
     (case map_of (ad_Plans addon) (pr_PlanID req) of
        None \<Rightarrow>
          (Failure StatusBadRequest
             (''addon does not contain requested plan (planID: %!s(<nil>)): '' @ pr_PlanID req), None, s)
      | Some addonPlan \<Rightarrow>
          let iID = pr_InstanceID req;
              releaseName = createReleaseName (ad_Name addon) (pl_Name addonPlan) iID;
              i = \<lparr>in_ID = iID, in_ServiceID = pr_ServiceID req, in_ServicePlanID = pr_PlanID req,
                   in_ReleaseName = releaseName, in_Namespace = namespace,
                   in_ReleaseInfo = EmptyReleaseInfo,
                   in_ProvisioningParameters = Some \<lparr>rp_Data = pr_Parameters req\<rparr>,
                   in_ParamsHash = ''''\<rparr>
          in (case instUpsert d i s of
                (Inl err, s1) \<Rightarrow>
                  (Failure StatusBadRequest (''while inserting instance to storage: '' @ Error err),
                   None, s1)
              | (Inr exist, s1) \<Rightarrow>
                  (Reply \<lparr>ar_Async = True, ar_OperationKey = Some opID\<rparr>,
                   Some \<lparr>pi_instanceID = iID, pi_operationID = opID, pi_namespace = namespace,
                     pi_brokerNamespace = ctx_BrokerNamespace osbCtx, pi_releaseName = releaseName,
                     pi_addonPlan = addonPlan, pi_isAddonBindable = ad_Bindable addon,
                     pi_chartOverrides = (case pr_Parameters req of None \<Rightarrow> [] | Some m \<Rightarrow> m),
                     pi_addonsRepositoryURL = ad_RepositoryURL addon, pi_instanceToUpdate = i\<rparr>,
                   s1)))"

definition provision_op :: "ProvisionRequest \<Rightarrow> OperationID \<Rightarrow> InstanceOperation" where
  "provision_op req opID =
     \<lparr>io_InstanceID = pr_InstanceID req, io_OperationID = opID, io_Type = OperationTypeCreate,
      io_State = OperationStateInProgress, io_StateDescription = None,
      io_ProvisioningParameters = Some \<lparr>rp_Data = pr_Parameters req\<rparr>, io_CreatedAt = 0\<rparr>"

definition provision_new ::
  "'s deps \<Rightarrow> OsbContext \<Rightarrow> ProvisionRequest \<Rightarrow> Namespace \<Rightarrow> 's
    \<Rightarrow> AsyncResponse reply \<times> provisioningInput option \<times> 's" where
  "provision_new d osbCtx req namespace s =
     (case addonGetByID d (ctx_BrokerNamespace osbCtx) (pr_ServiceID req) s of
        Inl err \<Rightarrow>
          (Failure (if IsNotFoundError err then StatusBadRequest else StatusInternalServerError)
             (''while getting addon: '' @ Error err), None, s)
      | Inr addon \<Rightarrow>
          (case instGetAll d s of
             Inl err \<Rightarrow>
               (Failure (if IsNotFoundError err then StatusBadRequest else StatusInternalServerError)
                  (''while getting instance collection: '' @ Error err), None, s)
           | Inr instances \<Rightarrow>
               if \<not> IsProvisioningAllowed addon namespace instances
               then (Failure StatusBadRequest
                       (''addon with name: '' @ goQuote (ad_Name addon) @ '' (id: '' @ ad_ID addon @
                        '') and flag '' @ [CHR 0x27] @ ''provisionOnlyOnce'' @ [CHR 0x27] @ '' in namespace '' @
                        goQuote namespace @
                        '' will be not provisioned because his instance already exist''), None, s)
               else
                 (case operationIDProvider d s of
                    (Inl err, s1) \<Rightarrow>
                      (Failure StatusInternalServerError
                         (''while generating operation ID: '' @ Error err), None, s1)
                  | (Inr opID, s1) \<Rightarrow>
                      (case opInsert d (provision_op req opID) s1 of
                            (Some err, s2) \<Rightarrow>
                              (Failure StatusBadRequest
                                 (''while inserting instance operation to storage: '' @ Error err),
                               None, s2)
                          | (None, s2) \<Rightarrow> provision_accepted d osbCtx req namespace addon opID s2))))"

definition Provision ::
  "'s deps \<Rightarrow> OsbContext \<Rightarrow> ProvisionRequest \<Rightarrow> 's
    \<Rightarrow> AsyncResponse reply \<times> provisioningInput option \<times> 's" where
  "Provision d osbCtx req s =
     (if \<not> pr_AcceptsIncomplete req
      then (Failure StatusBadRequest ''asynchronous operation mode required'', None, s)
      else
        let iID = pr_InstanceID req;
            requested = \<lparr>rp_Data = pr_Parameters req\<rparr>
        in (case IsProvisioned d iID s of
              Inl err \<Rightarrow>
                (Failure StatusInternalServerError
                   (''while checking if instance is already provisioned: '' @ Error err), None, s)
            | Inr True \<Rightarrow>
                (case requestedParametersAreDifferent d iID requested s of
                   (Inl err, s1) \<Rightarrow>
                     (Failure StatusInternalServerError
                        (''while comparing provisioning parameters '' @ fmtParameters (pr_Parameters req) @
                         '': '' @ Error err), None, s1)
                 | (Inr True, s1) \<Rightarrow>
                     (Failure StatusConflict
                        (''service instance exists with different parameters: '' @
                         fmtParameters (pr_Parameters req)), None, s1)
                 | (Inr False, s1) \<Rightarrow>
                     (Reply \<lparr>ar_Async = False, ar_OperationKey = None\<rparr>, None, s1))
            | Inr False \<Rightarrow>
                (case IsProvisioningInProgress d iID s of
                   Inl err \<Rightarrow>
                     (Failure StatusInternalServerError
                        (''while checking if instance provisioning is in progress: '' @ Error err), None, s)
                 | Inr (opIDInProgress, True) \<Rightarrow>
                     (Reply \<lparr>ar_Async = True, ar_OperationKey = Some opIDInProgress\<rparr>, None, s)
                 | Inr (_, False) \<Rightarrow>
                     (case getNamespaceFromContext (pr_Context req) of
                        None \<Rightarrow> (Panic, None, s)
                      | Some (Inl err) \<Rightarrow>
                          (Failure StatusBadRequest
                             (''while getting namespace from context: '' @ Error err), None, s)
                      | Some (Inr namespace) \<Rightarrow> provision_new d osbCtx req namespace s))))"

lemmas provision_defs = Provision_def provision_new_def provision_accepted_def

end
