(* ===== verification/Deprovision.thy ===== *)
theory Deprovision
  imports OperationState
begin

text \<open>
  \<open>internal/broker/deprovision.go\<close> and \<open>lastop.go\<close>. The handler \<open>Deprovision\<close> runs under the
  service's mutex; the task it starts is the instance and the operation identifier that
  \<open>deprovision_do\<close> takes.
\<close>

section \<open>The task\<close>

text \<open>\<open>errors.Is(err, ErrReleaseNotFound)\<close> looks below the wrappers.\<close>

definition IsReleaseNotFound :: "error \<Rightarrow> bool" where
  "IsReleaseNotFound e = (case Cause e of ErrReleaseNotFound m \<Rightarrow> True | _ \<Rightarrow> False)"

definition deprovision_fDo :: "'s deps \<Rightarrow> Instance \<Rightarrow> 's \<Rightarrow> error option \<times> 's" where
  "deprovision_fDo d inst s =
     (let (derr, s1) = helmDelete d (in_ReleaseName inst) (in_Namespace inst) s
      in if (case derr of None \<Rightarrow> False | Some e \<Rightarrow> \<not> IsReleaseNotFound e)
         then (Some (Wrapped (the derr)
                 (''while deleting helm release '' @ goQuote (in_ReleaseName inst))), s1)
         else
           let (berr, s2) = ibdRemove d (in_ID inst) s1
           in if (case berr of None \<Rightarrow> False | Some e \<Rightarrow> \<not> IsNotFoundError e)
              then (Some (Wrapped (the berr) ''while removing instance bind data from storage''), s2)
              else
                let (rerr, s3) = instRemove d (in_ID inst) s2
                in if (case rerr of None \<Rightarrow> False | Some e \<Rightarrow> \<not> IsNotFoundError e)
                   then (Some (Wrapped (the rerr) ''while removing instance entity from storage''), s3)
                   else (None, s3))"

definition deprovision_do :: "'s deps \<Rightarrow> Instance \<Rightarrow> OperationID \<Rightarrow> 's \<Rightarrow> 's" where
  "deprovision_do d inst opID s =
     (let (err, s1) = deprovision_fDo d inst s;
          (opState, opDesc) =
            (case err of
               None \<Rightarrow> (OperationStateSucceeded, ''deprovisioning succeeded'')
             | Some e \<Rightarrow> (OperationStateFailed, ''deprovisioning failed on error: '' @ Error e))
      in snd (opUpdateStateDesc d (in_ID inst) opID opState (Some opDesc) s1))"

section \<open>The handler\<close>

definition deprovision_op :: "InstanceID \<Rightarrow> OperationID \<Rightarrow> InstanceOperation" where
  "deprovision_op iID opID =
     \<lparr>io_InstanceID = iID, io_OperationID = opID, io_Type = OperationTypeRemove,
      io_State = OperationStateInProgress, io_StateDescription = None,
      io_ProvisioningParameters = Some \<lparr>rp_Data = Some []\<rparr>, io_CreatedAt = 0\<rparr>"

definition deprovision_new ::
  "'s deps \<Rightarrow> InstanceID \<Rightarrow> 's \<Rightarrow> AsyncResponse result \<times> (Instance \<times> OperationID) option \<times> 's" where
  "deprovision_new d iID s =
     (case operationIDProvider d s of
        (Inl err, s1) \<Rightarrow> (Inl (Wrapped err ''while generating ID for operation''), None, s1)
      | (Inr opID, s1) \<Rightarrow>
          (case instGet d iID s1 of
             Inl err \<Rightarrow>
               (Inl (if IsNotFoundError err then err else Wrapped err ''while getting instance''), None, s1)
           | Inr i \<Rightarrow>
               (case opInsert d (deprovision_op iID opID) s1 of
                     (Some err, s2) \<Rightarrow>
                       (Inl (Wrapped err ''while inserting instance operation to storage''), None, s2)
                   | (None, s2) \<Rightarrow>
                       (Inr \<lparr>ar_Async = True, ar_OperationKey = Some opID\<rparr>, Some (i, opID), s2))))"

definition Deprovision ::
  "'s deps \<Rightarrow> OsbContext \<Rightarrow> DeprovisionRequest \<Rightarrow> 's
    \<Rightarrow> AsyncResponse result \<times> (Instance \<times> OperationID) option \<times> 's" where
  "Deprovision d osbCtx req s =
     (if \<not> dr_AcceptsIncomplete req
      then (Inl (ErrorString ''asynchronous operation mode required''), None, s)
      else
        let iID = dr_InstanceID req
        in (case IsDeprovisioned d iID s of
              Inl err \<Rightarrow>
                (Inl (if IsNotFoundError err then err
                      else Wrapped err ''while checking if instance is already deprovisioned''), None, s)
            | Inr True \<Rightarrow> (Inr \<lparr>ar_Async = False, ar_OperationKey = None\<rparr>, None, s)
            | Inr False \<Rightarrow>
                (case IsDeprovisioningInProgress d iID s of
                   Inl err \<Rightarrow>
                     (Inl (if IsNotFoundError err then err
                           else Wrapped err ''while checking if instance is being deprovisioned''), None, s)
                 | Inr (opIDInProgress, True) \<Rightarrow>
                     (Inr \<lparr>ar_Async = True, ar_OperationKey = Some opIDInProgress\<rparr>, None, s)
                 | Inr (_, False) \<Rightarrow> deprovision_new d iID s)))"

section \<open>The last operation of an instance\<close>

definition GetLastOperation ::
  "'s deps \<Rightarrow> InstanceID \<Rightarrow> OperationID option \<Rightarrow> 's \<Rightarrow> LastOperationResponse result" where
  "GetLastOperation d iID operationKey s =
     (let opID = (case operationKey of None \<Rightarrow> '''' | Some k \<Rightarrow> k)
      in case opGet d iID opID s of
           Inl err \<Rightarrow>
             Inl (if IsNotFoundError err then err else Wrapped err ''while getting instance operation'')
         | Inr op \<Rightarrow> Inr \<lparr>lo_State = io_State op, lo_Description = io_StateDescription op\<rparr>)"

end
