(* ===== verification/Bind.thy ===== *)
theory Bind
  imports OperationState
begin

text \<open>
  \<open>internal/broker/bind.go\<close> and \<open>unbind.go\<close>. As for provisioning, the handler returns the input of
  the task that it starts. The sanitising of HTML in one error message is done by a third-party
  package and is a parameter.
\<close>

section \<open>The task\<close>

record bindingInput =
  bi_brokerNamespace :: Namespace
  bi_instance :: Instance
  bi_bindingID :: BindingID
  bi_operationID :: OperationID
  bi_addonPlan :: AddonPlan
  bi_isAddonBindable :: bool

definition isBindable :: "AddonPlan \<Rightarrow> bool \<Rightarrow> bool" where
  "isBindable plan isAddonBindable \<longleftrightarrow>
     pl_Bindable plan = Some True \<or> (pl_Bindable plan = None \<and> isAddonBindable)"

definition renderAndResolveBindData ::
  "'s deps \<Rightarrow> AddonPlan \<Rightarrow> Instance \<Rightarrow> Chart \<Rightarrow> 's \<Rightarrow> error option \<times> 's" where
  "renderAndResolveBindData d addonPlan inst ch s =
     (case bindRender d (pl_BindTemplate addonPlan) inst ch s of
        Inl err \<Rightarrow> (Some (Wrapped err ''while rendering bind yaml template''), s)
      | Inr rendered \<Rightarrow>
          (case bindResolve d rendered (in_Namespace inst) s of
             Inl err \<Rightarrow> (Some (Wrapped err ''while resolving bind yaml values''), s)
           | Inr out \<Rightarrow>
               (case ibdInsert d \<lparr>bd_InstanceID = in_ID inst, bd_Credentials = ro_Credentials out\<rparr> s of
                  (Some err, s1) \<Rightarrow>
                    (Some (Wrapped err ''while inserting instance bind data to memory''), s1)
                | (None, s1) \<Rightarrow> (None, s1))))"

definition bind_fDo :: "'s deps \<Rightarrow> bindingInput \<Rightarrow> 's \<Rightarrow> error option \<times> 's" where
  "bind_fDo d input s =
     (if isBindable (bi_addonPlan input) (bi_isAddonBindable input)
      then (case chartGet d (bi_brokerNamespace input) (cr_Name (pl_ChartRef (bi_addonPlan input)))
                   (cr_Version (pl_ChartRef (bi_addonPlan input))) s of
              Inl err \<Rightarrow> (Some (Wrapped err ''while getting chart from storage''), s)
            | Inr c \<Rightarrow>
                (case renderAndResolveBindData d (bi_addonPlan input) (bi_instance input) c s of
                   (Some err, s1) \<Rightarrow> (Some (Wrapped err ''while resolving bind data''), s1)
                 | (None, s1) \<Rightarrow> (None, s1)))
      else (None, s))"

definition bind_do :: "'s deps \<Rightarrow> bindingInput \<Rightarrow> 's \<Rightarrow> 's" where
  "bind_do d input s =
     (let (err, s1) = bind_fDo d input s;
          (opState, opDesc) =
            (case err of
               None \<Rightarrow> (OperationStateSucceeded, ''binding succeeded'')
             | Some e \<Rightarrow> (OperationStateFailed, ''binding failed on error: '' @ Error e))
      in snd (bopUpdateStateDesc d (in_ID (bi_instance input)) (bi_bindingID input)
                (bi_operationID input) opState (Some opDesc) s1))"

section \<open>The handlers\<close>

definition validateBindRequest ::
  "InstanceID \<Rightarrow> BindingID \<Rightarrow> ServiceID \<Rightarrow> ServicePlanID \<Rightarrow> error option" where
  "validateBindRequest iID bID svcID svcPlanID =
     (if IsZero iID then Some (ErrorString ''instance id must not be empty'')
      else if IsZero bID then Some (ErrorString ''binding id must not be empty'')
      else if IsZero svcID then Some (ErrorString ''service id must not be empty'')
      else if IsZero svcPlanID then Some (ErrorString ''service plan id must not be empty'')
      else None)"

definition prepareBindInput ::
  "'s deps \<Rightarrow> OsbContext \<Rightarrow> InstanceID \<Rightarrow> BindingID \<Rightarrow> ServiceID \<Rightarrow> ServicePlanID \<Rightarrow> OperationID \<Rightarrow> 's
    \<Rightarrow> (nat \<times> string) + bindingInput" where
  "prepareBindInput d osbCtx iID bID svcID svcPlanID opID s =
     (case instGet d iID s of
        Inl err \<Rightarrow>
          Inl (if IsNotFoundError err then StatusBadRequest else StatusInternalServerError,
               ''while getting instance from storage for id: '' @ goQuote iID @ '' with error: '' @ Error err)
      | Inr inst \<Rightarrow>
          (case addonGetByID d (ctx_BrokerNamespace osbCtx) svcID s of
             Inl err \<Rightarrow>
               Inl (if IsNotFoundError err then StatusBadRequest else StatusInternalServerError,
                    ''while getting addon from storage in namespace '' @ goQuote (ctx_BrokerNamespace osbCtx) @
                    '' for id: '' @ goQuote svcID @ '' with error: '' @ Error err)
           | Inr addon \<Rightarrow>
               (case map_of (ad_Plans addon) svcPlanID of
                  None \<Rightarrow>
                    Inl (StatusBadRequest,
                         ''addon does not contain requested plan (planID: %!s(<nil>)): '' @ svcPlanID)
                | Some addonPlan \<Rightarrow>
                    Inr \<lparr>bi_brokerNamespace = ctx_BrokerNamespace osbCtx, bi_instance = inst,
                         bi_bindingID = bID, bi_operationID = opID, bi_addonPlan = addonPlan,
                         bi_isAddonBindable = ad_Bindable addon\<rparr>)))"

definition prepareBindOperation ::
  "'s deps \<Rightarrow> InstanceID \<Rightarrow> BindingID \<Rightarrow> 's \<Rightarrow> ((nat \<times> string) + BindOperation) \<times> 's" where
  "prepareBindOperation d iID bID s =
     (case operationIDProvider d s of
        (Inl err, s1) \<Rightarrow>
          (Inl (StatusInternalServerError, ''while preparing bind operation: '' @ Error err), s1)
      | (Inr opID, s1) \<Rightarrow>
          (Inr (EmptyBindOperation\<lparr>bo_InstanceID := iID, bo_BindingID := bID, bo_OperationID := opID,
                  bo_Type := OperationTypeCreate, bo_State := OperationStateInProgress\<rparr>), s1))"

definition getInstanceBindData :: "'s deps \<Rightarrow> InstanceID \<Rightarrow> 's \<Rightarrow> InstanceBindData result" where
  "getInstanceBindData d iID s = ibdGet d iID s"

definition dtoFromModel :: "InstanceCredentials \<Rightarrow> jobject" where
  "dtoFromModel creds = map (\<lambda>(k, v). (k, JStr v)) creds"

text \<open>
  The branch of a binding that exists. The goroutine is started before the bind data are read,
  so that its task may run before the read, between the read and the removal of the data, or
  after the reply; the schedule says which. A task that has not run when the handler returns
  is returned with the reply. The message on a failed read prints the variable \<open>err\<close>, which is a
  nil pointer to an HTTP error at that point; \<open>%v\<close> prints it as \<open><nil>\<close>.
\<close>

datatype taskSchedule = BeforeRead | BeforeRemove | AfterReply

definition bind_bound ::
  "'s deps \<Rightarrow> taskSchedule \<Rightarrow> OsbContext \<Rightarrow> BindRequest \<Rightarrow> OperationID \<Rightarrow> 's
    \<Rightarrow> BindResponse reply \<times> bindingInput option \<times> 's" where
  "bind_bound d sched osbCtx req opID s =
     (case prepareBindInput d osbCtx (br_InstanceID req) (br_BindingID req) (br_ServiceID req)
             (br_PlanID req) opID s of
        Inl (code, msg) \<Rightarrow> (Failure code msg, None, s)
      | Inr bindInput \<Rightarrow>
          let s1 = (if sched = BeforeRead then bind_do d bindInput s else s);
              out = getInstanceBindData d (br_InstanceID req) s1;
              s2 = (if sched = BeforeRemove then bind_do d bindInput s1 else s1);
              pending = (if sched = AfterReply then Some bindInput else None)
          in (case out of
                Inl _ \<Rightarrow>
                  (Failure StatusBadRequest
                     (''while getting bind data from storage for instance id: '' @ goQuote (br_InstanceID req) @
                      '' and service binding id: '' @ goQuote (br_BindingID req) @ '' with error: <nil>''),
                   pending, s2)
              | Inr ibd \<Rightarrow>
                  (Reply \<lparr>bre_Async = False, bre_OperationKey = None,
                          bre_Credentials = Some (dtoFromModel (bd_Credentials ibd))\<rparr>,
                   pending, snd (ibdRemove d (br_InstanceID req) s2))))"

definition bind_new ::
  "'s deps \<Rightarrow> OsbContext \<Rightarrow> BindRequest \<Rightarrow> 's \<Rightarrow> BindResponse reply \<times> bindingInput option \<times> 's" where
  "bind_new d osbCtx req s =
     (case prepareBindOperation d (br_InstanceID req) (br_BindingID req) s of
        (Inl (code, msg), s1) \<Rightarrow> (Failure code msg, None, s1)
      | (Inr op, s1) \<Rightarrow>
          (case bopInsert d op s1 of
             (Some err, s2) \<Rightarrow>
               (Failure StatusInternalServerError
                  (''while inserting instance operation to storage: '' @ Error err), None, s2)
           | (None, s2) \<Rightarrow>
               (case prepareBindInput d osbCtx (br_InstanceID req) (br_BindingID req) (br_ServiceID req)
                       (br_PlanID req) (bo_OperationID op) s2 of
                  Inl (code, msg) \<Rightarrow> (Failure code msg, None, s2)
                | Inr bindInput \<Rightarrow>
                    (Reply \<lparr>bre_Async = True, bre_OperationKey = Some (bo_OperationID op),
                            bre_Credentials = None\<rparr>, Some bindInput, s2))))"

definition Bind ::
  "'s deps \<Rightarrow> taskSchedule \<Rightarrow> OsbContext \<Rightarrow> BindRequest \<Rightarrow> 's \<Rightarrow> BindResponse reply \<times> bindingInput option \<times> 's" where
  "Bind d sched osbCtx req s =
     (if (case br_Parameters req of None \<Rightarrow> False | Some m \<Rightarrow> length m > 0)
      then (Failure StatusBadRequest
              ''helm-broker does not support configuration options for the service binding'', None, s)
      else if \<not> br_AcceptsIncomplete req
      then (Failure StatusBadRequest ''asynchronous operation mode required'', None, s)
      else
        (case validateBindRequest (br_InstanceID req) (br_BindingID req) (br_ServiceID req) (br_PlanID req) of
           Some err \<Rightarrow>
             (Failure StatusBadRequest (''while validating bind request: '' @ Error err), None, s)
         | None \<Rightarrow>
             (case IsBindingInProgress d (br_InstanceID req) (br_BindingID req) s of
                Inl err \<Rightarrow>
                  (Failure StatusInternalServerError
                     (''while checking if service binding is being created: '' @ Error err), None, s)
              | Inr (opIDInProgress, True) \<Rightarrow>
                  (Reply \<lparr>bre_Async = True, bre_OperationKey = Some opIDInProgress,
                          bre_Credentials = None\<rparr>, None, s)
              | Inr (_, False) \<Rightarrow>
                  (case IsBound d (br_InstanceID req) (br_BindingID req) s of
                     Inl err \<Rightarrow>
                       (Failure StatusInternalServerError
                          (''while checking if service binding for service instance already exists: '' @
                           Error err), None, s)
                   | Inr (bindOp, True) \<Rightarrow> bind_bound d sched osbCtx req (bo_OperationID bindOp) s
                   | Inr (_, False) \<Rightarrow> bind_new d osbCtx req s))))"

definition GetLastBindOperation ::
  "'s deps \<Rightarrow> (string \<Rightarrow> string) \<Rightarrow> InstanceID \<Rightarrow> BindingID \<Rightarrow> OperationID option \<Rightarrow> 's
    \<Rightarrow> LastOperationResponse result" where
  "GetLastBindOperation d sanitize iID bID operationKey s =
     (let opID = (case operationKey of None \<Rightarrow> '''' | Some k \<Rightarrow> k)
      in if IsZero iID \<or> IsZero bID \<or> IsZero opID
         then Inl (ErrorString (''all parameters: instance, binding and operation id must be set. InstanceID: '' @
                goQuote (sanitize iID) @ '' | BindingID: '' @ goQuote (sanitize bID) @
                '' | OperationID: '' @ goQuote (sanitize opID)))
         else
           (case bopGet d iID bID opID s of
              Inl err \<Rightarrow>
                Inl (if IsNotFoundError err then err else Wrapped err ''while getting bind operation'')
            | Inr op \<Rightarrow> Inr \<lparr>lo_State = bo_State op, lo_Description = bo_StateDescription op\<rparr>))"

definition GetBindData ::
  "'s deps \<Rightarrow> InstanceID \<Rightarrow> BindingID \<Rightarrow> 's \<Rightarrow> jobject reply \<times> 's" where
  "GetBindData d iID bID s =
     (case IsBindingInProgress d iID bID s of
        Inl err \<Rightarrow>
          (Failure StatusInternalServerError
             (''while checking if service binding is being created: '' @ Error err), s)
      | Inr (opIDInProgress, True) \<Rightarrow>
          (Failure StatusNotFound (''service binding id: '' @ goQuote opIDInProgress @ '' is in progress''), s)
      | Inr (_, False) \<Rightarrow>
          (case ibdGet d iID s of
             Inl err \<Rightarrow>
               (Failure StatusNotFound
                  (''while getting bind data from storage for instance id: '' @ goQuote iID @
                   '' and service binding id: '' @ goQuote bID @ '' with error: '' @ Error err), s)
           | Inr out \<Rightarrow> (Reply (dtoFromModel (bd_Credentials out)), snd (ibdRemove d iID s))))"

text \<open>\<open>Unbind\<close> does nothing and reports no error.\<close>

definition Unbind :: "'s \<Rightarrow> unit result \<times> 's" where
  "Unbind s = (Inr (), s)"

end
