(* ===== verification/Server.thy ===== *)
theory Server
  imports Catalog Provision Deprovision Bind
begin

text \<open>
  The HTTP layer of the broker: the middlewares (\<open>middleware.go\<close>, \<open>ctx.go\<close>), the decoding of
  request bodies (\<open>dto.go\<close> and the part of \<open>encoding/json\<close> it uses), the routes and the action
  of every route (\<open>server.go\<close>). \<open>sanitize.HTML\<close> is a parameter.
\<close>

section \<open>Requests and responses\<close>

text \<open>
  A request as the router hands it over: the method, the segments of the path, the query and the
  headers (absent ones read as the empty string), and the body, which is a JSON document or could
  not be read or parsed.
\<close>

datatype httpMethod = GET | PUT | DELETE | OtherMethod

record HttpRequest =
  rq_Method :: httpMethod
  rq_Path :: "string list"
  rq_Query :: "(string, string) gomap"
  rq_Header :: "(string, string) gomap"
  rq_Body :: "json result"

definition getOr :: "(string, string) gomap \<Rightarrow> string \<Rightarrow> string" where
  "getOr m k = (case map_of m k of None \<Rightarrow> '''' | Some v \<Rightarrow> v)"

text \<open>
  A response: its code and the value that \<open>writeResponse\<close> encodes as JSON and writes through
  \<open>sanitize.HTML\<close>. The catalog keeps its structure.
\<close>

datatype httpBody = BodyJson json | BodyCatalog "osbService list" | BodyRecovered

record HttpResponse =
  rs_Code :: nat
  rs_Body :: httpBody

definition StatusOK :: nat where "StatusOK = 200"
definition StatusAccepted :: nat where "StatusAccepted = 202"
definition StatusGone :: nat where "StatusGone = 410"
definition StatusPreconditionFailed :: nat where "StatusPreconditionFailed = 412"
definition StatusUnprocessableEntity :: nat where "StatusUnprocessableEntity = 422"

lemmas status_defs = StatusOK_def StatusAccepted_def StatusGone_def StatusPreconditionFailed_def
  StatusUnprocessableEntity_def StatusBadRequest_def StatusNotFound_def StatusConflict_def
  StatusInternalServerError_def

definition writeResponse :: "nat \<Rightarrow> json \<Rightarrow> HttpResponse" where
  "writeResponse code obj = \<lparr>rs_Code = code, rs_Body = BodyJson obj\<rparr>"

definition writeErrorResponse :: "(string \<Rightarrow> string) \<Rightarrow> nat \<Rightarrow> string \<Rightarrow> string \<Rightarrow> HttpResponse" where
  "writeErrorResponse sanitize code errorMsg desc =
     writeResponse code (JObj
       [(''error'', JStr (if errorMsg \<noteq> '''' then sanitize errorMsg else '''')),
        (''description'', JStr (if desc \<noteq> '''' then sanitize desc else ''''))])"

text \<open>The recovery middleware answers a panic of a handler by 500.\<close>

definition recovered :: HttpResponse where
  "recovered = \<lparr>rs_Code = StatusInternalServerError, rs_Body = BodyRecovered\<rparr>"

section \<open>Decoding of request bodies\<close>

text \<open>
  \<open>json.Unmarshal\<close> into a struct: an object sets the fields whose name matches a key without
  regard to the case of letters, in the order of the document; unknown keys and nulls are skipped;
  a value of another type is an error, reported once decoding is over.
\<close>

definition lowerChar :: "char \<Rightarrow> char" where
  "lowerChar c = (let n = of_char c :: nat in if 65 \<le> n \<and> n \<le> 90 then char_of (n + 32) else c)"

definition equalFold :: "string \<Rightarrow> string \<Rightarrow> bool" where
  "equalFold a b \<longleftrightarrow> map lowerChar a = map lowerChar b"

fun jsonTypeName :: "json \<Rightarrow> string" where
  "jsonTypeName JNull = ''null''"
| "jsonTypeName (JBool b) = ''bool''"
| "jsonTypeName (JNum n) = ''number''"
| "jsonTypeName (JStr s) = ''string''"
| "jsonTypeName (JArr xs) = ''array''"
| "jsonTypeName (JObj m) = ''object''"

definition typeError :: "json \<Rightarrow> string \<Rightarrow> string \<Rightarrow> error" where
  "typeError v field type =
     ErrorString (''json: cannot unmarshal '' @ jsonTypeName v @ '' into Go struct field '' @ field @
       '' of type '' @ type)"

text \<open>Decoding state: the first error and the value.\<close>

type_synonym 'a decoded = "error option \<times> 'a"

definition decodeString ::
  "string \<Rightarrow> string \<Rightarrow> json \<Rightarrow> (string \<Rightarrow> 'a \<Rightarrow> 'a) \<Rightarrow> 'a decoded \<Rightarrow> 'a decoded" where
  "decodeString field type v upd d =
     (case v of
        JStr s \<Rightarrow> (fst d, upd s (snd d))
      | JNull \<Rightarrow> d
      | _ \<Rightarrow> (case fst d of None \<Rightarrow> (Some (typeError v field type), snd d) | Some e \<Rightarrow> d))"

definition decodeMap ::
  "string \<Rightarrow> json \<Rightarrow> 'a decoded \<Rightarrow> ('a \<Rightarrow> jobject option) \<Rightarrow> (jobject \<Rightarrow> 'a \<Rightarrow> 'a) \<Rightarrow> 'a decoded" where
  "decodeMap field v d get upd =
     (case v of
        JObj m \<Rightarrow>
          (fst d, upd (fold (\<lambda>(k, x). AList.update k x) m (case get (snd d) of None \<Rightarrow> [] | Some o' \<Rightarrow> o')) (snd d))
      | JNull \<Rightarrow> d
      | _ \<Rightarrow> (case fst d of None \<Rightarrow> (Some (typeError v field ''map[string]interface {}''), snd d) | Some e \<Rightarrow> d))"

record contextDTO =
  cx_Platform :: string
  cx_Namespace :: Namespace

definition EmptyContextDTO :: contextDTO where
  "EmptyContextDTO = \<lparr>cx_Platform = '''', cx_Namespace = ''''\<rparr>"

fun decodeContext :: "jobject \<Rightarrow> contextDTO decoded \<Rightarrow> contextDTO decoded" where
  "decodeContext [] d = d"
| "decodeContext ((k, v) # m) d =
     decodeContext m
       (if equalFold k ''platform''
        then decodeString ''contextDTO.context.platform'' ''string'' v (\<lambda>s c. c\<lparr>cx_Platform := s\<rparr>) d
        else if equalFold k ''namespace''
        then decodeString ''contextDTO.context.namespace'' ''internal.Namespace'' v (\<lambda>s c. c\<lparr>cx_Namespace := s\<rparr>) d
        else d)"

definition decodeContextField ::
  "string \<Rightarrow> json \<Rightarrow> 'a decoded \<Rightarrow> ('a \<Rightarrow> contextDTO) \<Rightarrow> (contextDTO \<Rightarrow> 'a \<Rightarrow> 'a) \<Rightarrow> 'a decoded" where
  "decodeContextField struct v d get upd =
     (case v of
        JObj m \<Rightarrow> (case decodeContext m (fst d, get (snd d)) of (e, c) \<Rightarrow> (e, upd c (snd d)))
      | JNull \<Rightarrow> d
      | _ \<Rightarrow> (case fst d of
               None \<Rightarrow> (Some (typeError v (struct @ ''.context'') ''broker.contextDTO''), snd d)
             | Some e \<Rightarrow> d))"

record ProvisionRequestDTO =
  pd_ServiceID :: ServiceID
  pd_PlanID :: ServicePlanID
  pd_OrganizationGUID :: string
  pd_SpaceGUID :: string
  pd_Parameters :: "jobject option"
  pd_Context :: contextDTO

definition EmptyProvisionRequestDTO :: ProvisionRequestDTO where
  "EmptyProvisionRequestDTO = \<lparr>pd_ServiceID = '''', pd_PlanID = '''', pd_OrganizationGUID = '''', pd_SpaceGUID = '''',
     pd_Parameters = None, pd_Context = EmptyContextDTO\<rparr>"

definition decodeProvisionField ::
  "string \<Rightarrow> json \<Rightarrow> ProvisionRequestDTO decoded \<Rightarrow> ProvisionRequestDTO decoded" where
  "decodeProvisionField k v d =
     (if equalFold k ''service_id''
      then decodeString ''ProvisionRequestDTO.service_id'' ''internal.ServiceID'' v (\<lambda>s x. x\<lparr>pd_ServiceID := s\<rparr>) d
      else if equalFold k ''plan_id''
      then decodeString ''ProvisionRequestDTO.plan_id'' ''internal.ServicePlanID'' v (\<lambda>s x. x\<lparr>pd_PlanID := s\<rparr>) d
      else if equalFold k ''organization_guid''
      then decodeString ''ProvisionRequestDTO.organization_guid'' ''string'' v (\<lambda>s x. x\<lparr>pd_OrganizationGUID := s\<rparr>) d
      else if equalFold k ''space_guid''
      then decodeString ''ProvisionRequestDTO.space_guid'' ''string'' v (\<lambda>s x. x\<lparr>pd_SpaceGUID := s\<rparr>) d
      else if equalFold k ''parameters''
      then decodeMap ''ProvisionRequestDTO.parameters'' v d pd_Parameters (\<lambda>m x. x\<lparr>pd_Parameters := Some m\<rparr>)
      else if equalFold k ''context''
      then decodeContextField ''ProvisionRequestDTO'' v d pd_Context (\<lambda>c x. x\<lparr>pd_Context := c\<rparr>)
      else d)"

record BindParametersDTO =
  bp_ServiceID :: ServiceID
  bp_PlanID :: ServicePlanID
  bp_Parameters :: "jobject option"
  bp_Context :: contextDTO

definition EmptyBindParametersDTO :: BindParametersDTO where
  "EmptyBindParametersDTO = \<lparr>bp_ServiceID = '''', bp_PlanID = '''', bp_Parameters = None, bp_Context = EmptyContextDTO\<rparr>"

definition decodeBindField ::
  "string \<Rightarrow> json \<Rightarrow> BindParametersDTO decoded \<Rightarrow> BindParametersDTO decoded" where
  "decodeBindField k v d =
     (if equalFold k ''service_id''
      then decodeString ''BindParametersDTO.service_id'' ''internal.ServiceID'' v (\<lambda>s x. x\<lparr>bp_ServiceID := s\<rparr>) d
      else if equalFold k ''plan_id''
      then decodeString ''BindParametersDTO.plan_id'' ''internal.ServicePlanID'' v (\<lambda>s x. x\<lparr>bp_PlanID := s\<rparr>) d
      else if equalFold k ''parameters''
      then decodeMap ''BindParametersDTO.parameters'' v d bp_Parameters (\<lambda>m x. x\<lparr>bp_Parameters := Some m\<rparr>)
      else if equalFold k ''context''
      then decodeContextField ''BindParametersDTO'' v d bp_Context (\<lambda>c x. x\<lparr>bp_Context := c\<rparr>)
      else d)"

fun decodeFields :: "(string \<Rightarrow> json \<Rightarrow> 'a decoded \<Rightarrow> 'a decoded) \<Rightarrow> jobject \<Rightarrow> 'a decoded \<Rightarrow> 'a decoded" where
  "decodeFields f [] d = d"
| "decodeFields f ((k, v) # m) d = decodeFields f m (f k v d)"

definition httpBodyToDTO ::
  "string \<Rightarrow> (string \<Rightarrow> json \<Rightarrow> 'a decoded \<Rightarrow> 'a decoded) \<Rightarrow> 'a \<Rightarrow> HttpRequest \<Rightarrow> 'a result" where
  "httpBodyToDTO struct f zero r =
     (case rq_Body r of
        Inl err \<Rightarrow> Inl err
      | Inr (JObj m) \<Rightarrow>
          (case decodeFields f m (None, zero) of
             (Some err, _) \<Rightarrow> Inl err
           | (None, dto) \<Rightarrow> Inr dto)
      | Inr JNull \<Rightarrow> Inr zero
      | Inr v \<Rightarrow> Inl (ErrorString (''json: cannot unmarshal '' @ jsonTypeName v @
                  '' into Go value of type broker.'' @ struct)))"

definition ProvisionRequestDTO_Validate :: "ProvisionRequestDTO \<Rightarrow> error option" where
  "ProvisionRequestDTO_Validate p =
     (if pd_OrganizationGUID p = '''' then Some (ErrorString ''OrganizationGUID must be non-empty string'')
      else if pd_SpaceGUID p = '''' then Some (ErrorString ''SpaceGUID must be non-empty string'')
      else None)"

definition BindParametersDTO_Validate :: "BindParametersDTO \<Rightarrow> error option" where
  "BindParametersDTO_Validate p =
     (if bp_PlanID p = '''' then Some (ErrorString ''PlanID must be non-empty string'')
      else if bp_ServiceID p = '''' then Some (ErrorString ''ServiceID must be non-empty string'')
      else None)"

section \<open>Context and middlewares\<close>

definition osbAPIVersion :: string where
  "osbAPIVersion = ''2.14''"

definition PlatformKubernetes :: string where
  "PlatformKubernetes = ''kubernetes''"

definition validateAPIVersion :: "OsbContext \<Rightarrow> error option" where
  "validateAPIVersion ctx =
     (if ctx_APIVersion ctx \<noteq> osbAPIVersion
      then Some (ErrorString (''while checking '' @ [CHR 0x27] @ ''X-Broker-API-Version'' @ [CHR 0x27] @
             '' header, should be '' @ osbAPIVersion @ '', got '' @ ctx_APIVersion ctx))
      else None)"

definition validateOriginatingIdentity :: "OsbContext \<Rightarrow> error option" where
  "validateOriginatingIdentity ctx =
     (if ctx_OriginatingIdentity ctx \<noteq> '''' \<and> \<not> strContains (ctx_OriginatingIdentity ctx) PlatformKubernetes
      then Some (ErrorString (''while checking '' @ [CHR 0x27] @ ''X-Broker-API-Originating-Identity'' @ [CHR 0x27] @
             '' header, should be '' @ PlatformKubernetes @ '', got '' @ ctx_OriginatingIdentity ctx))
      else None)"

definition requestContext :: "Namespace \<Rightarrow> HttpRequest \<Rightarrow> OsbContext" where
  "requestContext brokerNamespace r =
     \<lparr>ctx_APIVersion = getOr (rq_Header r) ''X-Broker-API-Version'',
      ctx_OriginatingIdentity = getOr (rq_Header r) ''X-Broker-API-Originating-Identity'',
      ctx_BrokerNamespace = (if brokerNamespace = '''' then ClusterWide else brokerNamespace)\<rparr>"

text \<open>A middleware answers the request itself or lets it pass.\<close>

definition OSBContextMiddleware ::
  "(string \<Rightarrow> string) \<Rightarrow> Namespace \<Rightarrow> HttpRequest \<Rightarrow> HttpResponse + OsbContext" where
  "OSBContextMiddleware sanitize ns r =
     (let osbCtx = requestContext ns r
      in case validateAPIVersion osbCtx of
           Some err \<Rightarrow>
             Inl (writeErrorResponse sanitize StatusPreconditionFailed (Error err)
               (''Requests requires the '' @ [CHR 0x27] @ ''X-Broker-API-Version'' @ [CHR 0x27] @ '' header specified''))
         | None \<Rightarrow>
             (case validateOriginatingIdentity osbCtx of
                Some err \<Rightarrow>
                  Inl (writeErrorResponse sanitize StatusPreconditionFailed (Error err)
                    (''Requests requires the '' @ [CHR 0x27] @ ''X-Broker-API-Originating-Identity'' @ [CHR 0x27] @
                     '' header specified''))
              | None \<Rightarrow> Inr osbCtx))"

definition RequireAsyncMiddleware :: "(string \<Rightarrow> string) \<Rightarrow> HttpRequest \<Rightarrow> HttpResponse option" where
  "RequireAsyncMiddleware sanitize r =
     (if getOr (rq_Query r) ''accepts_incomplete'' \<noteq> ''true''
      then Some (writeErrorResponse sanitize StatusUnprocessableEntity ''AsyncRequired''
             ''This service plan requires client support for asynchronous service operations.'')
      else None)"

section \<open>Actions\<close>

text \<open>
  An action answers and may leave a task running. \<open>Panic\<close> of a handler, or a reply that is
  asynchronous without a key, is answered by the recovery middleware.
\<close>

datatype serverTask =
    RunProvision provisioningInput
  | RunDeprovision Instance OperationID
  | RunBind bindingInput

type_synonym 's action = "HttpResponse \<times> serverTask option \<times> 's"

definition sanitizeParameter :: "(string \<Rightarrow> string) \<Rightarrow> string \<Rightarrow> string" where
  "sanitizeParameter sanitize p = sanitize (filter (\<lambda>c. c \<noteq> CHR 0x0D) (filter (\<lambda>c. c \<noteq> CHR 0x0A) p))"

definition optParam :: "string \<Rightarrow> string option" where
  "optParam p = (if p \<noteq> '''' then Some p else None)"

definition operationDTO :: "OperationID \<Rightarrow> json" where
  "operationDTO opID = JObj [(''dashboard_url'', JNull), (''operation'', JStr opID)]"

definition lastOperationDTO :: "LastOperationResponse \<Rightarrow> json" where
  "lastOperationDTO resp =
     JObj ((''state'', JStr (lo_State resp)) #
       (case lo_Description resp of None \<Rightarrow> [] | Some desc \<Rightarrow> [(''description'', JStr desc)]))"

definition credentialsDTO :: "jobject option \<Rightarrow> json" where
  "credentialsDTO creds =
     JObj (case creds of None \<Rightarrow> [] | Some [] \<Rightarrow> [] | Some m \<Rightarrow> [(''credentials'', JObj m)])"

definition catalogAction :: "'s deps \<Rightarrow> (string \<Rightarrow> string) \<Rightarrow> OsbContext \<Rightarrow> 's \<Rightarrow> 's action" where
  "catalogAction d sanitize osbCtx s =
     (case GetCatalog d osbCtx s of
        Inl err \<Rightarrow> (writeErrorResponse sanitize StatusBadRequest (Error err) '''', None, s)
      | Inr services \<Rightarrow> (\<lparr>rs_Code = StatusOK, rs_Body = BodyCatalog services\<rparr>, None, s))"

definition provisionRequest :: "string \<Rightarrow> ProvisionRequestDTO \<Rightarrow> ProvisionRequest" where
  "provisionRequest instanceID inDTO =
     \<lparr>pr_InstanceID = instanceID, pr_AcceptsIncomplete = True, pr_ServiceID = pd_ServiceID inDTO,
      pr_PlanID = pd_PlanID inDTO, pr_Parameters = pd_Parameters inDTO,
      pr_Context = [(''namespace'', JStr (cx_Namespace (pd_Context inDTO)))]\<rparr>"

definition provisionAction ::
  "'s deps \<Rightarrow> (string \<Rightarrow> string) \<Rightarrow> OsbContext \<Rightarrow> string \<Rightarrow> HttpRequest \<Rightarrow> 's \<Rightarrow> 's action" where
  "provisionAction d sanitize osbCtx instanceID r s =
     (case httpBodyToDTO ''ProvisionRequestDTO'' decodeProvisionField EmptyProvisionRequestDTO r of
        Inl err \<Rightarrow> (writeErrorResponse sanitize StatusBadRequest (Error err) '''', None, s)
      | Inr inDTO \<Rightarrow>
          (case ProvisionRequestDTO_Validate inDTO of
             Some err \<Rightarrow> (writeErrorResponse sanitize StatusBadRequest (Error err) '''', None, s)
           | None \<Rightarrow>
               (case Provision d osbCtx (provisionRequest instanceID inDTO) s of
                  (rep, t, s1) \<Rightarrow>
                    (case rep of
                       Panic \<Rightarrow> (recovered, map_option RunProvision t, s1)
                     | Failure code msg \<Rightarrow>
                         (writeErrorResponse sanitize code msg '''', map_option RunProvision t, s1)
                     | Reply resp \<Rightarrow>
                         if \<not> ar_Async resp
                         then (writeResponse StatusOK (JObj []), map_option RunProvision t, s1)
                         else (case ar_OperationKey resp of
                                 None \<Rightarrow> (recovered, map_option RunProvision t, s1)
                               | Some opID \<Rightarrow>
                                   (writeResponse StatusAccepted (operationDTO opID),
                                    map_option RunProvision t, s1))))))"

definition deprovisionAction ::
  "'s deps \<Rightarrow> (string \<Rightarrow> string) \<Rightarrow> OsbContext \<Rightarrow> string \<Rightarrow> HttpRequest \<Rightarrow> 's \<Rightarrow> 's action" where
  "deprovisionAction d sanitize osbCtx instanceIDRaw r s =
     (let req = \<lparr>dr_InstanceID = sanitizeParameter sanitize instanceIDRaw, dr_AcceptsIncomplete = True,
                 dr_ServiceID = sanitizeParameter sanitize (getOr (rq_Query r) ''service_id''),
                 dr_PlanID = sanitizeParameter sanitize (getOr (rq_Query r) ''plan_id'')\<rparr>
      in case Deprovision d osbCtx req s of
           (res, t, s1) \<Rightarrow>
             let task = map_option (\<lambda>(i, opID). RunDeprovision i opID) t
             in (case res of
                   Inl err \<Rightarrow>
                     if IsNotFoundError err then (writeResponse StatusGone (JObj []), task, s1)
                     else (writeErrorResponse sanitize StatusBadRequest (Error err) '''', task, s1)
                 | Inr resp \<Rightarrow>
                     if \<not> ar_Async resp then (writeResponse StatusGone (JObj []), task, s1)
                     else (case ar_OperationKey resp of
                             None \<Rightarrow> (recovered, task, s1)
                           | Some opID \<Rightarrow> (writeResponse StatusAccepted (operationDTO opID), task, s1))))"

definition getServiceInstanceLastOperationAction ::
  "'s deps \<Rightarrow> (string \<Rightarrow> string) \<Rightarrow> OsbContext \<Rightarrow> string \<Rightarrow> HttpRequest \<Rightarrow> 's \<Rightarrow> 's action" where
  "getServiceInstanceLastOperationAction d sanitize osbCtx instanceIDRaw r s =
     (let instanceID = sanitizeParameter sanitize instanceIDRaw;
          opKey = optParam (sanitizeParameter sanitize (getOr (rq_Query r) ''operation''))
      in case GetLastOperation d instanceID opKey s of
           Inl err \<Rightarrow>
             if IsNotFoundError err then (writeResponse StatusGone (JObj []), None, s)
             else (writeErrorResponse sanitize StatusBadRequest (Error err) '''', None, s)
         | Inr resp \<Rightarrow> (writeResponse StatusOK (lastOperationDTO resp), None, s))"

definition bindAction ::
  "'s deps \<Rightarrow> taskSchedule \<Rightarrow> (string \<Rightarrow> string) \<Rightarrow> OsbContext \<Rightarrow> string \<Rightarrow> string \<Rightarrow> HttpRequest \<Rightarrow> 's
    \<Rightarrow> 's action" where
  "bindAction d sched sanitize osbCtx instanceIDRaw bindingIDRaw r s =
     (case httpBodyToDTO ''BindParametersDTO'' decodeBindField EmptyBindParametersDTO r of
        Inl err \<Rightarrow>
          (writeErrorResponse sanitize StatusBadRequest (Error err)
             ''cannot get bind parameters from request body'', None, s)
      | Inr params \<Rightarrow>
          (case BindParametersDTO_Validate params of
             Some err \<Rightarrow> (writeErrorResponse sanitize StatusBadRequest (Error err) '''', None, s)
           | None \<Rightarrow>
               (let req = \<lparr>br_InstanceID = sanitizeParameter sanitize instanceIDRaw,
                           br_BindingID = sanitizeParameter sanitize bindingIDRaw,
                           br_AcceptsIncomplete = True, br_ServiceID = bp_ServiceID params,
                           br_PlanID = bp_PlanID params, br_Parameters = bp_Parameters params\<rparr>
                in case Bind d sched osbCtx req s of
                     (rep, t, s1) \<Rightarrow>
                       (case rep of
                          Panic \<Rightarrow> (recovered, map_option RunBind t, s1)
                        | Failure code msg \<Rightarrow>
                            (writeErrorResponse sanitize code msg '''', map_option RunBind t, s1)
                        | Reply resp \<Rightarrow>
                            if \<not> bre_Async resp
                            then (writeResponse StatusOK (credentialsDTO (bre_Credentials resp)),
                                  map_option RunBind t, s1)
                            else (case bre_OperationKey resp of
                                    None \<Rightarrow> (recovered, map_option RunBind t, s1)
                                  | Some opID \<Rightarrow>
                                      (writeResponse StatusAccepted (JObj [(''operation'', JStr opID)]),
                                       map_option RunBind t, s1))))))"

definition unBindAction :: "'s \<Rightarrow> 's action" where
  "unBindAction s = (writeResponse StatusGone (JObj []), None, s)"

definition getServiceBinding ::
  "'s deps \<Rightarrow> (string \<Rightarrow> string) \<Rightarrow> OsbContext \<Rightarrow> string \<Rightarrow> string \<Rightarrow> 's \<Rightarrow> 's action" where
  "getServiceBinding d sanitize osbCtx instanceIDRaw bindingIDRaw s =
     (case GetBindData d (sanitizeParameter sanitize instanceIDRaw) (sanitizeParameter sanitize bindingIDRaw) s of
        (Panic, s1) \<Rightarrow> (recovered, None, s1)
      | (Failure code msg, s1) \<Rightarrow> (writeErrorResponse sanitize code msg '''', None, s1)
      | (Reply creds, s1) \<Rightarrow> (writeResponse StatusOK (credentialsDTO (Some creds)), None, s1))"

definition getServiceBindingLastOperationAction ::
  "'s deps \<Rightarrow> (string \<Rightarrow> string) \<Rightarrow> OsbContext \<Rightarrow> string \<Rightarrow> string \<Rightarrow> HttpRequest \<Rightarrow> 's \<Rightarrow> 's action" where
  "getServiceBindingLastOperationAction d sanitize osbCtx instanceIDRaw bindingIDRaw r s =
     (let instanceID = sanitize (sanitizeParameter sanitize instanceIDRaw);
          bindingID = sanitize (sanitizeParameter sanitize bindingIDRaw);
          opKey = optParam (getOr (rq_Query r) ''operation'')
      in case GetLastBindOperation d sanitize instanceID bindingID opKey s of
           Inl err \<Rightarrow>
             if IsNotFoundError err then (writeResponse StatusGone (JObj []), None, s)
             else (writeErrorResponse sanitize StatusInternalServerError (Error err) '''', None, s)
         | Inr resp \<Rightarrow> (writeResponse StatusOK (lastOperationDTO resp), None, s))"

section \<open>Routes\<close>

datatype route =
    CatalogRoute
  | LastOperationRoute string
  | GetBindingRoute string string
  | UnbindRoute string string
  | BindLastOperationRoute string string
  | ProvisionRoute string
  | DeprovisionRoute string
  | BindRoute string string

text \<open>A path variable matches a segment that is not empty.\<close>

fun handleRouter :: "httpMethod \<Rightarrow> string list \<Rightarrow> route option" where
  "handleRouter m path =
     (case path of
        [v2, a] \<Rightarrow> if v2 = ''v2'' \<and> a = ''catalog'' \<and> m = GET then Some CatalogRoute else None
      | [v2, a, i] \<Rightarrow>
          if v2 = ''v2'' \<and> a = ''service_instances'' \<and> i \<noteq> ''''
          then (case m of PUT \<Rightarrow> Some (ProvisionRoute i) | DELETE \<Rightarrow> Some (DeprovisionRoute i) | _ \<Rightarrow> None)
          else None
      | [v2, a, i, l] \<Rightarrow>
          if v2 = ''v2'' \<and> a = ''service_instances'' \<and> i \<noteq> '''' \<and> l = ''last_operation'' \<and> m = GET
          then Some (LastOperationRoute i) else None
      | [v2, a, i, sb, b] \<Rightarrow>
          if v2 = ''v2'' \<and> a = ''service_instances'' \<and> i \<noteq> '''' \<and> sb = ''service_bindings'' \<and> b \<noteq> ''''
          then (case m of GET \<Rightarrow> Some (GetBindingRoute i b) | DELETE \<Rightarrow> Some (UnbindRoute i b)
                | PUT \<Rightarrow> Some (BindRoute i b) | _ \<Rightarrow> None)
          else None
      | [v2, a, i, sb, b, l] \<Rightarrow>
          if v2 = ''v2'' \<and> a = ''service_instances'' \<and> i \<noteq> '''' \<and> sb = ''service_bindings'' \<and> b \<noteq> '''' \<and>
             l = ''last_operation'' \<and> m = GET
          then Some (BindLastOperationRoute i b) else None
      | _ \<Rightarrow> None)"

fun requiresAsync :: "route \<Rightarrow> bool" where
  "requiresAsync (ProvisionRoute i) = True"
| "requiresAsync (DeprovisionRoute i) = True"
| "requiresAsync (BindRoute i b) = True"
| "requiresAsync _ = False"

definition runAction ::
  "'s deps \<Rightarrow> taskSchedule \<Rightarrow> (string \<Rightarrow> string) \<Rightarrow> OsbContext \<Rightarrow> route \<Rightarrow> HttpRequest \<Rightarrow> 's \<Rightarrow> 's action" where
  "runAction d sched sanitize osbCtx rt r s =
     (case rt of
        CatalogRoute \<Rightarrow> catalogAction d sanitize osbCtx s
      | LastOperationRoute i \<Rightarrow> getServiceInstanceLastOperationAction d sanitize osbCtx i r s
      | GetBindingRoute i b \<Rightarrow> getServiceBinding d sanitize osbCtx i b s
      | UnbindRoute i b \<Rightarrow> unBindAction s
      | BindLastOperationRoute i b \<Rightarrow> getServiceBindingLastOperationAction d sanitize osbCtx i b r s
      | ProvisionRoute i \<Rightarrow> provisionAction d sanitize osbCtx i r s
      | DeprovisionRoute i \<Rightarrow> deprovisionAction d sanitize osbCtx i r s
      | BindRoute i b \<Rightarrow> bindAction d sched sanitize osbCtx i b r s)"

text \<open>The namespace of the broker and the rest of the path.\<close>

fun brokerPath :: "string list \<Rightarrow> (Namespace \<times> string list) option" where
  "brokerPath (p # path) =
     (if p = ''cluster'' then Some ('''', path)
      else if p = ''ns''
      then (case path of ns # rest \<Rightarrow> if ns \<noteq> '''' then Some (ns, rest) else None | [] \<Rightarrow> None)
      else None)"
| "brokerPath [] = None"

text \<open>\<open>CreateHandler\<close>: no route is the router's own answer and is None.\<close>

definition CreateHandler ::
  "'s deps \<Rightarrow> taskSchedule \<Rightarrow> (string \<Rightarrow> string) \<Rightarrow> HttpRequest \<Rightarrow> 's \<Rightarrow> 's action option" where
  "CreateHandler d sched sanitize r s =
     (case brokerPath (rq_Path r) of
        None \<Rightarrow> None
      | Some (ns, path) \<Rightarrow>
          (case handleRouter (rq_Method r) path of
             None \<Rightarrow> None
           | Some rt \<Rightarrow>
               (case OSBContextMiddleware sanitize ns r of
                  Inl resp \<Rightarrow> Some (resp, None, s)
                | Inr osbCtx \<Rightarrow>
                    (case (if requiresAsync rt then RequireAsyncMiddleware sanitize r else None) of
                       Some resp \<Rightarrow> Some (resp, None, s)
                     | None \<Rightarrow> Some (runAction d sched sanitize osbCtx rt r s)))))"

end
