(* ===== verification/Broker_Env.thy ===== *)
theory Broker_Env
  imports Provision Deprovision Bind
begin

text \<open>
  The contract between the broker and its collaborators, and what the handlers and tasks of the
  broker guarantee over any collaborators that keep it. The contract extends the one of the
  operation storage by the storages of instances and of bind data, and says that a call on one
  of them, on Helm or on the generator of identifiers leaves the others alone.
\<close>

locale broker_env =
  operation_storage "opInsert d" "opGet d" "opGetAll d" "opUpdateStateDesc d" ops invar
  for d :: "'s deps"
    and ops :: "'s \<Rightarrow> InstanceID \<Rightarrow> OperationID \<Rightarrow> InstanceOperation option"
    and invar :: "'s \<Rightarrow> bool" +
  fixes insts :: "'s \<Rightarrow> InstanceID \<Rightarrow> Instance option"
    and ibds :: "'s \<Rightarrow> InstanceID \<Rightarrow> InstanceBindData option"
  assumes instGet_eq: "instGet d i s = (case insts s i of None \<Rightarrow> Inl NotFoundError | Some x \<Rightarrow> Inr x)"
    and instGetAll_eq: "invar s \<Longrightarrow> \<exists>xs. instGetAll d s = Inr xs \<and> set xs = ran (insts s)"
    and instUpsert_refused: "in_ID x = '''' \<Longrightarrow> \<exists>e. instUpsert d x s = (Inl e, s)"
    and instUpsert_ok: "in_ID x \<noteq> '''' \<Longrightarrow> \<exists>r s'. instUpsert d x s = (Inr r, s') \<and>
      insts s' = (insts s)(in_ID x \<mapsto> x) \<and> ops s' = ops s \<and> ibds s' = ibds s \<and> (invar s \<longrightarrow> invar s')"
    and instRemove_eq: "\<exists>s'. instRemove d i s = (if insts s i = None then Some NotFoundError else None, s') \<and>
      insts s' = (insts s)(i := None) \<and> ops s' = ops s \<and> ibds s' = ibds s \<and> (invar s \<longrightarrow> invar s')"
    and ibdGet_eq: "ibdGet d i s = (case ibds s i of None \<Rightarrow> Inl NotFoundError | Some x \<Rightarrow> Inr x)"
    and ibdInsert_ok: "bd_InstanceID bd \<noteq> '''' \<Longrightarrow> ibds s (bd_InstanceID bd) = None \<Longrightarrow>
      \<exists>s'. ibdInsert d bd s = (None, s') \<and> ibds s' = (ibds s)(bd_InstanceID bd \<mapsto> bd) \<and>
      ops s' = ops s \<and> insts s' = insts s \<and> (invar s \<longrightarrow> invar s')"
    and ibdInsert_refused: "bd_InstanceID bd = '''' \<or> ibds s (bd_InstanceID bd) \<noteq> None \<Longrightarrow>
      \<exists>e. ibdInsert d bd s = (Some e, s)"
    and ibdRemove_eq: "\<exists>s'. ibdRemove d i s = (if ibds s i = None then Some NotFoundError else None, s') \<and>
      ibds s' = (ibds s)(i := None) \<and> ops s' = ops s \<and> insts s' = insts s \<and> (invar s \<longrightarrow> invar s')"
    and opInsert_frame: "insts (snd (opInsert d io s)) = insts s \<and> ibds (snd (opInsert d io s)) = ibds s"
    and opUpdate_frame: "insts (snd (opUpdateStateDesc d i opid st de s)) = insts s \<and>
      ibds (snd (opUpdateStateDesc d i opid st de s)) = ibds s"
    and helmInstall_frame: "helmInstall d c v r ns s = (res, s') \<Longrightarrow>
      ops s' = ops s \<and> insts s' = insts s \<and> ibds s' = ibds s \<and> (invar s \<longrightarrow> invar s')"
    and helmDelete_frame: "helmDelete d r ns s = (err, s') \<Longrightarrow>
      ops s' = ops s \<and> insts s' = insts s \<and> ibds s' = ibds s \<and> (invar s \<longrightarrow> invar s')"
    and idProvider_frame: "operationIDProvider d s = (rid, s') \<Longrightarrow>
      ops s' = ops s \<and> insts s' = insts s \<and> ibds s' = ibds s \<and> (invar s \<longrightarrow> invar s')"
begin

subsection \<open>Ending an operation\<close>

lemma finish_operation:
  assumes "invar s" "i \<noteq> ''''" "opid \<noteq> ''''" "ops s i opid = Some op"
  shows "ops (snd (opUpdateStateDesc d i opid st de s)) =
      (ops s)(i := (ops s i)(opid \<mapsto> op\<lparr>io_State := st, io_StateDescription := de\<rparr>))"
    and "invar (snd (opUpdateStateDesc d i opid st de s))"
    and "insts (snd (opUpdateStateDesc d i opid st de s)) = insts s"
    and "ibds (snd (opUpdateStateDesc d i opid st de s)) = ibds s"
  using UpdateStateDesc_found [OF assms] UpdateStateDesc_invar [OF assms(1)]
    opUpdate_frame [of i opid st de s] by auto

subsection \<open>The provisioning task\<close>

lemma instUpsert_cases:
  obtains (refused) e where "in_ID x = ''''" "instUpsert d x t = (Inl e, t)"
  | (stored) r t' where "in_ID x \<noteq> ''''" "instUpsert d x t = (Inr r, t')"
      "insts t' = (insts t)(in_ID x \<mapsto> x)" "ops t' = ops t" "ibds t' = ibds t" "invar t \<Longrightarrow> invar t'"
  using instUpsert_ok [of x t] instUpsert_refused [of x t] by (cases "in_ID x = ''''") blast+

lemma provision_fDo_frame:
  assumes "provision_fDo d input s = (err, s')"
  shows "ops s' = ops s \<and> ibds s' = ibds s \<and> (invar s \<longrightarrow> invar s') \<and>
    (err \<noteq> None \<longrightarrow> insts s' = insts s) \<and>
    (err = None \<longrightarrow> (\<exists>info. insts s' = (insts s)(in_ID (pi_instanceToUpdate input) \<mapsto>
       (pi_instanceToUpdate input)\<lparr>in_ReleaseInfo := info\<rparr>)))"
proof (cases "chartGet d (pi_brokerNamespace input) (cr_Name (pl_ChartRef (pi_addonPlan input)))
             (cr_Version (pl_ChartRef (pi_addonPlan input))) s")
  case (Inl e)
  with assms show ?thesis by (auto simp: provision_fDo_def)
next
  case chart: (Inr c)
  obtain res s1 where hi: "helmInstall d c (releaseValues input (pl_ChartValues (pi_addonPlan input)))
      (pi_releaseName input) (pi_namespace input) s = (res, s1)"
    by (meson surj_pair)
  note frame = helmInstall_frame [OF hi]
  show ?thesis
  proof (cases res)
    case (Inl e)
    with chart hi frame assms show ?thesis
      by (auto simp: provision_fDo_def deepCopy_def split: if_splits)
  next
    case (Inr resp)
    let ?x = "(pi_instanceToUpdate input)\<lparr>in_ReleaseInfo := EmptyReleaseInfo\<lparr>
      ri_ReleaseTime := Some (rel_LastDeployed resp), ri_Revision := rel_Version resp,
      ri_ConfigValues := rel_Config resp\<rparr>\<rparr>"
    show ?thesis
    proof (cases rule: instUpsert_cases [of ?x s1])
      case (refused e)
      with chart hi frame assms Inr show ?thesis
        by (auto simp: provision_fDo_def deepCopy_def)
    next
      case (stored r t')
      with chart hi assms Inr have "s' = t'" "err = None"
        by (simp_all add: provision_fDo_def deepCopy_def)
      with stored(3-6) frame show ?thesis by auto
    qed
  qed
qed

text \<open>
  The task always ends its operation: with \<open>succeeded\<close> exactly if the release was installed and
  the instance updated, and with \<open>failed\<close> and the reason otherwise.
\<close>

lemma provision_do_ends:
  assumes "invar s" "ops s (pi_instanceID input) (pi_operationID input) = Some op"
    "pi_instanceID input \<noteq> ''''" "pi_operationID input \<noteq> ''''"
  defines "err \<equiv> fst (provision_fDo d input s)"
  shows "ops (provision_do d input s) = (ops s)(pi_instanceID input :=
      (ops s (pi_instanceID input))(pi_operationID input \<mapsto>
        op\<lparr>io_State := (if err = None then OperationStateSucceeded else OperationStateFailed),
           io_StateDescription := Some (case err of None \<Rightarrow> ''provisioning succeeded''
             | Some e \<Rightarrow> ''provisioning failed on error: '' @ Error e)\<rparr>))"
    and "invar (provision_do d input s)"
    and "ibds (provision_do d input s) = ibds s"
    and "err \<noteq> None \<Longrightarrow> insts (provision_do d input s) = insts s"
    and "err = None \<Longrightarrow> \<exists>info. insts (provision_do d input s) =
      (insts s)(in_ID (pi_instanceToUpdate input) \<mapsto> (pi_instanceToUpdate input)\<lparr>in_ReleaseInfo := info\<rparr>)"
proof -
  obtain e s1 where fdo: "provision_fDo d input s = (e, s1)" by (meson surj_pair)
  note frame = provision_fDo_frame [OF fdo]
  with assms(1,2) have s1: "invar s1" "ops s1 (pi_instanceID input) (pi_operationID input) = Some op"
    by auto
  note fin = finish_operation [OF s1(1) assms(3,4) s1(2)]
  have eq: "provision_do d input s = snd (opUpdateStateDesc d (pi_instanceID input) (pi_operationID input)
      (if err = None then OperationStateSucceeded else OperationStateFailed)
      (Some (case err of None \<Rightarrow> ''provisioning succeeded''
             | Some e \<Rightarrow> ''provisioning failed on error: '' @ Error e)) s1)"
    by (auto simp: provision_do_def fdo err_def split: option.splits)
  show "ops (provision_do d input s) = (ops s)(pi_instanceID input :=
      (ops s (pi_instanceID input))(pi_operationID input \<mapsto>
        op\<lparr>io_State := (if err = None then OperationStateSucceeded else OperationStateFailed),
           io_StateDescription := Some (case err of None \<Rightarrow> ''provisioning succeeded''
             | Some e \<Rightarrow> ''provisioning failed on error: '' @ Error e)\<rparr>))"
    unfolding eq fin(1) using frame by simp
  show "invar (provision_do d input s)" unfolding eq by (rule fin(2))
  show "ibds (provision_do d input s) = ibds s" unfolding eq fin(4) using frame by simp
  show "err \<noteq> None \<Longrightarrow> insts (provision_do d input s) = insts s"
    unfolding eq fin(3) using frame by (simp add: err_def fdo)
  show "err = None \<Longrightarrow> \<exists>info. insts (provision_do d input s) =
      (insts s)(in_ID (pi_instanceToUpdate input) \<mapsto> (pi_instanceToUpdate input)\<lparr>in_ReleaseInfo := info\<rparr>)"
    unfolding eq fin(3) using frame by (simp add: err_def fdo)
qed

end

context broker_env
begin

subsection \<open>The deprovisioning task\<close>

lemma deprovision_fDo_frame:
  assumes "deprovision_fDo d inst s = (err, s')"
  shows "ops s' = ops s \<and> (invar s \<longrightarrow> invar s') \<and>
    (err \<noteq> None \<longrightarrow> insts s' = insts s \<and> ibds s' = ibds s) \<and>
    (err = None \<longrightarrow> insts s' = (insts s)(in_ID inst := None) \<and> ibds s' = (ibds s)(in_ID inst := None))"
proof -
  obtain derr s1 where hd: "helmDelete d (in_ReleaseName inst) (in_Namespace inst) s = (derr, s1)"
    by (meson surj_pair)
  note frame = helmDelete_frame [OF hd]
  show ?thesis
  proof (cases "case derr of None \<Rightarrow> False | Some e \<Rightarrow> \<not> IsReleaseNotFound e")
    case True
    with hd frame assms show ?thesis by (auto simp: deprovision_fDo_def)
  next
    case False
    from ibdRemove_eq [of "in_ID inst" s1] obtain s2 where
      rb: "ibdRemove d (in_ID inst) s1 = (if ibds s1 (in_ID inst) = None then Some NotFoundError else None, s2)"
      and f2: "ibds s2 = (ibds s1)(in_ID inst := None)" "ops s2 = ops s1" "insts s2 = insts s1"
        "invar s1 \<Longrightarrow> invar s2"
      by auto
    from instRemove_eq [of "in_ID inst" s2] obtain s3 where
      ri: "instRemove d (in_ID inst) s2 = (if insts s2 (in_ID inst) = None then Some NotFoundError else None, s3)"
      and f3: "insts s3 = (insts s2)(in_ID inst := None)" "ops s3 = ops s2" "ibds s3 = ibds s2"
        "invar s2 \<Longrightarrow> invar s3"
      by auto
    from False hd rb ri assms have "err = None" "s' = s3"
      by (auto simp: deprovision_fDo_def split: if_splits)
    with frame f2 f3 show ?thesis by auto
  qed
qed

lemma deprovision_do_ends:
  assumes "invar s" "ops s (in_ID inst) opID = Some op" "in_ID inst \<noteq> ''''" "opID \<noteq> ''''"
  defines "err \<equiv> fst (deprovision_fDo d inst s)"
  shows "ops (deprovision_do d inst opID s) = (ops s)(in_ID inst := (ops s (in_ID inst))(opID \<mapsto>
        op\<lparr>io_State := (if err = None then OperationStateSucceeded else OperationStateFailed),
           io_StateDescription := Some (case err of None \<Rightarrow> ''deprovisioning succeeded''
             | Some e \<Rightarrow> ''deprovisioning failed on error: '' @ Error e)\<rparr>))"
    and "invar (deprovision_do d inst opID s)"
    and "err = None \<Longrightarrow> insts (deprovision_do d inst opID s) = (insts s)(in_ID inst := None) \<and>
      ibds (deprovision_do d inst opID s) = (ibds s)(in_ID inst := None)"
    and "err \<noteq> None \<Longrightarrow> insts (deprovision_do d inst opID s) = insts s \<and>
      ibds (deprovision_do d inst opID s) = ibds s"
proof -
  obtain e s1 where fdo: "deprovision_fDo d inst s = (e, s1)" by (meson surj_pair)
  note frame = deprovision_fDo_frame [OF fdo]
  with assms(1,2) have s1: "invar s1" "ops s1 (in_ID inst) opID = Some op" by auto
  note fin = finish_operation [OF s1(1) assms(3,4) s1(2)]
  have eq: "deprovision_do d inst opID s = snd (opUpdateStateDesc d (in_ID inst) opID
      (if err = None then OperationStateSucceeded else OperationStateFailed)
      (Some (case err of None \<Rightarrow> ''deprovisioning succeeded''
             | Some e \<Rightarrow> ''deprovisioning failed on error: '' @ Error e)) s1)"
    by (auto simp: deprovision_do_def fdo err_def split: option.splits)
  show "ops (deprovision_do d inst opID s) = (ops s)(in_ID inst := (ops s (in_ID inst))(opID \<mapsto>
        op\<lparr>io_State := (if err = None then OperationStateSucceeded else OperationStateFailed),
           io_StateDescription := Some (case err of None \<Rightarrow> ''deprovisioning succeeded''
             | Some e \<Rightarrow> ''deprovisioning failed on error: '' @ Error e)\<rparr>))"
    unfolding eq fin(1) using frame by simp
  show "invar (deprovision_do d inst opID s)" unfolding eq by (rule fin(2))
  show "err = None \<Longrightarrow> insts (deprovision_do d inst opID s) = (insts s)(in_ID inst := None) \<and>
      ibds (deprovision_do d inst opID s) = (ibds s)(in_ID inst := None)"
    and "err \<noteq> None \<Longrightarrow> insts (deprovision_do d inst opID s) = insts s \<and>
      ibds (deprovision_do d inst opID s) = ibds s"
    unfolding eq fin(3,4) using frame by (simp_all add: err_def fdo)
qed

subsection \<open>The handlers\<close>

lemma opInsert_cases:
  assumes "invar s"
  obtains (refused) e s' where "opInsert d io s = (Some e, s')" "ops s' = ops s" "insts s' = insts s"
      "ibds s' = ibds s" "invar s'"
  | (accepted) now s' where "opInsert d io s = (None, s')" "io_InstanceID io \<noteq> ''''" "io_OperationID io \<noteq> ''''"
      "ops s (io_InstanceID io) (io_OperationID io) = None"
      "\<forall>op \<in> ran (ops s (io_InstanceID io)). \<not> in_progress op"
      "ops s' = (ops s)(io_InstanceID io :=
        (ops s (io_InstanceID io))(io_OperationID io \<mapsto> io\<lparr>io_CreatedAt := now\<rparr>))"
      "insts s' = insts s" "ibds s' = ibds s" "invar s'"
proof (cases "opInsert d io s")
  case (Pair r s')
  note frame = opInsert_frame [of io s] Insert_invar [OF assms, of io]
  show thesis
  proof (cases r)
    case None
    with Pair Insert_ok [OF assms, of io s'] frame accepted show thesis by auto
  next
    case (Some e)
    with Pair Insert_refused [OF assms, of io e s'] frame refused show thesis by auto
  qed
qed

lemma provision_accepted_outcome:
  assumes "pr_InstanceID req \<noteq> ''''" "provision_accepted d ctx req ns addon opID s = (rep, task, s')"
  shows "ops s' = ops s \<and> ibds s' = ibds s \<and> (invar s \<longrightarrow> invar s') \<and>
    (case task of
       None \<Rightarrow> map_of (ad_Plans addon) (pr_PlanID req) = None \<and> insts s' = insts s \<and>
         (\<exists>msg. rep = Failure StatusBadRequest msg)
     | Some input \<Rightarrow>
         rep = Reply \<lparr>ar_Async = True, ar_OperationKey = Some opID\<rparr> \<and>
         pi_instanceID input = pr_InstanceID req \<and> pi_operationID input = opID \<and>
         map_of (ad_Plans addon) (pr_PlanID req) = Some (pi_addonPlan input) \<and>
         in_ID (pi_instanceToUpdate input) = pr_InstanceID req \<and>
         insts s' = (insts s)(pr_InstanceID req \<mapsto> pi_instanceToUpdate input))"
proof (cases "map_of (ad_Plans addon) (pr_PlanID req)")
  case None
  with assms(2) show ?thesis by (auto simp: provision_accepted_def)
next
  case (Some plan)
  let ?i = "\<lparr>in_ID = pr_InstanceID req, in_ServiceID = pr_ServiceID req, in_ServicePlanID = pr_PlanID req,
      in_ReleaseName = createReleaseName (ad_Name addon) (pl_Name plan) (pr_InstanceID req), in_Namespace = ns,
      in_ReleaseInfo = EmptyReleaseInfo, in_ProvisioningParameters = Some \<lparr>rp_Data = pr_Parameters req\<rparr>,
      in_ParamsHash = ''''\<rparr>"
  show ?thesis
  proof (cases rule: instUpsert_cases [of ?i s])
    case (refused e)
    with assms(1) show ?thesis by simp
  next
    case (stored r t')
    with Some assms(2) have "s' = t'" "rep = Reply \<lparr>ar_Async = True, ar_OperationKey = Some opID\<rparr>"
      "\<exists>input. task = Some input \<and> pi_instanceID input = pr_InstanceID req \<and> pi_operationID input = opID \<and>
         pi_addonPlan input = plan \<and> pi_instanceToUpdate input = ?i"
      by (auto simp: provision_accepted_def Let_def)
    with Some stored(3-6) show ?thesis by auto
  qed
qed

end


text \<open>
  An accepted request: an operation that was not there before, with no other in progress, has
  been stored under the identifiers that the task carries.
\<close>

definition accepted_op ::
  "('s \<Rightarrow> InstanceID \<Rightarrow> OperationID \<Rightarrow> InstanceOperation option) \<Rightarrow> InstanceOperation \<Rightarrow> 's \<Rightarrow> 's \<Rightarrow> bool"
  where
  "accepted_op ops io s s' \<longleftrightarrow>
     io_InstanceID io \<noteq> '''' \<and> io_OperationID io \<noteq> '''' \<and>
     ops s (io_InstanceID io) (io_OperationID io) = None \<and>
     (\<forall>op \<in> ran (ops s (io_InstanceID io)). \<not> in_progress op) \<and>
     (\<exists>now. ops s' = (ops s)(io_InstanceID io :=
        (ops s (io_InstanceID io))(io_OperationID io \<mapsto> io\<lparr>io_CreatedAt := now\<rparr>)))"

definition provision_started ::
  "ProvisionRequest \<Rightarrow> AsyncResponse reply \<Rightarrow> provisioningInput \<Rightarrow> bool" where
  "provision_started req rep input \<longleftrightarrow>
     rep = Reply \<lparr>ar_Async = True, ar_OperationKey = Some (pi_operationID input)\<rparr> \<and>
     pi_instanceID input = pr_InstanceID req \<and>
     in_ID (pi_instanceToUpdate input) = pr_InstanceID req"

definition plan_missing ::
  "'s deps \<Rightarrow> OsbContext \<Rightarrow> ProvisionRequest \<Rightarrow> 's \<Rightarrow> bool" where
  "plan_missing d ctx req s \<longleftrightarrow>
     (\<exists>addon. addonGetByID d (ctx_BrokerNamespace ctx) (pr_ServiceID req) s = Inr addon \<and>
        map_of (ad_Plans addon) (pr_PlanID req) = None)"

context broker_env
begin

lemma provision_new_outcome:
  assumes "invar s" "provision_new d ctx req ns s = (rep, task, s')"
  shows "invar s' \<and> ibds s' = ibds s \<and>
    (case task of
       Some input \<Rightarrow> provision_started req rep input \<and>
         accepted_op ops (provision_op req (pi_operationID input)) s s' \<and>
         insts s' = (insts s)(pr_InstanceID req \<mapsto> pi_instanceToUpdate input)
     | None \<Rightarrow> (\<exists>code msg. rep = Failure code msg) \<and> insts s' = insts s \<and>
         (ops s' = ops s \<or>
          plan_missing d ctx req s \<and> (\<exists>opID. accepted_op ops (provision_op req opID) s s')))"
proof (cases "addonGetByID d (ctx_BrokerNamespace ctx) (pr_ServiceID req) s")
  case (Inl e)
  with assms show ?thesis by (auto simp: provision_new_def)
next
  case addon: (Inr addon)
  from instGetAll_eq [OF assms(1)] obtain xs where xs: "instGetAll d s = Inr xs" by blast
  obtain rid s1 where idp: "operationIDProvider d s = (rid, s1)" by (meson surj_pair)
  note f1 = idProvider_frame [OF idp]
  then have "invar s1" using assms(1) by simp
  show ?thesis
  proof (cases "IsProvisioningAllowed addon ns xs")
    case False
    with addon xs assms show ?thesis by (auto simp: provision_new_def)
  next
    case allowed: True
    show ?thesis
    proof (cases rid)
      case (Inl e)
      with addon xs allowed idp f1 assms show ?thesis by (auto simp: provision_new_def)
    next
      case (Inr opID)
      let ?io = "provision_op req opID"
      from \<open>invar s1\<close> show ?thesis
      proof (cases rule: opInsert_cases [where io = ?io])
        case (refused e s2)
        with addon xs allowed idp Inr f1 assms show ?thesis by (auto simp: provision_new_def)
      next
        case (accepted now s2)
        have acc: "accepted_op ops ?io s s2"
          using accepted(2-6) f1 by (auto simp: accepted_op_def)
        have step: "provision_accepted d ctx req ns addon opID s2 = (rep, task, s')"
          using assms(2) addon xs allowed idp Inr accepted(1) by (simp add: provision_new_def)
        have "pr_InstanceID req \<noteq> ''''" using accepted(2) by (simp add: provision_op_def)
        note out = provision_accepted_outcome [OF this step]
        with acc have acc': "accepted_op ops ?io s s'" by (simp add: accepted_op_def)
        show ?thesis
        proof (cases task)
          case None
          with out acc' accepted(7-9) f1 addon show ?thesis
            by (auto simp: plan_missing_def)
        next
          case (Some input)
          with out acc' accepted(7-9) f1 show ?thesis
            by (auto simp: provision_started_def)
        qed
      qed
    qed
  qed
qed

lemma requestedParametersAreDifferent_frame:
  assumes "requestedParametersAreDifferent d iID p s = (r, s')"
  shows "ops s' = ops s \<and> ibds s' = ibds s \<and> (invar s \<longrightarrow> invar s')"
proof (cases "instGet d iID s")
  case (Inl e)
  with assms show ?thesis by (auto simp: requestedParametersAreDifferent_def)
next
  case (Inr x)
  show ?thesis
  proof (cases "in_ParamsHash x = ''''")
    case True
    with Inr assms have "s' = s"
      by (simp add: requestedParametersAreDifferent_def split: if_splits)
    then show ?thesis by simp
  next
    case False
    show ?thesis
      using Inr False assms
      by (cases rule: instUpsert_cases [of "x\<lparr>in_ParamsHash := '''', in_ProvisioningParameters := Some p\<rparr>" s])
        (auto simp: requestedParametersAreDifferent_def)
  qed
qed

text \<open>What a call of \<open>Provision\<close> leaves behind, on every branch.\<close>

lemma Provision_outcome:
  assumes "invar s" "Provision d ctx req s = (rep, task, s')"
  shows "invar s' \<and> ibds s' = ibds s \<and>
    (case task of
       Some input \<Rightarrow> provision_started req rep input \<and>
         accepted_op ops (provision_op req (pi_operationID input)) s s' \<and>
         insts s' = (insts s)(pr_InstanceID req \<mapsto> pi_instanceToUpdate input)
     | None \<Rightarrow> ops s' = ops s \<or>
          plan_missing d ctx req s \<and> (\<exists>code msg. rep = Failure code msg) \<and> insts s' = insts s \<and>
          (\<exists>opID. accepted_op ops (provision_op req opID) s s'))"
proof -
  consider (new) ns where "provision_new d ctx req ns s = (rep, task, s')"
    | (same) "task = None" "s' = s"
    | (cmp) r where "task = None" "requestedParametersAreDifferent d (pr_InstanceID req)
        \<lparr>rp_Data = pr_Parameters req\<rparr> s = (r, s')"
    using assms(2)
    by (auto simp: Provision_def Let_def split: if_splits sum.splits bool.splits prod.splits option.splits)
  then show ?thesis
  proof cases
    case new
    from provision_new_outcome [OF assms(1) new] show ?thesis by (auto split: option.splits)
  next
    case same
    with assms(1) show ?thesis by simp
  next
    case cmp
    with assms(1) requestedParametersAreDifferent_frame [OF cmp(2)] show ?thesis by simp
  qed
qed

lemma deprovision_new_outcome:
  assumes "invar s" "deprovision_new d iID s = (rep, task, s')"
  shows "invar s' \<and> ibds s' = ibds s \<and> insts s' = insts s \<and>
    (case task of
       Some (inst, opID) \<Rightarrow> rep = Inr \<lparr>ar_Async = True, ar_OperationKey = Some opID\<rparr> \<and>
         insts s iID = Some inst \<and> accepted_op ops (deprovision_op iID opID) s s'
     | None \<Rightarrow> (\<exists>e. rep = Inl e) \<and> ops s' = ops s)"
proof -
  obtain rid s1 where idp: "operationIDProvider d s = (rid, s1)" by (meson surj_pair)
  note f1 = idProvider_frame [OF idp]
  then have "invar s1" using assms(1) by simp
  show ?thesis
  proof (cases rid)
    case (Inl e)
    with idp f1 assms show ?thesis by (auto simp: deprovision_new_def)
  next
    case opid: (Inr opID)
    show ?thesis
    proof (cases "insts s iID")
      case None
      with idp opid f1 assms show ?thesis by (auto simp: deprovision_new_def instGet_eq)
    next
      case (Some inst)
      from \<open>invar s1\<close> show ?thesis
      proof (cases rule: opInsert_cases [where io = "deprovision_op iID opID"])
        case (refused e s2)
        with idp opid Some f1 assms show ?thesis by (auto simp: deprovision_new_def instGet_eq)
      next
        case (accepted now s2)
        then have "accepted_op ops (deprovision_op iID opID) s s2"
          using f1 by (auto simp: accepted_op_def)
        with accepted(1,7-9) idp opid Some f1 assms show ?thesis
          by (auto simp: deprovision_new_def instGet_eq)
      qed
    qed
  qed
qed

lemma Deprovision_outcome:
  assumes "invar s" "Deprovision d ctx req s = (rep, task, s')"
  shows "invar s' \<and> ibds s' = ibds s \<and> insts s' = insts s \<and>
    (case task of
       Some (inst, opID) \<Rightarrow> rep = Inr \<lparr>ar_Async = True, ar_OperationKey = Some opID\<rparr> \<and>
         insts s (dr_InstanceID req) = Some inst \<and>
         accepted_op ops (deprovision_op (dr_InstanceID req) opID) s s'
     | None \<Rightarrow> ops s' = ops s)"
proof -
  consider (new) "deprovision_new d (dr_InstanceID req) s = (rep, task, s')"
    | (same) "task = None" "s' = s"
    using assms(2)
    by (auto simp: Deprovision_def Let_def split: if_splits sum.splits bool.splits prod.splits)
  then show ?thesis
  proof cases
    case new
    from deprovision_new_outcome [OF assms(1) new] show ?thesis by (auto split: option.splits)
  next
    case same
    with assms(1) show ?thesis by simp
  qed
qed

end


section \<open>Repeating a request\<close>

context broker_env
begin

lemma GetAll_cases:
  assumes "invar s"
  obtains xs where "opGetAll d i s = Inr xs" "set xs = ran (ops s i)"
  | "opGetAll d i s = Inl NotFoundError" "ran (ops s i) = {}"
  using GetAll_Inr [OF assms, of i] GetAll_Inl [OF assms, of i]
  by (cases "opGetAll d i s") auto

lemma IsProvisioned_ops:
  "invar s \<Longrightarrow> IsProvisioned d i s =
     Inr ((\<exists>op \<in> ran (ops s i). created op) \<and> (\<forall>op \<in> ran (ops s i). \<not> removed op))"
  by (rule GetAll_cases [of s i]) (auto simp: IsProvisioned_def provisionedLoop_iff)

lemma IsDeprovisioned_ops:
  "invar s \<Longrightarrow> ran (ops s i) \<noteq> {} \<Longrightarrow> IsDeprovisioned d i s = Inr (\<exists>op \<in> ran (ops s i). removed op)"
  by (rule GetAll_cases [of s i]) (auto simp: IsDeprovisioned_def deprovisionedLoop_iff)

lemma inProgress_ops:
  assumes "invar s"
  shows "\<exists>opid b. IsProvisioningInProgress d i s = Inr (opid, b) \<and>
      (b \<longleftrightarrow> (\<exists>op \<in> ran (ops s i). io_Type op = OperationTypeCreate \<and> in_progress op)) \<and>
      (b \<longrightarrow> (\<exists>op \<in> ran (ops s i). in_progress op \<and> io_OperationID op = opid))"
    and "\<exists>opid b. IsDeprovisioningInProgress d i s = Inr (opid, b) \<and>
      (b \<longleftrightarrow> (\<exists>op \<in> ran (ops s i). io_Type op = OperationTypeRemove \<and> in_progress op)) \<and>
      (b \<longrightarrow> (\<exists>op \<in> ran (ops s i). in_progress op \<and> io_OperationID op = opid))"
proof -
  have loop: "\<exists>opid b. inProgressLoop ty xs = (opid, b) \<and>
      (b \<longleftrightarrow> (\<exists>op \<in> set xs. io_Type op = ty \<and> in_progress op)) \<and>
      (b \<longrightarrow> (\<exists>op \<in> set xs. in_progress op \<and> io_OperationID op = opid))" for ty xs
    using inProgressLoop_iff [of ty xs] inProgressLoop_id [of ty xs]
    by (cases "inProgressLoop ty xs") auto
  show "\<exists>opid b. IsProvisioningInProgress d i s = Inr (opid, b) \<and>
      (b \<longleftrightarrow> (\<exists>op \<in> ran (ops s i). io_Type op = OperationTypeCreate \<and> in_progress op)) \<and>
      (b \<longrightarrow> (\<exists>op \<in> ran (ops s i). in_progress op \<and> io_OperationID op = opid))"
  proof (rule GetAll_cases [OF assms, of i])
    fix xs
    assume "opGetAll d i s = Inr xs" "set xs = ran (ops s i)"
    with loop [of OperationTypeCreate xs] show ?thesis by (simp add: IsProvisioningInProgress_def)
  qed (auto simp: IsProvisioningInProgress_def)
  show "\<exists>opid b. IsDeprovisioningInProgress d i s = Inr (opid, b) \<and>
      (b \<longleftrightarrow> (\<exists>op \<in> ran (ops s i). io_Type op = OperationTypeRemove \<and> in_progress op)) \<and>
      (b \<longrightarrow> (\<exists>op \<in> ran (ops s i). in_progress op \<and> io_OperationID op = opid))"
  proof (rule GetAll_cases [OF assms, of i])
    fix xs
    assume "opGetAll d i s = Inr xs" "set xs = ran (ops s i)"
    with loop [of OperationTypeRemove xs] show ?thesis by (simp add: IsDeprovisioningInProgress_def)
  qed (auto simp: IsDeprovisioningInProgress_def)
qed

text \<open>The only operation in progress after an accepted request is the new one.\<close>

lemma accepted_in_progress:
  assumes "accepted_op ops io s s'" "in_progress io"
  shows "(\<exists>op \<in> ran (ops s' (io_InstanceID io)). io_Type op = io_Type io \<and> in_progress op) \<and>
    (\<forall>op \<in> ran (ops s' (io_InstanceID io)). in_progress op \<longrightarrow> io_OperationID op = io_OperationID io) \<and>
    ran (ops s' (io_InstanceID io)) \<subseteq> ran (ops s (io_InstanceID io)) \<union> {op. in_progress op} \<and>
    ran (ops s (io_InstanceID io)) \<subseteq> ran (ops s' (io_InstanceID io))"
proof -
  from assms(1) obtain now where
    free: "ops s (io_InstanceID io) (io_OperationID io) = None"
      "\<forall>op \<in> ran (ops s (io_InstanceID io)). \<not> in_progress op" and
    s': "ops s' = (ops s)(io_InstanceID io :=
       (ops s (io_InstanceID io))(io_OperationID io \<mapsto> io\<lparr>io_CreatedAt := now\<rparr>))"
    by (auto simp: accepted_op_def)
  then have "ran (ops s' (io_InstanceID io)) =
      insert (io\<lparr>io_CreatedAt := now\<rparr>) (ran (ops s (io_InstanceID io)))"
    by (simp add: ran_map_upd)
  with free(2) assms(2) show ?thesis by (auto simp: in_progress_def)
qed

lemma Provision_was_new:
  assumes "Provision d ctx req s = (rep, Some input, s')"
  shows "IsProvisioned d (pr_InstanceID req) s = Inr False"
  using assms
  by (auto simp: Provision_def Let_def split: if_splits sum.splits bool.splits prod.splits option.splits)

lemma Provision_repeat:
  assumes "invar s" "Provision d ctx req s = (rep, Some input, s')"
    "pr_AcceptsIncomplete req'" "pr_InstanceID req' = pr_InstanceID req"
  shows "Provision d ctx' req' s' = (rep, None, s')"
proof -
  let ?i = "pr_InstanceID req" and ?io = "provision_op req (pi_operationID input)"
  from Provision_outcome [OF assms(1,2)] have "invar s'" and
    acc: "accepted_op ops ?io s s'" and rep: "provision_started req rep input" by auto
  have io: "in_progress ?io" "io_InstanceID ?io = ?i" "io_Type ?io = OperationTypeCreate"
    "io_OperationID ?io = pi_operationID input"
    by (simp_all add: provision_op_def in_progress_def)
  note now = accepted_in_progress [OF acc io(1), unfolded io]
  from Provision_was_new [OF assms(2)] IsProvisioned_ops [OF assms(1), of ?i]
  have "\<not> ((\<exists>op \<in> ran (ops s ?i). created op) \<and> (\<forall>op \<in> ran (ops s ?i). \<not> removed op))" by simp
  with now have "\<not> ((\<exists>op \<in> ran (ops s' ?i). created op) \<and> (\<forall>op \<in> ran (ops s' ?i). \<not> removed op))"
    by (auto simp: created_def in_progress_def)
  then have "IsProvisioned d ?i s' = Inr False"
    using IsProvisioned_ops [OF \<open>invar s'\<close>, of ?i] by simp
  moreover have "IsProvisioningInProgress d ?i s' = Inr (pi_operationID input, True)"
    using inProgress_ops(1) [OF \<open>invar s'\<close>, of ?i] now by auto
  ultimately show ?thesis
    using assms(3,4) rep by (simp add: Provision_def provision_started_def)
qed

lemma Deprovision_repeat:
  assumes "invar s" "Deprovision d ctx req s = (rep, Some (inst, opID), s')"
    "dr_AcceptsIncomplete req'" "dr_InstanceID req' = dr_InstanceID req"
  shows "Deprovision d ctx' req' s' = (rep, None, s')"
proof -
  let ?i = "dr_InstanceID req" and ?io = "deprovision_op (dr_InstanceID req) opID"
  from Deprovision_outcome [OF assms(1,2)] have "invar s'" and
    acc: "accepted_op ops ?io s s'" and rep: "rep = Inr \<lparr>ar_Async = True, ar_OperationKey = Some opID\<rparr>"
    by auto
  have io: "in_progress ?io" "io_InstanceID ?io = ?i" "io_Type ?io = OperationTypeRemove"
    "io_OperationID ?io = opID"
    by (simp_all add: deprovision_op_def in_progress_def)
  note now = accepted_in_progress [OF acc io(1), unfolded io]
  have "IsDeprovisioned d ?i s = Inr False"
    using assms(2) by (auto simp: Deprovision_def Let_def split: if_splits sum.splits bool.splits)
  then have "\<not> (\<exists>op \<in> ran (ops s ?i). removed op)"
    using IsDeprovisioned_ops [OF assms(1), of ?i]
    by (cases "ran (ops s ?i) = {}") auto
  with now have "\<not> (\<exists>op \<in> ran (ops s' ?i). removed op)"
    by (auto simp: removed_def in_progress_def)
  moreover have "ran (ops s' ?i) \<noteq> {}" using now by auto
  ultimately have "IsDeprovisioned d ?i s' = Inr False"
    using IsDeprovisioned_ops [OF \<open>invar s'\<close>, of ?i] by simp
  moreover have "IsDeprovisioningInProgress d ?i s' = Inr (opID, True)"
    using inProgress_ops(2) [OF \<open>invar s'\<close>, of ?i] now by auto
  ultimately show ?thesis
    using assms(3,4) rep by (simp add: Deprovision_def)
qed

text \<open>Once a removal of an instance has succeeded, its deprovisioning never runs again.\<close>

lemma Deprovision_after_removal:
  assumes "invar s" "op \<in> ran (ops s (dr_InstanceID req))" "removed op" "dr_AcceptsIncomplete req"
  shows "Deprovision d ctx req s = (Inr \<lparr>ar_Async = False, ar_OperationKey = None\<rparr>, None, s)"
proof -
  from assms(2) have "ran (ops s (dr_InstanceID req)) \<noteq> {}" by auto
  from IsDeprovisioned_ops [OF assms(1) this] assms(2,3)
  have "IsDeprovisioned d (dr_InstanceID req) s = Inr True" by auto
  with assms(4) show ?thesis by (simp add: Deprovision_def)
qed

end

end
