(* ===== verification/MemoryEntities.thy ===== *)
theory MemoryEntities
  imports Storage_Interface
begin

text \<open>
  The in-memory driver for instances and bind data
  (\<open>internal/storage/driver/memory/entity_instance.go\<close>, \<open>entity_instance_bind_data.go\<close>) and for
  addons and charts (\<open>entity_addon.go\<close>, \<open>entity_chart.go\<close>).
\<close>

section \<open>Instances\<close>

record MemInstance =
  mi_storage :: "(InstanceID, Instance) gomap"

definition NewInstance :: MemInstance where
  "NewInstance = \<lparr>mi_storage = []\<rparr>"

definition mem_in_Upsert ::
  "Instance option \<Rightarrow> MemInstance \<Rightarrow> bool result \<times> MemInstance" where
  "mem_in_Upsert arg s =
     (case arg of
        None \<Rightarrow> (Inl (ErrorString ''entity may not be nil''), s)
      | Some i \<Rightarrow>
          if IsZero (in_ID i) then (Inl (ErrorString ''instance id must be set''), s)
          else if map_of (mi_storage s) (in_ID i) \<noteq> None
          then (Inr True, s\<lparr>mi_storage := AList.update (in_ID i) i (mi_storage s)\<rparr>)
          else (Inr False, s\<lparr>mi_storage := AList.update (in_ID i) i (mi_storage s)\<rparr>))"

definition mem_in_Insert ::
  "Instance option \<Rightarrow> MemInstance \<Rightarrow> error option \<times> MemInstance" where
  "mem_in_Insert arg s =
     (case arg of
        None \<Rightarrow> (Some (ErrorString ''entity may not be nil''), s)
      | Some i \<Rightarrow>
          if IsZero (in_ID i) then (Some (ErrorString ''instance id must be set''), s)
          else if map_of (mi_storage s) (in_ID i) \<noteq> None then (Some AlreadyExistsError, s)
          else (None, s\<lparr>mi_storage := AList.update (in_ID i) i (mi_storage s)\<rparr>))"

definition mem_in_Get :: "InstanceID \<Rightarrow> MemInstance \<Rightarrow> Instance result" where
  "mem_in_Get iid s =
     (case map_of (mi_storage s) iid of None \<Rightarrow> Inl NotFoundError | Some i \<Rightarrow> Inr i)"

definition mem_in_GetAll :: "MemInstance \<Rightarrow> Instance list result" where
  "mem_in_GetAll s = Inr (map snd (mi_storage s))"

definition mem_in_Remove :: "InstanceID \<Rightarrow> MemInstance \<Rightarrow> error option \<times> MemInstance" where
  "mem_in_Remove iid s =
     (case map_of (mi_storage s) iid of
        None \<Rightarrow> (Some NotFoundError, s)
      | Some i \<Rightarrow> (None, s\<lparr>mi_storage := AList.delete iid (mi_storage s)\<rparr>))"

definition mem_in_entries :: "MemInstance \<Rightarrow> InstanceID \<Rightarrow> Instance option" where
  "mem_in_entries s = map_of (mi_storage s)"

lemmas mem_in_defs = mem_in_Upsert_def mem_in_Insert_def mem_in_Get_def mem_in_GetAll_def
  mem_in_Remove_def mem_in_entries_def IsZero_def

interpretation mi: entity_storage "\<lambda>i. mem_in_Insert (Some i)" mem_in_Get mem_in_Remove
  in_ID mem_in_entries
  by unfold_locales (auto simp: mem_in_defs)

section \<open>Bind data\<close>

record MemInstanceBindData =
  mbd_storage :: "(InstanceID, InstanceBindData) gomap"

definition NewInstanceBindData :: MemInstanceBindData where
  "NewInstanceBindData = \<lparr>mbd_storage = []\<rparr>"

definition mem_bd_Insert ::
  "InstanceBindData option \<Rightarrow> MemInstanceBindData \<Rightarrow> error option \<times> MemInstanceBindData" where
  "mem_bd_Insert arg s =
     (case arg of
        None \<Rightarrow> (Some (ErrorString ''entity may not be nil''), s)
      | Some ibd \<Rightarrow>
          if IsZero (bd_InstanceID ibd) then (Some (ErrorString ''instance id must be set''), s)
          else if map_of (mbd_storage s) (bd_InstanceID ibd) \<noteq> None then (Some AlreadyExistsError, s)
          else (None, s\<lparr>mbd_storage := AList.update (bd_InstanceID ibd) ibd (mbd_storage s)\<rparr>))"

definition mem_bd_Get :: "InstanceID \<Rightarrow> MemInstanceBindData \<Rightarrow> InstanceBindData result" where
  "mem_bd_Get iID s =
     (case map_of (mbd_storage s) iID of None \<Rightarrow> Inl NotFoundError | Some i \<Rightarrow> Inr i)"

definition mem_bd_Remove ::
  "InstanceID \<Rightarrow> MemInstanceBindData \<Rightarrow> error option \<times> MemInstanceBindData" where
  "mem_bd_Remove iID s =
     (if map_of (mbd_storage s) iID = None then (Some NotFoundError, s)
      else (None, s\<lparr>mbd_storage := AList.delete iID (mbd_storage s)\<rparr>))"

definition mem_bd_entries :: "MemInstanceBindData \<Rightarrow> InstanceID \<Rightarrow> InstanceBindData option" where
  "mem_bd_entries s = map_of (mbd_storage s)"

lemmas mem_bd_defs = mem_bd_Insert_def mem_bd_Get_def mem_bd_Remove_def mem_bd_entries_def
  IsZero_def

interpretation mbd: entity_storage "\<lambda>i. mem_bd_Insert (Some i)" mem_bd_Get mem_bd_Remove
  bd_InstanceID mem_bd_entries
  by unfold_locales (auto simp: mem_bd_defs)

section \<open>Charts\<close>

record MemChart =
  mch_storage :: "(string, Chart) gomap"

definition NewChart :: MemChart where
  "NewChart = \<lparr>mch_storage = []\<rparr>"

definition mem_ch_createKey :: "Namespace \<Rightarrow> string \<Rightarrow> string \<Rightarrow> string" where
  "mem_ch_createKey ns name ver = ns @ ''|'' @ name @ ''|'' @ ver"

definition mem_ch_key :: "Namespace \<Rightarrow> ChartName \<Rightarrow> Version \<Rightarrow> string result" where
  "mem_ch_key ns name ver =
     (if name = '''' \<or> Original ver = '''' then Inl (ErrorString ''both name and version must be set'')
      else Inr (mem_ch_createKey ns name (Original ver)))"

definition mem_ch_keyFromChart :: "Namespace \<Rightarrow> Chart option \<Rightarrow> string result" where
  "mem_ch_keyFromChart ns arg =
     (case arg of
        None \<Rightarrow> Inl (ErrorString ''entity may not be nil'')
      | Some c \<Rightarrow>
          (case ch_Metadata c of
             None \<Rightarrow> Inl (ErrorString ''entity metadata may not be nil'')
           | Some md \<Rightarrow>
               if cm_Name md = '''' \<or> cm_Version md = ''''
               then Inl (ErrorString ''both name and version must be set'')
               else Inr (mem_ch_createKey ns (cm_Name md) (cm_Version md))))"

definition mem_ch_Upsert ::
  "Namespace \<Rightarrow> Chart option \<Rightarrow> MemChart \<Rightarrow> bool result \<times> MemChart" where
  "mem_ch_Upsert ns arg s =
     (case arg of
        None \<Rightarrow> (Inl (ErrorString ''entity may not be nil''), s)
      | Some c \<Rightarrow>
          (case mem_ch_keyFromChart ns (Some c) of
             Inl e \<Rightarrow> (Inl e, s)
           | Inr nvk \<Rightarrow> (Inr (map_of (mch_storage s) nvk \<noteq> None),
                         s\<lparr>mch_storage := AList.update nvk c (mch_storage s)\<rparr>)))"

definition mem_ch_Get :: "Namespace \<Rightarrow> ChartName \<Rightarrow> Version \<Rightarrow> MemChart \<Rightarrow> Chart result" where
  "mem_ch_Get ns name ver s =
     (case mem_ch_key ns name ver of
        Inl e \<Rightarrow> Inl e
      | Inr nkv \<Rightarrow>
          (case map_of (mch_storage s) nkv of None \<Rightarrow> Inl NotFoundError | Some c \<Rightarrow> Inr c))"

definition mem_ch_Remove ::
  "Namespace \<Rightarrow> ChartName \<Rightarrow> Version \<Rightarrow> MemChart \<Rightarrow> error option \<times> MemChart" where
  "mem_ch_Remove ns name ver s =
     (case mem_ch_key ns name ver of
        Inl e \<Rightarrow> (Some e, s)
      | Inr nkv \<Rightarrow>
          if map_of (mch_storage s) nkv = None then (Some NotFoundError, s)
          else (None, s\<lparr>mch_storage := AList.delete nkv (mch_storage s)\<rparr>))"

lemmas mem_ch_defs = mem_ch_createKey_def mem_ch_key_def mem_ch_keyFromChart_def mem_ch_Upsert_def
  mem_ch_Get_def mem_ch_Remove_def

text \<open>Kubernetes names and chart names do not contain the separator, so keys do not clash.\<close>

lemma mem_ch_createKey_inj:
  assumes "CHR ''|'' \<notin> set ns" "CHR ''|'' \<notin> set ns'" "CHR ''|'' \<notin> set name" "CHR ''|'' \<notin> set name'"
    and "mem_ch_createKey ns name ver = mem_ch_createKey ns' name' ver'"
  shows "ns = ns' \<and> name = name' \<and> ver = ver'"
proof -
  from assms(5) have eq: "ns @ CHR ''|'' # name @ CHR ''|'' # ver =
      ns' @ CHR ''|'' # name' @ CHR ''|'' # ver'"
    by (simp add: mem_ch_createKey_def)
  from sep_append_inj [OF assms(1,2) this] have "ns = ns'"
    "name @ CHR ''|'' # ver = name' @ CHR ''|'' # ver'" by simp_all
  with sep_append_inj [OF assms(3,4)] show ?thesis by blast
qed

text \<open>
  A chart that was stored in a namespace is found under its name and version in that
  namespace, storing it leaves every chart of another namespace, name or version as it was,
  and removing it makes it absent.
\<close>

theorem mem_ch_round_trip:
  assumes "ch_Metadata c = Some md" and "mem_ch_Upsert ns (Some c) s = (Inr r, s')"
    and "cm_Version md = Original ver"
    and "CHR ''|'' \<notin> set ns" "CHR ''|'' \<notin> set ns'" "CHR ''|'' \<notin> set (cm_Name md)" "CHR ''|'' \<notin> set name"
  shows "mem_ch_Get ns (cm_Name md) ver s' = Inr c \<and>
         ((ns', name, Original ver') \<noteq> (ns, cm_Name md, Original ver) \<longrightarrow>
            mem_ch_Get ns' name ver' s' = mem_ch_Get ns' name ver' s) \<and>
         (r \<longleftrightarrow> (\<exists>old. mem_ch_Get ns (cm_Name md) ver s = Inr old)) \<and>
         fst (mem_ch_Remove ns (cm_Name md) ver s') = None \<and>
         mem_ch_Get ns (cm_Name md) ver (snd (mem_ch_Remove ns (cm_Name md) ver s')) = Inl NotFoundError"
proof -
  let ?k = "mem_ch_createKey ns (cm_Name md) (Original ver)"
  from assms(1-3) have ok: "cm_Name md \<noteq> ''''" "Original ver \<noteq> ''''"
    and s': "s' = s\<lparr>mch_storage := AList.update ?k c (mch_storage s)\<rparr>"
    and r: "r \<longleftrightarrow> map_of (mch_storage s) ?k \<noteq> None"
    by (auto simp: mem_ch_Upsert_def mem_ch_keyFromChart_def split: if_splits)
  have "mem_ch_createKey ns' name (Original ver') \<noteq> ?k"
    if "(ns', name, Original ver') \<noteq> (ns, cm_Name md, Original ver)"
    using mem_ch_createKey_inj [OF assms(5,4,7,6)] that by auto
  then show ?thesis
    using ok unfolding s' r mem_ch_Get_def mem_ch_Remove_def mem_ch_key_def
    by (auto split: option.splits)
qed

definition example_chart :: Chart where
  "example_chart = Chart (Some \<lparr>cm_Name = ''redis'', cm_Version = ''1.0.0''\<rparr>) [] []"

theorem mem_ch_round_trip_witness:
  "mem_ch_Get ''stage'' ''redis'' \<lparr>Original = ''1.0.0'', String = ''1.0.0''\<rparr>
     (snd (mem_ch_Upsert ''stage'' (Some example_chart) NewChart)) = Inr example_chart"
  using mem_ch_round_trip [of example_chart "\<lparr>cm_Name = ''redis'', cm_Version = ''1.0.0''\<rparr>"
      "''stage''" NewChart False "snd (mem_ch_Upsert ''stage'' (Some example_chart) NewChart)"
      "\<lparr>Original = ''1.0.0'', String = ''1.0.0''\<rparr>" "''prod''" "''redis''"]
  by (simp add: example_chart_def mem_ch_defs NewChart_def)

section \<open>Addons\<close>

text \<open>\<open>ketToID\<close> is an index from namespace, name and version to the identifier.\<close>

record MemAddon =
  mad_ketToID :: "(string, AddonID) gomap"
  mad_storage :: "(Namespace, (AddonID, Addon) gomap) gomap"

definition NewAddon :: MemAddon where
  "NewAddon = \<lparr>mad_ketToID = [], mad_storage = []\<rparr>"

definition mem_ad_key :: "Namespace \<Rightarrow> AddonName \<Rightarrow> Version \<Rightarrow> string result" where
  "mem_ad_key ns name ver =
     (if name = '''' \<or> Original ver = '''' then Inl (ErrorString ''both name and version must be set'')
      else Inr (ns @ ''|'' @ name @ ''|'' @ String ver))"

definition mem_ad_keyFromAddon :: "Namespace \<Rightarrow> Addon option \<Rightarrow> string result" where
  "mem_ad_keyFromAddon ns arg =
     (case arg of
        None \<Rightarrow> Inl (ErrorString ''entity may not be nil'')
      | Some b \<Rightarrow>
          if ad_Name b = '''' \<or> Original (ad_Version b) = ''''
          then Inl (ErrorString ''both name and version must be set'')
          else mem_ad_key ns (ad_Name b) (ad_Version b))"

definition mem_ad_id :: "Namespace \<Rightarrow> AddonName \<Rightarrow> Version \<Rightarrow> MemAddon \<Rightarrow> AddonID result" where
  "mem_ad_id ns name ver s =
     (case mem_ad_key ns name ver of
        Inl e \<Rightarrow> Inl e
      | Inr nvk \<Rightarrow>
          (case map_of (mad_ketToID s) nvk of None \<Rightarrow> Inl NotFoundError | Some aid \<Rightarrow> Inr aid))"

definition mem_ad_Upsert ::
  "Namespace \<Rightarrow> Addon option \<Rightarrow> MemAddon \<Rightarrow> bool result \<times> MemAddon" where
  "mem_ad_Upsert ns arg s =
     (case arg of
        None \<Rightarrow> (Inl (ErrorString ''entity may not be nil''), s)
      | Some addon \<Rightarrow>
          (case mem_ad_keyFromAddon ns (Some addon) of
             Inl e \<Rightarrow> (Inl e, s)
           | Inr nvk \<Rightarrow>
               let (replaced, s1) =
                     (if map_of (mad_ketToID s) nvk = None
                      then (False, s\<lparr>mad_ketToID := AList.update nvk (ad_ID addon) (mad_ketToID s)\<rparr>)
                      else (True, s));
                   st = (if map_of (mad_storage s1) ns = None
                         then AList.update ns [] (mad_storage s1) else mad_storage s1)
               in (Inr replaced, s1\<lparr>mad_storage := AList.update ns
                     (AList.update (ad_ID addon) addon (inner st ns)) st\<rparr>)))"

definition mem_ad_Get ::
  "Namespace \<Rightarrow> AddonName \<Rightarrow> Version \<Rightarrow> MemAddon \<Rightarrow> Addon result \<times> MemAddon" where
  "mem_ad_Get ns name ver s =
     (case mem_ad_id ns name ver s of
        Inl e \<Rightarrow> (Inl e, s)
      | Inr aid \<Rightarrow>
          (case map_of (mad_storage s) ns of
             None \<Rightarrow> (Inl NotFoundError, s)
           | Some nsStorage \<Rightarrow>
               (case map_of nsStorage aid of
                  None \<Rightarrow>
                    (Inl NotFoundError,
                     (case mem_ad_key ns name ver of
                        Inl e \<Rightarrow> s
                      | Inr nvk \<Rightarrow> s\<lparr>mad_ketToID := AList.delete nvk (mad_ketToID s)\<rparr>))
                | Some b \<Rightarrow> (Inr b, s))))"

definition mem_ad_GetByID :: "Namespace \<Rightarrow> AddonID \<Rightarrow> MemAddon \<Rightarrow> Addon result" where
  "mem_ad_GetByID ns aid s =
     (case map_of (mad_storage s) ns of
        None \<Rightarrow> Inl NotFoundError
      | Some nsStorage \<Rightarrow>
          (case map_of nsStorage aid of None \<Rightarrow> Inl NotFoundError | Some b \<Rightarrow> Inr b))"

definition mem_ad_FindAll :: "Namespace \<Rightarrow> MemAddon \<Rightarrow> Addon list result" where
  "mem_ad_FindAll ns s =
     (case map_of (mad_storage s) ns of
        None \<Rightarrow> Inr []
      | Some nsStorage \<Rightarrow> Inr (map snd nsStorage))"

definition mem_ad_removeByID ::
  "Namespace \<Rightarrow> AddonID \<Rightarrow> MemAddon \<Rightarrow> error option \<times> MemAddon" where
  "mem_ad_removeByID ns aid s =
     (case map_of (mad_storage s) ns of
        None \<Rightarrow> (Some NotFoundError, s)
      | Some nsStorage \<Rightarrow>
          if map_of nsStorage aid = None then (Some NotFoundError, s)
          else
            let nsStorage' = AList.delete aid nsStorage;
                st = AList.update ns nsStorage' (mad_storage s)
            in (None, s\<lparr>mad_storage := (if nsStorage' = [] then AList.delete ns st else st)\<rparr>))"

definition mem_ad_RemoveByID ::
  "Namespace \<Rightarrow> AddonID \<Rightarrow> MemAddon \<Rightarrow> error option \<times> MemAddon" where
  "mem_ad_RemoveByID ns aid s = mem_ad_removeByID ns aid s"

definition mem_ad_Remove ::
  "Namespace \<Rightarrow> AddonName \<Rightarrow> Version \<Rightarrow> MemAddon \<Rightarrow> error option \<times> MemAddon" where
  "mem_ad_Remove ns name ver s =
     (case mem_ad_id ns name ver s of
        Inl e \<Rightarrow> (Some e, s)
      | Inr aid \<Rightarrow> mem_ad_removeByID ns aid s)"

fun mem_ad_removeEach ::
  "Namespace \<Rightarrow> Addon list \<Rightarrow> MemAddon \<Rightarrow> error option \<times> MemAddon" where
  "mem_ad_removeEach ns [] s = (None, s)"
| "mem_ad_removeEach ns (a # as) s =
     (case mem_ad_RemoveByID ns (ad_ID a) s of
        (Some e, s') \<Rightarrow> (Some (Wrapped e (''while removing addon with ID: '' @ ad_ID a)), s')
      | (None, s') \<Rightarrow> mem_ad_removeEach ns as s')"

definition mem_ad_RemoveAll :: "Namespace \<Rightarrow> MemAddon \<Rightarrow> error option \<times> MemAddon" where
  "mem_ad_RemoveAll ns s =
     (case mem_ad_FindAll ns s of
        Inl e \<Rightarrow> (Some (Wrapped e ''while getting addons''), s)
      | Inr as \<Rightarrow> mem_ad_removeEach ns as s)"

text \<open>The entries by namespace and identifier, and the invariant: every addon is stored under
  its own identifier.\<close>

definition mem_ad_addons :: "MemAddon \<Rightarrow> Namespace \<Rightarrow> AddonID \<Rightarrow> Addon option" where
  "mem_ad_addons s = lookup2 (mad_storage s)"

definition mem_ad_invar :: "MemAddon \<Rightarrow> bool" where
  "mem_ad_invar s \<longleftrightarrow> wf_map2 (mad_storage s) \<and>
     (\<forall>ns aid a. mem_ad_addons s ns aid = Some a \<longrightarrow> ad_ID a = aid)"

lemma mem_ad_GetByID_eq:
  "mem_ad_GetByID ns aid s =
     (case mem_ad_addons s ns aid of None \<Rightarrow> Inl NotFoundError | Some a \<Rightarrow> Inr a)"
  by (simp add: mem_ad_GetByID_def mem_ad_addons_def lookup2_def inner_def split: option.splits)

lemma mem_ad_FindAll_eq: "mem_ad_FindAll ns s = Inr (map snd (inner (mad_storage s) ns))"
  by (simp add: mem_ad_FindAll_def inner_def split: option.splits)

lemma mem_ad_Upsert_refused:
  "ad_Name a = '''' \<or> Original (ad_Version a) = '''' \<Longrightarrow>
   mem_ad_Upsert ns (Some a) s = (Inl (ErrorString ''both name and version must be set''), s)"
  by (simp add: mem_ad_Upsert_def mem_ad_keyFromAddon_def)

lemma mem_ad_Upsert_storage:
  assumes "ad_Name a \<noteq> ''''" "Original (ad_Version a) \<noteq> ''''"
  shows "\<exists>r kid. mem_ad_Upsert ns (Some a) s =
     (Inr r, \<lparr>mad_ketToID = kid, mad_storage = AList.update ns
        (AList.update (ad_ID a) a (inner (mad_storage s) ns))
        (if map_of (mad_storage s) ns = None then AList.update ns [] (mad_storage s)
         else mad_storage s)\<rparr>)"
  using assms
  by (cases s) (simp add: mem_ad_Upsert_def mem_ad_keyFromAddon_def mem_ad_key_def, blast)

lemma mem_ad_Upsert_ok:
  assumes "ad_Name a \<noteq> ''''" "Original (ad_Version a) \<noteq> ''''"
  shows "(\<exists>r. fst (mem_ad_Upsert ns (Some a) s) = Inr r) \<and>
     mem_ad_addons (snd (mem_ad_Upsert ns (Some a) s)) =
       (mem_ad_addons s)(ns := (mem_ad_addons s ns)(ad_ID a \<mapsto> a)) \<and>
     (wf_map2 (mad_storage s) \<longrightarrow> wf_map2 (mad_storage (snd (mem_ad_Upsert ns (Some a) s))))"
proof -
  from mem_ad_Upsert_storage [OF assms, of ns s] obtain r kid where
    "mem_ad_Upsert ns (Some a) s = (Inr r, \<lparr>mad_ketToID = kid, mad_storage = AList.update ns
        (AList.update (ad_ID a) a (inner (mad_storage s) ns))
        (if map_of (mad_storage s) ns = None then AList.update ns [] (mad_storage s)
         else mad_storage s)\<rparr>)" by blast
  then show ?thesis
    by (simp add: mem_ad_addons_def lookup2_update) (simp add: lookup2_def fun_upd_def)
qed

lemma mem_ad_removeByID_ok:
  assumes "mem_ad_addons s ns aid \<noteq> None"
  shows "fst (mem_ad_removeByID ns aid s) = None \<and>
     mem_ad_addons (snd (mem_ad_removeByID ns aid s)) =
       (mem_ad_addons s)(ns := (mem_ad_addons s ns)(aid := None)) \<and>
     (wf_map2 (mad_storage s) \<longrightarrow> wf_map2 (mad_storage (snd (mem_ad_removeByID ns aid s))))"
proof -
  from assms obtain m where m: "map_of (mad_storage s) ns = Some m" "map_of m aid \<noteq> None"
    by (auto simp: mem_ad_addons_def lookup2_def inner_def split: option.splits)
  then have "inner (mad_storage s) ns = m" by simp
  with m lookup2_remove [where k = aid and m = "mad_storage s" and i = ns]
    wf_map_inner [of "mad_storage s" ns]
  show ?thesis
    by (simp add: mem_ad_removeByID_def mem_ad_addons_def Let_def)
qed

lemma mem_ad_removeByID_absent:
  "mem_ad_addons s ns aid = None \<Longrightarrow> mem_ad_removeByID ns aid s = (Some NotFoundError, s)"
  by (simp add: mem_ad_addons_def mem_ad_removeByID_def lookup2_def inner_def split: option.splits)

lemma mem_ad_FindAll_ok:
  assumes "mem_ad_invar s"
  shows "\<exists>xs. mem_ad_FindAll ns s = Inr xs \<and> distinct (map ad_ID xs) \<and>
     set xs = ran (mem_ad_addons s ns)"
proof -
  let ?m = "inner (mad_storage s) ns"
  from assms have wf: "wf_map2 (mad_storage s)" and
    keyed: "\<And>aid a. (aid, a) \<in> set ?m \<Longrightarrow> ad_ID a = aid"
    by (auto simp: mem_ad_invar_def mem_ad_addons_def lookup2_def wf_map_in_iff)
  have "map ad_ID (map snd ?m) = keys ?m"
    using keyed by (auto intro: map_cong)
  then have "distinct (map ad_ID (map snd ?m))"
    using wf_map_inner [OF wf, of ns] by (simp only: wf_map_def)
  with set_values_inner [OF wf, of ns] show ?thesis
    by (simp add: mem_ad_FindAll_eq mem_ad_addons_def)
qed

interpretation mad: addon_storage "\<lambda>ns a. mem_ad_Upsert ns (Some a)" mem_ad_GetByID mem_ad_FindAll
  mem_ad_RemoveByID mem_ad_addons mem_ad_invar
proof unfold_locales
  fix ns a s aid
  show "mem_ad_GetByID ns aid s =
      (case mem_ad_addons s ns aid of None \<Rightarrow> Inl NotFoundError | Some a \<Rightarrow> Inr a)"
    by (rule mem_ad_GetByID_eq)
  show "mem_ad_invar s \<Longrightarrow> \<exists>xs. mem_ad_FindAll ns s = Inr xs \<and> distinct (map ad_ID xs) \<and>
      set xs = ran (mem_ad_addons s ns)"
    by (rule mem_ad_FindAll_ok)
  show "mem_ad_invar s \<Longrightarrow> mem_ad_addons s ns aid = Some a \<Longrightarrow> ad_ID a = aid"
    by (simp add: mem_ad_invar_def)
  show "ad_Name a = '''' \<or> Original (ad_Version a) = '''' \<Longrightarrow>
      (\<exists>e. fst (mem_ad_Upsert ns (Some a) s) = Inl e) \<and> snd (mem_ad_Upsert ns (Some a) s) = s"
    by (simp add: mem_ad_Upsert_refused)
  show "ad_Name a \<noteq> '''' \<Longrightarrow> Original (ad_Version a) \<noteq> '''' \<Longrightarrow>
      (\<exists>r. fst (mem_ad_Upsert ns (Some a) s) = Inr r) \<and>
      mem_ad_addons (snd (mem_ad_Upsert ns (Some a) s)) =
        (mem_ad_addons s)(ns := (mem_ad_addons s ns)(ad_ID a \<mapsto> a))"
    using mem_ad_Upsert_ok [of a ns s] by blast
  show "mem_ad_invar s \<Longrightarrow> mem_ad_invar (snd (mem_ad_Upsert ns (Some a) s))"
    using mem_ad_Upsert_ok [of a ns s] mem_ad_Upsert_refused [of a ns s]
    by (cases "ad_Name a = '''' \<or> Original (ad_Version a) = ''''")
      (auto simp: mem_ad_invar_def split: if_splits)
  show "mem_ad_addons s ns aid = None \<Longrightarrow> mem_ad_RemoveByID ns aid s = (Some NotFoundError, s)"
    by (simp add: mem_ad_RemoveByID_def mem_ad_removeByID_absent)
  show "mem_ad_addons s ns aid \<noteq> None \<Longrightarrow> fst (mem_ad_RemoveByID ns aid s) = None \<and>
      mem_ad_addons (snd (mem_ad_RemoveByID ns aid s)) =
        (mem_ad_addons s)(ns := (mem_ad_addons s ns)(aid := None))"
    using mem_ad_removeByID_ok [of s ns aid] by (simp add: mem_ad_RemoveByID_def)
  show "mem_ad_invar s \<Longrightarrow> mem_ad_invar (snd (mem_ad_RemoveByID ns aid s))"
    using mem_ad_removeByID_ok [of s ns aid] mem_ad_removeByID_absent [of s ns aid]
    by (cases "mem_ad_addons s ns aid")
      (auto simp: mem_ad_invar_def mem_ad_RemoveByID_def split: if_splits)
qed


lemma mem_ad_removeEach_ok:
  assumes "mem_ad_invar s" "distinct (map ad_ID as)"
    "\<And>a. a \<in> set as \<Longrightarrow> mem_ad_addons s ns (ad_ID a) \<noteq> None"
  shows "\<exists>s'. mem_ad_removeEach ns as s = (None, s') \<and> mem_ad_invar s' \<and>
     mem_ad_addons s' = (mem_ad_addons s)(ns := (mem_ad_addons s ns) |` (- ad_ID ` set as))"
  using assms
proof (induction as arbitrary: s)
  case Nil
  then show ?case by (simp add: restrict_map_def)
next
  case (Cons a as)
  obtain r s1 where step: "mem_ad_RemoveByID ns (ad_ID a) s = (r, s1)"
    by (cases "mem_ad_RemoveByID ns (ad_ID a) s")
  have r: "r = None" and s1: "mem_ad_invar s1"
    "mem_ad_addons s1 = (mem_ad_addons s)(ns := (mem_ad_addons s ns)(ad_ID a := None))"
    using Cons.prems mad.RemoveByID_ok [of s ns "ad_ID a"] mad.RemoveByID_invar [of s ns "ad_ID a"]
    by (simp_all add: step)
  have "\<And>b. b \<in> set as \<Longrightarrow> mem_ad_addons s1 ns (ad_ID b) \<noteq> None"
    using Cons.prems(2,3) s1(2) by (force simp: image_iff)
  moreover have "distinct (map ad_ID as)" using Cons.prems(2) by simp
  ultimately obtain s' where
    "mem_ad_removeEach ns as s1 = (None, s')" "mem_ad_invar s'"
    "mem_ad_addons s' = (mem_ad_addons s1)(ns := (mem_ad_addons s1 ns) |` (- ad_ID ` set as))"
    using Cons.IH [OF s1(1)] by blast
  with step r s1(2) show ?case
    by (auto simp: restrict_map_def fun_eq_iff)
qed

text \<open>
  Removing all addons of a namespace always succeeds, leaves no addon in that namespace
  and every addon of the other namespaces.
\<close>

theorem mem_ad_RemoveAll_correct:
  assumes "mem_ad_invar s"
  shows "\<exists>s'. mem_ad_RemoveAll ns s = (None, s') \<and> mem_ad_invar s' \<and>
     mem_ad_FindAll ns s' = Inr [] \<and>
     (\<forall>ns' aid. ns' \<noteq> ns \<longrightarrow> mem_ad_GetByID ns' aid s' = mem_ad_GetByID ns' aid s)"
proof -
  from mem_ad_FindAll_ok [OF assms, of ns] obtain xs where
    xs: "mem_ad_FindAll ns s = Inr xs" "distinct (map ad_ID xs)" "set xs = ran (mem_ad_addons s ns)"
    by blast
  have stored: "ad_ID a = aid" if "mem_ad_addons s ns aid = Some a" for aid a
    using mad.stored_under_ID [OF assms that] .
  have "mem_ad_addons s ns (ad_ID a) \<noteq> None" if "a \<in> set xs" for a
    using that stored by (auto simp: xs(3) ran_def)
  from mem_ad_removeEach_ok [OF assms xs(2) this] obtain s' where
    s': "mem_ad_removeEach ns xs s = (None, s')" "mem_ad_invar s'"
      "mem_ad_addons s' = (mem_ad_addons s)(ns := (mem_ad_addons s ns) |` (- ad_ID ` set xs))"
    by blast
  have "mem_ad_addons s' ns aid = None" for aid
  proof (cases "mem_ad_addons s ns aid")
    case None
    then show ?thesis by (simp add: s'(3) restrict_map_def)
  next
    case (Some a)
    with stored have "aid \<in> ad_ID ` set xs" by (force simp: xs(3) ran_def)
    then show ?thesis by (simp add: s'(3) restrict_map_def)
  qed
  then have "mem_ad_addons s' ns = Map.empty" by blast
  with mem_ad_FindAll_ok [OF s'(2), of ns] have "mem_ad_FindAll ns s' = Inr []"
    by auto
  with s' xs(1) show ?thesis
    by (auto simp: mem_ad_RemoveAll_def mem_ad_GetByID_eq split: option.splits)
qed

definition example_addon :: Addon where
  "example_addon = \<lparr>ad_ID = ''a-1'', ad_Name = ''redis'',
     ad_Version = \<lparr>Original = ''0.0.1'', String = ''0.0.1''\<rparr>, ad_Description = ''Redis'',
     ad_Plans = [], ad_Metadata = \<lparr>am_DisplayName = ''Redis'', am_ProviderDisplayName = '''',
       am_LongDescription = '''', am_DocumentationURL = '''', am_SupportURL = '''',
       am_ProvisionOnlyOnce = False, am_ImageURL = '''', am_Labels = None\<rparr>,
     ad_RepositoryURL = '''', ad_Tags = [], ad_Requires = [], ad_Bindable = True,
     ad_BindingsRetrievable = True, ad_PlanUpdatable = None, ad_Docs = [],
     ad_Status = AddonStatusReady, ad_Reason = AddonReasonUnset, ad_Message = '''',
     ad_SecretRef = \<lparr>sr_Name = '''', sr_Namespace = ''''\<rparr>\<rparr>"

theorem mem_ad_RemoveAll_correct_witness:
  "let s = snd (mem_ad_Upsert ''stage'' (Some example_addon) NewAddon) in
   mem_ad_FindAll ''stage'' s = Inr [example_addon] \<and>
   (\<exists>s'. mem_ad_RemoveAll ''stage'' s = (None, s') \<and> mem_ad_FindAll ''stage'' s' = Inr [])"
proof -
  let ?s = "snd (mem_ad_Upsert ''stage'' (Some example_addon) NewAddon)"
  have "mem_ad_invar NewAddon"
    by (simp add: mem_ad_invar_def NewAddon_def mem_ad_addons_def)
  then have "mem_ad_invar ?s" by (rule mad.Upsert_invar)
  from mem_ad_RemoveAll_correct [OF this, of "''stage''"] show ?thesis
    by (auto simp: Let_def mem_ad_Upsert_def mem_ad_keyFromAddon_def mem_ad_key_def example_addon_def
        NewAddon_def mem_ad_FindAll_def)
qed

text \<open>
  An addon that the in-memory storage accepted is found under its identifier, and the
  addons under another identifier or in another namespace are not affected.
\<close>

theorem mem_ad_Upsert_GetByID:
  assumes "mem_ad_Upsert ns (Some a) s = (Inr r, s')"
  shows "mem_ad_GetByID ns (ad_ID a) s' = Inr a \<and>
     (\<forall>ns' aid. (ns', aid) \<noteq> (ns, ad_ID a) \<longrightarrow>
        mem_ad_GetByID ns' aid s' = mem_ad_GetByID ns' aid s)"
  using mad.Upsert_GetByID [OF assms] by blast

theorem mem_ad_Upsert_GetByID_witness:
  "mem_ad_GetByID ''stage'' ''a-1'' (snd (mem_ad_Upsert ''stage'' (Some example_addon) NewAddon)) =
     Inr example_addon"
  using mem_ad_Upsert_GetByID [of "''stage''" example_addon NewAddon False
      "snd (mem_ad_Upsert ''stage'' (Some example_addon) NewAddon)"]
  by (simp add: mem_ad_Upsert_def mem_ad_keyFromAddon_def mem_ad_key_def example_addon_def NewAddon_def)

text \<open>
  The index from name and version to the identifier is written only once. An addon that comes
  back with the same name and version under a new identifier is stored, but reading by name
  and version still gives the old one; and after a removal by identifier the index entry is
  still there, so that storing the addon again reports a replacement of nothing.
\<close>

lemma mem_ad_index_stale:
  "let new = example_addon\<lparr>ad_ID := ''a-2''\<rparr>;
       s = snd (mem_ad_Upsert ''stage'' (Some new) (snd (mem_ad_Upsert ''stage'' (Some example_addon) NewAddon)))
   in fst (mem_ad_Get ''stage'' ''redis'' (ad_Version new) s) = Inr example_addon \<and>
      mem_ad_GetByID ''stage'' ''a-2'' s = Inr new"
  by (simp add: Let_def mem_ad_Upsert_def mem_ad_keyFromAddon_def mem_ad_key_def example_addon_def
      NewAddon_def mem_ad_Get_def mem_ad_id_def mem_ad_GetByID_def)

lemma mem_ad_replaced_after_removal:
  "let s = snd (mem_ad_RemoveByID ''stage'' ''a-1'' (snd (mem_ad_Upsert ''stage'' (Some example_addon) NewAddon)))
   in mem_ad_FindAll ''stage'' s = Inr [] \<and> fst (mem_ad_Upsert ''stage'' (Some example_addon) s) = Inr True"
  by (simp add: Let_def mem_ad_Upsert_def mem_ad_keyFromAddon_def mem_ad_key_def example_addon_def
      NewAddon_def mem_ad_RemoveByID_def mem_ad_removeByID_def mem_ad_FindAll_def)

end
