(* ===== verification/Broker_World.thy ===== *)
theory Broker_World
  imports Broker_Env MemoryEntities
begin

text \<open>
  The broker over the in-memory storages, as \<open>newWithIDProvider\<close> wires it. What is outside the
  process (Helm and the cluster, with the state \<open>'x\<close>), the renderer and resolver of bind
  templates and the generator of identifiers are the parameter \<open>ex\<close>, and nothing is assumed of
  them.
\<close>

section \<open>The wired broker\<close>

record 'x External =
  ex_install :: "Chart \<Rightarrow> ChartValues \<Rightarrow> ReleaseName \<Rightarrow> Namespace \<Rightarrow> 'x \<Rightarrow> Release result \<times> 'x"
  ex_delete :: "ReleaseName \<Rightarrow> Namespace \<Rightarrow> 'x \<Rightarrow> error option \<times> 'x"
  ex_newID :: "'x \<Rightarrow> OperationID result \<times> 'x"
  ex_render :: "AddonPlanBindTemplate \<Rightarrow> Instance \<Rightarrow> Chart \<Rightarrow> 'x \<Rightarrow> string result"
  ex_resolve :: "string \<Rightarrow> Namespace \<Rightarrow> 'x \<Rightarrow> ResolveOutput result"
  ex_httpErrorText :: "nat \<Rightarrow> string \<Rightarrow> string"

record 'x World =
  w_ops :: MemInstanceOperation
  w_bops :: MemBindOperation
  w_insts :: MemInstance
  w_ibds :: MemInstanceBindData
  w_addons :: MemAddon
  w_charts :: MemChart
  w_ext :: 'x

definition memDeps :: "'x External \<Rightarrow> 'x World deps" where
  "memDeps ex = \<lparr>
     addonGetByID = \<lambda>ns aid s. mem_ad_GetByID ns aid (w_addons s),
     addonFindAll = \<lambda>ns s. mem_ad_FindAll ns (w_addons s),
     chartGet = \<lambda>ns n v s. mem_ch_Get ns n v (w_charts s),
     opInsert = \<lambda>io s. apsnd (\<lambda>m. s\<lparr>w_ops := m\<rparr>) (mem_io_Insert (Some io) (w_ops s)),
     opGet = \<lambda>i opid s. mem_io_Get i opid (w_ops s),
     opGetAll = \<lambda>i s. mem_io_GetAll i (w_ops s),
     opUpdateStateDesc = \<lambda>i opid st de s.
       apsnd (\<lambda>m. s\<lparr>w_ops := m\<rparr>) (mem_io_UpdateStateDesc i opid st de (w_ops s)),
     bopInsert = \<lambda>bo s. apsnd (\<lambda>m. s\<lparr>w_bops := m\<rparr>) (mem_bo_Insert bo (w_bops s)),
     bopGet = \<lambda>i b opid s. mem_bo_Get i b opid (w_bops s),
     bopGetAll = \<lambda>i s. mem_bo_GetAll i (w_bops s),
     bopUpdateStateDesc = \<lambda>i b opid st de s.
       apsnd (\<lambda>m. s\<lparr>w_bops := m\<rparr>) (mem_bo_UpdateStateDesc i b opid st de (w_bops s)),
     instUpsert = \<lambda>x s. apsnd (\<lambda>m. s\<lparr>w_insts := m\<rparr>) (mem_in_Upsert (Some x) (w_insts s)),
     instGet = \<lambda>i s. mem_in_Get i (w_insts s),
     instGetAll = \<lambda>s. mem_in_GetAll (w_insts s),
     instRemove = \<lambda>i s. apsnd (\<lambda>m. s\<lparr>w_insts := m\<rparr>) (mem_in_Remove i (w_insts s)),
     ibdGet = \<lambda>i s. mem_bd_Get i (w_ibds s),
     ibdInsert = \<lambda>b s. apsnd (\<lambda>m. s\<lparr>w_ibds := m\<rparr>) (mem_bd_Insert (Some b) (w_ibds s)),
     ibdRemove = \<lambda>i s. apsnd (\<lambda>m. s\<lparr>w_ibds := m\<rparr>) (mem_bd_Remove i (w_ibds s)),
     bindRender = \<lambda>t i c s. ex_render ex t i c (w_ext s),
     bindResolve = \<lambda>y ns s. ex_resolve ex y ns (w_ext s),
     helmInstall = \<lambda>c v r ns s. apsnd (\<lambda>x. s\<lparr>w_ext := x\<rparr>) (ex_install ex c v r ns (w_ext s)),
     helmDelete = \<lambda>r ns s. apsnd (\<lambda>x. s\<lparr>w_ext := x\<rparr>) (ex_delete ex r ns (w_ext s)),
     operationIDProvider = \<lambda>s. apsnd (\<lambda>x. s\<lparr>w_ext := x\<rparr>) (ex_newID ex (w_ext s)),
     httpErrorText = ex_httpErrorText ex\<rparr>"

definition w_invar :: "'x World \<Rightarrow> bool" where
  "w_invar s \<longleftrightarrow> mem_io_invar (w_ops s) \<and> wf_map (mi_storage (w_insts s))"

definition worldOps :: "'x World \<Rightarrow> InstanceID \<Rightarrow> OperationID \<Rightarrow> InstanceOperation option" where
  "worldOps s = mem_io_ops (w_ops s)"

definition worldInsts :: "'x World \<Rightarrow> InstanceID \<Rightarrow> Instance option" where
  "worldInsts s = mem_in_entries (w_insts s)"

definition worldIbds :: "'x World \<Rightarrow> InstanceID \<Rightarrow> InstanceBindData option" where
  "worldIbds s = mem_bd_entries (w_ibds s)"

lemmas world_defs = w_invar_def worldOps_def worldInsts_def worldIbds_def

lemma memDeps_simps [simp]:
  "addonGetByID (memDeps ex) ns aid s = mem_ad_GetByID ns aid (w_addons s)"
  "addonFindAll (memDeps ex) ns s = mem_ad_FindAll ns (w_addons s)"
  "chartGet (memDeps ex) ns n v s = mem_ch_Get ns n v (w_charts s)"
  "opInsert (memDeps ex) io s = apsnd (\<lambda>m. s\<lparr>w_ops := m\<rparr>) (mem_io_Insert (Some io) (w_ops s))"
  "opGet (memDeps ex) i opid s = mem_io_Get i opid (w_ops s)"
  "opGetAll (memDeps ex) i s = mem_io_GetAll i (w_ops s)"
  "opUpdateStateDesc (memDeps ex) i opid st de s =
     apsnd (\<lambda>m. s\<lparr>w_ops := m\<rparr>) (mem_io_UpdateStateDesc i opid st de (w_ops s))"
  "bopInsert (memDeps ex) bo s = apsnd (\<lambda>m. s\<lparr>w_bops := m\<rparr>) (mem_bo_Insert bo (w_bops s))"
  "bopGet (memDeps ex) i b opid s = mem_bo_Get i b opid (w_bops s)"
  "bopGetAll (memDeps ex) i s = mem_bo_GetAll i (w_bops s)"
  "bopUpdateStateDesc (memDeps ex) i b opid st de s =
     apsnd (\<lambda>m. s\<lparr>w_bops := m\<rparr>) (mem_bo_UpdateStateDesc i b opid st de (w_bops s))"
  "instUpsert (memDeps ex) x s = apsnd (\<lambda>m. s\<lparr>w_insts := m\<rparr>) (mem_in_Upsert (Some x) (w_insts s))"
  "instGet (memDeps ex) i s = mem_in_Get i (w_insts s)"
  "instGetAll (memDeps ex) s = mem_in_GetAll (w_insts s)"
  "instRemove (memDeps ex) i s = apsnd (\<lambda>m. s\<lparr>w_insts := m\<rparr>) (mem_in_Remove i (w_insts s))"
  "ibdGet (memDeps ex) i s = mem_bd_Get i (w_ibds s)"
  "ibdInsert (memDeps ex) b' s = apsnd (\<lambda>m. s\<lparr>w_ibds := m\<rparr>) (mem_bd_Insert (Some b') (w_ibds s))"
  "ibdRemove (memDeps ex) i s = apsnd (\<lambda>m. s\<lparr>w_ibds := m\<rparr>) (mem_bd_Remove i (w_ibds s))"
  "bindRender (memDeps ex) t inst c s = ex_render ex t inst c (w_ext s)"
  "bindResolve (memDeps ex) y ns s = ex_resolve ex y ns (w_ext s)"
  "helmInstall (memDeps ex) c vs r ns s = apsnd (\<lambda>x. s\<lparr>w_ext := x\<rparr>) (ex_install ex c vs r ns (w_ext s))"
  "helmDelete (memDeps ex) r ns s = apsnd (\<lambda>x. s\<lparr>w_ext := x\<rparr>) (ex_delete ex r ns (w_ext s))"
  "operationIDProvider (memDeps ex) s = apsnd (\<lambda>x. s\<lparr>w_ext := x\<rparr>) (ex_newID ex (w_ext s))"
  "httpErrorText (memDeps ex) = ex_httpErrorText ex"
  by (simp_all add: memDeps_def)

lemma mem_in_Upsert_wf: "wf_map (mi_storage s) \<Longrightarrow> wf_map (mi_storage (snd (mem_in_Upsert x s)))"
  by (auto simp: mem_in_defs split: option.splits)

lemma mem_in_Remove_wf: "wf_map (mi_storage s) \<Longrightarrow> wf_map (mi_storage (snd (mem_in_Remove i s)))"
  by (auto simp: mem_in_defs split: option.splits)

lemma mem_in_GetAll_ok:
  assumes "wf_map (mi_storage s)"
  shows "\<exists>xs. mem_in_GetAll s = Inr xs \<and> set xs = ran (mem_in_entries s)"
proof -
  have "set (map snd (mi_storage s)) = ran (mem_in_entries s)"
    unfolding mem_in_entries_def ran_def using wf_map_values [OF assms] by blast
  then show ?thesis by (simp add: mem_in_GetAll_def)
qed

interpretation mw: broker_env "memDeps ex" worldOps w_invar worldInsts worldIbds for ex :: "'x External"
proof unfold_locales
  fix s s' :: "'x World" and io e i opid st d op xs
  assume "w_invar s"
  then have inv: "mem_io_invar (w_ops s)" and wf: "wf_map (mi_storage (w_insts s))"
    by (simp_all add: w_invar_def)
  show "opGetAll (memDeps ex) i s = Inr xs \<Longrightarrow> set xs = ran (worldOps s i)"
    using mio.GetAll_Inr [OF inv, of i xs] by (simp add: worldOps_def)
  show "opGetAll (memDeps ex) i s = Inl e \<Longrightarrow> e = NotFoundError \<and> worldOps s i = Map.empty"
    using mio.GetAll_Inl [OF inv, of i e] by (simp add: worldOps_def)
  show "opGet (memDeps ex) i opid s = Inr op \<Longrightarrow> worldOps s i opid = Some op"
    using mio.Get_Inr [OF inv, of i opid op] by (simp add: worldOps_def)
  show "i \<noteq> '''' \<Longrightarrow> opid \<noteq> '''' \<Longrightarrow> worldOps s i opid = Some op \<Longrightarrow> opGet (memDeps ex) i opid s = Inr op"
    using mio.Get_found [OF inv, of i opid op] by (simp add: worldOps_def)
  show "i \<noteq> '''' \<Longrightarrow> opid \<noteq> '''' \<Longrightarrow> worldOps s i opid = None \<Longrightarrow>
      opGet (memDeps ex) i opid s = Inl NotFoundError"
    using mio.Get_absent [OF inv, of i opid] by (simp add: worldOps_def)
  show "opInsert (memDeps ex) io s = (None, s') \<Longrightarrow>
      io_InstanceID io \<noteq> '''' \<and> io_OperationID io \<noteq> '''' \<and>
      worldOps s (io_InstanceID io) (io_OperationID io) = None \<and>
      (\<forall>op \<in> ran (worldOps s (io_InstanceID io)). \<not> in_progress op) \<and>
      (\<exists>now. worldOps s' = (worldOps s)(io_InstanceID io :=
        (worldOps s (io_InstanceID io))(io_OperationID io \<mapsto> io\<lparr>io_CreatedAt := now\<rparr>)))"
    using mio.Insert_ok [OF inv, of io]
    by (cases "mem_io_Insert (Some io) (w_ops s)") (auto simp: worldOps_def)
  show "opInsert (memDeps ex) io s = (Some e, s') \<Longrightarrow> worldOps s' = worldOps s"
    using mio.Insert_refused [OF inv, of io]
    by (cases "mem_io_Insert (Some io) (w_ops s)") (auto simp: worldOps_def)
  show "fst (opInsert (memDeps ex) io s) = None"
    if "io_InstanceID io \<noteq> ''''" "io_OperationID io \<noteq> ''''"
      "worldOps s (io_InstanceID io) (io_OperationID io) = None"
      "\<forall>op \<in> ran (worldOps s (io_InstanceID io)). \<not> in_progress op"
    using mio.Insert_accepts [OF inv, of io] that by (simp add: worldOps_def)
  show "w_invar (snd (opInsert (memDeps ex) io s))"
    using mio.Insert_invar [OF inv, of io] wf by (simp add: w_invar_def)
  show "fst (opUpdateStateDesc (memDeps ex) i opid st d s) = None \<and>
      worldOps (snd (opUpdateStateDesc (memDeps ex) i opid st d s)) = (worldOps s)(i := (worldOps s i)(opid \<mapsto>
        op\<lparr>io_State := st, io_StateDescription := d\<rparr>))"
    if "i \<noteq> ''''" "opid \<noteq> ''''" "worldOps s i opid = Some op"
    using mio.UpdateStateDesc_found [OF inv that(1,2), of op st d] that(3) by (simp add: worldOps_def)
  show "fst (opUpdateStateDesc (memDeps ex) i opid st d s) \<noteq> None \<and>
      worldOps (snd (opUpdateStateDesc (memDeps ex) i opid st d s)) = worldOps s"
    if "worldOps s i opid = None \<or> i = '''' \<or> opid = ''''"
    using mio.UpdateStateDesc_absent [OF inv, of i opid st d] that by (simp add: worldOps_def)
  show "w_invar (snd (opUpdateStateDesc (memDeps ex) i opid st d s))"
    using mio.UpdateStateDesc_invar [OF inv, of i opid st d] wf by (simp add: w_invar_def)
  show "\<exists>xs. instGetAll (memDeps ex) s = Inr xs \<and> set xs = ran (worldInsts s)"
    using mem_in_GetAll_ok [OF wf] by (simp add: worldInsts_def)
next
  fix s s' :: "'x World" and x i bd
  show "in_ID x = '''' \<Longrightarrow> \<exists>e. instUpsert (memDeps ex) x s = (Inl e, s)"
    by (simp add: mem_in_defs)
  show "in_ID x \<noteq> '''' \<Longrightarrow> \<exists>r s'. instUpsert (memDeps ex) x s = (Inr r, s') \<and>
      worldInsts s' = (worldInsts s)(in_ID x \<mapsto> x) \<and> worldOps s' = worldOps s \<and>
      worldIbds s' = worldIbds s \<and> (w_invar s \<longrightarrow> w_invar s')"
    by (auto simp: mem_in_defs world_defs)
  show "\<exists>s'. instRemove (memDeps ex) i s = (if worldInsts s i = None then Some NotFoundError else None, s') \<and>
      worldInsts s' = (worldInsts s)(i := None) \<and> worldOps s' = worldOps s \<and> worldIbds s' = worldIbds s \<and>
      (w_invar s \<longrightarrow> w_invar s')"
    by (cases "worldInsts s i") (auto simp: mem_in_defs world_defs fun_upd_idem)
  show "bd_InstanceID bd \<noteq> '''' \<Longrightarrow> worldIbds s (bd_InstanceID bd) = None \<Longrightarrow>
      \<exists>s'. ibdInsert (memDeps ex) bd s = (None, s') \<and> worldIbds s' = (worldIbds s)(bd_InstanceID bd \<mapsto> bd) \<and>
      worldOps s' = worldOps s \<and> worldInsts s' = worldInsts s \<and> (w_invar s \<longrightarrow> w_invar s')"
    by (auto simp: mem_bd_defs world_defs)
  show "bd_InstanceID bd = '''' \<or> worldIbds s (bd_InstanceID bd) \<noteq> None \<Longrightarrow>
      \<exists>e. ibdInsert (memDeps ex) bd s = (Some e, s)"
    by (auto simp: mem_bd_defs world_defs)
  show "\<exists>s'. ibdRemove (memDeps ex) i s = (if worldIbds s i = None then Some NotFoundError else None, s') \<and>
      worldIbds s' = (worldIbds s)(i := None) \<and> worldOps s' = worldOps s \<and> worldInsts s' = worldInsts s \<and>
      (w_invar s \<longrightarrow> w_invar s')"
    by (cases "worldIbds s i") (auto simp: mem_bd_defs world_defs fun_upd_idem)
next
  fix s s' :: "'x World" and c v r ns res err rid
  show "helmInstall (memDeps ex) c v r ns s = (res, s') \<Longrightarrow> worldOps s' = worldOps s \<and>
      worldInsts s' = worldInsts s \<and> worldIbds s' = worldIbds s \<and> (w_invar s \<longrightarrow> w_invar s')"
    and "helmDelete (memDeps ex) r ns s = (err, s') \<Longrightarrow> worldOps s' = worldOps s \<and>
      worldInsts s' = worldInsts s \<and> worldIbds s' = worldIbds s \<and> (w_invar s \<longrightarrow> w_invar s')"
    and "operationIDProvider (memDeps ex) s = (rid, s') \<Longrightarrow> worldOps s' = worldOps s \<and>
      worldInsts s' = worldInsts s \<and> worldIbds s' = worldIbds s \<and> (w_invar s \<longrightarrow> w_invar s')"
    by (auto simp: apsnd_def map_prod_def world_defs split: prod.splits)
qed (simp_all add: mem_in_Get_def mem_bd_Get_def world_defs mem_in_entries_def mem_bd_entries_def)

end
