(* ===== verification/BrokerSystem.thy ===== *)
theory BrokerSystem
  imports Broker_World
begin

text \<open>
  The broker as a running system: requests arrive in any order, each handler runs under its
  mutex, and the goroutines that the handlers start are pending tasks that run at any later
  time and in any order. A task takes two steps, its work and the report of its end in the
  operation storage; between any two steps the clock, the addons, the charts, the bindings and
  the cluster may change.
\<close>

section \<open>Tasks and steps\<close>

datatype task =
    ProvisionTask provisioningInput
  | DeprovisionTask Instance OperationID
  | FinishTask InstanceID OperationID OperationState string

primrec task_key :: "task \<Rightarrow> InstanceID \<times> OperationID" where
  "task_key (ProvisionTask input) = (pi_instanceID input, pi_operationID input)"
| "task_key (DeprovisionTask inst opID) = (in_ID inst, opID)"
| "task_key (FinishTask i opID st de) = (i, opID)"

record 'x System =
  sys_world :: "'x World"
  sys_tasks :: "task list"

text \<open>The report that the goroutine stores at its end.\<close>

definition finish_of :: "string \<Rightarrow> InstanceID \<times> OperationID \<Rightarrow> error option \<Rightarrow> task" where
  "finish_of what k err =
     (case err of
        None \<Rightarrow> FinishTask (fst k) (snd k) OperationStateSucceeded (what @ '' succeeded'')
      | Some e \<Rightarrow> FinishTask (fst k) (snd k) OperationStateFailed (what @ '' failed on error: '' @ Error e))"

text \<open>
  \<open>strict\<close> restricts the requests to plans that the requested addon has, as a platform that reads
  the catalog sends them.
\<close>

inductive system_step :: "bool \<Rightarrow> 'x External \<Rightarrow> 'x System \<Rightarrow> 'x System \<Rightarrow> bool"
  for strict :: bool and ex :: "'x External" where
  sys_provision: "Provision (memDeps ex) ctx req w = (rep, t, w') \<Longrightarrow>
    (strict \<longrightarrow> \<not> plan_missing (memDeps ex) ctx req w) \<Longrightarrow>
    system_step strict ex \<lparr>sys_world = w, sys_tasks = ts\<rparr>
      \<lparr>sys_world = w', sys_tasks = (case t of None \<Rightarrow> ts | Some input \<Rightarrow> ProvisionTask input # ts)\<rparr>"
| sys_deprovision: "Deprovision (memDeps ex) ctx dreq w = (drep, dt, w') \<Longrightarrow>
    system_step strict ex \<lparr>sys_world = w, sys_tasks = ts\<rparr>
      \<lparr>sys_world = w', sys_tasks =
         (case dt of None \<Rightarrow> ts | Some (inst, opID) \<Rightarrow> DeprovisionTask inst opID # ts)\<rparr>"
| sys_run_provision: "ProvisionTask input \<in> set ts \<Longrightarrow>
    provision_fDo (memDeps ex) input w = (err, w') \<Longrightarrow>
    system_step strict ex \<lparr>sys_world = w, sys_tasks = ts\<rparr>
      \<lparr>sys_world = w', sys_tasks =
         finish_of ''provisioning'' (task_key (ProvisionTask input)) err # remove1 (ProvisionTask input) ts\<rparr>"
| sys_run_deprovision: "DeprovisionTask inst opID \<in> set ts \<Longrightarrow>
    deprovision_fDo (memDeps ex) inst w = (err, w') \<Longrightarrow>
    system_step strict ex \<lparr>sys_world = w, sys_tasks = ts\<rparr>
      \<lparr>sys_world = w', sys_tasks =
         finish_of ''deprovisioning'' (in_ID inst, opID) err # remove1 (DeprovisionTask inst opID) ts\<rparr>"
| sys_finish: "FinishTask i opID st de \<in> set ts \<Longrightarrow>
    opUpdateStateDesc (memDeps ex) i opID st (Some de) w = (err, w') \<Longrightarrow>
    system_step strict ex \<lparr>sys_world = w, sys_tasks = ts\<rparr>
      \<lparr>sys_world = w', sys_tasks = remove1 (FinishTask i opID st de) ts\<rparr>"
| sys_environment:
    "system_step strict ex \<lparr>sys_world = w, sys_tasks = ts\<rparr>
      \<lparr>sys_world = w\<lparr>w_addons := a, w_charts := c, w_ext := x, w_bops := b, w_ibds := dd,
         w_ops := (w_ops w)\<lparr>mio_nowProvider := now\<rparr>\<rparr>, sys_tasks = ts\<rparr>"

text \<open>The two steps of a task are what the goroutine does in one go when nothing intervenes.\<close>

lemma provision_do_two_steps:
  "provision_fDo d input s = (err, s1) \<Longrightarrow>
   finish_of ''provisioning'' (task_key (ProvisionTask input)) err = FinishTask i opID st de \<Longrightarrow>
   provision_do d input s = snd (opUpdateStateDesc d i opID st (Some de) s1)"
  by (auto simp: provision_do_def finish_of_def split: option.splits)

lemma deprovision_do_two_steps:
  "deprovision_fDo d inst s = (err, s1) \<Longrightarrow>
   finish_of ''deprovisioning'' (in_ID inst, opID) err = FinishTask i opID' st de \<Longrightarrow>
   deprovision_do d inst opID s = snd (opUpdateStateDesc d i opID' st (Some de) s1)"
  by (auto simp: deprovision_do_def finish_of_def split: option.splits)

definition NewWorld :: "'x \<Rightarrow> time \<Rightarrow> 'x World" where
  "NewWorld x now = \<lparr>w_ops = NewInstanceOperation now, w_bops = NewBindOperation now,
     w_insts = NewInstance, w_ibds = NewInstanceBindData, w_addons = NewAddon, w_charts = NewChart,
     w_ext = x\<rparr>"

definition system_reachable :: "bool \<Rightarrow> 'x External \<Rightarrow> 'x System \<Rightarrow> bool" where
  "system_reachable strict ex sys \<longleftrightarrow>
     (\<exists>x now. (system_step strict ex)\<^sup>*\<^sup>* \<lparr>sys_world = NewWorld x now, sys_tasks = []\<rparr> sys)"

section \<open>The invariant\<close>

definition task_ok :: "'x World \<Rightarrow> task \<Rightarrow> bool" where
  "task_ok w t \<longleftrightarrow>
     fst (task_key t) \<noteq> '''' \<and> snd (task_key t) \<noteq> '''' \<and>
     (\<exists>op. worldOps w (fst (task_key t)) (snd (task_key t)) = Some op \<and> in_progress op) \<and>
     (case t of
        ProvisionTask input \<Rightarrow> in_ID (pi_instanceToUpdate input) = pi_instanceID input
      | DeprovisionTask inst opID \<Rightarrow> True
      | FinishTask i opID st de \<Rightarrow> st \<in> {OperationStateSucceeded, OperationStateFailed})"

definition insts_keyed :: "'x World \<Rightarrow> bool" where
  "insts_keyed w \<longleftrightarrow> (\<forall>i x. worldInsts w i = Some x \<longrightarrow> in_ID x = i)"

definition tasks_cover :: "'x World \<Rightarrow> task list \<Rightarrow> bool" where
  "tasks_cover w ts \<longleftrightarrow>
     (\<forall>i opid op. worldOps w i opid = Some op \<longrightarrow> in_progress op \<longrightarrow> (i, opid) \<in> task_key ` set ts)"

definition system_inv :: "bool \<Rightarrow> 'x System \<Rightarrow> bool" where
  "system_inv strict sys \<longleftrightarrow>
     (let w = sys_world sys; ts = sys_tasks sys in
      w_invar w \<and> insts_keyed w \<and> (\<forall>i. one_in_progress (worldOps w i)) \<and>
      distinct (map task_key ts) \<and> (\<forall>t \<in> set ts. task_ok w t) \<and> (strict \<longrightarrow> tasks_cover w ts))"

lemma system_invI:
  "w_invar w \<Longrightarrow> insts_keyed w \<Longrightarrow> (\<And>i. one_in_progress (worldOps w i)) \<Longrightarrow> distinct (map task_key ts) \<Longrightarrow>
   (\<And>t. t \<in> set ts \<Longrightarrow> task_ok w t) \<Longrightarrow> (strict \<Longrightarrow> tasks_cover w ts) \<Longrightarrow>
   system_inv strict \<lparr>sys_world = w, sys_tasks = ts\<rparr>"
  by (simp add: system_inv_def)

lemma system_invD:
  assumes "system_inv strict \<lparr>sys_world = w, sys_tasks = ts\<rparr>"
  shows "w_invar w" "insts_keyed w" "one_in_progress (worldOps w i)" "distinct (map task_key ts)"
    "t \<in> set ts \<Longrightarrow> task_ok w t" "strict \<Longrightarrow> tasks_cover w ts"
  using assms by (simp_all add: system_inv_def Let_def)

lemma task_ok_same_ops: "worldOps w' = worldOps w \<Longrightarrow> task_ok w' t = task_ok w t"
  by (simp add: task_ok_def)

lemma tasks_cover_same_ops: "worldOps w' = worldOps w \<Longrightarrow> tasks_cover w' ts = tasks_cover w ts"
  by (simp add: tasks_cover_def)

text \<open>A new operation with its task.\<close>

lemma accepted_keeps:
  assumes inv: "system_inv strict \<lparr>sys_world = w, sys_tasks = ts\<rparr>"
    and acc: "accepted_op worldOps io w w'" and "w_invar w'" "insts_keyed w'"
    and prog: "in_progress io"
  shows "\<And>i. one_in_progress (worldOps w' i)"
    and "\<And>t. t \<in> set ts \<Longrightarrow> task_ok w' t"
    and "(io_InstanceID io, io_OperationID io) \<notin> task_key ` set ts"
    and "tasks_cover w ts \<Longrightarrow> task_key t = (io_InstanceID io, io_OperationID io) \<Longrightarrow> tasks_cover w' (t # ts)"
proof -
  let ?i = "io_InstanceID io" and ?o = "io_OperationID io"
  from acc obtain now where
    free: "worldOps w ?i ?o = None" "\<forall>op \<in> ran (worldOps w ?i). \<not> in_progress op" and
    ops: "worldOps w' = (worldOps w)(?i := (worldOps w ?i)(?o \<mapsto> io\<lparr>io_CreatedAt := now\<rparr>))"
    by (auto simp: accepted_op_def)
  show "one_in_progress (worldOps w' i)" for i
    using system_invD(3) [OF inv] one_in_progress_insert [OF free(2)] by (simp add: ops)
  show "task_ok w' t" if "t \<in> set ts" for t
  proof -
    from system_invD(5) [OF inv that] obtain op where
      "worldOps w (fst (task_key t)) (snd (task_key t)) = Some op" "in_progress op"
      by (auto simp: task_ok_def)
    with free have "worldOps w' (fst (task_key t)) (snd (task_key t)) = Some op"
      by (auto simp: ops ran_def)
    with \<open>in_progress op\<close> system_invD(5) [OF inv that] show ?thesis by (auto simp: task_ok_def)
  qed
  show "(?i, ?o) \<notin> task_key ` set ts"
  proof
    assume "(?i, ?o) \<in> task_key ` set ts"
    then obtain t where "t \<in> set ts" "task_key t = (?i, ?o)" by (metis imageE)
    with system_invD(5) [OF inv, of t] free(1) show False by (auto simp: task_ok_def)
  qed
  show "tasks_cover w ts \<Longrightarrow> task_key t = (?i, ?o) \<Longrightarrow> tasks_cover w' (t # ts)"
    by (auto simp: tasks_cover_def ops split: if_splits)
qed

text \<open>A task that has done its work and is now the report of its end.\<close>

lemma replaced_task:
  assumes inv: "system_inv strict \<lparr>sys_world = w, sys_tasks = ts\<rparr>" and t: "t \<in> set ts"
    and same: "worldOps w' = worldOps w" "w_invar w'" "insts_keyed w'"
  shows "system_inv strict \<lparr>sys_world = w', sys_tasks = finish_of what (task_key t) err # remove1 t ts\<rparr>"
proof (rule system_invI)
  let ?f = "finish_of what (task_key t) err"
  have key: "task_key ?f = task_key t" by (simp add: finish_of_def split: option.splits)
  show "w_invar w'" "insts_keyed w'" by fact+
  show "one_in_progress (worldOps w' i)" for i using system_invD(3) [OF inv] same by simp
  have d: "distinct (map task_key ts)" by (rule system_invD(4) [OF inv])
  then have "distinct ts" by (simp add: distinct_map)
  have "task_key t \<notin> task_key ` set (remove1 t ts)"
    using d t \<open>distinct ts\<close> by (auto simp: distinct_map inj_on_def)
  moreover have "distinct (map task_key (remove1 t ts))"
    using d \<open>distinct ts\<close> by (auto simp: distinct_map intro: inj_on_subset)
  ultimately show "distinct (map task_key (?f # remove1 t ts))" by (simp add: key)
  show "task_ok w' u" if "u \<in> set (?f # remove1 t ts)" for u
  proof (cases "u = ?f")
    case True
    with system_invD(5) [OF inv t] key same(1) show ?thesis
      by (auto simp: task_ok_def finish_of_def split: option.splits)
  next
    case False
    with that have "u \<in> set ts" using set_remove1_subset [of t ts] by auto
    with system_invD(5) [OF inv] show ?thesis by (simp add: task_ok_same_ops [OF same(1)])
  qed
  show "tasks_cover w' (?f # remove1 t ts)" if strict
  proof -
    have "task_key ` set ts \<subseteq> task_key ` set (?f # remove1 t ts)"
      using key \<open>distinct ts\<close> by auto
    with system_invD(6) [OF inv that] show ?thesis
      unfolding tasks_cover_def same(1) by blast
  qed
qed

lemma insts_keyed_update:
  "insts_keyed w \<Longrightarrow> worldInsts w' = (worldInsts w)(in_ID x \<mapsto> x) \<Longrightarrow> insts_keyed w'"
  by (simp add: insts_keyed_def)

lemma insts_keyed_delete:
  "insts_keyed w \<Longrightarrow> worldInsts w' = (worldInsts w)(i := None) \<Longrightarrow> insts_keyed w'"
  by (simp add: insts_keyed_def)

lemma insts_keyed_same: "insts_keyed w \<Longrightarrow> worldInsts w' = worldInsts w \<Longrightarrow> insts_keyed w'"
  by (simp add: insts_keyed_def)

lemma requestedParametersAreDifferent_keyed:
  assumes "insts_keyed w" "requestedParametersAreDifferent (memDeps ex) i p w = (r, w')"
  shows "insts_keyed w'"
  using assms
  by (auto simp: requestedParametersAreDifferent_def insts_keyed_def worldInsts_def mem_in_defs
      split: option.splits sum.splits if_splits)

lemma Provision_keyed:
  assumes "w_invar w" "insts_keyed w" "Provision (memDeps ex) ctx req w = (rep, t, w')"
  shows "insts_keyed w'"
proof -
  consider (new) ns where "provision_new (memDeps ex) ctx req ns w = (rep, t, w')"
    | (same) "w' = w"
    | (cmp) r where "requestedParametersAreDifferent (memDeps ex) (pr_InstanceID req)
        \<lparr>rp_Data = pr_Parameters req\<rparr> w = (r, w')"
    using assms(3)
    by (auto simp: Provision_def Let_def split: if_splits sum.splits bool.splits prod.splits option.splits)
  then show ?thesis
  proof cases
    case new
    show ?thesis
    proof (cases t)
      case None
      with mw.provision_new_outcome [OF assms(1) new] assms(2) show ?thesis
        by (auto intro: insts_keyed_same)
    next
      case (Some input)
      with mw.provision_new_outcome [OF assms(1) new]
      have "in_ID (pi_instanceToUpdate input) = pr_InstanceID req"
        "worldInsts w' = (worldInsts w)(pr_InstanceID req \<mapsto> pi_instanceToUpdate input)"
        by (auto simp: provision_started_def)
      then show ?thesis
        using insts_keyed_update [OF assms(2), of w' "pi_instanceToUpdate input"] by simp
    qed
  next
    case same
    with assms(2) show ?thesis by simp
  next
    case cmp
    show ?thesis by (rule requestedParametersAreDifferent_keyed [OF assms(2) cmp])
  qed
qed

lemma provision_step_inv:
  assumes inv: "system_inv strict \<lparr>sys_world = w, sys_tasks = ts\<rparr>"
    and prov: "Provision (memDeps ex) ctx req w = (rep, t, w')"
    and plan: "strict \<longrightarrow> \<not> plan_missing (memDeps ex) ctx req w"
  shows "system_inv strict \<lparr>sys_world = w', sys_tasks =
     (case t of None \<Rightarrow> ts | Some input \<Rightarrow> ProvisionTask input # ts)\<rparr>"
proof -
  note out = mw.Provision_outcome [OF system_invD(1) [OF inv] prov]
  have keyed: "insts_keyed w'"
    using Provision_keyed system_invD(1,2) [OF inv] prov by blast
  have prog: "in_progress (provision_op req opID)" for opID
    by (simp add: in_progress_def provision_op_def)
  show ?thesis
  proof (cases t)
    case (Some input)
    with out have started: "provision_started req rep input" and
      acc: "accepted_op worldOps (provision_op req (pi_operationID input)) w w'" and "w_invar w'"
      by auto
    note kept = accepted_keeps [OF inv acc \<open>w_invar w'\<close> keyed prog]
    have key: "task_key (ProvisionTask input) = (io_InstanceID (provision_op req (pi_operationID input)),
        io_OperationID (provision_op req (pi_operationID input)))"
      using started by (simp add: provision_started_def provision_op_def)
    have new: "task_ok w' (ProvisionTask input)"
      using acc started prog [of "pi_operationID input"]
      by (auto simp: task_ok_def accepted_op_def provision_started_def provision_op_def in_progress_def)
    have "system_inv strict \<lparr>sys_world = w', sys_tasks = ProvisionTask input # ts\<rparr>"
    proof (rule system_invI)
      show "w_invar w'" "insts_keyed w'" by fact+
      show "one_in_progress (worldOps w' i)" for i by (rule kept(1))
      show "distinct (map task_key (ProvisionTask input # ts))"
        using kept(3) system_invD(4) [OF inv] key by simp
      show "u \<in> set (ProvisionTask input # ts) \<Longrightarrow> task_ok w' u" for u
        using kept(2) new by auto
      show "strict \<Longrightarrow> tasks_cover w' (ProvisionTask input # ts)"
        using kept(4) [OF _ key] system_invD(6) [OF inv] by blast
    qed
    with Some show ?thesis by simp
  next
    case None
    have "w_invar w'" using out by simp
    show ?thesis
    proof (cases "worldOps w' = worldOps w")
      case True
      then have "system_inv strict \<lparr>sys_world = w', sys_tasks = ts\<rparr>"
        using inv \<open>w_invar w'\<close> keyed
        by (auto intro!: system_invI
            simp: task_ok_same_ops [OF True] tasks_cover_same_ops [OF True] dest: system_invD)
      with None show ?thesis by simp
    next
      case False
      with None out obtain opID where
        miss: "plan_missing (memDeps ex) ctx req w" and
        acc: "accepted_op worldOps (provision_op req opID) w w'"
        by auto
      note kept = accepted_keeps [OF inv acc \<open>w_invar w'\<close> keyed prog]
      from miss plan have "\<not> strict" by blast
      then have "system_inv strict \<lparr>sys_world = w', sys_tasks = ts\<rparr>"
        using inv \<open>w_invar w'\<close> keyed kept(1,2)
        by (auto intro!: system_invI dest: system_invD)
      with None show ?thesis by simp
    qed
  qed
qed

lemma deprovision_step_inv:
  assumes inv: "system_inv strict \<lparr>sys_world = w, sys_tasks = ts\<rparr>"
    and dep: "Deprovision (memDeps ex) ctx req w = (rep, t, w')"
  shows "system_inv strict \<lparr>sys_world = w', sys_tasks =
     (case t of None \<Rightarrow> ts | Some (inst, opID) \<Rightarrow> DeprovisionTask inst opID # ts)\<rparr>"
proof -
  note out = mw.Deprovision_outcome [OF system_invD(1) [OF inv] dep]
  have keyed: "insts_keyed w'"
    using out system_invD(2) [OF inv] by (auto intro: insts_keyed_same)
  show ?thesis
  proof (cases t)
    case None
    with out have same: "worldOps w' = worldOps w" and "w_invar w'" by auto
    then have "system_inv strict \<lparr>sys_world = w', sys_tasks = ts\<rparr>"
      using inv keyed
      by (auto intro!: system_invI
          simp: task_ok_same_ops [OF same] tasks_cover_same_ops [OF same] dest: system_invD)
    with None show ?thesis by simp
  next
    case (Some p)
    obtain inst opID where p: "p = (inst, opID)" by (cases p)
    let ?io = "deprovision_op (dr_InstanceID req) opID"
    from out Some p have acc: "accepted_op worldOps ?io w w'" and "w_invar w'"
      and "worldInsts w (dr_InstanceID req) = Some inst" by auto
    then have "in_ID inst = dr_InstanceID req"
      using system_invD(2) [OF inv] by (auto simp: insts_keyed_def)
    then have key: "task_key (DeprovisionTask inst opID) = (io_InstanceID ?io, io_OperationID ?io)"
      by (simp add: deprovision_op_def)
    have prog: "in_progress ?io" by (simp add: in_progress_def deprovision_op_def)
    note kept = accepted_keeps [OF inv acc \<open>w_invar w'\<close> keyed prog]
    have new: "task_ok w' (DeprovisionTask inst opID)"
      using acc prog key
      by (auto simp: task_ok_def accepted_op_def in_progress_def deprovision_op_def)
    have "system_inv strict \<lparr>sys_world = w', sys_tasks = DeprovisionTask inst opID # ts\<rparr>"
    proof (rule system_invI)
      show "w_invar w'" "insts_keyed w'" by fact+
      show "one_in_progress (worldOps w' i)" for i by (rule kept(1))
      show "distinct (map task_key (DeprovisionTask inst opID # ts))"
        using kept(3) system_invD(4) [OF inv] key by simp
      show "u \<in> set (DeprovisionTask inst opID # ts) \<Longrightarrow> task_ok w' u" for u
        using kept(2) new by auto
      show "strict \<Longrightarrow> tasks_cover w' (DeprovisionTask inst opID # ts)"
        using kept(4) [OF _ key] system_invD(6) [OF inv] by blast
    qed
    with Some p show ?thesis by simp
  qed
qed

lemma finish_step_inv:
  assumes inv: "system_inv strict \<lparr>sys_world = w, sys_tasks = ts\<rparr>"
    and t: "FinishTask i opID st de \<in> set ts"
    and upd: "opUpdateStateDesc (memDeps ex) i opID st (Some de) w = (err, w')"
  shows "system_inv strict \<lparr>sys_world = w', sys_tasks = remove1 (FinishTask i opID st de) ts\<rparr>"
proof -
  let ?t = "FinishTask i opID st de"
  from system_invD(5) [OF inv t] obtain op where ok: "i \<noteq> ''''" "opID \<noteq> ''''"
    "worldOps w i opID = Some op" "st \<in> {OperationStateSucceeded, OperationStateFailed}"
    by (auto simp: task_ok_def)
  note fin = mw.finish_operation [OF system_invD(1) [OF inv] ok(1-3), of ex st "Some de"]
  let ?op = "op\<lparr>io_State := st, io_StateDescription := Some de\<rparr>"
  have w': "worldOps w' = (worldOps w)(i := (worldOps w i)(opID \<mapsto> ?op))" "w_invar w'"
    "worldInsts w' = worldInsts w"
    using fin unfolding upd by simp_all
  have ended: "\<not> in_progress ?op" using ok(4) by (auto simp: in_progress_def)
  have d: "distinct (map task_key ts)" by (rule system_invD(4) [OF inv])
  then have "distinct ts" by (simp add: distinct_map)
  have other: "task_key u \<noteq> (i, opID)" if "u \<in> set (remove1 ?t ts)" for u
    using d t that \<open>distinct ts\<close> by (auto simp: distinct_map inj_on_def)
  show ?thesis
  proof (rule system_invI)
    show "w_invar w'" by fact
    show "insts_keyed w'" using system_invD(2) [OF inv] w'(3) by (rule insts_keyed_same)
    show "one_in_progress (worldOps w' j)" for j
      using system_invD(3) [OF inv] one_in_progress_finish [OF system_invD(3) [OF inv] ended]
      by (simp add: w'(1))
    show "distinct (map task_key (remove1 ?t ts))"
      using d \<open>distinct ts\<close> by (auto simp: distinct_map intro: inj_on_subset)
    show "task_ok w' u" if u: "u \<in> set (remove1 ?t ts)" for u
    proof -
      from u have "u \<in> set ts" using set_remove1_subset [of ?t ts] by auto
      from system_invD(5) [OF inv this] have "task_ok w u" .
      moreover have "worldOps w' (fst (task_key u)) (snd (task_key u)) =
          worldOps w (fst (task_key u)) (snd (task_key u))"
        using other [OF u] by (cases "task_key u") (auto simp: w'(1))
      ultimately show ?thesis by (simp add: task_ok_def)
    qed
    show "tasks_cover w' (remove1 ?t ts)" if strict
    proof -
      have "x \<in> task_key ` set (remove1 ?t ts)" if "x \<in> task_key ` set ts" "x \<noteq> (i, opID)" for x
        using that \<open>distinct ts\<close> by auto
      with system_invD(6) [OF inv that] ended show ?thesis
        by (auto simp: tasks_cover_def w'(1) split: if_splits)
    qed
  qed
qed

lemma environment_step_inv:
  assumes inv: "system_inv strict \<lparr>sys_world = w, sys_tasks = ts\<rparr>"
  shows "system_inv strict \<lparr>sys_world = w\<lparr>w_addons := a, w_charts := c, w_ext := x, w_bops := b,
      w_ibds := dd, w_ops := (w_ops w)\<lparr>mio_nowProvider := now\<rparr>\<rparr>, sys_tasks = ts\<rparr>"
proof -
  let ?w = "w\<lparr>w_addons := a, w_charts := c, w_ext := x, w_bops := b,
      w_ibds := dd, w_ops := (w_ops w)\<lparr>mio_nowProvider := now\<rparr>\<rparr>"
  have ops: "worldOps ?w = worldOps w" and insts: "worldInsts ?w = worldInsts w" and
    invar: "w_invar ?w = w_invar w"
    by (simp_all add: world_defs mem_io_ops_def mem_io_invar_def)
  show ?thesis
  proof (rule system_invI)
    show "w_invar ?w" using system_invD(1) [OF inv] invar by simp
    show "insts_keyed ?w" using system_invD(2) [OF inv] insts by (rule insts_keyed_same)
    show "one_in_progress (worldOps ?w i)" for i using system_invD(3) [OF inv] ops by simp
    show "distinct (map task_key ts)" by (rule system_invD(4) [OF inv])
    show "t \<in> set ts \<Longrightarrow> task_ok ?w t" for t
      using system_invD(5) [OF inv] by (simp add: task_ok_same_ops [OF ops])
    show "strict \<Longrightarrow> tasks_cover ?w ts"
      using system_invD(6) [OF inv] by (simp add: tasks_cover_same_ops [OF ops])
  qed
qed

lemma system_step_inv:
  "system_step strict ex sys sys' \<Longrightarrow> system_inv strict sys \<Longrightarrow> system_inv strict sys'"
proof (induction rule: system_step.induct)
  case (sys_provision ctx req w rep t w' ts)
  then show ?case by (intro provision_step_inv)
next
  case (sys_deprovision ctx dreq w drep dt w' ts)
  then show ?case by (intro deprovision_step_inv)
next
  case (sys_run_provision input ts w err w')
  note frame = mw.provision_fDo_frame [OF sys_run_provision(2)]
  have "insts_keyed w'"
  proof (cases err)
    case None
    with frame obtain info where "worldInsts w' = (worldInsts w)(in_ID (pi_instanceToUpdate input) \<mapsto>
       (pi_instanceToUpdate input)\<lparr>in_ReleaseInfo := info\<rparr>)" by auto
    then show ?thesis
      using insts_keyed_update [OF system_invD(2) [OF sys_run_provision(3)], of w'
          "(pi_instanceToUpdate input)\<lparr>in_ReleaseInfo := info\<rparr>"] by simp
  next
    case (Some e)
    with frame system_invD(2) [OF sys_run_provision(3)] show ?thesis by (auto intro: insts_keyed_same)
  qed
  with frame system_invD(1) [OF sys_run_provision(3)] show ?case
    by (intro replaced_task [OF sys_run_provision(3,1)]) auto
next
  case (sys_run_deprovision inst opID ts w err w')
  note frame = mw.deprovision_fDo_frame [OF sys_run_deprovision(2)]
  have "insts_keyed w'"
    using frame system_invD(2) [OF sys_run_deprovision(3)]
    by (cases err) (auto intro: insts_keyed_same insts_keyed_delete)
  with frame system_invD(1) [OF sys_run_deprovision(3)]
    replaced_task [OF sys_run_deprovision(3,1), of w' "''deprovisioning''" err]
  show ?case by simp
next
  case (sys_finish i opID st de ts w err w')
  then show ?case by (intro finish_step_inv)
next
  case (sys_environment w ts a c x b dd now)
  then show ?case by (rule environment_step_inv)
qed

lemma NewWorld_inv: "system_inv strict \<lparr>sys_world = NewWorld x now, sys_tasks = []\<rparr>"
  by (rule system_invI)
    (simp_all add: NewWorld_def world_defs insts_keyed_def tasks_cover_def NewInstanceOperation_def
      NewInstance_def mem_io_invar_def mem_io_ops_def mem_in_entries_def)

lemma system_reachable_inv: "system_reachable strict ex sys \<Longrightarrow> system_inv strict sys"
proof -
  assume "system_reachable strict ex sys"
  then obtain x now where
    "(system_step strict ex)\<^sup>*\<^sup>* \<lparr>sys_world = NewWorld x now, sys_tasks = []\<rparr> sys"
    by (auto simp: system_reachable_def)
  then show ?thesis
  proof (induction rule: rtranclp_induct)
    case base
    show ?case by (rule NewWorld_inv)
  next
    case (step sys1 sys2)
    from step(2,3) show ?case by (rule system_step_inv)
  qed
qed

section \<open>Every accepted operation can end\<close>

text \<open>The number of steps that the pending tasks still need.\<close>

definition work_left :: "task list \<Rightarrow> nat" where
  "work_left ts = sum_list (map (\<lambda>t. case t of FinishTask i opID st de \<Rightarrow> 1 | _ \<Rightarrow> 2) ts)"

lemma work_left_remove1:
  "t \<in> set ts \<Longrightarrow> work_left ts = (case t of FinishTask i opID st de \<Rightarrow> 1 | _ \<Rightarrow> 2) + work_left (remove1 t ts)"
  unfolding work_left_def by (rule sum_list_map_remove1)

lemma work_left_finish_of [simp]: "work_left (finish_of what k err # ts) = Suc (work_left ts)"
  by (simp add: work_left_def finish_of_def split: option.splits)

lemma task_step:
  assumes "ts \<noteq> []"
  shows "\<exists>w' ts'. system_step strict ex \<lparr>sys_world = w, sys_tasks = ts\<rparr>
    \<lparr>sys_world = w', sys_tasks = ts'\<rparr> \<and> work_left ts' < work_left ts"
proof -
  from assms obtain t where t: "t \<in> set ts" by (cases ts) auto
  note left = work_left_remove1 [OF t]
  show ?thesis
  proof (cases t)
    case (ProvisionTask input)
    obtain err w' where "provision_fDo (memDeps ex) input w = (err, w')" by (meson surj_pair)
    note step = sys_run_provision [OF t [unfolded ProvisionTask] this, of strict]
    show ?thesis
      by (rule exI, rule exI, rule conjI, rule step) (use left ProvisionTask in simp)
  next
    case (DeprovisionTask inst opID)
    obtain err w' where "deprovision_fDo (memDeps ex) inst w = (err, w')" by (meson surj_pair)
    note step = sys_run_deprovision [OF t [unfolded DeprovisionTask] this, of strict]
    show ?thesis
      by (rule exI, rule exI, rule conjI, rule step) (use left DeprovisionTask in simp)
  next
    case (FinishTask i opID st de)
    obtain err w' where "opUpdateStateDesc (memDeps ex) i opID st (Some de) w = (err, w')"
      by (meson surj_pair)
    note step = sys_finish [OF t [unfolded FinishTask] this, of strict]
    show ?thesis
      by (rule exI, rule exI, rule conjI, rule step) (use left FinishTask in simp)
  qed
qed

lemma tasks_drain:
  "\<exists>w'. (system_step strict ex)\<^sup>*\<^sup>* \<lparr>sys_world = w, sys_tasks = ts\<rparr> \<lparr>sys_world = w', sys_tasks = []\<rparr>"
proof (induction "work_left ts" arbitrary: w ts rule: less_induct)
  case less
  show ?case
  proof (cases ts)
    case Nil
    then show ?thesis by blast
  next
    case (Cons t ts')
    with task_step [of ts strict ex w] obtain w1 ts1 where
      step: "system_step strict ex \<lparr>sys_world = w, sys_tasks = ts\<rparr> \<lparr>sys_world = w1, sys_tasks = ts1\<rparr>"
      and "work_left ts1 < work_left ts" by blast
    from less [OF this(2), of w1] step show ?thesis
      by (meson converse_rtranclp_into_rtranclp)
  qed
qed

end
