(* ===== verification/BrokerProperties.thy ===== *)
theory BrokerProperties
  imports BrokerSystem
begin

text \<open>
  The properties of the broker's handlers and tasks over the in-memory storages, and of the
  running system. The external world is an arbitrary \<open>ex\<close> throughout; the examples fix one in
  which Helm installs everything.
\<close>

section \<open>An example world\<close>

definition example_plan :: AddonPlan where
  "example_plan = \<lparr>pl_ID = ''p-1'', pl_Name = ''micro'', pl_Description = ''Micro'', pl_Schemas = [],
     pl_ChartRef = \<lparr>cr_Name = ''redis'', cr_Version = \<lparr>Original = ''1.0.0'', String = ''1.0.0''\<rparr>\<rparr>,
     pl_ChartValues = [], pl_Metadata = \<lparr>pm_DisplayName = ''Micro''\<rparr>, pl_Bindable = None, pl_Free = None,
     pl_BindTemplate = None\<rparr>"

definition example_external :: "unit External" where
  "example_external = \<lparr>
     ex_install = \<lambda>c v r ns x. (Inr \<lparr>rel_Name = r, rel_Version = 1, rel_LastDeployed = 5, rel_Config = v\<rparr>, x),
     ex_delete = \<lambda>r ns x. (None, x), ex_newID = \<lambda>x. (Inr ''op-1'', x),
     ex_render = \<lambda>t i c x. Inr '''', ex_resolve = \<lambda>y ns x. Inr \<lparr>ro_Credentials = [(''password'', ''secret'')]\<rparr>,
     ex_httpErrorText = \<lambda>c m. m\<rparr>"

definition example_world :: "unit World" where
  "example_world = (NewWorld () 7)\<lparr>
     w_addons := \<lparr>mad_ketToID = [], mad_storage =
       [('''', [(''a-1'', example_addon\<lparr>ad_Plans := [(''p-1'', example_plan)]\<rparr>)])]\<rparr>,
     w_charts := \<lparr>mch_storage = [(''|redis|1.0.0'', example_chart)]\<rparr>\<rparr>"

definition example_ctx :: OsbContext where
  "example_ctx = \<lparr>ctx_APIVersion = ''2.14'', ctx_OriginatingIdentity = '''', ctx_BrokerNamespace = ClusterWide\<rparr>"

definition example_req :: ProvisionRequest where
  "example_req = \<lparr>pr_InstanceID = ''i-1'', pr_AcceptsIncomplete = True, pr_ServiceID = ''a-1'',
     pr_PlanID = ''p-1'', pr_Parameters = None, pr_Context = [(''namespace'', JStr ''stage'')]\<rparr>"

definition example_input :: provisioningInput where
  "example_input = \<lparr>pi_instanceID = ''i-1'', pi_operationID = ''op-1'', pi_namespace = ''stage'',
     pi_brokerNamespace = '''', pi_releaseName = ''hb-redis-micro-i-1'', pi_addonPlan = example_plan,
     pi_isAddonBindable = True, pi_chartOverrides = [], pi_addonsRepositoryURL = '''',
     pi_instanceToUpdate = \<lparr>in_ID = ''i-1'', in_ServiceID = ''a-1'', in_ServicePlanID = ''p-1'',
       in_ReleaseName = ''hb-redis-micro-i-1'', in_Namespace = ''stage'', in_ReleaseInfo = EmptyReleaseInfo,
       in_ProvisioningParameters = Some \<lparr>rp_Data = None\<rparr>, in_ParamsHash = ''''\<rparr>\<rparr>"

definition example_world1 :: "unit World" where
  "example_world1 = example_world\<lparr>
     w_ops := \<lparr>mio_storage = [(''i-1'', [(''op-1'', (provision_op example_req ''op-1'')\<lparr>io_CreatedAt := 7\<rparr>)])],
        mio_nowProvider = 7\<rparr>,
     w_insts := \<lparr>mi_storage = [(''i-1'', pi_instanceToUpdate example_input)]\<rparr>\<rparr>"

lemmas example_defs = example_world_def example_world1_def example_external_def example_ctx_def example_req_def
  example_input_def NewWorld_def NewInstanceOperation_def NewBindOperation_def NewInstance_def
  NewInstanceBindData_def NewAddon_def NewChart_def

lemma example_world_invar: "w_invar example_world" "w_invar example_world1"
  by (simp_all add: example_defs world_defs mem_io_invar_def)

lemma example_releaseName: "createReleaseName ''redis'' ''micro'' ''i-1'' = ''hb-redis-micro-i-1''"
  by (simp add: createReleaseName_def normalize_def strTrim_def strTrimLeft_def strTrimRight_def)

lemma example_Provision:
  "Provision (memDeps example_external) example_ctx example_req example_world =
     (Reply \<lparr>ar_Async = True, ar_OperationKey = Some ''op-1''\<rparr>, Some example_input, example_world1)"
  by (simp add: Provision_def provision_new_def provision_accepted_def example_defs mem_io_defs mem_in_defs
      mem_ad_GetByID_def IsProvisioned_def IsProvisioningInProgress_def getNamespaceFromContext_def
      IsProvisioningAllowed_def ClusterWide_def example_addon_def provision_op_def Let_def
      example_releaseName example_plan_def)

section \<open>Provisioning\<close>

text \<open>
  C4. A provisioning request that starts a task replies with the key of a new operation: no
  other operation of the instance is in progress, the operation is stored as a creation in
  progress with the requested parameters, the instance is stored, and the operations of every
  other instance are as before.
\<close>

theorem Provision_starts:
  assumes "w_invar s" and "Provision (memDeps ex) ctx req s = (rep, Some input, s')"
  shows "rep = Reply \<lparr>ar_Async = True, ar_OperationKey = Some (pi_operationID input)\<rparr> \<and>
    (\<forall>op \<in> ran (worldOps s (pr_InstanceID req)). \<not> in_progress op) \<and>
    (\<exists>op. mem_io_Get (pr_InstanceID req) (pi_operationID input) (w_ops s') = Inr op \<and>
       io_Type op = OperationTypeCreate \<and> in_progress op \<and>
       io_ProvisioningParameters op = Some \<lparr>rp_Data = pr_Parameters req\<rparr>) \<and>
    mem_in_Get (pr_InstanceID req) (w_insts s') = Inr (pi_instanceToUpdate input) \<and>
    (\<forall>i. i \<noteq> pr_InstanceID req \<longrightarrow> worldOps s' i = worldOps s i)"
proof -
  let ?io = "provision_op req (pi_operationID input)"
  from mw.Provision_outcome [OF assms] have "w_invar s'" and
    started: "provision_started req rep input" and acc: "accepted_op worldOps ?io s s'" and
    insts: "worldInsts s' = (worldInsts s)(pr_InstanceID req \<mapsto> pi_instanceToUpdate input)" by auto
  from acc obtain now where
    ids: "pr_InstanceID req \<noteq> ''''" "pi_operationID input \<noteq> ''''" and
    free: "\<forall>op \<in> ran (worldOps s (pr_InstanceID req)). \<not> in_progress op" and
    ops: "worldOps s' = (worldOps s)(pr_InstanceID req := (worldOps s (pr_InstanceID req))
       (pi_operationID input \<mapsto> ?io\<lparr>io_CreatedAt := now\<rparr>))"
    by (auto simp: accepted_op_def provision_op_def)
  then have "mem_io_Get (pr_InstanceID req) (pi_operationID input) (w_ops s') = Inr (?io\<lparr>io_CreatedAt := now\<rparr>)"
    using mw.Get_found [OF \<open>w_invar s'\<close> ids, of "?io\<lparr>io_CreatedAt := now\<rparr>" ex] by simp
  then have "\<exists>op. mem_io_Get (pr_InstanceID req) (pi_operationID input) (w_ops s') = Inr op \<and>
       io_Type op = OperationTypeCreate \<and> in_progress op \<and>
       io_ProvisioningParameters op = Some \<lparr>rp_Data = pr_Parameters req\<rparr>"
    by (simp add: provision_op_def in_progress_def)
  moreover have "mem_in_Get (pr_InstanceID req) (w_insts s') = Inr (pi_instanceToUpdate input)"
    using mw.instGet_eq [of ex "pr_InstanceID req" s'] insts by simp
  ultimately show ?thesis
    using started free ops by (simp add: provision_started_def)
qed

theorem Provision_starts_witness:
  "\<exists>op. mem_io_Get ''i-1'' ''op-1'' (w_ops example_world1) = Inr op \<and> in_progress op"
  using Provision_starts [OF example_world_invar(1) example_Provision]
  by (auto simp: example_req_def example_input_def)



text \<open>
  C6. Provisioning is idempotent while it runs: repeating the request for the same instance
  replies with the same operation key, starts no second task and changes nothing.
\<close>

theorem Provision_idempotent:
  assumes "w_invar s" and "Provision (memDeps ex) ctx req s = (rep, Some input, s')"
    and "pr_AcceptsIncomplete req'" and "pr_InstanceID req' = pr_InstanceID req"
  shows "Provision (memDeps ex) ctx' req' s' = (rep, None, s')"
  by (rule mw.Provision_repeat [OF assms])

theorem Provision_idempotent_witness:
  "Provision (memDeps example_external) example_ctx example_req example_world1 =
     (Reply \<lparr>ar_Async = True, ar_OperationKey = Some ''op-1''\<rparr>, None, example_world1)"
  by (rule Provision_idempotent [OF example_world_invar(1) example_Provision])
    (simp_all add: example_req_def)



text \<open>
  C8. An addon that may be provisioned only once per namespace is provisioned only if no
  instance of it exists in the namespace of the request.
\<close>

theorem Provision_once:
  assumes "w_invar s" and "Provision (memDeps ex) ctx req s = (rep, Some input, s')"
    and "mem_ad_GetByID (ctx_BrokerNamespace ctx) (pr_ServiceID req) (w_addons s) = Inr addon"
    and "am_ProvisionOnlyOnce (ad_Metadata addon)"
  shows "\<not> (\<exists>i x. worldInsts s i = Some x \<and> in_Namespace x = pi_namespace input \<and>
     in_ServiceID x = ad_ID addon)"
proof -
  have "\<exists>xs. instGetAll (memDeps ex) s = Inr xs \<and> IsProvisioningAllowed addon (pi_namespace input) xs"
    using assms(2,3)
    by (auto simp: Provision_def provision_new_def provision_accepted_def Let_def
        split: if_splits sum.splits bool.splits prod.splits option.splits)
  with mw.instGetAll_eq [OF assms(1), of ex] assms(4) show ?thesis
    by (auto simp: IsProvisioningAllowed_def instances_conflict_iff ran_def)
qed

theorem Provision_once_witness:
  "\<not> (\<exists>i x. worldInsts (example_world\<lparr>w_addons := \<lparr>mad_ketToID = [], mad_storage =
       [('''', [(''a-1'', example_addon\<lparr>ad_Plans := [(''p-1'', example_plan)],
          ad_Metadata := (ad_Metadata example_addon)\<lparr>am_ProvisionOnlyOnce := True\<rparr>\<rparr>)])]\<rparr>\<rparr>) i = Some x \<and>
     in_Namespace x = ''stage'' \<and> in_ServiceID x = ''a-1'')"
proof -
  let ?a = "example_addon\<lparr>ad_Plans := [(''p-1'', example_plan)],
      ad_Metadata := (ad_Metadata example_addon)\<lparr>am_ProvisionOnlyOnce := True\<rparr>\<rparr>"
  let ?w = "example_world\<lparr>w_addons := \<lparr>mad_ketToID = [], mad_storage = [('''', [(''a-1'', ?a)])]\<rparr>\<rparr>"
  have inv: "w_invar ?w" by (simp add: example_defs world_defs mem_io_invar_def)
  have get: "mem_ad_GetByID (ctx_BrokerNamespace example_ctx) (pr_ServiceID example_req) (w_addons ?w) = Inr ?a"
    by (simp add: mem_ad_GetByID_def example_ctx_def example_req_def ClusterWide_def)
  have "\<exists>rep s'. Provision (memDeps example_external) example_ctx example_req ?w = (rep, Some example_input, s')"
    by (simp add: Provision_def provision_new_def provision_accepted_def example_defs mem_io_defs mem_in_defs
      mem_ad_GetByID_def IsProvisioned_def IsProvisioningInProgress_def getNamespaceFromContext_def
      IsProvisioningAllowed_def ClusterWide_def example_addon_def provision_op_def Let_def
      example_releaseName example_plan_def)
  then obtain rep s' where
    "Provision (memDeps example_external) example_ctx example_req ?w = (rep, Some example_input, s')" by blast
  from Provision_once [OF inv this get] show ?thesis
    by (simp add: example_input_def example_addon_def)
qed

text \<open>
  C20. The name of a release is at most 17 characters longer than the identifier of its
  instance, so that it keeps to Helm's limit of 53 characters for a GUID of 36; it starts with
  the broker's prefix and ends with the identifier of the instance.
\<close>

theorem createReleaseName_length:
  "length (createReleaseName name planName iID) \<le> 17 + length iID \<and>
   strHasPrefix (createReleaseName name planName iID) ''hb-'' \<and>
   (\<exists>p. createReleaseName name planName iID = p @ ''-'' @ iID)"
proof -
  have n: "length (normalize x) \<le> 6" for x
    using length_strTrim [of "take 6 x" "''-''"] length_strTrim [of x "''-''"]
    by (auto simp: normalize_def Let_def min_def split: if_splits)
  from n [of name] n [of planName] show ?thesis
    by (auto simp: createReleaseName_def)
qed

section \<open>Deprovisioning\<close>

text \<open>
  C9. The deprovisioning task always ends its operation. It succeeds exactly if Helm deleted
  the release or does not know it, and then the instance and its bind data are gone and all
  others remain; if Helm fails, the operation fails and no instance or bind data is removed.
\<close>

theorem deprovision_do_correct:
  assumes "w_invar s" and "worldOps s (in_ID inst) opID = Some op"
    and "in_ID inst \<noteq> ''''" and "opID \<noteq> ''''"
  shows "let s' = deprovision_do (memDeps ex) inst opID s;
      gone = (case fst (ex_delete ex (in_ReleaseName inst) (in_Namespace inst) (w_ext s)) of
                None \<Rightarrow> True | Some e \<Rightarrow> IsReleaseNotFound e) in
    (\<exists>op'. mem_io_Get (in_ID inst) opID (w_ops s') = Inr op' \<and>
       io_State op' = (if gone then OperationStateSucceeded else OperationStateFailed)) \<and>
    worldInsts s' = (if gone then (worldInsts s)(in_ID inst := None) else worldInsts s) \<and>
    worldIbds s' = (if gone then (worldIbds s)(in_ID inst := None) else worldIbds s)"
proof -
  let ?s' = "deprovision_do (memDeps ex) inst opID s"
  let ?err = "fst (deprovision_fDo (memDeps ex) inst s)"
  have gone: "?err = None \<longleftrightarrow>
      (case fst (ex_delete ex (in_ReleaseName inst) (in_Namespace inst) (w_ext s)) of
         None \<Rightarrow> True | Some e \<Rightarrow> IsReleaseNotFound e)"
    by (cases "ex_delete ex (in_ReleaseName inst) (in_Namespace inst) (w_ext s)")
      (auto simp: deprovision_fDo_def mem_bd_defs mem_in_defs split: option.splits)
  note ends = mw.deprovision_do_ends [OF assms, of ex]
  from mw.Get_found [OF ends(2) assms(3,4)] ends(1)
  have "mem_io_Get (in_ID inst) opID (w_ops ?s') =
      Inr (op\<lparr>io_State := if ?err = None then OperationStateSucceeded else OperationStateFailed,
           io_StateDescription := Some (case ?err of None \<Rightarrow> ''deprovisioning succeeded''
             | Some e \<Rightarrow> ''deprovisioning failed on error: '' @ Error e)\<rparr>)"
    by simp
  with ends(3,4) show ?thesis
    unfolding Let_def gone [symmetric] by (cases "?err = None") auto
qed

theorem deprovision_do_correct_witness:
  "worldInsts (deprovision_do (memDeps example_external) (pi_instanceToUpdate example_input) ''op-1'' example_world1)
     ''i-1'' = None"
proof -
  have op: "worldOps example_world1 (in_ID (pi_instanceToUpdate example_input)) ''op-1'' =
      Some ((provision_op example_req ''op-1'')\<lparr>io_CreatedAt := 7\<rparr>)"
    by (simp add: example_defs worldOps_def mem_io_ops_def lookup2_def)
  from deprovision_do_correct [OF example_world_invar(2) op, of example_external] show ?thesis
    by (simp add: Let_def example_input_def example_external_def)
qed

text \<open>
  Deprovisioning is idempotent while it runs: repeating the request for the same instance
  replies with the same operation key, starts no second task and changes nothing.
\<close>

theorem Deprovision_idempotent:
  assumes "w_invar s" and "Deprovision (memDeps ex) ctx req s = (rep, Some (inst, opID), s')"
    and "dr_AcceptsIncomplete req'" and "dr_InstanceID req' = dr_InstanceID req"
  shows "Deprovision (memDeps ex) ctx' req' s' = (rep, None, s')"
  by (rule mw.Deprovision_repeat [OF assms])

definition example_dreq :: DeprovisionRequest where
  "example_dreq = \<lparr>dr_InstanceID = ''i-1'', dr_AcceptsIncomplete = True, dr_ServiceID = ''a-1'', dr_PlanID = ''p-1''\<rparr>"

definition example_world2 :: "unit World" where
  "example_world2 = example_world1\<lparr>w_ops := \<lparr>mio_storage = [(''i-1'',
     [(''op-0'', (provision_op example_req ''op-0'')\<lparr>io_State := OperationStateSucceeded\<rparr>)])], mio_nowProvider = 9\<rparr>\<rparr>"

theorem Deprovision_idempotent_witness:
  "\<exists>rep inst opID s'. Deprovision (memDeps example_external) example_ctx example_dreq example_world2 =
       (rep, Some (inst, opID), s') \<and>
     Deprovision (memDeps example_external) example_ctx example_dreq s' = (rep, None, s')"
proof -
  have inv: "w_invar example_world2"
    by (simp add: example_world2_def example_defs world_defs mem_io_invar_def)
  have "\<exists>rep inst opID s'. Deprovision (memDeps example_external) example_ctx example_dreq example_world2 =
      (rep, Some (inst, opID), s')"
    by (simp add: Deprovision_def deprovision_new_def example_world2_def example_defs example_dreq_def mem_io_defs
        mem_in_defs IsDeprovisioned_def IsDeprovisioningInProgress_def deprovision_op_def provision_op_def Let_def)
  then obtain rep inst opID s' where
    d: "Deprovision (memDeps example_external) example_ctx example_dreq example_world2 =
      (rep, Some (inst, opID), s')" by blast
  from Deprovision_idempotent [OF inv d, of example_dreq] d show ?thesis
    by (auto simp: example_dreq_def)
qed

text \<open>
  C14. An instance whose removal has succeeded once is taken as deprovisioned for ever, also when it
  has been provisioned again under the same identifier: the request is answered at once, and
  neither the release nor the instance is removed.
\<close>

theorem Deprovision_ignores_new_instance:
  assumes "w_invar s" "worldOps s (dr_InstanceID req) opid = Some op" "removed op" "dr_AcceptsIncomplete req"
  shows "Deprovision (memDeps ex) ctx req s = (Inr \<lparr>ar_Async = False, ar_OperationKey = None\<rparr>, None, s)"
  by (rule mw.Deprovision_after_removal) (use assms in \<open>auto simp: ran_def\<close>)

definition example_removed :: "unit World" where
  "example_removed = example_world1\<lparr>w_ops := \<lparr>mio_storage = [(''i-1'',
     [(''op-0'', (deprovision_op ''i-1'' ''op-0'')\<lparr>io_State := OperationStateSucceeded\<rparr>),
      (''op-1'', (provision_op example_req ''op-1'')\<lparr>io_State := OperationStateSucceeded\<rparr>)])], mio_nowProvider = 9\<rparr>\<rparr>"

theorem Deprovision_ignores_new_instance_witness:
  "Deprovision (memDeps example_external) example_ctx example_dreq example_removed =
     (Inr \<lparr>ar_Async = False, ar_OperationKey = None\<rparr>, None, example_removed)"
proof -
  have ops: "\<exists>op. worldOps example_removed ''i-1'' ''op-0'' = Some op \<and> removed op"
    by (simp add: example_removed_def example_defs deprovision_op_def worldOps_def mem_io_ops_def lookup2_def inner_def
        removed_def)
  have inv: "w_invar example_removed"
    by (simp add: example_removed_def example_defs world_defs mem_io_invar_def)
  from ops obtain op where "worldOps example_removed ''i-1'' ''op-0'' = Some op" "removed op" by blast
  then show ?thesis
    by (intro Deprovision_ignores_new_instance [OF inv]) (auto simp: example_dreq_def)
qed

section \<open>Binding\<close>

text \<open>
  C16. Bind data can be read once: reading returns the stored credentials and removes them, so
  that the next read of the same binding is answered by not found. The operations and the
  instances are not touched.
\<close>

theorem GetBindData_once:
  assumes "GetBindData (memDeps ex) iID bID s = (Reply creds, s')"
  shows "(\<exists>bd. worldIbds s iID = Some bd \<and> creds = map (\<lambda>(k, v). (k, JStr v)) (bd_Credentials bd)) \<and>
    worldIbds s' = (worldIbds s)(iID := None) \<and> worldInsts s' = worldInsts s \<and> worldOps s' = worldOps s \<and>
    (\<exists>msg. GetBindData (memDeps ex) iID bID s' = (Failure StatusNotFound msg, s'))"
proof -
  from assms obtain opid bd where
    prog: "IsBindingInProgress (memDeps ex) iID bID s = Inr (opid, False)" and
    bd: "ibdGet (memDeps ex) iID s = Inr bd" "creds = dtoFromModel (bd_Credentials bd)" and
    s': "s' = snd (ibdRemove (memDeps ex) iID s)"
    by (auto simp: GetBindData_def split: sum.splits prod.splits bool.splits)
  obtain r s2 where rm: "ibdRemove (memDeps ex) iID s = (r, s2)" and
    s2: "worldIbds s2 = (worldIbds s)(iID := None)" "worldInsts s2 = worldInsts s" "worldOps s2 = worldOps s"
    using mw.ibdRemove_eq [of ex iID s] by blast
  have "s' = s2" using s' unfolding rm by simp
  with s2 have frame: "worldIbds s' = (worldIbds s)(iID := None)"
    "worldInsts s' = worldInsts s" "worldOps s' = worldOps s" by simp_all
  have "w_bops s' = w_bops s" by (simp add: s')
  then have "IsBindingInProgress (memDeps ex) iID bID s' = Inr (opid, False)"
    using prog by (simp add: IsBindingInProgress_def)
  moreover have "ibdGet (memDeps ex) iID s' = Inl NotFoundError"
    using frame(1) by (simp only: mw.ibdGet_eq) simp
  ultimately have "\<exists>msg. GetBindData (memDeps ex) iID bID s' = (Failure StatusNotFound msg, s')"
    by (simp only: GetBindData_def) simp
  moreover have "worldIbds s iID = Some bd"
    using bd(1) mw.ibdGet_eq [of ex iID s] by (auto split: option.splits)
  ultimately show ?thesis using frame bd(2) by (auto simp: dtoFromModel_def)
qed

theorem GetBindData_once_witness:
  "let s = example_world\<lparr>w_ibds := \<lparr>mbd_storage =
        [(''i-1'', \<lparr>bd_InstanceID = ''i-1'', bd_Credentials = [(''password'', ''secret'')]\<rparr>)]\<rparr>\<rparr>;
      r = GetBindData (memDeps example_external) ''i-1'' ''b-1'' s
   in fst r = Reply [(''password'', JStr ''secret'')] \<and> worldIbds (snd r) ''i-1'' = None"
proof -
  let ?s = "example_world\<lparr>w_ibds := \<lparr>mbd_storage =
        [(''i-1'', \<lparr>bd_InstanceID = ''i-1'', bd_Credentials = [(''password'', ''secret'')]\<rparr>)]\<rparr>\<rparr>"
  have "fst (GetBindData (memDeps example_external) ''i-1'' ''b-1'' ?s) = Reply [(''password'', JStr ''secret'')]"
    by (simp add: GetBindData_def IsBindingInProgress_def example_defs mem_bo_defs mem_bd_defs dtoFromModel_def)
  then obtain s' where
    c: "GetBindData (memDeps example_external) ''i-1'' ''b-1'' ?s = (Reply [(''password'', JStr ''secret'')], s')"
    by (cases "GetBindData (memDeps example_external) ''i-1'' ''b-1'' ?s") auto
  from GetBindData_once [OF c] c show ?thesis by (simp add: Let_def)
qed

text \<open>The credentials that a binding task obtains, and whether a plan can be bound.\<close>

definition bind_credentials ::
  "'x External \<Rightarrow> bindingInput \<Rightarrow> 'x World \<Rightarrow> InstanceCredentials result" where
  "bind_credentials ex input s =
     (case mem_ch_Get (bi_brokerNamespace input) (cr_Name (pl_ChartRef (bi_addonPlan input)))
             (cr_Version (pl_ChartRef (bi_addonPlan input))) (w_charts s) of
        Inl e \<Rightarrow> Inl e
      | Inr c \<Rightarrow>
          (case ex_render ex (pl_BindTemplate (bi_addonPlan input)) (bi_instance input) c (w_ext s) of
             Inl e \<Rightarrow> Inl e
           | Inr y \<Rightarrow>
               (case ex_resolve ex y (in_Namespace (bi_instance input)) (w_ext s) of
                  Inl e \<Rightarrow> Inl e
                | Inr out \<Rightarrow> Inr (ro_Credentials out))))"

definition plan_bindable :: "AddonPlan \<Rightarrow> bool \<Rightarrow> bool" where
  "plan_bindable plan dflt = (case pl_Bindable plan of Some b \<Rightarrow> b | None \<Rightarrow> dflt)"

lemma isBindable_plan: "isBindable plan b = plan_bindable plan b"
  by (auto simp: isBindable_def plan_bindable_def split: option.splits)

lemma bind_fDo_stores:
  assumes "in_ID (bi_instance input) \<noteq> ''''" "plan_bindable (bi_addonPlan input) (bi_isAddonBindable input)"
    "bind_credentials ex input s = Inr creds" "worldIbds s (in_ID (bi_instance input)) = None"
  shows "fst (bind_fDo (memDeps ex) input s) = None \<and>
    worldIbds (snd (bind_fDo (memDeps ex) input s)) = (worldIbds s)(in_ID (bi_instance input) \<mapsto>
      \<lparr>bd_InstanceID = in_ID (bi_instance input), bd_Credentials = creds\<rparr>) \<and>
    w_bops (snd (bind_fDo (memDeps ex) input s)) = w_bops s"
  using assms
  by (auto simp: bind_fDo_def isBindable_plan bind_credentials_def renderAndResolveBindData_def
      worldIbds_def mem_bd_defs split: sum.splits)

lemma bind_fDo_fails:
  assumes "plan_bindable (bi_addonPlan input) (bi_isAddonBindable input)"
    "(\<exists>e. bind_credentials ex input s = Inl e) \<or> worldIbds s (in_ID (bi_instance input)) \<noteq> None"
  shows "fst (bind_fDo (memDeps ex) input s) \<noteq> None \<and> snd (bind_fDo (memDeps ex) input s) = s"
  using assms
  by (auto simp: bind_fDo_def isBindable_plan bind_credentials_def renderAndResolveBindData_def
      worldIbds_def mem_bd_defs split: sum.splits)

lemma bind_fDo_not_bindable:
  "\<not> plan_bindable (bi_addonPlan input) (bi_isAddonBindable input) \<Longrightarrow>
   bind_fDo (memDeps ex) input s = (None, s)"
  by (simp add: bind_fDo_def isBindable_plan)

text \<open>
  C15. The binding task always ends its operation. For a bindable plan it succeeds exactly if the
  chart is found, the template is rendered and resolved and no bind data of the instance are
  stored yet, and then the resolved credentials are stored; for a plan that is not bindable it
  succeeds and stores nothing. The plan's own flag overrides the addon's.
\<close>

theorem bind_do_correct:
  assumes "mem_bo_Get (in_ID (bi_instance input)) (bi_bindingID input) (bi_operationID input) (w_bops s) = Inr op"
  shows "let s' = bind_do (memDeps ex) input s; iID = in_ID (bi_instance input);
      bindable = plan_bindable (bi_addonPlan input) (bi_isAddonBindable input);
      stored = (bindable \<and> (\<exists>c. bind_credentials ex input s = Inr c) \<and> worldIbds s iID = None)
    in (\<exists>op'. mem_bo_Get iID (bi_bindingID input) (bi_operationID input) (w_bops s') = Inr op' \<and>
          bo_State op' = (if stored \<or> \<not> bindable then OperationStateSucceeded else OperationStateFailed)) \<and>
       (stored \<longrightarrow> (\<exists>c. bind_credentials ex input s = Inr c \<and>
          worldIbds s' = (worldIbds s)(iID \<mapsto> \<lparr>bd_InstanceID = iID, bd_Credentials = c\<rparr>))) \<and>
       (\<not> stored \<longrightarrow> worldIbds s' = worldIbds s)"
proof -
  let ?iID = "in_ID (bi_instance input)"
  let ?bindable = "plan_bindable (bi_addonPlan input) (bi_isAddonBindable input)"
  let ?stored = "?bindable \<and> (\<exists>c. bind_credentials ex input s = Inr c) \<and> worldIbds s ?iID = None"
  obtain err s1 where fdo: "bind_fDo (memDeps ex) input s = (err, s1)" by (meson surj_pair)
  from assms have "?iID \<noteq> ''''"
    by (auto simp: mem_bo_Get_def mem_bo_get_def IsZero_def split: if_splits)
  have err: "err = None \<longleftrightarrow> ?stored \<or> \<not> ?bindable" and same: "w_bops s1 = w_bops s"
    and ibd: "?stored \<Longrightarrow> \<exists>c. bind_credentials ex input s = Inr c \<and>
          worldIbds s1 = (worldIbds s)(?iID \<mapsto> \<lparr>bd_InstanceID = ?iID, bd_Credentials = c\<rparr>)"
      "\<not> ?stored \<Longrightarrow> worldIbds s1 = worldIbds s"
    using bind_fDo_stores [OF \<open>?iID \<noteq> ''''\<close>, of ex s] bind_fDo_fails [of input ex s]
      bind_fDo_not_bindable [of input ex s] fdo
    by (cases ?bindable; cases "bind_credentials ex input s"; cases "worldIbds s ?iID"; auto)+
  let ?st = "if err = None then OperationStateSucceeded else OperationStateFailed"
  have "\<exists>de. bind_do (memDeps ex) input s =
      s1\<lparr>w_bops := snd (mem_bo_UpdateStateDesc ?iID (bi_bindingID input) (bi_operationID input) ?st de (w_bops s))\<rparr>"
    by (auto simp: bind_do_def fdo same split: option.splits)
  then obtain de where s': "bind_do (memDeps ex) input s =
      s1\<lparr>w_bops := snd (mem_bo_UpdateStateDesc ?iID (bi_bindingID input) (bi_operationID input) ?st de (w_bops s))\<rparr>"
    by blast
  have "worldIbds (bind_do (memDeps ex) input s) = worldIbds s1"
    by (simp add: s' worldIbds_def)
  moreover have "\<exists>op'. mem_bo_Get ?iID (bi_bindingID input) (bi_operationID input)
      (w_bops (bind_do (memDeps ex) input s)) = Inr op' \<and> bo_State op' = ?st"
    using mem_bo_UpdateStateDesc_Get [OF assms, of ?st de] by (simp add: s')
  ultimately show ?thesis using err ibd unfolding Let_def by auto
qed

definition example_binding :: bindingInput where
  "example_binding = \<lparr>bi_brokerNamespace = '''', bi_instance = pi_instanceToUpdate example_input,
     bi_bindingID = ''b-1'', bi_operationID = ''op-2'', bi_addonPlan = example_plan, bi_isAddonBindable = True\<rparr>"

theorem bind_do_correct_witness:
  "worldIbds (bind_do (memDeps example_external) example_binding (example_world\<lparr>w_bops := \<lparr>mbo_storage =
      [(''i-1'', [(''op-2'', EmptyBindOperation\<lparr>bo_State := OperationStateInProgress\<rparr>)])], mbo_nowProvider = 0\<rparr>\<rparr>)) ''i-1'' =
   Some \<lparr>bd_InstanceID = ''i-1'', bd_Credentials = [(''password'', ''secret'')]\<rparr>"
proof -
  let ?s = "example_world\<lparr>w_bops := \<lparr>mbo_storage =
      [(''i-1'', [(''op-2'', EmptyBindOperation\<lparr>bo_State := OperationStateInProgress\<rparr>)])], mbo_nowProvider = 0\<rparr>\<rparr>"
  have op: "mem_bo_Get (in_ID (bi_instance example_binding)) (bi_bindingID example_binding)
      (bi_operationID example_binding) (w_bops ?s) =
      Inr (EmptyBindOperation\<lparr>bo_State := OperationStateInProgress\<rparr>)"
    by (simp add: mem_bo_defs example_binding_def example_input_def)
  have "bind_credentials example_external example_binding ?s = Inr [(''password'', ''secret'')]"
    by (simp add: bind_credentials_def example_binding_def example_plan_def mem_ch_defs example_defs)
  with bind_do_correct [OF op, of example_external] show ?thesis
    by (simp add: Let_def plan_bindable_def example_binding_def example_plan_def example_defs worldIbds_def
        mem_bd_entries_def)
qed

section \<open>The running system\<close>

text \<open>
  C1. However requests, tasks and changes of the environment interleave, an instance never has
  two operations in progress.
\<close>

theorem system_one_in_progress:
  assumes "system_reachable strict ex sys"
    and "worldOps (sys_world sys) i a = Some x" and "worldOps (sys_world sys) i b = Some y"
    and "in_progress x" and "in_progress y"
  shows "a = b"
proof -
  from system_reachable_inv [OF assms(1)] have "one_in_progress (worldOps (sys_world sys) i)"
    by (simp add: system_inv_def Let_def)
  with assms(2-5) show ?thesis by (auto simp: one_in_progress_def)
qed

definition example_system :: "unit System" where
  "example_system = \<lparr>sys_world = example_world1, sys_tasks = [ProvisionTask example_input]\<rparr>"

lemma example_system_reachable: "system_reachable True example_external example_system"
proof -
  have "system_step True example_external \<lparr>sys_world = NewWorld () 7, sys_tasks = []\<rparr>
      \<lparr>sys_world = example_world, sys_tasks = []\<rparr>"
    using sys_environment [where strict = True and ex = example_external and w = "NewWorld () 7" and ts = "[]"
        and a = "w_addons example_world" and c = "w_charts example_world" and x = "()"
        and b = "NewBindOperation 7" and dd = NewInstanceBindData and now = 7]
    by (simp add: example_defs)
  moreover have "\<not> plan_missing (memDeps example_external) example_ctx example_req example_world"
    by (simp add: plan_missing_def example_defs mem_ad_GetByID_def ClusterWide_def example_addon_def)
  then have "system_step True example_external \<lparr>sys_world = example_world, sys_tasks = []\<rparr> example_system"
    using sys_provision [OF example_Provision, of True "[]"] by (simp add: example_system_def)
  ultimately show ?thesis
    unfolding system_reachable_def by (meson rtranclp.rtrancl_into_rtrancl rtranclp.rtrancl_refl)
qed

theorem system_one_in_progress_witness:
  "{b. \<exists>y. worldOps (sys_world example_system) ''i-1'' b = Some y \<and> in_progress y} = {''op-1''}"
proof -
  have x: "worldOps (sys_world example_system) ''i-1'' ''op-1'' =
      Some ((provision_op example_req ''op-1'')\<lparr>io_CreatedAt := 7\<rparr>)"
    by (simp add: example_system_def example_world1_def worldOps_def mem_io_ops_def lookup2_def)
  have p: "in_progress ((provision_op example_req ''op-1'')\<lparr>io_CreatedAt := 7\<rparr>)"
    by (simp add: in_progress_def provision_op_def)
  show ?thesis
    using x p system_one_in_progress [OF example_system_reachable x _ p] by blast
qed

text \<open>
  C2. When the platform only asks for plans that exist, every operation in progress has exactly
  one pending task that will end it, in every reachable state.
\<close>

theorem system_task_pending:
  assumes "system_reachable True ex sys"
    and "worldOps (sys_world sys) i opid = Some op" and "in_progress op"
  shows "\<exists>!t. t \<in> set (sys_tasks sys) \<and> task_key t = (i, opid)"
proof -
  from system_reachable_inv [OF assms(1)] have d: "distinct (map task_key (sys_tasks sys))"
    and cover: "tasks_cover (sys_world sys) (sys_tasks sys)"
    by (simp_all add: system_inv_def Let_def)
  from cover assms(2,3) have "(i, opid) \<in> task_key ` set (sys_tasks sys)"
    by (simp add: tasks_cover_def)
  with d show ?thesis by (auto simp: distinct_map inj_on_def)
qed

theorem system_task_pending_witness:
  "\<exists>!t. t \<in> set (sys_tasks example_system) \<and> task_key t = (''i-1'', ''op-1'')"
  by (rule system_task_pending [OF example_system_reachable,
        where op = "(provision_op example_req ''op-1'')\<lparr>io_CreatedAt := 7\<rparr>"])
    (simp_all add: example_system_def example_world1_def worldOps_def mem_io_ops_def lookup2_def
      in_progress_def provision_op_def)

text \<open>
  C3. When the platform only asks for plans that exist, the system can always come to rest: from
  every reachable state, running the pending tasks leads to a state with no task and no operation
  in progress, whatever Helm answers.
\<close>

theorem system_quiesces:
  assumes "system_reachable True ex sys"
  shows "\<exists>w'. (system_step True ex)\<^sup>*\<^sup>* sys \<lparr>sys_world = w', sys_tasks = []\<rparr> \<and>
     (\<forall>i opid op. worldOps w' i opid = Some op \<longrightarrow> \<not> in_progress op)"
proof -
  from tasks_drain [of True ex "sys_world sys" "sys_tasks sys"] obtain w' where
    "(system_step True ex)\<^sup>*\<^sup>* \<lparr>sys_world = sys_world sys, sys_tasks = sys_tasks sys\<rparr>
       \<lparr>sys_world = w', sys_tasks = []\<rparr>" by blast
  moreover have "\<lparr>sys_world = sys_world sys, sys_tasks = sys_tasks sys\<rparr> = sys" by (cases sys) simp
  ultimately have run: "(system_step True ex)\<^sup>*\<^sup>* sys \<lparr>sys_world = w', sys_tasks = []\<rparr>" by simp
  with assms have "system_reachable True ex \<lparr>sys_world = w', sys_tasks = []\<rparr>"
    unfolding system_reachable_def by (meson rtranclp_trans)
  from system_reachable_inv [OF this] have "tasks_cover w' []" by (simp add: system_inv_def)
  with run show ?thesis by (auto simp: tasks_cover_def)
qed

theorem system_quiesces_witness:
  "\<exists>w'. (system_step True example_external)\<^sup>*\<^sup>* example_system \<lparr>sys_world = w', sys_tasks = []\<rparr> \<and>
     (\<forall>i opid op. worldOps w' i opid = Some op \<longrightarrow> \<not> in_progress op)"
  by (rule system_quiesces [OF example_system_reachable])


end
