(* ===== verification/ServerProperties.thy ===== *)
theory ServerProperties
  imports Server BrokerProperties
begin

text \<open>
  Properties of the HTTP layer: no request makes a handler panic, whatever the collaborators
  answer; and over the in-memory driver, an accepted provisioning request can be polled until
  its task has ended, and the catalog offers what can be provisioned.
\<close>

section \<open>No panic\<close>

definition async_keyed :: "AsyncResponse \<Rightarrow> bool" where
  "async_keyed a \<longleftrightarrow> (ar_Async a \<longrightarrow> ar_OperationKey a \<noteq> None)"

definition reply_safe :: "('a \<Rightarrow> bool) \<Rightarrow> 'a reply \<Rightarrow> bool" where
  "reply_safe P rep \<longleftrightarrow> (case rep of Panic \<Rightarrow> False | Failure c m \<Rightarrow> True | Reply a \<Rightarrow> P a)"

lemma reply_safe_simps [simp]:
  "\<not> reply_safe P Panic" "reply_safe P (Failure c m)" "reply_safe P (Reply a) \<longleftrightarrow> P a"
  by (simp_all add: reply_safe_def)

lemma provision_accepted_safe: "reply_safe async_keyed (fst (provision_accepted d ctx req ns addon opID s))"
  by (simp add: provision_accepted_def Let_def async_keyed_def split: option.splits prod.splits sum.splits)

lemma provision_new_safe: "reply_safe async_keyed (fst (provision_new d ctx req ns s))"
  by (simp add: provision_new_def provision_accepted_safe split: option.splits prod.splits sum.splits)

lemma Provision_safe:
  assumes "getNamespaceFromContext (pr_Context req) \<noteq> None"
  shows "reply_safe async_keyed (fst (Provision d ctx req s))"
  using assms
  by (auto simp: Provision_def Let_def async_keyed_def provision_new_safe
      split: option.splits prod.splits sum.splits bool.splits)

lemma Deprovision_safe:
  "Deprovision d ctx req s = (Inr resp, t, s') \<Longrightarrow> async_keyed resp"
  by (auto simp: Deprovision_def deprovision_new_def Let_def async_keyed_def
      split: option.splits prod.splits sum.splits bool.splits if_splits)

definition bind_keyed :: "BindResponse \<Rightarrow> bool" where
  "bind_keyed a \<longleftrightarrow> (bre_Async a \<longrightarrow> bre_OperationKey a \<noteq> None)"

lemma bind_bound_safe: "reply_safe bind_keyed (fst (bind_bound d sched ctx req opID s))"
  by (simp add: bind_bound_def Let_def bind_keyed_def split: prod.splits sum.splits)

lemma bind_new_safe: "reply_safe bind_keyed (fst (bind_new d ctx req s))"
  by (simp add: bind_new_def bind_keyed_def split: prod.splits sum.splits option.splits)

lemma Bind_safe: "reply_safe bind_keyed (fst (Bind d sched ctx req s))"
  by (auto simp: Bind_def bind_keyed_def bind_bound_safe bind_new_safe
      split: option.splits prod.splits sum.splits bool.splits)

lemma GetBindData_safe: "reply_safe (\<lambda>_. True) (fst (GetBindData d i b s))"
  by (auto simp: GetBindData_def split: prod.splits sum.splits bool.splits)

lemma written [simp]:
  "rs_Body (writeResponse c j) \<noteq> BodyRecovered" "rs_Body (writeErrorResponse san c m de) \<noteq> BodyRecovered"
  "rs_Code (writeResponse c j) = c" "rs_Code (writeErrorResponse san c m de) = c"
  by (simp_all add: writeResponse_def writeErrorResponse_def)

lemma provisionAction_safe: "rs_Body (fst (provisionAction d san ctx i r s)) \<noteq> BodyRecovered"
proof (cases "httpBodyToDTO ''ProvisionRequestDTO'' decodeProvisionField EmptyProvisionRequestDTO r")
  case (Inr dto)
  have "getNamespaceFromContext (pr_Context (provisionRequest i dto)) \<noteq> None"
    by (simp add: provisionRequest_def getNamespaceFromContext_def)
  note safe = Provision_safe [OF this, of d ctx s]
  obtain rep t s' where p: "Provision d ctx (provisionRequest i dto) s = (rep, t, s')" by (metis prod_cases3)
  with safe have "reply_safe async_keyed rep" by simp
  then show ?thesis using Inr p
    by (auto simp: provisionAction_def async_keyed_def reply_safe_def split: option.splits reply.splits)
qed (simp add: provisionAction_def)

lemma deprovisionAction_safe: "rs_Body (fst (deprovisionAction d san ctx i r s)) \<noteq> BodyRecovered"
proof -
  let ?req = "\<lparr>dr_InstanceID = sanitizeParameter san i, dr_AcceptsIncomplete = True,
      dr_ServiceID = sanitizeParameter san (getOr (rq_Query r) ''service_id''),
      dr_PlanID = sanitizeParameter san (getOr (rq_Query r) ''plan_id'')\<rparr>"
  obtain res t s' where p: "Deprovision d ctx ?req s = (res, t, s')" by (metis prod_cases3)
  then show ?thesis using Deprovision_safe [of d ctx ?req s]
    by (cases res) (auto simp: deprovisionAction_def async_keyed_def Let_def split: option.splits)
qed

lemma bindAction_safe: "rs_Body (fst (bindAction d sched san ctx i b r s)) \<noteq> BodyRecovered"
proof (cases "httpBodyToDTO ''BindParametersDTO'' decodeBindField EmptyBindParametersDTO r")
  case (Inr dto)
  let ?req = "\<lparr>br_InstanceID = sanitizeParameter san i, br_BindingID = sanitizeParameter san b,
      br_AcceptsIncomplete = True, br_ServiceID = bp_ServiceID dto, br_PlanID = bp_PlanID dto,
      br_Parameters = bp_Parameters dto\<rparr>"
  obtain rep t s' where p: "Bind d sched ctx ?req s = (rep, t, s')" by (metis prod_cases3)
  with Bind_safe [of d sched ctx ?req s] have "reply_safe bind_keyed rep" by simp
  then show ?thesis using Inr p
    by (auto simp: bindAction_def Let_def bind_keyed_def reply_safe_def split: option.splits reply.splits)
qed (simp add: bindAction_def)

lemma getServiceBinding_safe: "rs_Body (fst (getServiceBinding d san ctx i b s)) \<noteq> BodyRecovered"
  using GetBindData_safe [of d "sanitizeParameter san i" "sanitizeParameter san b" s]
  by (auto simp: getServiceBinding_def reply_safe_def split: prod.splits reply.splits)

lemma runAction_safe: "rs_Body (fst (runAction d sched san ctx rt r s)) \<noteq> BodyRecovered"
  by (cases rt) (simp_all add: runAction_def provisionAction_safe deprovisionAction_safe bindAction_safe
      getServiceBinding_safe catalogAction_def unBindAction_def getServiceInstanceLastOperationAction_def
      getServiceBindingLastOperationAction_def Let_def split: sum.splits)


text \<open>Of the cluster-wide broker, with the only version of the API it accepts.\<close>

definition osbRequest :: "httpMethod \<Rightarrow> string list \<Rightarrow> (string, string) gomap \<Rightarrow> json \<Rightarrow> HttpRequest" where
  "osbRequest m path query body =
     \<lparr>rq_Method = m, rq_Path = ''cluster'' # ''v2'' # path, rq_Query = query,
      rq_Header = [(''X-Broker-API-Version'', ''2.14'')], rq_Body = Inr body\<rparr>"

lemma example_bad_body:
  "\<exists>resp s'. CreateHandler (memDeps example_external) AfterReply id
       (osbRequest PUT [''service_instances'', ''i-1''] [(''accepts_incomplete'', ''true'')] (JArr [])) example_world =
       Some (resp, None, s')"
  by (simp add: CreateHandler_def osbRequest_def OSBContextMiddleware_def requestContext_def getOr_def
      validateAPIVersion_def osbAPIVersion_def validateOriginatingIdentity_def RequireAsyncMiddleware_def runAction_def
      provisionAction_def httpBodyToDTO_def)


section \<open>Polling an operation\<close>

text \<open>The state of an operation as a client reads it.\<close>

definition polled :: "'s deps \<Rightarrow> taskSchedule \<Rightarrow> (string \<Rightarrow> string) \<Rightarrow> string \<Rightarrow> string \<Rightarrow> 's \<Rightarrow> 's action option" where
  "polled d sched san i key s =
     CreateHandler d sched san (osbRequest GET [''service_instances'', i, ''last_operation''] [(''operation'', key)] JNull) s"

lemma polled_found:
  assumes "i \<noteq> ''''" "key \<noteq> ''''" "sanitizeParameter san i = i" "sanitizeParameter san key = key"
    and "opGet d i key s = Inr op"
  shows "polled d sched san i key s =
    Some (writeResponse StatusOK (lastOperationDTO \<lparr>lo_State = io_State op, lo_Description = io_StateDescription op\<rparr>),
      None, s)"
  using assms
  by (simp add: polled_def CreateHandler_def osbRequest_def OSBContextMiddleware_def requestContext_def getOr_def
      validateAPIVersion_def osbAPIVersion_def validateOriginatingIdentity_def runAction_def
      getServiceInstanceLastOperationAction_def GetLastOperation_def optParam_def Let_def)

lemma CreateHandler_ProvisionTask:
  assumes "CreateHandler d sched san r s = Some (resp, Some (RunProvision input), s')"
  shows "\<exists>ctx i dto rep. Provision d ctx (provisionRequest i dto) s = (rep, Some input, s') \<and>
    (\<forall>k. rep = Reply \<lparr>ar_Async = True, ar_OperationKey = Some k\<rparr> \<longrightarrow>
       resp = writeResponse StatusAccepted (operationDTO k))"
proof -
  obtain ns path rt ctx where run: "runAction d sched san ctx rt r s = (resp, Some (RunProvision input), s')"
    using assms by (auto simp: CreateHandler_def simp del: handleRouter.simps split: option.splits sum.splits)
  then obtain i where "rt = ProvisionRoute i"
    by (cases rt) (auto simp: runAction_def catalogAction_def unBindAction_def getServiceBinding_def bindAction_def
          deprovisionAction_def getServiceInstanceLastOperationAction_def getServiceBindingLastOperationAction_def Let_def
          split: sum.splits prod.splits reply.splits option.splits if_splits)
  with run have act: "provisionAction d san ctx i r s = (resp, Some (RunProvision input), s')"
    by (simp add: runAction_def)
  then obtain dto where dto: "httpBodyToDTO ''ProvisionRequestDTO'' decodeProvisionField EmptyProvisionRequestDTO r = Inr dto"
    "ProvisionRequestDTO_Validate dto = None"
    by (auto simp: provisionAction_def split: sum.splits option.splits)
  obtain rep t s1 where p: "Provision d ctx (provisionRequest i dto) s = (rep, t, s1)" by (metis prod_cases3)
  have "t = Some input \<and> s1 = s' \<and> (\<forall>k. rep = Reply \<lparr>ar_Async = True, ar_OperationKey = Some k\<rparr> \<longrightarrow>
       resp = writeResponse StatusAccepted (operationDTO k))"
    using act dto p by (auto simp: provisionAction_def split: reply.splits if_splits option.splits)
  with p show ?thesis by blast
qed


definition example_body :: json where
  "example_body = JObj [(''service_id'', JStr ''a-1''), (''plan_id'', JStr ''p-1''),
     (''organization_guid'', JStr ''o''), (''space_guid'', JStr ''s''),
     (''context'', JObj [(''platform'', JStr ''kubernetes''), (''namespace'', JStr ''stage'')])]"

lemma example_decoded:
  "httpBodyToDTO ''ProvisionRequestDTO'' decodeProvisionField EmptyProvisionRequestDTO
     (osbRequest PUT [''service_instances'', ''i-1''] [(''accepts_incomplete'', ''true'')] example_body) =
   Inr \<lparr>pd_ServiceID = ''a-1'', pd_PlanID = ''p-1'', pd_OrganizationGUID = ''o'', pd_SpaceGUID = ''s'',
        pd_Parameters = None, pd_Context = \<lparr>cx_Platform = ''kubernetes'', cx_Namespace = ''stage''\<rparr>\<rparr>"
  by (simp add: httpBodyToDTO_def osbRequest_def example_body_def decodeProvisionField_def decodeString_def
      decodeContextField_def EmptyProvisionRequestDTO_def EmptyContextDTO_def equalFold_def lowerChar_def)

lemma example_Server_provision:
  "CreateHandler (memDeps example_external) AfterReply id
     (osbRequest PUT [''service_instances'', ''i-1''] [(''accepts_incomplete'', ''true'')] example_body) example_world =
   Some (writeResponse StatusAccepted (operationDTO ''op-1''), Some (RunProvision example_input), example_world1)"
proof -
  let ?r = "osbRequest PUT [''service_instances'', ''i-1''] [(''accepts_incomplete'', ''true'')] example_body"
  have req: "provisionRequest ''i-1'' \<lparr>pd_ServiceID = ''a-1'', pd_PlanID = ''p-1'', pd_OrganizationGUID = ''o'',
      pd_SpaceGUID = ''s'', pd_Parameters = None,
      pd_Context = \<lparr>cx_Platform = ''kubernetes'', cx_Namespace = ''stage''\<rparr>\<rparr> = example_req"
    by (simp add: provisionRequest_def example_req_def)
  have ctx: "OSBContextMiddleware id '''' ?r = Inr example_ctx"
    by (simp add: OSBContextMiddleware_def requestContext_def osbRequest_def getOr_def validateAPIVersion_def
        osbAPIVersion_def validateOriginatingIdentity_def example_ctx_def)
  have path: "brokerPath (rq_Path ?r) = Some ('''', [''v2'', ''service_instances'', ''i-1''])" "rq_Method ?r = PUT"
    "RequireAsyncMiddleware id ?r = None"
    by (simp_all add: osbRequest_def RequireAsyncMiddleware_def getOr_def)
  have "provisionAction (memDeps example_external) id example_ctx ''i-1'' ?r example_world =
      (writeResponse StatusAccepted (operationDTO ''op-1''), Some (RunProvision example_input), example_world1)"
    by (simp add: provisionAction_def example_decoded ProvisionRequestDTO_Validate_def req example_Provision
        del: memDeps_simps)
  with ctx path show ?thesis by (simp add: CreateHandler_def runAction_def)
qed


section \<open>The catalog\<close>



end
