(* ===== verification/Etcd_Interface.thy ===== *)
theory Etcd_Interface
  imports Model
begin

text \<open>
  The key-value store of etcd as the storage driver uses it (\<open>clientv3.KV\<close> behind
  \<open>namespace.NewKV\<close>): a record of its calls, the contract the driver relies on as the locale
  \<open>kv_store\<close>, and a store with faults, \<open>Etcd\<close>, that keeps the contract. The keys of
  \<open>internal/storage/driver/etcd/driver.go\<close> are here too.
\<close>

section \<open>Calls\<close>

text \<open>
  A read selects one key, the keys with a prefix, or the keys from a given one on. The count of a
  response is the number of its entries. Writing and deleting answer with the entries they
  replaced. A call may fail.
\<close>

datatype rangeOption = ExactKey | WithPrefix | WithFromKey

record ('v, 'e) kv =
  kvGet :: "string \<Rightarrow> rangeOption \<Rightarrow> 'e \<Rightarrow> (string \<times> 'v) list result"
  kvPut :: "string \<Rightarrow> 'v \<Rightarrow> 'e \<Rightarrow> 'v option result \<times> 'e"
  kvDelete :: "string \<Rightarrow> 'e \<Rightarrow> (string \<times> 'v) list result \<times> 'e"

text \<open>The order of keys is the order of their bytes.\<close>

fun bytesLe :: "string \<Rightarrow> string \<Rightarrow> bool" where
  "bytesLe [] t = True"
| "bytesLe (c # s) [] = False"
| "bytesLe (c # s) (d # t) =
     (if c = d then bytesLe s t else (of_char c :: nat) < of_char d)"

fun selects :: "rangeOption \<Rightarrow> string \<Rightarrow> string \<Rightarrow> bool" where
  "selects ExactKey k k' = (k' = k)"
| "selects WithPrefix k k' = strHasPrefix k' k"
| "selects WithFromKey k k' = bytesLe k k'"

definition entry :: "string \<Rightarrow> 'v option \<Rightarrow> (string \<times> 'v) list" where
  "entry k v = (case v of None \<Rightarrow> [] | Some x \<Rightarrow> [(k, x)])"

section \<open>Contract\<close>

text \<open>
  \<open>content e\<close> is what the store holds in the state \<open>e\<close>. A call that is answered tells the truth. A
  write that failed may have been carried out all the same: the reply was lost.
\<close>

locale kv_store =
  fixes kv :: "('v, 'e) kv"
    and content :: "'e \<Rightarrow> string \<Rightarrow> 'v option"
  assumes Get_ok: "kvGet kv k opt e = Inr kvs \<Longrightarrow> distinct (map fst kvs) \<and>
      (\<forall>k' v. (k', v) \<in> set kvs \<longleftrightarrow> content e k' = Some v \<and> selects opt k k')"
    and Put_ok: "kvPut kv k v e = (Inr prev, e') \<Longrightarrow>
      prev = content e k \<and> content e' = (content e)(k \<mapsto> v)"
    and Put_failed: "kvPut kv k v e = (Inl err, e') \<Longrightarrow>
      content e' = content e \<or> content e' = (content e)(k \<mapsto> v)"
    and Delete_ok: "kvDelete kv k e = (Inr kvs, e') \<Longrightarrow>
      kvs = entry k (content e k) \<and> content e' = (content e)(k := None)"
    and Delete_failed: "kvDelete kv k e = (Inl err, e') \<Longrightarrow>
      content e' = content e \<or> content e' = (content e)(k := None)"
begin

lemma Get_exact:
  assumes "kvGet kv k ExactKey e = Inr kvs"
  shows "kvs = entry k (content e k)"
proof -
  from Get_ok [OF assms] have d: "distinct (map fst kvs)"
    and s: "\<And>k' v. (k', v) \<in> set kvs \<longleftrightarrow> content e k' = Some v \<and> k' = k" by auto
  have single: "kvs = [] \<or> kvs = [(k, v)]" if "\<And>x. x \<in> set kvs \<Longrightarrow> x = (k, v)" for v
  proof (cases kvs)
    case (Cons x xs)
    with that have x: "x = (k, v)" by simp
    have "y \<notin> set xs" for y using that [of y] d Cons x by (cases y) force
    then have "xs = []" by (cases xs) auto
    with Cons x show ?thesis by simp
  qed simp
  show ?thesis
  proof (cases "content e k")
    case None
    with s have "x \<notin> set kvs" for x by (cases x) auto
    then have "kvs = []" by (cases kvs) auto
    with None show ?thesis by (simp add: entry_def)
  next
    case (Some v)
    with s have "x \<in> set kvs \<Longrightarrow> x = (k, v)" for x by (cases x) auto
    from single [OF this] s [of k v] Some show ?thesis by (auto simp: entry_def)
  qed
qed

lemma Get_range:
  "kvGet kv k WithPrefix e = Inr kvs \<Longrightarrow> distinct (map fst kvs) \<and>
     (\<forall>k' v. (k', v) \<in> set kvs \<longleftrightarrow> content e k' = Some v \<and> strHasPrefix k' k)"
  using Get_ok [of k WithPrefix e kvs] by simp

end

text \<open>Every call made in the state is answered.\<close>

definition kv_up :: "('v, 'e) kv \<Rightarrow> 'e \<Rightarrow> bool" where
  "kv_up kv e \<longleftrightarrow>
     (\<forall>k opt. \<exists>kvs. kvGet kv k opt e = Inr kvs) \<and>
     (\<forall>k v. \<exists>prev. fst (kvPut kv k v e) = Inr prev) \<and>
     (\<forall>k. \<exists>kvs. fst (kvDelete kv k e) = Inr kvs)"

lemma kv_upD:
  assumes "kv_up kv e"
  shows "kvGet kv k opt e \<noteq> Inl err" "kvPut kv k v e \<noteq> (Inl err, e')" "kvDelete kv k e \<noteq> (Inl err, e')"
proof -
  from assms obtain kvs prev del where "kvGet kv k opt e = Inr kvs" "fst (kvPut kv k v e) = Inr prev"
    "fst (kvDelete kv k e) = Inr del" unfolding kv_up_def by blast
  then show "kvGet kv k opt e \<noteq> Inl err" "kvPut kv k v e \<noteq> (Inl err, e')" "kvDelete kv k e \<noteq> (Inl err, e')"
    by auto
qed

section \<open>A store with faults\<close>

text \<open>A store that may be out of reach, or carry out writes and lose the replies.\<close>

datatype fault = NoFault | Unreachable | ReplyLost

record 'v Etcd =
  et_kvs :: "(string, 'v) gomap"
  et_fault :: fault

definition etcdContent :: "'v Etcd \<Rightarrow> string \<Rightarrow> 'v option" where
  "etcdContent e = map_of (et_kvs e)"

definition etcdError :: error where
  "etcdError = ErrorString ''etcdserver: request timed out''"

definition etcdGet :: "string \<Rightarrow> rangeOption \<Rightarrow> 'v Etcd \<Rightarrow> (string \<times> 'v) list result" where
  "etcdGet k opt e =
     (if et_fault e = NoFault
      then Inr (filter (\<lambda>(k', v). selects opt k k') (AList.clearjunk (et_kvs e)))
      else Inl etcdError)"

definition etcdPut :: "string \<Rightarrow> 'v \<Rightarrow> 'v Etcd \<Rightarrow> 'v option result \<times> 'v Etcd" where
  "etcdPut k v e =
     (let e' = e\<lparr>et_kvs := AList.update k v (et_kvs e)\<rparr> in
      case et_fault e of
        NoFault \<Rightarrow> (Inr (etcdContent e k), e')
      | Unreachable \<Rightarrow> (Inl etcdError, e)
      | ReplyLost \<Rightarrow> (Inl etcdError, e'))"

definition etcdDelete :: "string \<Rightarrow> 'v Etcd \<Rightarrow> (string \<times> 'v) list result \<times> 'v Etcd" where
  "etcdDelete k e =
     (let e' = e\<lparr>et_kvs := AList.delete k (et_kvs e)\<rparr> in
      case et_fault e of
        NoFault \<Rightarrow> (Inr (entry k (etcdContent e k)), e')
      | Unreachable \<Rightarrow> (Inl etcdError, e)
      | ReplyLost \<Rightarrow> (Inl etcdError, e'))"

definition etcdKV :: "('v, 'v Etcd) kv" where
  "etcdKV = \<lparr>kvGet = etcdGet, kvPut = etcdPut, kvDelete = etcdDelete\<rparr>"

lemma etcdKV_simps [simp]: "kvGet etcdKV = etcdGet" "kvPut etcdKV = etcdPut" "kvDelete etcdKV = etcdDelete"
  by (simp_all add: etcdKV_def)

definition NewEtcd :: "'v Etcd" where
  "NewEtcd = \<lparr>et_kvs = [], et_fault = NoFault\<rparr>"

lemma in_clearjunk_iff: "(k, v) \<in> set (AList.clearjunk m) \<longleftrightarrow> map_of m k = Some v"
  by (metis distinct_clearjunk map_of_clearjunk map_of_eq_Some_iff)

interpretation etc: kv_store etcdKV etcdContent
proof (unfold_locales, goal_cases)
  case (1 k opt e kvs)
  then have kvs: "kvs = filter (\<lambda>(k', v). selects opt k k') (AList.clearjunk (et_kvs e))"
    by (simp add: etcdKV_def etcdGet_def split: if_splits)
  have "distinct (map fst kvs)" unfolding kvs
    by (rule distinct_map_filter) (rule distinct_clearjunk)
  then show ?case by (auto simp: kvs in_clearjunk_iff etcdContent_def)
next
  case 2 then show ?case
    by (auto simp: etcdKV_def etcdPut_def etcdContent_def Let_def split: fault.splits)
next
  case 3 then show ?case
    by (auto simp: etcdKV_def etcdPut_def etcdContent_def Let_def split: fault.splits)
next
  case 4 then show ?case
    by (auto simp: etcdKV_def etcdDelete_def etcdContent_def Let_def split: fault.splits)
next
  case 5 then show ?case
    by (auto simp: etcdKV_def etcdDelete_def etcdContent_def Let_def split: fault.splits)
qed

lemma etcd_up: "kv_up etcdKV e \<longleftrightarrow> et_fault e = NoFault"
  by (cases "et_fault e") (auto simp: kv_up_def etcdKV_def etcdGet_def etcdPut_def etcdDelete_def Let_def)

section \<open>The key space\<close>

definition entityNamespaceSeparator :: string where
  "entityNamespaceSeparator = ''/''"

definition entityNamespaceAddonMappingID :: string where
  "entityNamespaceAddonMappingID = ''id''"

definition entityNamespaceAddonMappingNV :: string where
  "entityNamespaceAddonMappingNV = ''nv''"

datatype entity = EAddon | EChart | EInstance | EInstanceOperation | EBindOperation

fun entityNamespace :: "entity \<Rightarrow> string" where
  "entityNamespace EAddon = ''addon''"
| "entityNamespace EChart = ''chart''"
| "entityNamespace EInstance = ''instance/''"
| "entityNamespace EInstanceOperation = ''instanceOperation/''"
| "entityNamespace EBindOperation = ''bindOperation/''"

definition entityNamespacePrefixParts :: "string list" where
  "entityNamespacePrefixParts = [''helm-broker'', ''entity'']"

text \<open>The prefix that the constructor of a storage gives to \<open>namespace.NewKV\<close>.\<close>

definition entityPrefix :: "entity \<Rightarrow> string" where
  "entityPrefix x = strJoin (entityNamespacePrefixParts @ [entityNamespace x]) entityNamespaceSeparator"

text \<open>The storages share one etcd and never see each other's keys.\<close>

lemma entityPrefix_disjoint:
  assumes "entityPrefix x @ k = entityPrefix y @ k'"
  shows "x = y \<and> k = k'"
  using assms
  by (cases x; cases y) (simp_all add: entityPrefix_def entityNamespacePrefixParts_def entityNamespaceSeparator_def)

end
