(* ===== verification/Gob.thy ===== *)
theory Gob
  imports Model "HOL-Library.Monad_Syntax"
begin

text \<open>
  What the storage driver uses of \<open>encoding/gob\<close>. The stream of a value is modelled by the tree it
  describes: a struct is the list of its fields that are not zero, by name, and pointers are
  flattened, so that a nil pointer and a pointer to a zero value are both absent. A value behind an
  interface carries the name of its type, which must be registered: the basic types are, the
  driver registers \<open>map[string]interface{}\<close>, and nothing registers \<open>[]interface{}\<close>. Encoding gives
  None on a type that is not registered, decoding on a stream of another type. \<open>GJson\<close> is a byte slice
  that holds a JSON document.
\<close>

section \<open>Streams\<close>

datatype gob =
    GString string
  | GBool bool
  | GInt int
  | GFloat string
  | GTime int
  | GBytes string
  | GJson json
  | GSlice "gob list"
  | GMap "(string \<times> gob) list"
  | GStruct "(string \<times> gob) list"
  | GNil
  | GInterface string gob

definition gobNotRegistered :: error where
  "gobNotRegistered = ErrorString ''gob: type not registered for interface: []interface {}''"

definition gobMismatch :: error where
  "gobMismatch = ErrorString ''gob: decoding into local type, received remote type''"

section \<open>Fields\<close>

definition fld :: "string \<Rightarrow> gob option \<Rightarrow> (string \<times> gob) list" where
  "fld n g = (case g of None \<Rightarrow> [] | Some x \<Rightarrow> [(n, x)])"

lemma map_of_fld:
  "m \<noteq> n \<Longrightarrow> map_of (fld n g @ fs) m = map_of fs m"
  "map_of fs n = None \<Longrightarrow> map_of (fld n g @ fs) n = g"
  "map_of (fld n g) n = g"
  "m \<noteq> n \<Longrightarrow> map_of (fld n g) m = None"
  by (auto simp: fld_def split: option.splits)

definition gobString :: "string \<Rightarrow> gob option" where
  "gobString s = (if s = '''' then None else Some (GString s))"

definition gobBool :: "bool \<Rightarrow> gob option" where
  "gobBool b = (if b then Some (GBool True) else None)"

definition gobInt :: "int \<Rightarrow> gob option" where
  "gobInt i = (if i = 0 then None else Some (GInt i))"

definition gobStringPtr :: "string option \<Rightarrow> gob option" where
  "gobStringPtr p = (case p of None \<Rightarrow> None | Some s \<Rightarrow> gobString s)"

definition gobBoolPtr :: "bool option \<Rightarrow> gob option" where
  "gobBoolPtr p = (case p of None \<Rightarrow> None | Some b \<Rightarrow> gobBool b)"

fun ungobString :: "gob option \<Rightarrow> string option" where
  "ungobString None = Some ''''"
| "ungobString (Some (GString s)) = Some s"
| "ungobString _ = None"

fun ungobBool :: "gob option \<Rightarrow> bool option" where
  "ungobBool None = Some False"
| "ungobBool (Some (GBool b)) = Some b"
| "ungobBool _ = None"

fun ungobInt :: "gob option \<Rightarrow> int option" where
  "ungobInt None = Some 0"
| "ungobInt (Some (GInt i)) = Some i"
| "ungobInt _ = None"

fun ungobTime :: "gob option \<Rightarrow> int option" where
  "ungobTime None = Some 0"
| "ungobTime (Some (GTime t)) = Some t"
| "ungobTime _ = None"

fun ungobStringPtr :: "gob option \<Rightarrow> string option option" where
  "ungobStringPtr None = Some None"
| "ungobStringPtr (Some (GString s)) = Some (Some s)"
| "ungobStringPtr _ = None"

fun ungobBoolPtr :: "gob option \<Rightarrow> bool option option" where
  "ungobBoolPtr None = Some None"
| "ungobBoolPtr (Some (GBool b)) = Some (Some b)"
| "ungobBoolPtr _ = None"

text \<open>What a pointer to a string or to a flag is after a round trip.\<close>

definition flatString :: "string option \<Rightarrow> string option" where
  "flatString p = (if p = Some '''' then None else p)"

definition flatBool :: "bool option \<Rightarrow> bool option" where
  "flatBool p = (if p = Some False then None else p)"

lemma ungob_basic [simp]:
  "ungobString (gobString s) = Some s" "ungobBool (gobBool b) = Some b" "ungobInt (gobInt i) = Some i"
  "ungobStringPtr (gobStringPtr p) = Some (flatString p)" "ungobBoolPtr (gobBoolPtr q) = Some (flatBool q)"
  by (simp_all add: gobString_def gobBool_def gobInt_def gobStringPtr_def gobBoolPtr_def flatString_def
      flatBool_def split: option.splits)

section \<open>Values behind interfaces\<close>

fun gobIface :: "json \<Rightarrow> gob option"
  and gobIfaces :: "jobject \<Rightarrow> (string \<times> gob) list option" where
  "gobIface JNull = Some GNil"
| "gobIface (JBool b) = Some (GInterface ''bool'' (GBool b))"
| "gobIface (JNum n) = Some (GInterface ''float64'' (GFloat n))"
| "gobIface (JStr s) = Some (GInterface ''string'' (GString s))"
| "gobIface (JArr xs) = None"
| "gobIface (JObj m) = map_option (\<lambda>fs. GInterface ''map[string]interface {}'' (GMap fs)) (gobIfaces m)"
| "gobIfaces [] = Some []"
| "gobIfaces ((k, v) # m) =
     do { g \<leftarrow> gobIface v; gs \<leftarrow> gobIfaces m; Some ((k, g) # gs) }"

fun ungobIface :: "gob \<Rightarrow> json option"
  and ungobIfaces :: "(string \<times> gob) list \<Rightarrow> jobject option" where
  "ungobIface GNil = Some JNull"
| "ungobIface (GInterface t (GBool b)) = Some (JBool b)"
| "ungobIface (GInterface t (GFloat n)) = Some (JNum n)"
| "ungobIface (GInterface t (GString s)) = Some (JStr s)"
| "ungobIface (GInterface t (GMap fs)) = map_option JObj (ungobIfaces fs)"
| "ungobIface _ = None"
| "ungobIfaces [] = Some []"
| "ungobIfaces ((k, g) # gs) =
     do { v \<leftarrow> ungobIface g; m \<leftarrow> ungobIfaces gs; Some ((k, v) # m) }"

text \<open>A document without lists comes back as it was; one with a list is refused.\<close>

lemma gobIface_round_trip:
  "gobIface j = Some g \<Longrightarrow> ungobIface g = Some j"
  "gobIfaces m = Some gs \<Longrightarrow> ungobIfaces gs = Some m"
proof (induction j and m arbitrary: g and gs rule: gobIface_gobIfaces.induct)
  case (8 k v m)
  then show ?case by (auto split: bind_splits)
qed auto

fun list_free :: "json \<Rightarrow> bool"
  and list_free_obj :: "jobject \<Rightarrow> bool" where
  "list_free (JArr xs) = False"
| "list_free (JObj m) = list_free_obj m"
| "list_free _ = True"
| "list_free_obj [] = True"
| "list_free_obj ((k, v) # m) = (list_free v \<and> list_free_obj m)"

lemma gobIface_Some_iff:
  "gobIface j \<noteq> None \<longleftrightarrow> list_free j"
  "gobIfaces m \<noteq> None \<longleftrightarrow> list_free_obj m"
proof (induction j and m rule: gobIface_gobIfaces.induct)
  case (8 k v m)
  then show ?case by (cases "gobIface v"; cases "gobIfaces m") auto
qed auto

section \<open>Request parameters\<close>

text \<open>The result of encoding a pointer is None on failure, and then whether the field is sent.\<close>

definition gobRequestParameters :: "RequestParameters option \<Rightarrow> gob option option" where
  "gobRequestParameters p =
     (case p of
        None \<Rightarrow> Some None
      | Some rp \<Rightarrow>
          (case rp_Data rp of
             None \<Rightarrow> Some (Some (GStruct []))
           | Some m \<Rightarrow> map_option (\<lambda>gs. Some (GStruct (fld ''Data'' (Some (GMap gs))))) (gobIfaces m)))"

fun ungobRequestParameters :: "gob option \<Rightarrow> RequestParameters option option" where
  "ungobRequestParameters None = Some None"
| "ungobRequestParameters (Some (GStruct fs)) =
     (case map_of fs ''Data'' of
        None \<Rightarrow> Some (Some \<lparr>rp_Data = None\<rparr>)
      | Some (GMap gs) \<Rightarrow> map_option (\<lambda>m. Some \<lparr>rp_Data = Some m\<rparr>) (ungobIfaces gs)
      | Some _ \<Rightarrow> None)"
| "ungobRequestParameters _ = None"

lemma gobRequestParameters_round_trip:
  "gobRequestParameters p = Some g \<Longrightarrow> ungobRequestParameters g = Some p"
proof (cases p)
  case (Some rp)
  assume "gobRequestParameters p = Some g"
  with Some show ?thesis
    by (cases "rp_Data rp") (auto simp: gobRequestParameters_def gobIface_round_trip map_of_fld)
qed (simp add: gobRequestParameters_def)

definition storable_params :: "RequestParameters option \<Rightarrow> bool" where
  "storable_params p \<longleftrightarrow>
     (case p of None \<Rightarrow> True | Some rp \<Rightarrow> (case rp_Data rp of None \<Rightarrow> True | Some m \<Rightarrow> list_free_obj m))"

lemma gobRequestParameters_Some_iff: "gobRequestParameters p \<noteq> None \<longleftrightarrow> storable_params p"
  using gobIface_Some_iff(2)
  by (auto simp: gobRequestParameters_def storable_params_def split: option.splits)

end
