(* ===== verification/EtcdOperation.thy ===== *)
theory EtcdOperation
  imports Etcd_Interface Gob MemoryOperation
begin

text \<open>
  The etcd driver for operations, \<open>internal/storage/driver/etcd/entity_operation.go\<close> and
  \<open>entity_bind_operation.go\<close>. A method is a sequence of calls of the key-value store; the clock is
  the argument \<open>now\<close>. The storage of instance operations refines the in-memory one as long as its
  calls do not overlap.
\<close>

section \<open>Operations on instances\<close>

definition io_instanceKeyPrefix :: "InstanceID \<Rightarrow> string" where
  "io_instanceKeyPrefix i = i @ entityNamespaceSeparator"

definition io_key :: "InstanceID \<Rightarrow> OperationID \<Rightarrow> string" where
  "io_key iID opID = io_instanceKeyPrefix iID @ opID"

definition gobInstanceOperation :: "InstanceOperation \<Rightarrow> gob option" where
  "gobInstanceOperation io =
     do { ps \<leftarrow> gobRequestParameters (io_ProvisioningParameters io);
          Some (GStruct
            (fld ''InstanceID'' (gobString (io_InstanceID io)) @
             fld ''OperationID'' (gobString (io_OperationID io)) @
             fld ''Type'' (gobString (io_Type io)) @
             fld ''State'' (gobString (io_State io)) @
             fld ''StateDescription'' (gobStringPtr (io_StateDescription io)) @
             fld ''ProvisioningParameters'' ps @
             fld ''CreatedAt'' (Some (GTime (io_CreatedAt io))))) }"

fun ungobInstanceOperation :: "gob \<Rightarrow> InstanceOperation option" where
  "ungobInstanceOperation (GStruct fs) =
     do { iID \<leftarrow> ungobString (map_of fs ''InstanceID'');
          opID \<leftarrow> ungobString (map_of fs ''OperationID'');
          ty \<leftarrow> ungobString (map_of fs ''Type'');
          st \<leftarrow> ungobString (map_of fs ''State'');
          desc \<leftarrow> ungobStringPtr (map_of fs ''StateDescription'');
          ps \<leftarrow> ungobRequestParameters (map_of fs ''ProvisioningParameters'');
          t \<leftarrow> ungobTime (map_of fs ''CreatedAt'');
          Some \<lparr>io_InstanceID = iID, io_OperationID = opID, io_Type = ty, io_State = st,
                io_StateDescription = desc, io_ProvisioningParameters = ps, io_CreatedAt = t\<rparr> }"
| "ungobInstanceOperation _ = None"

definition etcd_io_encodeDMToDSO :: "InstanceOperation \<Rightarrow> gob result" where
  "etcd_io_encodeDMToDSO dm =
     (case gobInstanceOperation dm of
        None \<Rightarrow> Inl (Wrapped gobNotRegistered ''while encoding entity'')
      | Some dso \<Rightarrow> Inr dso)"

definition etcd_io_decodeDSOToDM :: "gob \<Rightarrow> InstanceOperation result" where
  "etcd_io_decodeDSOToDM dsoEnc =
     (case ungobInstanceOperation dsoEnc of
        None \<Rightarrow> Inl (Wrapped gobMismatch ''while decoding DSO'')
      | Some io \<Rightarrow> Inr io)"

definition etcd_io_handleGetError :: "error \<Rightarrow> error" where
  "etcd_io_handleGetError errIn = Wrapped errIn ''while calling database''"

fun etcd_io_anyInProgress :: "(string \<times> gob) list \<Rightarrow> bool result" where
  "etcd_io_anyInProgress [] = Inr False"
| "etcd_io_anyInProgress ((k, v) # kvs) =
     (case etcd_io_decodeDSOToDM v of
        Inl err \<Rightarrow> Inl (Wrapped err ''while decoding returned entities'')
      | Inr io \<Rightarrow> if io_State io = OperationStateInProgress then Inr True else etcd_io_anyInProgress kvs)"

definition etcd_io_isOperationInProgress :: "(gob, 'e) kv \<Rightarrow> InstanceID \<Rightarrow> 'e \<Rightarrow> bool result" where
  "etcd_io_isOperationInProgress kv iID e =
     (case kvGet kv (io_instanceKeyPrefix iID) WithPrefix e of
        Inl err \<Rightarrow> Inl (etcd_io_handleGetError err)
      | Inr kvs \<Rightarrow> etcd_io_anyInProgress kvs)"

text \<open>\<open>Insert\<close> reads, in two calls, whether the operation may be stored, and then writes it.\<close>

definition etcd_io_check :: "(gob, 'e) kv \<Rightarrow> InstanceOperation \<Rightarrow> 'e \<Rightarrow> error option" where
  "etcd_io_check kv io e =
     (case kvGet kv (io_key (io_InstanceID io) (io_OperationID io)) ExactKey e of
        Inl err \<Rightarrow> Some (etcd_io_handleGetError err)
      | Inr kvs \<Rightarrow>
          if length kvs > 0 then Some AlreadyExistsError
          else (case etcd_io_isOperationInProgress kv (io_InstanceID io) e of
                  Inl err \<Rightarrow> Some (Wrapped err ''while checking if there are operations in progress'')
                | Inr opInProgress \<Rightarrow>
                    if opInProgress then Some ActiveOperationInProgressError else None))"

definition etcd_io_put :: "(gob, 'e) kv \<Rightarrow> InstanceOperation \<Rightarrow> 'e \<Rightarrow> error option \<times> 'e" where
  "etcd_io_put kv io e =
     (case etcd_io_encodeDMToDSO io of
        Inl err \<Rightarrow> (Some err, e)
      | Inr dso \<Rightarrow>
          (case kvPut kv (io_key (io_InstanceID io) (io_OperationID io)) dso e of
             (Inl err, e1) \<Rightarrow> (Some (Wrapped err ''while calling database on put''), e1)
           | (Inr prev, e1) \<Rightarrow> (None, e1)))"

definition etcd_io_Insert ::
  "(gob, 'e) kv \<Rightarrow> time \<Rightarrow> InstanceOperation option \<Rightarrow> 'e \<Rightarrow> error option \<times> 'e" where
  "etcd_io_Insert kv now arg e =
     (case arg of
        None \<Rightarrow> (Some (ErrorString ''entity may not be nil''), e)
      | Some io \<Rightarrow>
          if IsZero (io_InstanceID io) \<or> IsZero (io_OperationID io)
          then (Some (ErrorString ''both instance and operation id must be set''), e)
          else (case etcd_io_check kv io e of
                  Some err \<Rightarrow> (Some err, e)
                | None \<Rightarrow> etcd_io_put kv (io\<lparr>io_CreatedAt := now\<rparr>) e))"

definition etcd_io_get :: "(gob, 'e) kv \<Rightarrow> InstanceID \<Rightarrow> OperationID \<Rightarrow> 'e \<Rightarrow> InstanceOperation result" where
  "etcd_io_get kv iID opID e =
     (if IsZero iID \<or> IsZero opID
      then Inl (ErrorString ''both instance and operation id must be set'')
      else case kvGet kv (io_key iID opID) ExactKey e of
             Inl err \<Rightarrow> Inl (etcd_io_handleGetError err)
           | Inr [] \<Rightarrow> Inl NotFoundError
           | Inr [(k, v)] \<Rightarrow> etcd_io_decodeDSOToDM v
           | Inr _ \<Rightarrow> Inl (ErrorString ''more than one element matching requested id, should never happen''))"

definition etcd_io_Get :: "(gob, 'e) kv \<Rightarrow> InstanceID \<Rightarrow> OperationID \<Rightarrow> 'e \<Rightarrow> InstanceOperation result" where
  "etcd_io_Get kv iID opID e = etcd_io_get kv iID opID e"

fun etcd_io_decodeAll :: "(string \<times> gob) list \<Rightarrow> InstanceOperation list result" where
  "etcd_io_decodeAll [] = Inr []"
| "etcd_io_decodeAll ((k, v) # kvs) =
     (case etcd_io_decodeDSOToDM v of
        Inl err \<Rightarrow> Inl (Wrapped err ''while decoding returned entities'')
      | Inr io \<Rightarrow> (case etcd_io_decodeAll kvs of Inl err \<Rightarrow> Inl err | Inr out \<Rightarrow> Inr (io # out)))"

definition etcd_io_GetAll :: "(gob, 'e) kv \<Rightarrow> InstanceID \<Rightarrow> 'e \<Rightarrow> InstanceOperation list result" where
  "etcd_io_GetAll kv iID e =
     (case kvGet kv (io_instanceKeyPrefix iID) WithPrefix e of
        Inl err \<Rightarrow> Inl (etcd_io_handleGetError err)
      | Inr kvs \<Rightarrow> if length kvs = 0 then Inl NotFoundError else etcd_io_decodeAll kvs)"

definition etcd_io_updateStateDesc ::
  "(gob, 'e) kv \<Rightarrow> InstanceID \<Rightarrow> OperationID \<Rightarrow> OperationState \<Rightarrow> string option \<Rightarrow> 'e
    \<Rightarrow> error option \<times> 'e" where
  "etcd_io_updateStateDesc kv iID opID state desc e =
     (case etcd_io_get kv iID opID e of
        Inl err \<Rightarrow> (Some err, e)
      | Inr io \<Rightarrow>
          (case etcd_io_encodeDMToDSO (io\<lparr>io_State := state, io_StateDescription := desc\<rparr>) of
             Inl err \<Rightarrow> (Some err, e)
           | Inr dso \<Rightarrow>
               (case kvPut kv (io_key iID opID) dso e of
                  (Inl err, e1) \<Rightarrow> (Some (Wrapped err ''while calling database on put''), e1)
                | (Inr prev, e1) \<Rightarrow> (None, e1))))"

definition etcd_io_UpdateState ::
  "(gob, 'e) kv \<Rightarrow> InstanceID \<Rightarrow> OperationID \<Rightarrow> OperationState \<Rightarrow> 'e \<Rightarrow> error option \<times> 'e" where
  "etcd_io_UpdateState kv iID opID state e = etcd_io_updateStateDesc kv iID opID state None e"

definition etcd_io_UpdateStateDesc ::
  "(gob, 'e) kv \<Rightarrow> InstanceID \<Rightarrow> OperationID \<Rightarrow> OperationState \<Rightarrow> string option \<Rightarrow> 'e
    \<Rightarrow> error option \<times> 'e" where
  "etcd_io_UpdateStateDesc kv iID opID state desc e = etcd_io_updateStateDesc kv iID opID state desc e"

definition etcd_io_Remove :: "(gob, 'e) kv \<Rightarrow> InstanceID \<Rightarrow> OperationID \<Rightarrow> 'e \<Rightarrow> error option \<times> 'e" where
  "etcd_io_Remove kv iID opID e =
     (case kvDelete kv (io_key iID opID) e of
        (Inl err, e1) \<Rightarrow> (Some (Wrapped err ''while calling database''), e1)
      | (Inr [], e1) \<Rightarrow> (Some NotFoundError, e1)
      | (Inr [p], e1) \<Rightarrow> (None, e1)
      | (Inr _, e1) \<Rightarrow>
          (Some (ErrorString ''more than one element matching requested id, should never happen''), e1))"

section \<open>What the store holds\<close>

text \<open>
  An operation that comes back as it was stored: its instance identifier does not contain the
  separator of keys, its description is not a pointer to the empty string, and its parameters
  hold no list.
\<close>

definition io_storable :: "InstanceOperation \<Rightarrow> bool" where
  "io_storable io \<longleftrightarrow> CHR ''/'' \<notin> set (io_InstanceID io) \<and> io_StateDescription io \<noteq> Some '''' \<and>
     storable_params (io_ProvisioningParameters io)"

lemma gobInstanceOperation_round_trip:
  assumes "gobInstanceOperation io = Some b"
  shows "ungobInstanceOperation b = Some (io\<lparr>io_StateDescription := flatString (io_StateDescription io)\<rparr>)"
proof -
  from assms obtain ps where "gobRequestParameters (io_ProvisioningParameters io) = Some ps"
    by (auto simp: gobInstanceOperation_def split: bind_splits)
  with assms gobRequestParameters_round_trip [OF this] show ?thesis
    by (auto simp: gobInstanceOperation_def map_of_fld simp del: map_of_append)
qed

lemma storable_encodes:
  assumes "io_storable io"
  obtains b where "etcd_io_encodeDMToDSO io = Inr b" "gobInstanceOperation io = Some b"
    "etcd_io_decodeDSOToDM b = Inr io" "ungobInstanceOperation b = Some io"
proof -
  from assms have "gobRequestParameters (io_ProvisioningParameters io) \<noteq> None"
    by (simp only: gobRequestParameters_Some_iff io_storable_def)
  then obtain b where b: "gobInstanceOperation io = Some b" by (auto simp: gobInstanceOperation_def)
  moreover from assms have "io\<lparr>io_StateDescription := flatString (io_StateDescription io)\<rparr> = io"
    by (simp add: io_storable_def flatString_def)
  ultimately show ?thesis using gobInstanceOperation_round_trip [OF b]
    by (intro that [of b]) (simp_all add: etcd_io_encodeDMToDSO_def etcd_io_decodeDSOToDM_def)
qed

lemma io_key_inj:
  "CHR ''/'' \<notin> set i \<Longrightarrow> CHR ''/'' \<notin> set j \<Longrightarrow> io_key i a = io_key j b \<Longrightarrow> i = j \<and> a = b"
  using sep_append_inj [of "CHR ''/''" i j a b]
  by (simp add: io_key_def io_instanceKeyPrefix_def entityNamespaceSeparator_def)

lemma io_key_eq:
  "CHR ''/'' \<notin> set i \<Longrightarrow> CHR ''/'' \<notin> set j \<Longrightarrow> io_key i a = io_key j b \<longleftrightarrow> i = j \<and> a = b"
  using io_key_inj by blast

lemma io_key_prefix:
  assumes "CHR ''/'' \<notin> set i" "CHR ''/'' \<notin> set j"
  shows "strHasPrefix (io_key j b) (io_instanceKeyPrefix i) \<longleftrightarrow> i = j"
  using io_key_inj [OF assms(2,1), of b] unfolding strHasPrefix_iff io_key_def by blast

definition io_invar :: "(string \<Rightarrow> gob option) \<Rightarrow> bool" where
  "io_invar c \<longleftrightarrow> (\<forall>k b. c k = Some b \<longrightarrow> (\<exists>op. io_storable op \<and>
     k = io_key (io_InstanceID op) (io_OperationID op) \<and> gobInstanceOperation op = Some b))"

definition io_abs ::
  "(string \<Rightarrow> gob option) \<Rightarrow> InstanceID \<Rightarrow> OperationID \<Rightarrow> InstanceOperation option" where
  "io_abs c i opid = Option.bind (c (io_key i opid)) ungobInstanceOperation"

lemma io_invar_decode:
  assumes "io_invar c" "c k = Some b"
  obtains op where "io_storable op" "k = io_key (io_InstanceID op) (io_OperationID op)"
    "etcd_io_decodeDSOToDM b = Inr op" "ungobInstanceOperation b = Some op"
proof -
  from assms obtain op where op: "io_storable op" "k = io_key (io_InstanceID op) (io_OperationID op)"
    "gobInstanceOperation op = Some b" unfolding io_invar_def by blast
  from storable_encodes [OF op(1)] op(3) have "etcd_io_decodeDSOToDM b = Inr op" by auto
  with op that show ?thesis by (auto simp: etcd_io_decodeDSOToDM_def split: option.splits)
qed

lemma io_invar_at:
  assumes "io_invar c" "CHR ''/'' \<notin> set i" "c (io_key i opid) = Some b"
  obtains op where "io_abs c i opid = Some op" "etcd_io_decodeDSOToDM b = Inr op"
    "io_InstanceID op = i" "io_OperationID op = opid" "io_storable op"
proof -
  from io_invar_decode [OF assms(1,3)] obtain op where op: "io_storable op"
    "io_key i opid = io_key (io_InstanceID op) (io_OperationID op)"
    "etcd_io_decodeDSOToDM b = Inr op" "ungobInstanceOperation b = Some op" by blast
  from op(1) have "CHR ''/'' \<notin> set (io_InstanceID op)" by (simp add: io_storable_def)
  from io_key_inj [OF assms(2) this op(2)] have "io_InstanceID op = i" "io_OperationID op = opid" by simp_all
  moreover from assms(3) op(4) have "io_abs c i opid = Some op" by (simp add: io_abs_def)
  ultimately show ?thesis using op(1,3) by (intro that)
qed

lemma io_abs_None_iff:
  "io_invar c \<Longrightarrow> CHR ''/'' \<notin> set i \<Longrightarrow> io_abs c i opid = None \<longleftrightarrow> c (io_key i opid) = None"
  by (cases "c (io_key i opid)") (auto simp: io_abs_def elim: io_invar_decode)

section \<open>The methods over the abstraction\<close>

abbreviation io_dec :: "string \<times> gob \<Rightarrow> InstanceOperation" where
  "io_dec p \<equiv> projr (etcd_io_decodeDSOToDM (snd p))"

lemma decodeAll_eq:
  assumes "\<And>p. p \<in> set kvs \<Longrightarrow> \<exists>op. etcd_io_decodeDSOToDM (snd p) = Inr op"
  shows "etcd_io_decodeAll kvs = Inr (map io_dec kvs)"
    and "etcd_io_anyInProgress kvs = Inr (\<exists>p \<in> set kvs. in_progress (io_dec p))"
  using assms by (induction kvs) (fastforce simp: in_progress_def)+

text \<open>Writing an operation under its key, and removing it.\<close>

lemma put_abs:
  assumes "io_invar c" "io_storable io" "gobInstanceOperation io = Some b"
    and "c' = c(io_key (io_InstanceID io) (io_OperationID io) \<mapsto> b)"
  shows "io_invar c' \<and> (\<forall>i. CHR ''/'' \<notin> set i \<longrightarrow> io_abs c' i =
    (if i = io_InstanceID io then (io_abs c i)(io_OperationID io \<mapsto> io) else io_abs c i))"
proof -
  have "io_invar c'" using assms by (auto simp: io_invar_def)
  moreover have "ungobInstanceOperation b = Some io"
    using storable_encodes [OF assms(2)] assms(3) by auto
  moreover have "CHR ''/'' \<notin> set (io_InstanceID io)" using assms(2) by (simp add: io_storable_def)
  ultimately show ?thesis by (auto simp: assms(4) io_abs_def fun_eq_iff io_key_eq)
qed

lemma delete_abs:
  assumes "io_invar c" "CHR ''/'' \<notin> set i" "c' = c(io_key i opid := None)"
  shows "io_invar c' \<and> (\<forall>j. CHR ''/'' \<notin> set j \<longrightarrow> io_abs c' j =
    (if j = i then (io_abs c j)(opid := None) else io_abs c j))"
proof -
  have "io_invar c'" using assms by (simp add: io_invar_def)
  with assms(2) show ?thesis by (auto simp: assms(3) io_abs_def fun_eq_iff io_key_eq)
qed

locale gob_store = kv_store kv content for kv :: "(gob, 'e) kv" and content :: "'e \<Rightarrow> string \<Rightarrow> gob option"
begin

lemma range_decoded:
  assumes inv: "io_invar (content e)" and i: "CHR ''/'' \<notin> set i"
    and kvs: "kvGet kv (io_instanceKeyPrefix i) WithPrefix e = Inr kvs"
  shows "etcd_io_decodeAll kvs = Inr (map io_dec kvs)"
    and "etcd_io_anyInProgress kvs = Inr (\<exists>op \<in> ran (io_abs (content e) i). in_progress op)"
    and "set (map io_dec kvs) = ran (io_abs (content e) i)"
    and "distinct (map io_dec kvs)"
proof -
  note rng = Get_range [OF kvs]
  have dec: "\<exists>op. etcd_io_decodeDSOToDM (snd p) = Inr op \<and> fst p = io_key i (io_OperationID op) \<and>
      io_abs (content e) i (io_OperationID op) = Some op" if "p \<in> set kvs" for p
  proof -
    from that have "(fst p, snd p) \<in> set kvs" by simp
    with rng have p: "content e (fst p) = Some (snd p)" "strHasPrefix (fst p) (io_instanceKeyPrefix i)"
      by blast+
    from io_invar_decode [OF inv p(1)] obtain op where op: "io_storable op"
      "fst p = io_key (io_InstanceID op) (io_OperationID op)" by blast
    then have "io_InstanceID op = i"
      using io_key_prefix [OF i] p(2) by (auto simp: io_storable_def)
    with op(2) p(1) have "content e (io_key i (io_OperationID op)) = Some (snd p)" "fst p = io_key i (io_OperationID op)"
      by simp_all
    from io_invar_at [OF inv i this(1)] this(2) show ?thesis by metis
  qed
  from dec show "etcd_io_decodeAll kvs = Inr (map io_dec kvs)" by (intro decodeAll_eq) blast
  have "distinct (map (\<lambda>op. io_key i (io_OperationID op)) (map io_dec kvs))"
  proof -
    have "io_key i (io_OperationID (io_dec p)) = fst p" if "p \<in> set kvs" for p
      using dec [OF that] by auto
    then have "map (\<lambda>op. io_key i (io_OperationID op)) (map io_dec kvs) = map fst kvs" by simp
    with rng show ?thesis by metis
  qed
  then show "distinct (map io_dec kvs)" by (simp only: distinct_map)
  show ran: "set (map io_dec kvs) = ran (io_abs (content e) i)"
  proof (intro equalityI subsetI)
    fix op assume "op \<in> set (map io_dec kvs)"
    with dec show "op \<in> ran (io_abs (content e) i)" by (fastforce simp: ran_def)
  next
    fix op assume "op \<in> ran (io_abs (content e) i)"
    then obtain opid b where b: "content e (io_key i opid) = Some b" "ungobInstanceOperation b = Some op"
      by (auto simp: ran_def io_abs_def bind_eq_Some_conv)
    then have "(io_key i opid, b) \<in> set kvs" using rng by (simp add: io_key_def)
    with b(2) show "op \<in> set (map io_dec kvs)" by (force simp: etcd_io_decodeDSOToDM_def)
  qed
  have "etcd_io_anyInProgress kvs = Inr (\<exists>p \<in> set kvs. in_progress (io_dec p))"
    using dec by (intro decodeAll_eq) blast
  also have "(\<exists>p \<in> set kvs. in_progress (io_dec p)) \<longleftrightarrow> (\<exists>op \<in> set (map io_dec kvs). in_progress op)" by simp
  finally show "etcd_io_anyInProgress kvs = Inr (\<exists>op \<in> ran (io_abs (content e) i). in_progress op)"
    unfolding ran .
qed

text \<open>A read that is answered gives what the abstraction holds; otherwise the error is a wrapped one.\<close>

lemma get_abs:
  assumes "io_invar (content e)" "CHR ''/'' \<notin> set i"
  shows "etcd_io_get kv i opid e =
      (if i = '''' \<or> opid = '''' then Inl (ErrorString ''both instance and operation id must be set'')
       else case io_abs (content e) i opid of None \<Rightarrow> Inl NotFoundError | Some op \<Rightarrow> Inr op) \<or>
    \<not> kv_up kv e \<and> (\<exists>err m. etcd_io_get kv i opid e = Inl (Wrapped err m))"
proof (cases "kvGet kv (io_key i opid) ExactKey e")
  case (Inl err)
  then have "\<not> kv_up kv e" using kv_upD(1) by metis
  with Inl show ?thesis by (simp add: etcd_io_get_def etcd_io_handleGetError_def IsZero_def)
next
  case (Inr kvs)
  from Get_exact [OF this] have kvs: "kvs = entry (io_key i opid) (content e (io_key i opid))" .
  show ?thesis
  proof (cases "content e (io_key i opid)")
    case None
    with Inr kvs show ?thesis by (simp add: etcd_io_get_def IsZero_def entry_def io_abs_def)
  next
    case (Some b)
    from io_invar_at [OF assms this] obtain op where
      "io_abs (content e) i opid = Some op" "etcd_io_decodeDSOToDM b = Inr op" by blast
    with Some Inr kvs show ?thesis by (simp add: etcd_io_get_def IsZero_def entry_def)
  qed
qed

lemma check_abs:
  assumes "io_invar (content e)" "CHR ''/'' \<notin> set (io_InstanceID io)"
  defines "ops \<equiv> io_abs (content e) (io_InstanceID io)"
  shows "etcd_io_check kv io e =
      (if ops (io_OperationID io) \<noteq> None then Some AlreadyExistsError
       else if \<exists>op \<in> ran ops. in_progress op then Some ActiveOperationInProgressError else None) \<or>
    \<not> kv_up kv e \<and> (\<exists>err m. etcd_io_check kv io e = Some (Wrapped err m))"
proof (cases "kvGet kv (io_key (io_InstanceID io) (io_OperationID io)) ExactKey e")
  case (Inl err)
  then have "\<not> kv_up kv e" using kv_upD(1) by metis
  with Inl show ?thesis by (simp add: etcd_io_check_def etcd_io_handleGetError_def)
next
  case (Inr kvs)
  from Get_exact [OF this] have kvs: "length kvs > 0 \<longleftrightarrow> ops (io_OperationID io) \<noteq> None"
    using io_abs_None_iff [OF assms(1,2)] by (simp add: ops_def entry_def split: option.splits)
  show ?thesis
  proof (cases "kvGet kv (io_instanceKeyPrefix (io_InstanceID io)) WithPrefix e")
    case range: (Inl err)
    then have "\<not> kv_up kv e" using kv_upD(1) by metis
    with Inr range kvs show ?thesis by (simp add: etcd_io_check_def etcd_io_isOperationInProgress_def)
  next
    case range: (Inr ps)
    with Inr kvs range_decoded(2) [OF assms(1,2) range] show ?thesis
      by (simp add: etcd_io_check_def etcd_io_isOperationInProgress_def ops_def)
  qed
qed

end

section \<open>Refinement of the in-memory driver\<close>

text \<open>The in-memory driver drops the map of an instance with its last operation.\<close>

definition mem_io_dense :: "MemInstanceOperation \<Rightarrow> bool" where
  "mem_io_dense m \<longleftrightarrow> (\<forall>i. map_of (mio_storage m) i \<noteq> Some [])"

lemma mem_io_dense_write: "mem_io_dense m \<Longrightarrow> mem_io_dense (mem_io_write i opid op m)"
  by (simp add: mem_io_dense_def mem_io_write_def update_nonempty)

lemma mem_io_dense_Remove: "mem_io_dense m \<Longrightarrow> mem_io_dense (snd (mem_io_Remove i opid m))"
  by (auto simp: mem_io_dense_def mem_io_Remove_def Let_def split: sum.splits)

lemma mem_io_dense_Insert:
  assumes "mem_io_invar m" "mem_io_dense m"
  shows "mem_io_dense (snd (mem_io_Insert (Some io) m))"
proof (cases "fst (mem_io_Insert (Some io) m)")
  case None
  with assms(2) show ?thesis
    by (auto simp: mem_io_Insert_def mem_io_dense_def Let_def update_nonempty split: if_splits)
next
  case (Some err)
  then have "snd (mem_io_Insert (Some io) m) = m"
    using mem_io_Insert_cases [OF assms(1), of io] by (cases "mem_io_Insert (Some io) m") (auto split: if_splits)
  with assms(2) show ?thesis by simp
qed

definition io_sim :: "(string \<Rightarrow> gob option) \<Rightarrow> MemInstanceOperation \<Rightarrow> bool" where
  "io_sim c m \<longleftrightarrow> io_invar c \<and> mem_io_invar m \<and> mem_io_dense m \<and>
     (\<forall>i. CHR ''/'' \<notin> set i \<longrightarrow> io_abs c i = mem_io_ops m i)"

text \<open>
  A call of the etcd driver against the same call of the in-memory driver: the same answer and
  related states, or, when the database does not answer, an error that says so and a state in
  which the call has happened or has not.
\<close>

definition io_refines ::
  "(gob, 'e) kv \<Rightarrow> ('e \<Rightarrow> string \<Rightarrow> gob option) \<Rightarrow> 'e \<Rightarrow> MemInstanceOperation
    \<Rightarrow> error option \<times> 'e \<Rightarrow> error option \<times> MemInstanceOperation \<Rightarrow> bool" where
  "io_refines kv content e m x y \<longleftrightarrow>
     fst x = fst y \<and> io_sim (content (snd x)) (snd y) \<or>
     \<not> kv_up kv e \<and> (\<exists>err msg. fst x = Some (Wrapped err msg)) \<and>
       (io_sim (content (snd x)) m \<or> io_sim (content (snd x)) (snd y))"

lemma io_sim_put:
  assumes "io_sim c m" "io_storable io" "gobInstanceOperation io = Some b"
    and "mem_io_invar m'" "mem_io_dense m'"
    and "mem_io_ops m' = (mem_io_ops m)(io_InstanceID io := (mem_io_ops m (io_InstanceID io))(io_OperationID io \<mapsto> io))"
  shows "io_sim (c(io_key (io_InstanceID io) (io_OperationID io) \<mapsto> b)) m'"
proof -
  let ?c = "c(io_key (io_InstanceID io) (io_OperationID io) \<mapsto> b)"
  from assms(1) have inv: "io_invar c" and abs: "\<And>i. CHR ''/'' \<notin> set i \<Longrightarrow> io_abs c i = mem_io_ops m i"
    by (simp_all add: io_sim_def)
  from put_abs [OF inv assms(2,3) refl] have "io_invar ?c" and
    "\<And>i. CHR ''/'' \<notin> set i \<Longrightarrow> io_abs ?c i =
      (if i = io_InstanceID io then (io_abs c i)(io_OperationID io \<mapsto> io) else io_abs c i)" by blast+
  with abs assms(4-6) show ?thesis by (simp add: io_sim_def)
qed

context gob_store
begin

lemma Put_refines:
  assumes "io_sim (content e) m" "io_sim ((content e)(k \<mapsto> b)) m'"
  shows "io_refines kv content e m
    (case kvPut kv k b e of
       (Inl err, e1) \<Rightarrow> (Some (Wrapped err msg), e1) | (Inr prev, e1) \<Rightarrow> (None, e1)) (None, m')"
proof -
  obtain r e1 where put: "kvPut kv k b e = (r, e1)" by fastforce
  show ?thesis
  proof (cases r)
    case (Inl err)
    with put kv_upD(2) have "\<not> kv_up kv e" by metis
    with Put_failed [of k b e err e1] put Inl assms show ?thesis by (auto simp: io_refines_def)
  next
    case (Inr prev)
    with Put_ok [of k b e prev e1] put assms show ?thesis by (auto simp: io_refines_def)
  qed
qed

lemma Insert_refines:
  assumes sim: "io_sim (content e) m" and st: "io_storable io"
  shows "io_refines kv content e m (etcd_io_Insert kv (mio_nowProvider m) (Some io) e) (mem_io_Insert (Some io) m)"
proof -
  let ?io = "io\<lparr>io_CreatedAt := mio_nowProvider m\<rparr>"
  let ?i = "io_InstanceID io" and ?o = "io_OperationID io"
  from sim st have inv: "io_invar (content e)" "mem_io_invar m" "mem_io_dense m"
    and i: "CHR ''/'' \<notin> set ?i" and abs: "io_abs (content e) ?i = mem_io_ops m ?i"
    by (simp_all add: io_sim_def io_storable_def)
  obtain r m' where mem: "mem_io_Insert (Some io) m = (r, m')" by fastforce
  note cases = mem_io_Insert_cases [OF inv(2) mem]
  from mem_io_dense_Insert [OF inv(2,3), of io] mem have dense: "mem_io_dense m'" by simp
  consider "?i = '''' \<or> ?o = ''''" | "\<not> (?i = '''' \<or> ?o = '''')" "etcd_io_check kv io e = None"
    | err where "\<not> (?i = '''' \<or> ?o = '''')" "etcd_io_check kv io e = Some err" by fastforce
  then show ?thesis
  proof cases
    case 1
    with cases sim mem show ?thesis by (auto simp: etcd_io_Insert_def IsZero_def io_refines_def)
  next
    case 2
    with check_abs [OF inv(1) i] have free: "mem_io_ops m ?i ?o = None" "\<not> (\<exists>op \<in> ran (mem_io_ops m ?i). in_progress op)"
      by (auto simp: abs split: if_splits)
    with 2(1) cases have m': "r = None" "mem_io_invar m'"
      "mem_io_ops m' = (mem_io_ops m)(?i := (mem_io_ops m ?i)(?o \<mapsto> ?io))" by auto
    from st have "io_storable ?io" by (simp add: io_storable_def)
    with storable_encodes obtain b where b: "etcd_io_encodeDMToDSO ?io = Inr b" "gobInstanceOperation ?io = Some b"
      by blast
    from io_sim_put [OF sim \<open>io_storable ?io\<close> b(2) m'(2) dense] m'(3)
    have "io_sim ((content e)(io_key ?i ?o \<mapsto> b)) m'" by simp
    from Put_refines [OF sim this] 2 b(1) mem m'(1) show ?thesis
      by (simp add: etcd_io_Insert_def etcd_io_put_def IsZero_def)
  next
    case 3
    have "etcd_io_Insert kv (mio_nowProvider m) (Some io) e = (Some err, e)"
      using 3 by (simp add: etcd_io_Insert_def IsZero_def)
    with check_abs [OF inv(1) i] 3 cases sim mem show ?thesis
      by (auto simp: abs io_refines_def split: if_splits)
  qed
qed

lemma UpdateStateDesc_refines:
  assumes sim: "io_sim (content e) m" and i: "CHR ''/'' \<notin> set i" and desc: "desc \<noteq> Some ''''"
  shows "io_refines kv content e m (etcd_io_UpdateStateDesc kv i opid st desc e)
    (mem_io_UpdateStateDesc i opid st desc m)"
proof -
  from sim i have inv: "io_invar (content e)" "mem_io_invar m" "mem_io_dense m"
    and abs: "io_abs (content e) i = mem_io_ops m i" by (simp_all add: io_sim_def)
  note defs = etcd_io_UpdateStateDesc_def etcd_io_updateStateDesc_def mem_io_UpdateStateDesc_def
  show ?thesis
  proof (cases "etcd_io_get kv i opid e")
    case (Inl err)
    with get_abs [OF inv(1) i, of opid] sim show ?thesis
      by (auto simp: defs mem_io_get_eq abs io_refines_def split: if_splits option.splits)
  next
    case (Inr op)
    with get_abs [OF inv(1) i, of opid] have found: "i \<noteq> ''''" "opid \<noteq> ''''" "mem_io_ops m i opid = Some op"
      by (auto simp: abs split: if_splits option.splits)
    let ?op = "op\<lparr>io_State := st, io_StateDescription := desc\<rparr>"
    have "content e (io_key i opid) \<noteq> None" using found(3) io_abs_None_iff [OF inv(1) i, of opid] abs by simp
    then obtain b where "content e (io_key i opid) = Some b" by blast
    from io_invar_at [OF inv(1) i this] found(3) abs have op: "io_InstanceID op = i" "io_OperationID op = opid"
      "io_storable op" by auto
    with desc have st: "io_storable ?op" by (simp add: io_storable_def)
    from storable_encodes [OF st] obtain b' where b': "etcd_io_encodeDMToDSO ?op = Inr b'"
      "gobInstanceOperation ?op = Some b'" by blast
    have "io_sim ((content e)(io_key i opid \<mapsto> b')) (mem_io_write i opid ?op m)"
      using io_sim_put [OF sim st b'(2) mem_io_write_invar [OF inv(2)] mem_io_dense_write [OF inv(3)]] op(1,2)
      by (simp add: mem_io_write_ops)
    from Put_refines [OF sim this] Inr b'(1) mem_io_UpdateStateDesc_found [OF found] show ?thesis
      by (simp add: defs)
  qed
qed

lemma Remove_refines:
  assumes sim: "io_sim (content e) m" and i: "CHR ''/'' \<notin> set i" "i \<noteq> ''''" "opid \<noteq> ''''"
  shows "io_refines kv content e m (etcd_io_Remove kv i opid e) (mem_io_Remove i opid m)"
proof -
  from sim i have inv: "io_invar (content e)" "mem_io_invar m" "mem_io_dense m"
    and abs: "\<And>i. CHR ''/'' \<notin> set i \<Longrightarrow> io_abs (content e) i = mem_io_ops m i" by (simp_all add: io_sim_def)
  let ?c = "(content e)(io_key i opid := None)"
  obtain r m' where mem: "mem_io_Remove i opid m = (r, m')" by fastforce
  have m': "r = (if mem_io_ops m i opid = None then Some NotFoundError else None) \<and>
      mem_io_ops m' = (mem_io_ops m)(i := (mem_io_ops m i)(opid := None))"
  proof (cases "mem_io_get i opid m")
    case (Inl err)
    with mem i show ?thesis by (auto simp: mem_io_Remove_def mem_io_get_eq fun_eq_iff split: option.splits)
  next
    case (Inr op)
    with mem_io_Remove_ops [OF Inr mem] i show ?thesis by (auto simp: mem_io_get_eq split: option.splits)
  qed
  have sim': "io_sim ?c m'"
    using delete_abs [OF inv(1) i(1) refl, of opid] abs m' mem_io_Remove_invar [OF inv(2), of i opid]
      mem_io_dense_Remove [OF inv(3), of i opid] mem by (simp add: io_sim_def)
  obtain q e1 where del: "kvDelete kv (io_key i opid) e = (q, e1)" by fastforce
  show ?thesis
  proof (cases q)
    case (Inl err)
    with del kv_upD(3) have "\<not> kv_up kv e" by metis
    with Delete_failed [of "io_key i opid" e err e1] del Inl sim sim' mem show ?thesis
      by (auto simp: etcd_io_Remove_def io_refines_def)
  next
    case (Inr kvs)
    with Delete_ok [of "io_key i opid" e kvs e1] del have "kvs = entry (io_key i opid) (content e (io_key i opid))"
      "content e1 = ?c" by auto
    with Inr del sim' m' mem io_abs_None_iff [OF inv(1) i(1), of opid] abs [OF i(1)] show ?thesis
      by (auto simp: etcd_io_Remove_def io_refines_def entry_def split: option.splits)
  qed
qed

lemma GetAll_refines:
  assumes sim: "io_sim (content e) m" and i: "CHR ''/'' \<notin> set i" "etcd_io_GetAll kv i e = r"
  shows "(case mem_io_GetAll i m of
      Inl err \<Rightarrow> r = Inl err
    | Inr ops \<Rightarrow> \<exists>xs. r = Inr xs \<and> distinct xs \<and> set xs = set ops) \<or>
    \<not> kv_up kv e \<and> (\<exists>err msg. r = Inl (Wrapped err msg))"
proof -
  from sim i have inv: "io_invar (content e)" "mem_io_invar m" "mem_io_dense m"
    and abs: "io_abs (content e) i = mem_io_ops m i" by (simp_all add: io_sim_def)
  show ?thesis
  proof (cases "kvGet kv (io_instanceKeyPrefix i) WithPrefix e")
    case (Inl err)
    with kv_upD(1) have "\<not> kv_up kv e" by metis
    with Inl i(2) show ?thesis by (auto simp: etcd_io_GetAll_def etcd_io_handleGetError_def)
  next
    case (Inr kvs)
    note rng = range_decoded [OF inv(1) i(1) Inr, unfolded abs]
    have nil: "kvs = [] \<longleftrightarrow> ran (mem_io_ops m i) = {}" using rng(3) by auto
    show ?thesis
    proof (cases "map_of (mio_storage m) i")
      case None
      then have "mem_io_ops m i = Map.empty" by (simp add: mem_io_ops_def)
      with None nil Inr i(2) show ?thesis by (auto simp: etcd_io_GetAll_def mem_io_GetAll_def)
    next
      case (Some ops)
      with inv(3) have "ops \<noteq> []" by (auto simp: mem_io_dense_def)
      moreover from Some have all: "mem_io_GetAll i m = Inr (map snd ops)" by (simp add: mem_io_GetAll_def)
      note set_all = mem_io_GetAll_Inr [OF inv(2) all]
      ultimately have "kvs \<noteq> []" using nil by auto
      with Inr i(2) rng(1) have "r = Inr (map io_dec kvs)" by (simp add: etcd_io_GetAll_def)
      with rng(3,4) set_all all show ?thesis by (simp only: sum.case) blast
    qed
  qed
qed

end

interpretation gos: gob_store etcdKV etcdContent ..

lemma io_sim_init: "io_sim (etcdContent NewEtcd) (NewInstanceOperation now)"
  by (auto simp: io_sim_def io_invar_def etcdContent_def NewEtcd_def mem_io_defs mem_io_dense_def
      NewInstanceOperation_def io_abs_def fun_eq_iff)



text \<open>
  C22. The etcd storage decides and writes in separate calls: two insertions that both read before
  either writes are both accepted, and the instance has two operations in progress. The second
  one would have been refused after the first. The in-memory driver holds a lock.
\<close>

theorem etcd_io_Insert_race:
  "\<exists>a b e1 e2. etcd_io_check etcdKV a NewEtcd = None \<and> etcd_io_check etcdKV b NewEtcd = None \<and>
     etcd_io_put etcdKV a NewEtcd = (None, e1) \<and> etcd_io_put etcdKV b e1 = (None, e2) \<and>
     \<not> one_in_progress (io_abs (etcdContent e2) ''i-1'') \<and>
     etcd_io_Insert etcdKV 7 (Some b) e1 = (Some ActiveOperationInProgressError, e1)"
proof -
  let ?a = example_op and ?b = "example_op\<lparr>io_OperationID := ''op-2'', io_Type := OperationTypeRemove\<rparr>"
  have st: "io_storable ?a" "io_storable ?b"
    by (simp_all add: io_storable_def example_op_def storable_params_def)
  obtain ba bb where ba: "etcd_io_encodeDMToDSO ?a = Inr ba" "ungobInstanceOperation ba = Some ?a"
    and bb: "etcd_io_encodeDMToDSO ?b = Inr bb" "ungobInstanceOperation bb = Some ?b"
    using storable_encodes [OF st(1)] storable_encodes [OF st(2)] by metis
  let ?e1 = "\<lparr>et_kvs = [(''i-1/op-1'', ba)], et_fault = NoFault\<rparr>"
  let ?e2 = "\<lparr>et_kvs = [(''i-1/op-1'', ba), (''i-1/op-2'', bb)], et_fault = NoFault\<rparr>"
  note defs = io_key_def io_instanceKeyPrefix_def entityNamespaceSeparator_def example_op_def
  have chk: "etcd_io_check etcdKV ?a NewEtcd = None" "etcd_io_check etcdKV ?b NewEtcd = None"
    by (simp_all add: etcd_io_check_def etcd_io_isOperationInProgress_def etcdKV_def etcdGet_def NewEtcd_def)
  have put: "etcd_io_put etcdKV ?a NewEtcd = (None, ?e1)" "etcd_io_put etcdKV ?b ?e1 = (None, ?e2)"
    using ba(1) bb(1) by (simp_all add: etcd_io_put_def etcdKV_def etcdPut_def NewEtcd_def defs)
  have "io_abs (etcdContent ?e2) ''i-1'' ''op-1'' = Some ?a" "io_abs (etcdContent ?e2) ''i-1'' ''op-2'' = Some ?b"
    using ba(2) bb(2) by (simp_all add: io_abs_def etcdContent_def io_key_def io_instanceKeyPrefix_def
        entityNamespaceSeparator_def)
  then have two: "\<not> one_in_progress (io_abs (etcdContent ?e2) ''i-1'')"
    unfolding one_in_progress_def in_progress_def by (fastforce simp: example_op_def)
  have "etcd_io_Insert etcdKV 7 (Some ?b) ?e1 = (Some ActiveOperationInProgressError, ?e1)"
    using ba(2) by (simp add: etcd_io_Insert_def etcd_io_check_def etcd_io_isOperationInProgress_def etcdKV_def
        etcdGet_def IsZero_def etcd_io_decodeDSOToDM_def defs)
  with chk put two show ?thesis by blast
qed

section \<open>Operations on bindings\<close>

definition entityOperationIDSeparator :: string where
  "entityOperationIDSeparator = ''/''"

definition bo_instanceKeyPrefix :: "InstanceID \<Rightarrow> string" where
  "bo_instanceKeyPrefix i = i @ entityNamespaceSeparator"

definition bo_bindKeyPrefix :: "BindingID \<Rightarrow> string" where
  "bo_bindKeyPrefix i = i @ entityOperationIDSeparator"

definition bo_key :: "InstanceID \<Rightarrow> BindingID \<Rightarrow> OperationID \<Rightarrow> string" where
  "bo_key iID bID opID = bo_instanceKeyPrefix iID @ bo_bindKeyPrefix bID @ opID"

definition gobBindOperation :: "BindOperation \<Rightarrow> gob" where
  "gobBindOperation bo =
     GStruct
       (fld ''InstanceID'' (gobString (bo_InstanceID bo)) @
        fld ''BindingID'' (gobString (bo_BindingID bo)) @
        fld ''OperationID'' (gobString (bo_OperationID bo)) @
        fld ''Type'' (gobString (bo_Type bo)) @
        fld ''State'' (gobString (bo_State bo)) @
        fld ''StateDescription'' (gobStringPtr (bo_StateDescription bo)) @
        fld ''CreatedAt'' (Some (GTime (bo_CreatedAt bo))))"

fun ungobBindOperation :: "gob \<Rightarrow> BindOperation option" where
  "ungobBindOperation (GStruct fs) =
     do { iID \<leftarrow> ungobString (map_of fs ''InstanceID'');
          bID \<leftarrow> ungobString (map_of fs ''BindingID'');
          opID \<leftarrow> ungobString (map_of fs ''OperationID'');
          ty \<leftarrow> ungobString (map_of fs ''Type'');
          st \<leftarrow> ungobString (map_of fs ''State'');
          desc \<leftarrow> ungobStringPtr (map_of fs ''StateDescription'');
          t \<leftarrow> ungobTime (map_of fs ''CreatedAt'');
          Some \<lparr>bo_InstanceID = iID, bo_BindingID = bID, bo_OperationID = opID, bo_Type = ty, bo_State = st,
                bo_StateDescription = desc, bo_CreatedAt = t\<rparr> }"
| "ungobBindOperation _ = None"

text \<open>Nothing in a binding operation is behind an interface, so that encoding succeeds.\<close>

definition etcd_bo_encodeDMToDSO :: "BindOperation \<Rightarrow> gob result" where
  "etcd_bo_encodeDMToDSO dm = Inr (gobBindOperation dm)"

definition etcd_bo_decodeDSOToDM :: "gob \<Rightarrow> BindOperation result" where
  "etcd_bo_decodeDSOToDM dsoEnc =
     (case ungobBindOperation dsoEnc of
        None \<Rightarrow> Inl (Wrapped gobMismatch ''while decoding DSO'')
      | Some bo \<Rightarrow> Inr bo)"

definition etcd_bo_handleGetError :: "error \<Rightarrow> error" where
  "etcd_bo_handleGetError errIn = Wrapped errIn ''while getting bind operation''"

fun etcd_bo_anyInProgress :: "(string \<times> gob) list \<Rightarrow> bool result" where
  "etcd_bo_anyInProgress [] = Inr False"
| "etcd_bo_anyInProgress ((k, v) # kvs) =
     (case etcd_bo_decodeDSOToDM v of
        Inl err \<Rightarrow> Inl (Wrapped err ''while decoding returned entities'')
      | Inr bo \<Rightarrow> if bo_State bo = OperationStateInProgress then Inr True else etcd_bo_anyInProgress kvs)"

definition etcd_bo_isOperationInProgress ::
  "(gob, 'e) kv \<Rightarrow> InstanceID \<Rightarrow> BindingID \<Rightarrow> 'e \<Rightarrow> bool result" where
  "etcd_bo_isOperationInProgress kv iID bID e =
     (case kvGet kv (bo_instanceKeyPrefix iID @ bo_bindKeyPrefix bID) WithPrefix e of
        Inl err \<Rightarrow> Inl (etcd_bo_handleGetError err)
      | Inr kvs \<Rightarrow> etcd_bo_anyInProgress kvs)"

definition etcd_bo_Insert :: "(gob, 'e) kv \<Rightarrow> time \<Rightarrow> BindOperation \<Rightarrow> 'e \<Rightarrow> error option \<times> 'e" where
  "etcd_bo_Insert kv now bo e =
     (let opKey = bo_key (bo_InstanceID bo) (bo_BindingID bo) (bo_OperationID bo) in
      case kvGet kv opKey ExactKey e of
        Inl err \<Rightarrow> (Some (Wrapped err ''while getting bind operation''), e)
      | Inr kvs \<Rightarrow>
          if length kvs > 0 then (Some AlreadyExistsError, e)
          else (case etcd_bo_isOperationInProgress kv (bo_InstanceID bo) (bo_BindingID bo) e of
                  Inl err \<Rightarrow> (Some (Wrapped err ''while checking if there are operations in progress''), e)
                | Inr opInProgress \<Rightarrow>
                    if opInProgress then (Some ActiveOperationInProgressError, e)
                    else (case etcd_bo_encodeDMToDSO (bo\<lparr>bo_CreatedAt := now\<rparr>) of
                            Inl err \<Rightarrow> (Some err, e)
                          | Inr dso \<Rightarrow>
                              (case kvPut kv opKey dso e of
                                 (Inl err, e1) \<Rightarrow> (Some (Wrapped err ''while putting bind operation''), e1)
                               | (Inr prev, e1) \<Rightarrow> (None, e1)))))"

definition etcd_bo_get ::
  "(gob, 'e) kv \<Rightarrow> InstanceID \<Rightarrow> BindingID \<Rightarrow> OperationID \<Rightarrow> 'e \<Rightarrow> BindOperation result" where
  "etcd_bo_get kv iID bID opID e =
     (case kvGet kv (bo_key iID bID opID) ExactKey e of
        Inl err \<Rightarrow> Inl (etcd_bo_handleGetError err)
      | Inr [] \<Rightarrow> Inl NotFoundError
      | Inr [(k, v)] \<Rightarrow> etcd_bo_decodeDSOToDM v
      | Inr _ \<Rightarrow> Inl (ErrorString ''more than one element matching requested id, should never happen''))"

definition etcd_bo_Get ::
  "(gob, 'e) kv \<Rightarrow> InstanceID \<Rightarrow> BindingID \<Rightarrow> OperationID \<Rightarrow> 'e \<Rightarrow> BindOperation result" where
  "etcd_bo_Get kv iID bID opID e = etcd_bo_get kv iID bID opID e"

fun etcd_bo_decodeAll :: "(string \<times> gob) list \<Rightarrow> BindOperation list result" where
  "etcd_bo_decodeAll [] = Inr []"
| "etcd_bo_decodeAll ((k, v) # kvs) =
     (case etcd_bo_decodeDSOToDM v of
        Inl err \<Rightarrow> Inl (Wrapped err ''while decoding returned entities'')
      | Inr bo \<Rightarrow> (case etcd_bo_decodeAll kvs of Inl err \<Rightarrow> Inl err | Inr out \<Rightarrow> Inr (bo # out)))"

definition etcd_bo_GetAll :: "(gob, 'e) kv \<Rightarrow> InstanceID \<Rightarrow> 'e \<Rightarrow> BindOperation list result" where
  "etcd_bo_GetAll kv iID e =
     (if IsZero iID then Inl (ErrorString ''instance id cannot be empty'')
      else case kvGet kv (bo_instanceKeyPrefix iID) WithPrefix e of
             Inl err \<Rightarrow> Inl (etcd_bo_handleGetError err)
           | Inr kvs \<Rightarrow> if length kvs = 0 then Inl NotFoundError else etcd_bo_decodeAll kvs)"

definition etcd_bo_updateStateDesc ::
  "(gob, 'e) kv \<Rightarrow> InstanceID \<Rightarrow> BindingID \<Rightarrow> OperationID \<Rightarrow> OperationState \<Rightarrow> string option \<Rightarrow> 'e
    \<Rightarrow> error option \<times> 'e" where
  "etcd_bo_updateStateDesc kv iID bID opID state desc e =
     (case etcd_bo_get kv iID bID opID e of
        Inl err \<Rightarrow> (Some (Wrapped err ''while getting bind operation on updateStateDesc''), e)
      | Inr bo \<Rightarrow>
          (case etcd_bo_encodeDMToDSO (bo\<lparr>bo_State := state, bo_StateDescription := desc\<rparr>) of
             Inl err \<Rightarrow> (Some (Wrapped err ''while encoding bind operation on updateStateDesc''), e)
           | Inr dso \<Rightarrow>
               (case kvPut kv (bo_key iID bID opID) dso e of
                  (Inl err, e1) \<Rightarrow> (Some (Wrapped err ''while calling database on put''), e1)
                | (Inr prev, e1) \<Rightarrow> (None, e1))))"

definition etcd_bo_UpdateState ::
  "(gob, 'e) kv \<Rightarrow> InstanceID \<Rightarrow> BindingID \<Rightarrow> OperationID \<Rightarrow> OperationState \<Rightarrow> 'e \<Rightarrow> error option \<times> 'e" where
  "etcd_bo_UpdateState kv iID bID opID state e = etcd_bo_updateStateDesc kv iID bID opID state None e"

definition etcd_bo_UpdateStateDesc ::
  "(gob, 'e) kv \<Rightarrow> InstanceID \<Rightarrow> BindingID \<Rightarrow> OperationID \<Rightarrow> OperationState \<Rightarrow> string option \<Rightarrow> 'e
    \<Rightarrow> error option \<times> 'e" where
  "etcd_bo_UpdateStateDesc kv iID bID opID state desc e = etcd_bo_updateStateDesc kv iID bID opID state desc e"

definition etcd_bo_Remove ::
  "(gob, 'e) kv \<Rightarrow> InstanceID \<Rightarrow> BindingID \<Rightarrow> OperationID \<Rightarrow> 'e \<Rightarrow> error option \<times> 'e" where
  "etcd_bo_Remove kv iID bID opID e =
     (case kvDelete kv (bo_key iID bID opID) e of
        (Inl err, e1) \<Rightarrow> (Some (Wrapped err ''while deleting bind operation''), e1)
      | (Inr [], e1) \<Rightarrow> (Some NotFoundError, e1)
      | (Inr [p], e1) \<Rightarrow> (None, e1)
      | (Inr _, e1) \<Rightarrow>
          (Some (ErrorString ''more than one element matching requested id, should never happen''), e1))"

lemma gobBindOperation_round_trip:
  "ungobBindOperation (gobBindOperation bo) =
     Some (bo\<lparr>bo_StateDescription := flatString (bo_StateDescription bo)\<rparr>)"
  by (simp add: gobBindOperation_def map_of_fld del: map_of_append)

lemma bo_key_inj:
  assumes "CHR ''/'' \<notin> set i" "CHR ''/'' \<notin> set i'" "CHR ''/'' \<notin> set b" "CHR ''/'' \<notin> set b'"
    and "bo_key i b x = bo_key i' b' y"
  shows "i = i' \<and> b = b' \<and> x = y"
proof -
  from assms(5) have "i @ CHR ''/'' # b @ CHR ''/'' # x = i' @ CHR ''/'' # b' @ CHR ''/'' # y"
    by (simp add: bo_key_def bo_instanceKeyPrefix_def bo_bindKeyPrefix_def entityNamespaceSeparator_def
        entityOperationIDSeparator_def)
  from sep_append_inj [OF assms(1,2) this] sep_append_inj [OF assms(3,4)] show ?thesis by blast
qed

context gob_store
begin

text \<open>An accepted binding operation is found, and the operations of other bindings are as before.\<close>

lemma bo_Insert_Get:
  assumes "etcd_bo_Insert kv now bo e = (None, e')" and "kv_up kv e'"
  shows "etcd_bo_Get kv (bo_InstanceID bo) (bo_BindingID bo) (bo_OperationID bo) e' =
      Inr (bo\<lparr>bo_StateDescription := flatString (bo_StateDescription bo), bo_CreatedAt := now\<rparr>)"
    and "content e' = (content e)(bo_key (bo_InstanceID bo) (bo_BindingID bo) (bo_OperationID bo) \<mapsto>
      gobBindOperation (bo\<lparr>bo_CreatedAt := now\<rparr>))"
proof -
  let ?k = "bo_key (bo_InstanceID bo) (bo_BindingID bo) (bo_OperationID bo)"
  let ?b = "gobBindOperation (bo\<lparr>bo_CreatedAt := now\<rparr>)"
  from assms(1) obtain prev where "kvPut kv ?k ?b e = (Inr prev, e')"
    by (auto simp: etcd_bo_Insert_def Let_def etcd_bo_encodeDMToDSO_def split: go_splits)
  from Put_ok [OF this] show c: "content e' = (content e)(?k \<mapsto> ?b)" by simp
  from assms(2) obtain kvs where get: "kvGet kv ?k ExactKey e' = Inr kvs" unfolding kv_up_def by blast
  from Get_exact [OF this] c have "kvs = [(?k, ?b)]" by (simp add: entry_def)
  with get show "etcd_bo_Get kv (bo_InstanceID bo) (bo_BindingID bo) (bo_OperationID bo) e' =
      Inr (bo\<lparr>bo_StateDescription := flatString (bo_StateDescription bo), bo_CreatedAt := now\<rparr>)"
    by (simp add: etcd_bo_Get_def etcd_bo_get_def etcd_bo_decodeDSOToDM_def gobBindOperation_round_trip)
qed

end

end
