(* ===== verification/EtcdEntities.thy ===== *)
theory EtcdEntities
  imports EtcdOperation
begin

text \<open>
  The etcd driver for instances and charts, \<open>entity_instance.go\<close> and \<open>entity_chart.go\<close> of
  \<open>internal/storage/driver/etcd\<close>. The version parser of the semver package is a parameter.
\<close>

section \<open>Instances\<close>

definition gobTimePtr :: "time option \<Rightarrow> gob option" where
  "gobTimePtr t = map_option GTime t"

fun ungobTimePtr :: "gob option \<Rightarrow> time option option" where
  "ungobTimePtr None = Some None"
| "ungobTimePtr (Some (GTime t)) = Some (Some t)"
| "ungobTimePtr _ = None"

fun ungobConfig :: "gob option \<Rightarrow> string option option" where
  "ungobConfig None = Some None"
| "ungobConfig (Some (GStruct fs)) = map_option Some (ungobString (map_of fs ''Raw''))"
| "ungobConfig _ = None"

fun ungobValues :: "gob option \<Rightarrow> jobject option" where
  "ungobValues None = Some []"
| "ungobValues (Some (GMap gs)) = ungobIfaces gs"
| "ungobValues _ = None"

definition gobReleaseInfo :: "ReleaseInfo \<Rightarrow> gob option" where
  "gobReleaseInfo ri =
     do { cv \<leftarrow> gobIfaces (ri_ConfigValues ri);
          Some (GStruct
            (fld ''Time'' (gobTimePtr (ri_Time ri)) @
             fld ''ReleaseTime'' (gobTimePtr (ri_ReleaseTime ri)) @
             fld ''Revision'' (gobInt (ri_Revision ri)) @
             fld ''Config'' (map_option (\<lambda>s. GStruct (fld ''Raw'' (gobString s))) (ri_Config ri)) @
             fld ''ConfigValues'' (Some (GMap cv)))) }"

fun ungobReleaseInfo :: "gob option \<Rightarrow> ReleaseInfo option" where
  "ungobReleaseInfo None = Some EmptyReleaseInfo"
| "ungobReleaseInfo (Some (GStruct fs)) =
     do { t \<leftarrow> ungobTimePtr (map_of fs ''Time'');
          rt \<leftarrow> ungobTimePtr (map_of fs ''ReleaseTime'');
          rev \<leftarrow> ungobInt (map_of fs ''Revision'');
          cfg \<leftarrow> ungobConfig (map_of fs ''Config'');
          cv \<leftarrow> ungobValues (map_of fs ''ConfigValues'');
          Some \<lparr>ri_Time = t, ri_ReleaseTime = rt, ri_Revision = rev, ri_Config = cfg, ri_ConfigValues = cv\<rparr> }"
| "ungobReleaseInfo _ = None"

definition gobInstance :: "Instance \<Rightarrow> gob option" where
  "gobInstance i =
     do { ri \<leftarrow> gobReleaseInfo (in_ReleaseInfo i);
          ps \<leftarrow> gobRequestParameters (in_ProvisioningParameters i);
          Some (GStruct
            (fld ''ID'' (gobString (in_ID i)) @
             fld ''ServiceID'' (gobString (in_ServiceID i)) @
             fld ''ServicePlanID'' (gobString (in_ServicePlanID i)) @
             fld ''ReleaseName'' (gobString (in_ReleaseName i)) @
             fld ''Namespace'' (gobString (in_Namespace i)) @
             fld ''ReleaseInfo'' (Some ri) @
             fld ''ProvisioningParameters'' ps @
             fld ''ParamsHash'' (gobString (in_ParamsHash i)))) }"

fun ungobInstance :: "gob \<Rightarrow> Instance option" where
  "ungobInstance (GStruct fs) =
     do { iid \<leftarrow> ungobString (map_of fs ''ID'');
          sid \<leftarrow> ungobString (map_of fs ''ServiceID'');
          pid \<leftarrow> ungobString (map_of fs ''ServicePlanID'');
          rn \<leftarrow> ungobString (map_of fs ''ReleaseName'');
          ns \<leftarrow> ungobString (map_of fs ''Namespace'');
          ri \<leftarrow> ungobReleaseInfo (map_of fs ''ReleaseInfo'');
          ps \<leftarrow> ungobRequestParameters (map_of fs ''ProvisioningParameters'');
          ph \<leftarrow> ungobString (map_of fs ''ParamsHash'');
          Some \<lparr>in_ID = iid, in_ServiceID = sid, in_ServicePlanID = pid, in_ReleaseName = rn, in_Namespace = ns,
                in_ReleaseInfo = ri, in_ProvisioningParameters = ps, in_ParamsHash = ph\<rparr> }"
| "ungobInstance _ = None"

definition etcd_in_key :: "InstanceID \<Rightarrow> string" where
  "etcd_in_key i = i"

definition etcd_in_Upsert :: "(gob, 'e) kv \<Rightarrow> Instance option \<Rightarrow> 'e \<Rightarrow> bool result \<times> 'e" where
  "etcd_in_Upsert kv arg e =
     (case arg of
        None \<Rightarrow> (Inl (ErrorString ''entity may not be nil''), e)
      | Some i \<Rightarrow>
          if IsZero (in_ID i) then (Inl (ErrorString ''instance id must be set''), e)
          else (case gobInstance i of
                  None \<Rightarrow> (Inl (Wrapped gobNotRegistered ''while encoding entity''), e)
                | Some buf \<Rightarrow>
                    (case kvPut kv (etcd_in_key (in_ID i)) buf e of
                       (Inl err, e1) \<Rightarrow> (Inl (Wrapped err ''while calling database on put''), e1)
                     | (Inr prevKv, e1) \<Rightarrow> if prevKv \<noteq> None then (Inr True, e1) else (Inr False, e1))))"

definition etcd_in_Insert :: "(gob, 'e) kv \<Rightarrow> Instance option \<Rightarrow> 'e \<Rightarrow> error option \<times> 'e" where
  "etcd_in_Insert kv arg e =
     (case arg of
        None \<Rightarrow> (Some (ErrorString ''entity may not be nil''), e)
      | Some i \<Rightarrow>
          if IsZero (in_ID i) then (Some (ErrorString ''instance id must be set''), e)
          else (case gobInstance i of
                  None \<Rightarrow> (Some (Wrapped gobNotRegistered ''while encoding entity''), e)
                | Some buf \<Rightarrow>
                    (case kvGet kv (etcd_in_key (in_ID i)) ExactKey e of
                       Inl err \<Rightarrow> (Some (Wrapped err ''while calling database on get''), e)
                     | Inr kvs \<Rightarrow>
                         if length kvs > 0 then (Some AlreadyExistsError, e)
                         else (case kvPut kv (etcd_in_key (in_ID i)) buf e of
                                 (Inl err, e1) \<Rightarrow> (Some (Wrapped err ''while calling database on put''), e1)
                               | (Inr prevKv, e1) \<Rightarrow> (None, e1)))))"

definition etcd_in_decodeInstance :: "gob \<Rightarrow> Instance result" where
  "etcd_in_decodeInstance raw =
     (case ungobInstance raw of None \<Rightarrow> Inl gobMismatch | Some i \<Rightarrow> Inr i)"

definition etcd_in_Get :: "(gob, 'e) kv \<Rightarrow> InstanceID \<Rightarrow> 'e \<Rightarrow> Instance result" where
  "etcd_in_Get kv iID e =
     (case kvGet kv (etcd_in_key iID) ExactKey e of
        Inl err \<Rightarrow> Inl (Wrapped err ''while calling database'')
      | Inr [] \<Rightarrow> Inl NotFoundError
      | Inr [(k, v)] \<Rightarrow>
          (case etcd_in_decodeInstance v of
             Inl err \<Rightarrow> Inl (Wrapped err ''while decoding single DSO'')
           | Inr i \<Rightarrow> Inr i)
      | Inr _ \<Rightarrow> Inl (ErrorString ''more than one element matching requested id, should never happen''))"

fun etcd_in_decodeAll :: "(string \<times> gob) list \<Rightarrow> Instance list result" where
  "etcd_in_decodeAll [] = Inr []"
| "etcd_in_decodeAll ((k, v) # kvs) =
     (case etcd_in_decodeInstance v of
        Inl err \<Rightarrow> Inl (Wrapped err ''while decoding DSO collection'')
      | Inr i \<Rightarrow> (case etcd_in_decodeAll kvs of Inl err \<Rightarrow> Inl err | Inr out \<Rightarrow> Inr (i # out)))"

text \<open>The key of one null byte selects every key of the namespace, as no key is empty.\<close>

definition etcd_in_GetAll :: "(gob, 'e) kv \<Rightarrow> 'e \<Rightarrow> Instance list result" where
  "etcd_in_GetAll kv e =
     (case kvGet kv [CHR 0x00] WithFromKey e of
        Inl err \<Rightarrow> Inl (Wrapped err ''while get collection from storage'')
      | Inr kvs \<Rightarrow> etcd_in_decodeAll kvs)"

definition etcd_in_Remove :: "(gob, 'e) kv \<Rightarrow> InstanceID \<Rightarrow> 'e \<Rightarrow> error option \<times> 'e" where
  "etcd_in_Remove kv iID e =
     (case kvDelete kv (etcd_in_key iID) e of
        (Inl err, e1) \<Rightarrow> (Some (Wrapped err ''while calling database''), e1)
      | (Inr [], e1) \<Rightarrow> (Some NotFoundError, e1)
      | (Inr [p], e1) \<Rightarrow> (None, e1)
      | (Inr _, e1) \<Rightarrow>
          (Some (ErrorString ''more than one element matching requested id, should never happen''), e1))"

text \<open>An instance comes back as it was stored, and it can be stored unless a value is a list.\<close>

definition storable_instance :: "Instance \<Rightarrow> bool" where
  "storable_instance i \<longleftrightarrow>
     list_free_obj (ri_ConfigValues (in_ReleaseInfo i)) \<and> storable_params (in_ProvisioningParameters i)"

lemma ungobTimePtr_round_trip [simp]: "ungobTimePtr (gobTimePtr t) = Some t"
  by (cases t) (simp_all add: gobTimePtr_def)

lemma gobReleaseInfo_round_trip:
  "gobReleaseInfo ri = Some g \<Longrightarrow> ungobReleaseInfo (Some g) = Some ri"
  by (cases "ri_Config ri")
    (auto simp: gobReleaseInfo_def map_of_fld gobIface_round_trip simp del: map_of_append split: bind_splits)

lemma gobInstance_round_trip:
  assumes "gobInstance i = Some g"
  shows "ungobInstance g = Some i"
proof -
  from assms obtain ri ps where "gobReleaseInfo (in_ReleaseInfo i) = Some ri"
    "gobRequestParameters (in_ProvisioningParameters i) = Some ps"
    by (auto simp: gobInstance_def split: bind_splits)
  with assms gobReleaseInfo_round_trip gobRequestParameters_round_trip show ?thesis
    by (auto simp: gobInstance_def map_of_fld simp del: map_of_append)
qed

lemma gobInstance_Some_iff: "gobInstance i \<noteq> None \<longleftrightarrow> storable_instance i"
  using gobIface_Some_iff(2) [of "ri_ConfigValues (in_ReleaseInfo i)"]
    gobRequestParameters_Some_iff [of "in_ProvisioningParameters i"]
  by (auto simp: gobInstance_def gobReleaseInfo_def storable_instance_def split: bind_splits)

context gob_store
begin

lemma in_Get_content:
  assumes "kv_up kv e" "content e k = map_option (\<lambda>i. the (gobInstance i)) i" "\<And>x. i = Some x \<Longrightarrow> gobInstance x \<noteq> None"
  shows "etcd_in_Get kv k e = (case i of None \<Rightarrow> Inl NotFoundError | Some x \<Rightarrow> Inr x)"
proof -
  from assms(1) obtain kvs where get: "kvGet kv k ExactKey e = Inr kvs" unfolding kv_up_def by blast
  from Get_exact [OF this] assms(2) have "kvs = entry k (map_option (\<lambda>i. the (gobInstance i)) i)" by simp
  with get assms(3) show ?thesis
    by (cases i) (auto simp: etcd_in_Get_def etcd_in_key_def entry_def etcd_in_decodeInstance_def gobInstance_round_trip)
qed

end

text \<open>
  Storing an instance in etcd: it is read back as it was stored and no other entry changes,
  the reply says whether an instance was replaced. An instance whose values or parameters hold a
  list cannot be encoded, is refused, and nothing changes.
\<close>

theorem etcd_in_Upsert_correct:
  assumes "gob_store kv content" and "kv_up kv e" "kv_up kv e'" and "in_ID i \<noteq> ''''"
    and "etcd_in_Upsert kv (Some i) e = (r, e')"
  shows "if storable_instance i
    then r = Inr (content e (in_ID i) \<noteq> None) \<and> etcd_in_Get kv (in_ID i) e' = Inr i \<and>
      (\<forall>k. k \<noteq> in_ID i \<longrightarrow> content e' k = content e k)
    else r = Inl (Wrapped gobNotRegistered ''while encoding entity'') \<and> e' = e"
proof (cases "gobInstance i")
  case None
  with assms(4,5) gobInstance_Some_iff [of i] show ?thesis by (simp add: etcd_in_Upsert_def IsZero_def)
next
  case (Some b)
  obtain q e1 where put: "kvPut kv (in_ID i) b e = (q, e1)" by fastforce
  with kv_upD(2) [OF assms(2)] obtain prev where q: "q = Inr prev" by (cases q) blast+
  from put q assms(4,5) Some have e': "e' = e1" "r = Inr (prev \<noteq> None)"
    by (auto simp: etcd_in_Upsert_def IsZero_def etcd_in_key_def split: if_splits)
  from kv_store.Put_ok [OF gob_store.axioms [OF assms(1)], of "in_ID i" b e prev e1] put q
  have c: "prev = content e (in_ID i)" "content e1 = (content e)(in_ID i \<mapsto> b)" by simp_all
  from gob_store.in_Get_content [OF assms(1,3), of "in_ID i" "Some i"] c(2) Some e'(1)
  have "etcd_in_Get kv (in_ID i) e' = Inr i" by simp
  moreover from Some gobInstance_Some_iff [of i] have "storable_instance i" by simp
  ultimately show ?thesis using c e' by simp
qed

definition example_stored :: Instance where
  "example_stored = \<lparr>in_ID = ''i-1'', in_ServiceID = ''a-1'', in_ServicePlanID = ''p-1'', in_ReleaseName = ''hb-redis'',
     in_Namespace = ''stage'', in_ReleaseInfo = EmptyReleaseInfo\<lparr>ri_Revision := 1,
       ri_ConfigValues := [(''replicas'', JNum ''2'')]\<rparr>,
     in_ProvisioningParameters = Some \<lparr>rp_Data = Some [(''replicas'', JNum ''2'')]\<rparr>, in_ParamsHash = ''''\<rparr>"

theorem etcd_in_Upsert_correct_witness:
  "etcd_in_Get etcdKV ''i-1'' (snd (etcd_in_Upsert etcdKV (Some example_stored) NewEtcd)) = Inr example_stored"
proof -
  have ok: "storable_instance example_stored" "in_ID example_stored = ''i-1''" "in_ID example_stored \<noteq> ''''"
    by (simp_all add: storable_instance_def example_stored_def storable_params_def)
  obtain r e' where up: "etcd_in_Upsert etcdKV (Some example_stored) NewEtcd = (r, e')" by fastforce
  then have "kv_up etcdKV e'"
    by (auto simp: etcd_in_Upsert_def etcdKV_def etcdPut_def NewEtcd_def Let_def etcd_up [unfolded etcdKV_def]
        split: if_splits option.splits)
  moreover have "kv_up etcdKV (NewEtcd :: gob Etcd)" by (simp add: etcd_up NewEtcd_def)
  ultimately show ?thesis
    using etcd_in_Upsert_correct [OF gos.gob_store_axioms _ _ ok(3) up] ok(1,2) up by simp
qed

section \<open>Charts\<close>

text \<open>
  The dependencies of a chart are not exported by its type, so that the JSON text of a chart
  leaves them out; the driver stores a tree of charts. A text is modelled by the tree it describes.
\<close>

datatype dto = Dto (dto_Main: "Chart option") (dto_Deps: "dto list")

fun toDto :: "Chart \<Rightarrow> dto" where
  "toDto (Chart md ts ds) = Dto (Some (Chart md ts ds)) (map toDto ds)"

fun jsonChart :: "Chart \<Rightarrow> Chart" where
  "jsonChart (Chart md ts ds) = Chart md ts []"

fun jsonDto :: "dto \<Rightarrow> dto" where
  "jsonDto (Dto c ds) = Dto (map_option jsonChart c) (map jsonDto ds)"

fun SetDependencies :: "Chart list \<Rightarrow> Chart \<Rightarrow> Chart" where
  "SetDependencies deps (Chart md ts ds) = Chart md ts deps"

text \<open>A node without a chart makes \<open>fromDto\<close> dereference a nil pointer: None.\<close>

fun fromDto :: "dto \<Rightarrow> Chart option" where
  "fromDto (Dto c ds) =
     do { deps \<leftarrow> those (map fromDto ds);
          chrt \<leftarrow> c;
          Some (SetDependencies deps chrt) }"

definition etcd_ch_encodeChart :: "Chart \<Rightarrow> dto result" where
  "etcd_ch_encodeChart c = Inr (jsonDto (toDto c))"

definition etcd_ch_decodeChart :: "dto \<Rightarrow> Chart result option" where
  "etcd_ch_decodeChart raw =
     (if dto_Main raw = None then Some (Inl (ErrorString ''chart cannot be nil''))
      else map_option Inr (fromDto raw))"

lemma dto_round_trip: "fromDto (jsonDto (toDto c)) = Some c"
proof (induction c rule: toDto.induct)
  case (1 md ts ds)
  then have "those (map (\<lambda>c. fromDto (jsonDto (toDto c))) ds) = Some ds" by (induction ds) auto
  then show ?case by (simp add: comp_def)
qed

lemma decodeChart_encodeChart:
  assumes "etcd_ch_encodeChart c = Inr b"
  shows "etcd_ch_decodeChart b = Some (Inr c)"
proof -
  have "dto_Main (jsonDto (toDto c)) \<noteq> None" by (cases c) simp
  with assms dto_round_trip [of c] show ?thesis by (auto simp: etcd_ch_encodeChart_def etcd_ch_decodeChart_def)
qed

definition etcd_ch_nameVersion :: "ChartName \<Rightarrow> Version \<Rightarrow> string result" where
  "etcd_ch_nameVersion name ver =
     (if name = '''' \<or> Original ver = '''' then Inl (ErrorString ''both name and version must be set'')
      else Inr (name @ ''|'' @ Original ver))"

definition etcd_ch_nameVersionFromChart :: "(string \<Rightarrow> Version result) \<Rightarrow> Chart option \<Rightarrow> string result" where
  "etcd_ch_nameVersionFromChart sv arg =
     (case arg of
        None \<Rightarrow> Inl (ErrorString ''entity may not be nil'')
      | Some c \<Rightarrow>
          (case ch_Metadata c of
             None \<Rightarrow> Inl (ErrorString ''entity metadata may not be nil'')
           | Some md \<Rightarrow>
               if cm_Name md = '''' \<or> cm_Version md = ''''
               then Inl (ErrorString ''both name and version must be set'')
               else (case sv (cm_Version md) of
                       Inl err \<Rightarrow> Inl (Wrapped err ''while parsing version'')
                     | Inr ver \<Rightarrow> etcd_ch_nameVersion (cm_Name md) ver)))"

definition etcd_ch_key :: "Namespace \<Rightarrow> string \<Rightarrow> string" where
  "etcd_ch_key namespace nv =
     (if namespace = ClusterWide then ''cluster'' else ''ns|'' @ namespace) @ ''|'' @ nv"

definition etcd_ch_Upsert ::
  "(string \<Rightarrow> Version result) \<Rightarrow> (dto, 'e) kv \<Rightarrow> Namespace \<Rightarrow> Chart option \<Rightarrow> 'e \<Rightarrow> bool result \<times> 'e" where
  "etcd_ch_Upsert sv kv ns arg e =
     (case etcd_ch_nameVersionFromChart sv arg of
        Inl err \<Rightarrow> (Inl err, e)
      | Inr nv \<Rightarrow>
          (case etcd_ch_encodeChart (the arg) of
             Inl err \<Rightarrow> (Inl (Wrapped err ''while encoding chart''), e)
           | Inr encoded \<Rightarrow>
               (case kvPut kv (etcd_ch_key ns nv) encoded e of
                  (Inl err, e1) \<Rightarrow> (Inl (Wrapped err ''while calling database''), e1)
                | (Inr prevKv, e1) \<Rightarrow> if prevKv \<noteq> None then (Inr True, e1) else (Inr False, e1))))"

definition etcd_ch_Get ::
  "(dto, 'e) kv \<Rightarrow> Namespace \<Rightarrow> ChartName \<Rightarrow> Version \<Rightarrow> 'e \<Rightarrow> Chart result option" where
  "etcd_ch_Get kv ns name ver e =
     (case etcd_ch_nameVersion name ver of
        Inl err \<Rightarrow> Some (Inl err)
      | Inr nv \<Rightarrow>
          (case kvGet kv (etcd_ch_key ns nv) ExactKey e of
             Inl err \<Rightarrow> Some (Inl (Wrapped err ''while calling database''))
           | Inr [] \<Rightarrow> Some (Inl NotFoundError)
           | Inr [(k, v)] \<Rightarrow>
               (case etcd_ch_decodeChart v of
                  None \<Rightarrow> None
                | Some (Inl err) \<Rightarrow> Some (Inl (Wrapped err ''while decoding single DSO''))
                | Some (Inr c) \<Rightarrow> Some (Inr c))
           | Inr _ \<Rightarrow>
               Some (Inl (ErrorString ''more than one element matching requested id, should never happen''))))"

definition etcd_ch_Remove ::
  "(dto, 'e) kv \<Rightarrow> Namespace \<Rightarrow> ChartName \<Rightarrow> Version \<Rightarrow> 'e \<Rightarrow> error option \<times> 'e" where
  "etcd_ch_Remove kv ns name ver e =
     (case etcd_ch_nameVersion name ver of
        Inl err \<Rightarrow> (Some (Wrapped err ''while getting nameVersion from deleted entity''), e)
      | Inr nv \<Rightarrow>
          (case kvDelete kv (etcd_ch_key ns nv) e of
             (Inl err, e1) \<Rightarrow> (Some (Wrapped err ''while calling database''), e1)
           | (Inr [], e1) \<Rightarrow> (Some NotFoundError, e1)
           | (Inr [p], e1) \<Rightarrow> (None, e1)
           | (Inr _, e1) \<Rightarrow>
               (Some (ErrorString ''more than one element matching requested id, should never happen''), e1)))"

text \<open>Keys of different charts differ: names hold no bar, and no namespace is called so.\<close>

lemma etcd_ch_key_inj:
  assumes "CHR ''|'' \<notin> set ns" "CHR ''|'' \<notin> set ns'" "CHR ''|'' \<notin> set n" "CHR ''|'' \<notin> set n'"
    and "etcd_ch_key ns (n @ ''|'' @ v) = etcd_ch_key ns' (n' @ ''|'' @ v')"
  shows "ns = ns' \<and> n = n' \<and> v = v'"
proof -
  have nv: "n = n' \<and> v = v'" if "n @ CHR ''|'' # v = n' @ CHR ''|'' # v'"
    using sep_append_inj [OF assms(3,4) that] .
  show ?thesis
  proof (cases "ns = ClusterWide \<or> ns' = ClusterWide")
    case True
    with assms(5) nv show ?thesis by (auto simp: etcd_ch_key_def split: if_splits)
  next
    case False
    with assms(5) have "ns @ CHR ''|'' # n @ CHR ''|'' # v = ns' @ CHR ''|'' # n' @ CHR ''|'' # v'"
      by (simp add: etcd_ch_key_def)
    from sep_append_inj [OF assms(1,2) this] nv show ?thesis by blast
  qed
qed

locale chart_store = kv_store kv content for kv :: "(dto, 'e) kv" and content :: "'e \<Rightarrow> string \<Rightarrow> dto option"
begin

lemma ch_Get_eq:
  assumes "kv_up kv e" "name \<noteq> ''''" "Original ver \<noteq> ''''"
  shows "etcd_ch_Get kv ns name ver e =
    (case content e (etcd_ch_key ns (name @ ''|'' @ Original ver)) of
       None \<Rightarrow> Some (Inl NotFoundError)
     | Some b \<Rightarrow> (case etcd_ch_decodeChart b of
         None \<Rightarrow> None
       | Some (Inl err) \<Rightarrow> Some (Inl (Wrapped err ''while decoding single DSO''))
       | Some (Inr c) \<Rightarrow> Some (Inr c)))"
proof -
  let ?k = "etcd_ch_key ns (name @ ''|'' @ Original ver)"
  from assms(1) obtain kvs where get: "kvGet kv ?k ExactKey e = Inr kvs" unfolding kv_up_def by blast
  from Get_exact [OF get] get assms(2,3) show ?thesis
    by (cases "content e ?k") (simp_all add: etcd_ch_Get_def etcd_ch_nameVersion_def entry_def)
qed

lemma ch_Upsert_ok:
  assumes "etcd_ch_Upsert sv kv ns (Some c) e = (Inr r, e')"
  obtains md ver where "ch_Metadata c = Some md" "sv (cm_Version md) = Inr ver" "cm_Name md \<noteq> ''''"
    "Original ver \<noteq> ''''" "r = (content e (etcd_ch_key ns (cm_Name md @ ''|'' @ Original ver)) \<noteq> None)"
    "content e' = (content e)(etcd_ch_key ns (cm_Name md @ ''|'' @ Original ver) \<mapsto> jsonDto (toDto c))"
proof -
  from assms obtain nv where nv: "etcd_ch_nameVersionFromChart sv (Some c) = Inr nv"
    by (auto simp: etcd_ch_Upsert_def split: sum.splits)
  then obtain md ver where m: "ch_Metadata c = Some md" "sv (cm_Version md) = Inr ver" "cm_Name md \<noteq> ''''"
    "Original ver \<noteq> ''''" "nv = cm_Name md @ ''|'' @ Original ver"
    by (auto simp: etcd_ch_nameVersionFromChart_def etcd_ch_nameVersion_def split: go_splits)
  obtain q e1 where put: "kvPut kv (etcd_ch_key ns nv) (jsonDto (toDto c)) e = (q, e1)" by fastforce
  with assms nv obtain prev where q: "q = Inr prev" "e1 = e'" "r = (prev \<noteq> None)"
    by (cases q) (auto simp: etcd_ch_Upsert_def etcd_ch_encodeChart_def split: if_splits)
  from Put_ok [OF put [unfolded q(1)]] q m that show ?thesis by simp
qed

end

interpretation cst: chart_store etcdKV etcdContent ..

text \<open>
  A chart with all of its nested dependencies survives etcd: the tree that is written is read
  back as the same chart under the name and version of its metadata, charts of other namespaces, names
  or versions are as before, the reply tells whether a chart was replaced, and after removal it is absent.
\<close>

theorem etcd_ch_round_trip:
  assumes "chart_store kv content" and "\<And>s v. sv s = Inr v \<Longrightarrow> Original v = s"
    and "ch_Metadata c = Some md" and "etcd_ch_Upsert sv kv ns (Some c) e = (Inr r, e')"
    and "kv_up kv e" "kv_up kv e'" and "Original ver = cm_Version md"
    and "CHR ''|'' \<notin> set ns" "CHR ''|'' \<notin> set ns'" "CHR ''|'' \<notin> set (cm_Name md)" "CHR ''|'' \<notin> set name"
    and "name \<noteq> ''''" "Original ver' \<noteq> ''''"
  shows "etcd_ch_Get kv ns (cm_Name md) ver e' = Some (Inr c) \<and>
    ((ns', name, Original ver') \<noteq> (ns, cm_Name md, Original ver) \<longrightarrow>
       etcd_ch_Get kv ns' name ver' e' = etcd_ch_Get kv ns' name ver' e) \<and>
    (r \<longleftrightarrow> etcd_ch_Get kv ns (cm_Name md) ver e \<noteq> Some (Inl NotFoundError)) \<and>
    (\<exists>e2. etcd_ch_Remove kv ns (cm_Name md) ver e' = (None, e2) \<and>
       (kv_up kv e2 \<longrightarrow> etcd_ch_Get kv ns (cm_Name md) ver e2 = Some (Inl NotFoundError)))"
proof -
  let ?k = "etcd_ch_key ns (cm_Name md @ ''|'' @ Original ver)"
  from chart_store.ch_Upsert_ok [OF assms(1,4)] assms(2,3,7)
  have up: "cm_Name md \<noteq> ''''" "Original ver \<noteq> ''''" "r = (content e ?k \<noteq> None)"
    "content e' = (content e)(?k \<mapsto> jsonDto (toDto c))" by (metis option.inject)+
  note get = chart_store.ch_Get_eq [OF assms(1)]
  have dec: "etcd_ch_decodeChart (jsonDto (toDto c)) = Some (Inr c)"
    by (rule decodeChart_encodeChart) (simp add: etcd_ch_encodeChart_def)
  have "etcd_ch_Get kv ns (cm_Name md) ver e' = Some (Inr c)"
    using get [OF assms(6) up(1,2)] up(4) dec by simp
  moreover have "etcd_ch_Get kv ns' name ver' e' = etcd_ch_Get kv ns' name ver' e"
    if "(ns', name, Original ver') \<noteq> (ns, cm_Name md, Original ver)"
    using etcd_ch_key_inj [OF assms(9,8,11,10)] that get [OF assms(5,12,13)] get [OF assms(6,12,13)] up(4) by auto
  moreover have "r \<longleftrightarrow> etcd_ch_Get kv ns (cm_Name md) ver e \<noteq> Some (Inl NotFoundError)"
    using get [OF assms(5) up(1,2)] up(3) by (auto split: option.splits sum.splits)
  moreover obtain q e2 where del: "kvDelete kv ?k e' = (q, e2)" by fastforce
  moreover from del kv_upD(3) [OF assms(6)] obtain kvs where q: "q = Inr kvs" by (cases q) blast+
  note kv_store.Delete_ok [OF chart_store.axioms [OF assms(1)] del [unfolded q]]
  ultimately show ?thesis using up get q
    by (simp add: etcd_ch_Remove_def etcd_ch_nameVersion_def entry_def)
qed

definition nested_chart :: Chart where
  "nested_chart = Chart (Some \<lparr>cm_Name = ''redis'', cm_Version = ''1.0.0''\<rparr>) [(''svc.yaml'', ''kind: Service'')]
     [Chart (Some \<lparr>cm_Name = ''common'', cm_Version = ''0.1.0''\<rparr>) []
        [Chart (Some \<lparr>cm_Name = ''lib'', cm_Version = ''0.0.1''\<rparr>) [] []]]"

definition plainVersion :: "string \<Rightarrow> Version result" where
  "plainVersion s = Inr \<lparr>Original = s, String = s\<rparr>"

theorem etcd_ch_round_trip_witness:
  "etcd_ch_Get etcdKV ''stage'' ''redis'' \<lparr>Original = ''1.0.0'', String = ''1.0.0''\<rparr>
     (snd (etcd_ch_Upsert plainVersion etcdKV ''stage'' (Some nested_chart) NewEtcd)) = Some (Inr nested_chart)"
proof -
  let ?md = "\<lparr>cm_Name = ''redis'', cm_Version = ''1.0.0''\<rparr>"
  obtain r e' where up: "etcd_ch_Upsert plainVersion etcdKV ''stage'' (Some nested_chart) NewEtcd = (Inr r, e')"
    "et_fault e' = NoFault"
    by (force simp: etcd_ch_Upsert_def etcd_ch_nameVersionFromChart_def etcd_ch_nameVersion_def plainVersion_def
        nested_chart_def etcd_ch_encodeChart_def etcdKV_def etcdPut_def NewEtcd_def etcdContent_def Let_def)
  have "\<And>s v. plainVersion s = Inr v \<Longrightarrow> Original v = s" by (auto simp: plainVersion_def)
  from etcd_ch_round_trip [OF cst.chart_store_axioms this _ up(1), of ?md
      "\<lparr>Original = ''1.0.0'', String = ''1.0.0''\<rparr>" "''''" "''x''" "\<lparr>Original = ''1'', String = ''1''\<rparr>"] up
  show ?thesis by (simp add: etcd_up nested_chart_def NewEtcd_def)
qed

end
