(* ===== verification/EtcdAddon.thy ===== *)
theory EtcdAddon
  imports EtcdEntities MemoryEntities Bind
begin

text \<open>
  The etcd driver for addons, \<open>internal/storage/driver/etcd/entity_addon.go\<close>, with the stored form of an
  addon and of its plans and the coding of chart references of \<open>internal/model.go\<close>. Parameters: the
  parser of versions, and the gob coding of the type of plan schemas, which is a third-party
  struct.
\<close>

record addonCodec =
  ac_NewVersion :: "string \<Rightarrow> Version result"
  ac_gobSchema :: "PlanSchema \<Rightarrow> gob"
  ac_ungobSchema :: "gob \<Rightarrow> PlanSchema option"

section \<open>Chart references\<close>

record chartRefDTO =
  crd_Name :: ChartName
  crd_Version :: string

definition GobEncode :: "ChartRef \<Rightarrow> chartRefDTO" where
  "GobEncode cr = \<lparr>crd_Name = cr_Name cr, crd_Version = String (cr_Version cr)\<rparr>"

text \<open>The error of the parser is dropped and its nil result dereferenced: None is that panic.\<close>

definition GobDecode :: "addonCodec \<Rightarrow> chartRefDTO \<Rightarrow> ChartRef option" where
  "GobDecode ac dto =
     (case ac_NewVersion ac (crd_Version dto) of
        Inl err \<Rightarrow> None
      | Inr ver \<Rightarrow> Some \<lparr>cr_Name = crd_Name dto, cr_Version = ver\<rparr>)"

section \<open>The stored form\<close>

record addonPlanDSO =
  dp_ID :: AddonPlanID
  dp_Name :: AddonPlanName
  dp_Description :: string
  dp_Schemas :: "(PlanSchemaType, PlanSchema) gomap"
  dp_ChartRef :: chartRefDTO
  dp_ChartValues :: json
  dp_Metadata :: AddonPlanMetadata
  dp_BindTemplate :: AddonPlanBindTemplate
  dp_Bindable :: "bool option"
  dp_Free :: "bool option"

record addonDSO =
  ds_ID :: AddonID
  ds_Name :: AddonName
  ds_Version :: string
  ds_Description :: string
  ds_Plans :: "(AddonPlanID, addonPlanDSO) gomap"
  ds_Metadata :: AddonMetadata
  ds_Tags :: "AddonTag list"
  ds_Requires :: "string list"
  ds_Bindable :: bool
  ds_BindingsRetrievable :: bool
  ds_PlanUpdatable :: "bool option"
  ds_RepositoryURL :: string

definition newChartValuesDSO :: "ChartValues \<Rightarrow> json" where
  "newChartValuesDSO values = JObj values"

definition chartValuesDSO_ToModel :: "json \<Rightarrow> ChartValues result" where
  "chartValuesDSO_ToModel dso =
     (case dso of
        JObj out \<Rightarrow> Inr out
      | JNull \<Rightarrow> Inr []
      | _ \<Rightarrow> Inl (Wrapped (ErrorString ''json: cannot unmarshal into Go value of type map[string]interface {}'')
                ''while converting ChartValuesDSO to model''))"

text \<open>The constructors leave out \<open>Free\<close> of a plan, and \<open>Requires\<close>, \<open>BindingsRetrievable\<close> and
  \<open>PlanUpdatable\<close> of an addon.\<close>

definition newAddonPlanDSO :: "AddonPlan \<Rightarrow> addonPlanDSO" where
  "newAddonPlanDSO plan =
     \<lparr>dp_ID = pl_ID plan, dp_Name = pl_Name plan, dp_Description = pl_Description plan, dp_Schemas = pl_Schemas plan,
      dp_ChartRef = GobEncode (pl_ChartRef plan), dp_ChartValues = newChartValuesDSO (pl_ChartValues plan),
      dp_Metadata = pl_Metadata plan, dp_BindTemplate = pl_BindTemplate plan, dp_Bindable = pl_Bindable plan,
      dp_Free = None\<rparr>"

definition newAddonDSO :: "Addon \<Rightarrow> addonDSO" where
  "newAddonDSO a =
     \<lparr>ds_ID = ad_ID a, ds_Name = ad_Name a, ds_Version = String (ad_Version a), ds_Description = ad_Description a,
      ds_Plans = map (\<lambda>(k, v). (k, newAddonPlanDSO v)) (ad_Plans a), ds_Metadata = ad_Metadata a,
      ds_Tags = ad_Tags a, ds_Requires = [], ds_Bindable = ad_Bindable a, ds_BindingsRetrievable = False,
      ds_PlanUpdatable = None, ds_RepositoryURL = ad_RepositoryURL a\<rparr>"

definition addonPlanDSO_ToModel :: "addonCodec \<Rightarrow> addonPlanDSO \<Rightarrow> AddonPlan result option" where
  "addonPlanDSO_ToModel ac dso =
     (case GobDecode ac (dp_ChartRef dso) of
        None \<Rightarrow> None
      | Some chartRef \<Rightarrow>
          (case chartValuesDSO_ToModel (dp_ChartValues dso) of
             Inl err \<Rightarrow> Some (Inl (Wrapped err ''while converting addonPlanDSO to model''))
           | Inr chValues \<Rightarrow>
               Some (Inr \<lparr>pl_ID = dp_ID dso, pl_Name = dp_Name dso, pl_Description = dp_Description dso,
                 pl_Schemas = dp_Schemas dso, pl_ChartRef = chartRef, pl_ChartValues = chValues,
                 pl_Metadata = dp_Metadata dso, pl_Bindable = dp_Bindable dso, pl_Free = dp_Free dso,
                 pl_BindTemplate = dp_BindTemplate dso\<rparr>)))"

fun plansToModel ::
  "addonCodec \<Rightarrow> (AddonPlanID, addonPlanDSO) gomap \<Rightarrow> (AddonPlanID, AddonPlan) gomap result option" where
  "plansToModel ac [] = Some (Inr [])"
| "plansToModel ac ((k, v) # ps) =
     (case addonPlanDSO_ToModel ac v of
        None \<Rightarrow> None
      | Some (Inl err) \<Rightarrow> Some (Inl (Wrapped err ''while converting AddonDSO to model''))
      | Some (Inr p) \<Rightarrow>
          (case plansToModel ac ps of
             Some (Inr plans) \<Rightarrow> Some (Inr ((k, p) # plans))
           | x \<Rightarrow> x))"

definition addonDSO_NewModel :: "addonCodec \<Rightarrow> addonDSO \<Rightarrow> Addon result option" where
  "addonDSO_NewModel ac d =
     (case plansToModel ac (ds_Plans d) of
        None \<Rightarrow> None
      | Some (Inl err) \<Rightarrow> Some (Inl err)
      | Some (Inr plans) \<Rightarrow>
          (case ac_NewVersion ac (ds_Version d) of
             Inl err \<Rightarrow> Some (Inl (Wrapped err ''while decoding version''))
           | Inr ver \<Rightarrow>
               Some (Inr \<lparr>ad_ID = ds_ID d, ad_Name = ds_Name d, ad_Version = ver, ad_Description = ds_Description d,
                 ad_Plans = plans, ad_Metadata = ds_Metadata d, ad_RepositoryURL = ds_RepositoryURL d,
                 ad_Tags = ds_Tags d, ad_Requires = ds_Requires d, ad_Bindable = ds_Bindable d,
                 ad_BindingsRetrievable = ds_BindingsRetrievable d, ad_PlanUpdatable = ds_PlanUpdatable d,
                 ad_Docs = [], ad_Status = AddonStatusUnset, ad_Reason = AddonReasonUnset, ad_Message = '''',
                 ad_SecretRef = \<lparr>sr_Name = '''', sr_Namespace = ''''\<rparr>\<rparr>)))"

section \<open>Streams\<close>

definition gobBytesPtr :: "string option \<Rightarrow> gob option" where
  "gobBytesPtr p = (case flatString p of None \<Rightarrow> None | Some s \<Rightarrow> Some (GBytes s))"

fun ungobBytesPtr :: "gob option \<Rightarrow> string option option" where
  "ungobBytesPtr None = Some None"
| "ungobBytesPtr (Some (GBytes s)) = Some (Some s)"
| "ungobBytesPtr _ = None"

definition gobLabels :: "Labels option \<Rightarrow> gob option" where
  "gobLabels ls = map_option (\<lambda>m. GMap (map (\<lambda>(k, v). (k, GString v)) m)) ls"

fun ungobStringMap :: "(string \<times> gob) list \<Rightarrow> Labels option" where
  "ungobStringMap [] = Some []"
| "ungobStringMap ((k, GString v) # m) = map_option ((#) (k, v)) (ungobStringMap m)"
| "ungobStringMap _ = None"

fun ungobLabels :: "gob option \<Rightarrow> Labels option option" where
  "ungobLabels None = Some None"
| "ungobLabels (Some (GMap m)) = map_option Some (ungobStringMap m)"
| "ungobLabels _ = None"

definition gobStrings :: "string list \<Rightarrow> gob option" where
  "gobStrings xs = (if xs = [] then None else Some (GSlice (map GString xs)))"

fun ungobStringList :: "gob list \<Rightarrow> string list option" where
  "ungobStringList [] = Some []"
| "ungobStringList (GString s # xs) = map_option ((#) s) (ungobStringList xs)"
| "ungobStringList _ = None"

fun ungobStrings :: "gob option \<Rightarrow> string list option" where
  "ungobStrings None = Some []"
| "ungobStrings (Some (GSlice xs)) = ungobStringList xs"
| "ungobStrings _ = None"

lemma ungob_more [simp]:
  "ungobBytesPtr (gobBytesPtr p) = Some (flatString p)"
  "ungobLabels (gobLabels ls) = Some ls" "ungobStrings (gobStrings xs) = Some xs"
proof -
  show "ungobBytesPtr (gobBytesPtr p) = Some (flatString p)"
    by (simp add: gobBytesPtr_def split: option.splits)
  have "ungobStringMap (map (\<lambda>(k, v). (k, GString v)) m) = Some m" for m by (induction m) auto
  then show "ungobLabels (gobLabels ls) = Some ls" by (cases ls) (auto simp: gobLabels_def)
  have "ungobStringList (map GString xs) = Some xs" for xs by (induction xs) auto
  then show "ungobStrings (gobStrings xs) = Some xs" by (auto simp: gobStrings_def)
qed

definition gobAddonMetadata :: "AddonMetadata \<Rightarrow> gob" where
  "gobAddonMetadata m =
     GStruct
       (fld ''DisplayName'' (gobString (am_DisplayName m)) @
        fld ''ProviderDisplayName'' (gobString (am_ProviderDisplayName m)) @
        fld ''LongDescription'' (gobString (am_LongDescription m)) @
        fld ''DocumentationURL'' (gobString (am_DocumentationURL m)) @
        fld ''SupportURL'' (gobString (am_SupportURL m)) @
        fld ''ProvisionOnlyOnce'' (gobBool (am_ProvisionOnlyOnce m)) @
        fld ''ImageURL'' (gobString (am_ImageURL m)) @
        fld ''Labels'' (gobLabels (am_Labels m)))"

fun ungobAddonMetadata :: "gob option \<Rightarrow> AddonMetadata option" where
  "ungobAddonMetadata (Some (GStruct fs)) =
     do { dn \<leftarrow> ungobString (map_of fs ''DisplayName'');
          pn \<leftarrow> ungobString (map_of fs ''ProviderDisplayName'');
          ld \<leftarrow> ungobString (map_of fs ''LongDescription'');
          du \<leftarrow> ungobString (map_of fs ''DocumentationURL'');
          su \<leftarrow> ungobString (map_of fs ''SupportURL'');
          po \<leftarrow> ungobBool (map_of fs ''ProvisionOnlyOnce'');
          im \<leftarrow> ungobString (map_of fs ''ImageURL'');
          ls \<leftarrow> ungobLabels (map_of fs ''Labels'');
          Some \<lparr>am_DisplayName = dn, am_ProviderDisplayName = pn, am_LongDescription = ld, am_DocumentationURL = du,
                am_SupportURL = su, am_ProvisionOnlyOnce = po, am_ImageURL = im, am_Labels = ls\<rparr> }"
| "ungobAddonMetadata _ = None"

lemma gobAddonMetadata_round_trip [simp]: "ungobAddonMetadata (Some (gobAddonMetadata m)) = Some m"
  by (simp add: gobAddonMetadata_def map_of_fld del: map_of_append)

definition gobChartRef :: "chartRefDTO \<Rightarrow> gob" where
  "gobChartRef d = GStruct (fld ''Name'' (gobString (crd_Name d)) @ fld ''Version'' (gobString (crd_Version d)))"

fun ungobChartRef :: "gob option \<Rightarrow> chartRefDTO option" where
  "ungobChartRef (Some (GStruct fs)) =
     do { n \<leftarrow> ungobString (map_of fs ''Name'');
          v \<leftarrow> ungobString (map_of fs ''Version'');
          Some \<lparr>crd_Name = n, crd_Version = v\<rparr> }"
| "ungobChartRef _ = None"

definition gobSchemas :: "addonCodec \<Rightarrow> (PlanSchemaType, PlanSchema) gomap \<Rightarrow> gob" where
  "gobSchemas ac m = GMap (map (\<lambda>(k, v). (k, ac_gobSchema ac v)) m)"

fun ungobSchemaMap :: "addonCodec \<Rightarrow> (string \<times> gob) list \<Rightarrow> (PlanSchemaType, PlanSchema) gomap option" where
  "ungobSchemaMap ac [] = Some []"
| "ungobSchemaMap ac ((k, g) # m) =
     do { s \<leftarrow> ac_ungobSchema ac g; ss \<leftarrow> ungobSchemaMap ac m; Some ((k, s) # ss) }"

fun ungobSchemas :: "addonCodec \<Rightarrow> gob option \<Rightarrow> (PlanSchemaType, PlanSchema) gomap option" where
  "ungobSchemas ac None = Some []"
| "ungobSchemas ac (Some (GMap m)) = ungobSchemaMap ac m"
| "ungobSchemas ac _ = None"

fun ungobJson :: "gob option \<Rightarrow> json option" where
  "ungobJson (Some (GJson j)) = Some j"
| "ungobJson _ = None"

fun ungobPlanMetadata :: "gob option \<Rightarrow> AddonPlanMetadata option" where
  "ungobPlanMetadata (Some (GStruct fs)) =
     map_option (\<lambda>s. \<lparr>pm_DisplayName = s\<rparr>) (ungobString (map_of fs ''DisplayName''))"
| "ungobPlanMetadata _ = None"

definition gobAddonPlanDSO :: "addonCodec \<Rightarrow> addonPlanDSO \<Rightarrow> gob" where
  "gobAddonPlanDSO ac d =
     GStruct
       (fld ''ID'' (gobString (dp_ID d)) @
        fld ''Name'' (gobString (dp_Name d)) @
        fld ''Description'' (gobString (dp_Description d)) @
        fld ''Schemas'' (Some (gobSchemas ac (dp_Schemas d))) @
        fld ''ChartRef'' (Some (gobChartRef (dp_ChartRef d))) @
        fld ''ChartValues'' (Some (GJson (dp_ChartValues d))) @
        fld ''Metadata'' (Some (GStruct (fld ''DisplayName'' (gobString (pm_DisplayName (dp_Metadata d)))))) @
        fld ''BindTemplate'' (gobBytesPtr (dp_BindTemplate d)) @
        fld ''Bindable'' (gobBoolPtr (dp_Bindable d)) @
        fld ''Free'' (gobBoolPtr (dp_Free d)))"

fun ungobAddonPlanDSO :: "addonCodec \<Rightarrow> gob \<Rightarrow> addonPlanDSO option" where
  "ungobAddonPlanDSO ac (GStruct fs) =
     do { pid \<leftarrow> ungobString (map_of fs ''ID'');
          n \<leftarrow> ungobString (map_of fs ''Name'');
          desc \<leftarrow> ungobString (map_of fs ''Description'');
          ss \<leftarrow> ungobSchemas ac (map_of fs ''Schemas'');
          cr \<leftarrow> ungobChartRef (map_of fs ''ChartRef'');
          cv \<leftarrow> ungobJson (map_of fs ''ChartValues'');
          md \<leftarrow> ungobPlanMetadata (map_of fs ''Metadata'');
          bt \<leftarrow> ungobBytesPtr (map_of fs ''BindTemplate'');
          b \<leftarrow> ungobBoolPtr (map_of fs ''Bindable'');
          f \<leftarrow> ungobBoolPtr (map_of fs ''Free'');
          Some \<lparr>dp_ID = pid, dp_Name = n, dp_Description = desc, dp_Schemas = ss, dp_ChartRef = cr,
                dp_ChartValues = cv, dp_Metadata = md, dp_BindTemplate = bt, dp_Bindable = b, dp_Free = f\<rparr> }"
| "ungobAddonPlanDSO ac _ = None"

fun ungobPlanMap :: "addonCodec \<Rightarrow> (string \<times> gob) list \<Rightarrow> (AddonPlanID, addonPlanDSO) gomap option" where
  "ungobPlanMap ac [] = Some []"
| "ungobPlanMap ac ((k, g) # m) =
     do { p \<leftarrow> ungobAddonPlanDSO ac g; ps \<leftarrow> ungobPlanMap ac m; Some ((k, p) # ps) }"

fun ungobPlans :: "addonCodec \<Rightarrow> gob option \<Rightarrow> (AddonPlanID, addonPlanDSO) gomap option" where
  "ungobPlans ac None = Some []"
| "ungobPlans ac (Some (GMap m)) = ungobPlanMap ac m"
| "ungobPlans ac _ = None"

definition gobAddonDSO :: "addonCodec \<Rightarrow> addonDSO \<Rightarrow> gob" where
  "gobAddonDSO ac d =
     GStruct
       (fld ''ID'' (gobString (ds_ID d)) @
        fld ''Name'' (gobString (ds_Name d)) @
        fld ''Version'' (gobString (ds_Version d)) @
        fld ''Description'' (gobString (ds_Description d)) @
        fld ''Plans'' (Some (GMap (map (\<lambda>(k, v). (k, gobAddonPlanDSO ac v)) (ds_Plans d)))) @
        fld ''Metadata'' (Some (gobAddonMetadata (ds_Metadata d))) @
        fld ''Tags'' (gobStrings (ds_Tags d)) @
        fld ''Requires'' (gobStrings (ds_Requires d)) @
        fld ''Bindable'' (gobBool (ds_Bindable d)) @
        fld ''BindingsRetrievable'' (gobBool (ds_BindingsRetrievable d)) @
        fld ''PlanUpdatable'' (gobBoolPtr (ds_PlanUpdatable d)) @
        fld ''RepositoryURL'' (gobString (ds_RepositoryURL d)))"

fun ungobAddonDSO :: "addonCodec \<Rightarrow> gob \<Rightarrow> addonDSO option" where
  "ungobAddonDSO ac (GStruct fs) =
     do { aid \<leftarrow> ungobString (map_of fs ''ID'');
          n \<leftarrow> ungobString (map_of fs ''Name'');
          v \<leftarrow> ungobString (map_of fs ''Version'');
          desc \<leftarrow> ungobString (map_of fs ''Description'');
          ps \<leftarrow> ungobPlans ac (map_of fs ''Plans'');
          md \<leftarrow> ungobAddonMetadata (map_of fs ''Metadata'');
          tags \<leftarrow> ungobStrings (map_of fs ''Tags'');
          req \<leftarrow> ungobStrings (map_of fs ''Requires'');
          b \<leftarrow> ungobBool (map_of fs ''Bindable'');
          br \<leftarrow> ungobBool (map_of fs ''BindingsRetrievable'');
          pu \<leftarrow> ungobBoolPtr (map_of fs ''PlanUpdatable'');
          url \<leftarrow> ungobString (map_of fs ''RepositoryURL'');
          Some \<lparr>ds_ID = aid, ds_Name = n, ds_Version = v, ds_Description = desc, ds_Plans = ps, ds_Metadata = md,
                ds_Tags = tags, ds_Requires = req, ds_Bindable = b, ds_BindingsRetrievable = br,
                ds_PlanUpdatable = pu, ds_RepositoryURL = url\<rparr> }"
| "ungobAddonDSO ac _ = None"

text \<open>What documented behaviour of the schema coding the round trip rests on.\<close>

definition schema_codec :: "addonCodec \<Rightarrow> bool" where
  "schema_codec ac \<longleftrightarrow> (\<forall>s. ac_ungobSchema ac (ac_gobSchema ac s) = Some s)"

definition flatPlan :: "addonPlanDSO \<Rightarrow> addonPlanDSO" where
  "flatPlan d = d\<lparr>dp_BindTemplate := flatString (dp_BindTemplate d), dp_Bindable := flatBool (dp_Bindable d),
     dp_Free := flatBool (dp_Free d)\<rparr>"

lemma gobSchemas_round_trip:
  assumes "schema_codec ac"
  shows "ungobSchemas ac (Some (gobSchemas ac m)) = Some m"
proof -
  have "ungobSchemaMap ac (map (\<lambda>(k, v). (k, ac_gobSchema ac v)) m) = Some m"
    using assms by (induction m) (auto simp: schema_codec_def)
  then show ?thesis by (simp add: gobSchemas_def)
qed

lemma gobAddonPlanDSO_round_trip:
  assumes "schema_codec ac"
  shows "ungobAddonPlanDSO ac (gobAddonPlanDSO ac d) = Some (flatPlan d)"
  using gobSchemas_round_trip [OF assms]
  by (simp add: gobAddonPlanDSO_def flatPlan_def map_of_fld gobChartRef_def del: map_of_append)

lemma gobAddonDSO_round_trip:
  assumes "schema_codec ac"
  shows "ungobAddonDSO ac (gobAddonDSO ac d) =
    Some (d\<lparr>ds_Plans := map (\<lambda>(k, v). (k, flatPlan v)) (ds_Plans d), ds_PlanUpdatable := flatBool (ds_PlanUpdatable d)\<rparr>)"
proof -
  have "ungobPlanMap ac (map (\<lambda>(k, v). (k, gobAddonPlanDSO ac v)) m) = Some (map (\<lambda>(k, v). (k, flatPlan v)) m)" for m
    by (induction m) (auto simp: gobAddonPlanDSO_round_trip [OF assms])
  then show ?thesis by (simp add: gobAddonDSO_def map_of_fld del: map_of_append)
qed

section \<open>Operations\<close>

text \<open>A result is None when decoding panics.\<close>

definition etcd_ad_encodeDMToDSO :: "addonCodec \<Rightarrow> Addon \<Rightarrow> gob result" where
  "etcd_ad_encodeDMToDSO ac dm = Inr (gobAddonDSO ac (newAddonDSO dm))"

definition etcd_ad_decodeDSOToDM :: "addonCodec \<Rightarrow> gob \<Rightarrow> Addon result option" where
  "etcd_ad_decodeDSOToDM ac dsoEnc =
     (case ungobAddonDSO ac dsoEnc of
        None \<Rightarrow> Some (Inl (Wrapped gobMismatch ''while decoding DSO''))
      | Some dso \<Rightarrow>
          (case addonDSO_NewModel ac dso of
             None \<Rightarrow> None
           | Some (Inl err) \<Rightarrow> Some (Inl (Wrapped err ''while creating model from DSO''))
           | Some (Inr b) \<Rightarrow> Some (Inr b)))"

definition etcd_ad_nameVersion :: "AddonName \<Rightarrow> Version \<Rightarrow> string result" where
  "etcd_ad_nameVersion name ver =
     (if name = '''' \<or> Original ver = '''' then Inl (ErrorString ''both name and version must be set'')
      else Inr (name @ ''|'' @ String ver))"

definition etcd_ad_nameVersionFromAddon :: "Addon option \<Rightarrow> string result" where
  "etcd_ad_nameVersionFromAddon arg =
     (case arg of
        None \<Rightarrow> Inl (ErrorString ''entity may not be nil'')
      | Some b \<Rightarrow>
          if ad_Name b = '''' \<or> Original (ad_Version b) = ''''
          then Inl (ErrorString ''both name and version must be set'')
          else etcd_ad_nameVersion (ad_Name b) (ad_Version b))"

definition etcd_ad_idPrefixForNamespace :: "Namespace \<Rightarrow> string" where
  "etcd_ad_idPrefixForNamespace ns =
     (if ns = ClusterWide then strJoin [entityNamespaceAddonMappingID, ''cluster''] entityNamespaceSeparator
      else strJoin [entityNamespaceAddonMappingID, ''ns'', ns] entityNamespaceSeparator)"

definition etcd_ad_idKey :: "Namespace \<Rightarrow> AddonID \<Rightarrow> string" where
  "etcd_ad_idKey ns aid = strJoin [etcd_ad_idPrefixForNamespace ns, aid] entityNamespaceSeparator"

definition etcd_ad_nameVersionKey :: "Namespace \<Rightarrow> string \<Rightarrow> string" where
  "etcd_ad_nameVersionKey ns nv =
     (if ns = ClusterWide then strJoin [entityNamespaceAddonMappingNV, ''cluster'', nv] entityNamespaceSeparator
      else strJoin [entityNamespaceAddonMappingNV, ''ns'', ns, nv] entityNamespaceSeparator)"

definition etcd_ad_Upsert ::
  "addonCodec \<Rightarrow> (gob, 'e) kv \<Rightarrow> Namespace \<Rightarrow> Addon option \<Rightarrow> 'e \<Rightarrow> bool result \<times> 'e" where
  "etcd_ad_Upsert ac kv ns arg e =
     (case etcd_ad_nameVersionFromAddon arg of
        Inl err \<Rightarrow> (Inl err, e)
      | Inr nv \<Rightarrow>
          (case etcd_ad_encodeDMToDSO ac (the arg) of
             Inl err \<Rightarrow> (Inl err, e)
           | Inr dso \<Rightarrow>
               (case kvPut kv (etcd_ad_idKey ns (ad_ID (the arg))) dso e of
                  (Inl err, e1) \<Rightarrow> (Inl (Wrapped err ''while calling database in ID space''), e1)
                | (Inr prevKv, e1) \<Rightarrow>
                    (case kvPut kv (etcd_ad_nameVersionKey ns nv) dso e1 of
                       (Inl err, e2) \<Rightarrow> (Inl (Wrapped err ''while calling database in NameVersion space''), e2)
                     | (Inr prev, e2) \<Rightarrow> if prevKv \<noteq> None then (Inr True, e2) else (Inr False, e2)))))"

definition etcd_ad_handleGetResp :: "addonCodec \<Rightarrow> (string \<times> gob) list \<Rightarrow> Addon result option" where
  "etcd_ad_handleGetResp ac resp =
     (case resp of
        [] \<Rightarrow> Some (Inl NotFoundError)
      | [(k, v)] \<Rightarrow> etcd_ad_decodeDSOToDM ac v
      | _ \<Rightarrow> Some (Inl (ErrorString ''more than one element matching requested id, should never happen'')))"

definition etcd_ad_Get ::
  "addonCodec \<Rightarrow> (gob, 'e) kv \<Rightarrow> Namespace \<Rightarrow> AddonName \<Rightarrow> Version \<Rightarrow> 'e \<Rightarrow> Addon result option" where
  "etcd_ad_Get ac kv ns name ver e =
     (case etcd_ad_nameVersion name ver of
        Inl err \<Rightarrow> Some (Inl err)
      | Inr nv \<Rightarrow>
          (case kvGet kv (etcd_ad_nameVersionKey ns nv) ExactKey e of
             Inl err \<Rightarrow> Some (Inl (Wrapped err ''while calling database''))
           | Inr resp \<Rightarrow> etcd_ad_handleGetResp ac resp))"

definition etcd_ad_GetByID ::
  "addonCodec \<Rightarrow> (gob, 'e) kv \<Rightarrow> Namespace \<Rightarrow> AddonID \<Rightarrow> 'e \<Rightarrow> Addon result option" where
  "etcd_ad_GetByID ac kv ns aid e =
     (case kvGet kv (etcd_ad_idKey ns aid) ExactKey e of
        Inl err \<Rightarrow> Some (Inl (Wrapped err ''while calling database''))
      | Inr resp \<Rightarrow> etcd_ad_handleGetResp ac resp)"

fun etcd_ad_decodeAll :: "addonCodec \<Rightarrow> (string \<times> gob) list \<Rightarrow> Addon list result option" where
  "etcd_ad_decodeAll ac [] = Some (Inr [])"
| "etcd_ad_decodeAll ac ((k, v) # kvs) =
     (case etcd_ad_decodeDSOToDM ac v of
        None \<Rightarrow> None
      | Some (Inl err) \<Rightarrow> Some (Inl (Wrapped err ''while decoding returned entities''))
      | Some (Inr a) \<Rightarrow>
          (case etcd_ad_decodeAll ac kvs of Some (Inr out) \<Rightarrow> Some (Inr (a # out)) | x \<Rightarrow> x))"

definition etcd_ad_FindAll ::
  "addonCodec \<Rightarrow> (gob, 'e) kv \<Rightarrow> Namespace \<Rightarrow> 'e \<Rightarrow> Addon list result option" where
  "etcd_ad_FindAll ac kv ns e =
     (case kvGet kv (etcd_ad_idPrefixForNamespace ns) WithPrefix e of
        Inl err \<Rightarrow> Some (Inl (Wrapped err ''while calling database''))
      | Inr kvs \<Rightarrow> etcd_ad_decodeAll ac kvs)"

text \<open>Deleting answers with the entry that was deleted.\<close>

definition etcd_ad_handleDeleteResp :: "addonCodec \<Rightarrow> (string \<times> gob) list \<Rightarrow> Addon result option" where
  "etcd_ad_handleDeleteResp ac resp =
     (case resp of
        [] \<Rightarrow> Some (Inl NotFoundError)
      | [(k, v)] \<Rightarrow> etcd_ad_decodeDSOToDM ac v
      | _ \<Rightarrow> Some (Inl (ErrorString ''more than one element matching requested id, should never happen'')))"

text \<open>The outcome of a removal: None is a panic, and the state is the one it leaves.\<close>

definition etcd_ad_Remove ::
  "addonCodec \<Rightarrow> (gob, 'e) kv \<Rightarrow> Namespace \<Rightarrow> AddonName \<Rightarrow> Version \<Rightarrow> 'e \<Rightarrow> error option option \<times> 'e" where
  "etcd_ad_Remove ac kv ns name ver e =
     (case etcd_ad_nameVersion name ver of
        Inl err \<Rightarrow> (Some (Some (Wrapped err ''while getting nameVersion from deleted entity'')), e)
      | Inr nv \<Rightarrow>
          (case kvDelete kv (etcd_ad_nameVersionKey ns nv) e of
             (Inl err, e1) \<Rightarrow> (Some (Some (Wrapped err ''while calling database on NV namespace'')), e1)
           | (Inr resp, e1) \<Rightarrow>
               (case etcd_ad_handleDeleteResp ac resp of
                  None \<Rightarrow> (None, e1)
                | Some (Inl err) \<Rightarrow> (Some (Some err), e1)
                | Some (Inr b) \<Rightarrow>
                    (case kvDelete kv (etcd_ad_idKey ns (ad_ID b)) e1 of
                       (Inl err, e2) \<Rightarrow> (Some (Some (Wrapped err ''while calling database on ID namespace'')), e2)
                     | (Inr _, e2) \<Rightarrow> (Some None, e2)))))"

definition etcd_ad_RemoveByID ::
  "addonCodec \<Rightarrow> (gob, 'e) kv \<Rightarrow> Namespace \<Rightarrow> AddonID \<Rightarrow> 'e \<Rightarrow> error option option \<times> 'e" where
  "etcd_ad_RemoveByID ac kv ns aid e =
     (case kvDelete kv (etcd_ad_idKey ns aid) e of
        (Inl err, e1) \<Rightarrow> (Some (Some (Wrapped err ''while calling database on ID namespace'')), e1)
      | (Inr resp, e1) \<Rightarrow>
          (case etcd_ad_handleDeleteResp ac resp of
             None \<Rightarrow> (None, e1)
           | Some (Inl err) \<Rightarrow> (Some (Some err), e1)
           | Some (Inr b) \<Rightarrow>
               (case etcd_ad_nameVersionFromAddon (Some b) of
                  Inl err \<Rightarrow> (Some (Some (Wrapped err ''while getting nameVersion from deleted entity'')), e1)
                | Inr nv \<Rightarrow>
                    (case kvDelete kv (etcd_ad_nameVersionKey ns nv) e1 of
                       (Inl err, e2) \<Rightarrow> (Some (Some (Wrapped err ''while calling database on NV namespace'')), e2)
                     | (Inr _, e2) \<Rightarrow> (Some None, e2)))))"

fun etcd_ad_removeEach ::
  "addonCodec \<Rightarrow> (gob, 'e) kv \<Rightarrow> Namespace \<Rightarrow> Addon list \<Rightarrow> 'e \<Rightarrow> error option option \<times> 'e" where
  "etcd_ad_removeEach ac kv ns [] e = (Some None, e)"
| "etcd_ad_removeEach ac kv ns (a # as) e =
     (case etcd_ad_RemoveByID ac kv ns (ad_ID a) e of
        (None, e1) \<Rightarrow> (None, e1)
      | (Some (Some err), e1) \<Rightarrow> (Some (Some (Wrapped err (''while removing addon with ID: '' @ ad_ID a))), e1)
      | (Some None, e1) \<Rightarrow> etcd_ad_removeEach ac kv ns as e1)"

definition etcd_ad_RemoveAll ::
  "addonCodec \<Rightarrow> (gob, 'e) kv \<Rightarrow> Namespace \<Rightarrow> 'e \<Rightarrow> error option option \<times> 'e" where
  "etcd_ad_RemoveAll ac kv ns e =
     (case etcd_ad_FindAll ac kv ns e of
        None \<Rightarrow> (None, e)
      | Some (Inl err) \<Rightarrow> (Some (Some (Wrapped err ''while getting addons'')), e)
      | Some (Inr addons) \<Rightarrow> etcd_ad_removeEach ac kv ns addons e)"

section \<open>What survives\<close>

definition storedChartRef :: "addonCodec \<Rightarrow> ChartRef \<Rightarrow> ChartRef" where
  "storedChartRef ac cr = cr\<lparr>cr_Version := projr (ac_NewVersion ac (String (cr_Version cr)))\<rparr>"

definition storedPlan :: "addonCodec \<Rightarrow> AddonPlan \<Rightarrow> AddonPlan" where
  "storedPlan ac p = p\<lparr>pl_ChartRef := storedChartRef ac (pl_ChartRef p), pl_Bindable := flatBool (pl_Bindable p),
     pl_Free := None, pl_BindTemplate := flatString (pl_BindTemplate p)\<rparr>"

definition storedAddon :: "addonCodec \<Rightarrow> Addon \<Rightarrow> Addon" where
  "storedAddon ac a = a\<lparr>ad_Version := projr (ac_NewVersion ac (String (ad_Version a))),
     ad_Plans := map (\<lambda>(k, p). (k, storedPlan ac p)) (ad_Plans a),
     ad_Requires := [], ad_BindingsRetrievable := False, ad_PlanUpdatable := None,
     ad_Docs := [], ad_Status := AddonStatusUnset, ad_Reason := AddonReasonUnset, ad_Message := '''',
     ad_SecretRef := \<lparr>sr_Name = '''', sr_Namespace = ''''\<rparr>\<rparr>"

text \<open>The canonical text of a version is a version; \<open>versions\<close> are those an addon holds.\<close>

definition version_codec :: "addonCodec \<Rightarrow> Version list \<Rightarrow> bool" where
  "version_codec ac vs \<longleftrightarrow> list_all (\<lambda>v. \<exists>v'. ac_NewVersion ac (String v) = Inr v') vs"

definition versions :: "Addon \<Rightarrow> Version list" where
  "versions a = ad_Version a # map (\<lambda>(k, p). cr_Version (pl_ChartRef p)) (ad_Plans a)"

lemma plansToModel_stored:
  assumes "version_codec ac (map (\<lambda>(k, p). cr_Version (pl_ChartRef p)) ps)"
  shows "plansToModel ac (map (\<lambda>(k, v). (k, flatPlan (newAddonPlanDSO v))) ps) =
    Some (Inr (map (\<lambda>(k, p). (k, storedPlan ac p)) ps))"
  using assms
proof (induction ps)
  case (Cons kp ps)
  obtain k p where kp: "kp = (k, p)" by fastforce
  with Cons.prems obtain v where v: "ac_NewVersion ac (String (cr_Version (pl_ChartRef p))) = Inr v"
    unfolding version_codec_def by auto
  have "addonPlanDSO_ToModel ac (flatPlan (newAddonPlanDSO p)) = Some (Inr (storedPlan ac p))"
    using v by (cases "pl_ChartRef p") (simp add: addonPlanDSO_ToModel_def flatPlan_def newAddonPlanDSO_def GobDecode_def
        GobEncode_def chartValuesDSO_ToModel_def newChartValuesDSO_def storedPlan_def storedChartRef_def flatBool_def)
  with Cons show ?case by (simp add: kp version_codec_def)
qed simp

lemma decode_stored:
  assumes "schema_codec ac" "version_codec ac (versions a)" "etcd_ad_encodeDMToDSO ac a = Inr b"
  shows "etcd_ad_decodeDSOToDM ac b = Some (Inr (storedAddon ac a))"
proof -
  from assms(2) obtain v where v: "ac_NewVersion ac (String (ad_Version a)) = Inr v"
    and ps: "version_codec ac (map (\<lambda>(k, p). cr_Version (pl_ChartRef p)) (ad_Plans a))"
    by (auto simp: version_codec_def versions_def)
  have plans: "map (\<lambda>(k, v). (k, flatPlan v)) (map (\<lambda>(k, v). (k, newAddonPlanDSO v)) (ad_Plans a)) =
      map (\<lambda>(k, v). (k, flatPlan (newAddonPlanDSO v))) (ad_Plans a)" by auto
  have b: "b = gobAddonDSO ac (newAddonDSO a)" using assms(3) by (simp add: etcd_ad_encodeDMToDSO_def)
  have "addonDSO_NewModel ac ((newAddonDSO a)
      \<lparr>ds_Plans := map (\<lambda>(k, v). (k, flatPlan v)) (ds_Plans (newAddonDSO a)), ds_PlanUpdatable := None\<rparr>) =
      Some (Inr (storedAddon ac a))"
    using plansToModel_stored [OF ps] v
    by (simp add: addonDSO_NewModel_def newAddonDSO_def plans storedAddon_def del: map_map)
  moreover have "flatBool (ds_PlanUpdatable (newAddonDSO a)) = None"
    by (simp add: newAddonDSO_def flatBool_def)
  ultimately show ?thesis
    by (simp add: etcd_ad_decodeDSOToDM_def b gobAddonDSO_round_trip [OF assms(1)])
qed

lemmas etcd_ad_key_defs = etcd_ad_idKey_def etcd_ad_nameVersionKey_def etcd_ad_idPrefixForNamespace_def
  entityNamespaceAddonMappingID_def entityNamespaceAddonMappingNV_def entityNamespaceSeparator_def

lemma id_nv_disjoint: "etcd_ad_idKey ns aid \<noteq> etcd_ad_nameVersionKey ns' nv"
  by (simp add: etcd_ad_key_defs)

context gob_store
begin

lemma ad_Upsert_ok:
  assumes "etcd_ad_Upsert ac kv ns (Some a) e = (Inr r, e')"
  obtains dso where "etcd_ad_encodeDMToDSO ac a = Inr dso" "ad_Name a \<noteq> ''''" "Original (ad_Version a) \<noteq> ''''"
    "r = (content e (etcd_ad_idKey ns (ad_ID a)) \<noteq> None)"
    "content e' = (content e)(etcd_ad_idKey ns (ad_ID a) \<mapsto> dso,
       etcd_ad_nameVersionKey ns (ad_Name a @ ''|'' @ String (ad_Version a)) \<mapsto> dso)"
proof -
  let ?dso = "gobAddonDSO ac (newAddonDSO a)" and ?nv = "ad_Name a @ ''|'' @ String (ad_Version a)"
  from assms have ok: "ad_Name a \<noteq> ''''" "Original (ad_Version a) \<noteq> ''''"
    by (auto simp: etcd_ad_Upsert_def etcd_ad_nameVersionFromAddon_def split: if_splits)
  then have nv: "etcd_ad_nameVersionFromAddon (Some a) = Inr ?nv"
    by (simp add: etcd_ad_nameVersionFromAddon_def etcd_ad_nameVersion_def)
  obtain q e1 where put1: "kvPut kv (etcd_ad_idKey ns (ad_ID a)) ?dso e = (q, e1)" by fastforce
  with assms nv obtain prev where q: "q = Inr prev"
    by (cases q) (auto simp: etcd_ad_Upsert_def etcd_ad_encodeDMToDSO_def)
  obtain q2 e2 where put2: "kvPut kv (etcd_ad_nameVersionKey ns ?nv) ?dso e1 = (q2, e2)" by fastforce
  with assms nv put1 q obtain prev2 where q2: "q2 = Inr prev2" "e2 = e'" "r = (prev \<noteq> None)"
    by (cases q2) (auto simp: etcd_ad_Upsert_def etcd_ad_encodeDMToDSO_def split: if_splits)
  from Put_ok [OF put1 [unfolded q]] Put_ok [OF put2 [unfolded q2(1)]] q2(2,3) ok show ?thesis
    by (intro that [of ?dso]) (simp_all add: etcd_ad_encodeDMToDSO_def)
qed

lemma ad_GetByID_eq:
  assumes "kv_up kv e"
  shows "etcd_ad_GetByID ac kv ns aid e =
    (case content e (etcd_ad_idKey ns aid) of None \<Rightarrow> Some (Inl NotFoundError) | Some b \<Rightarrow> etcd_ad_decodeDSOToDM ac b)"
proof -
  from assms obtain kvs where get: "kvGet kv (etcd_ad_idKey ns aid) ExactKey e = Inr kvs" unfolding kv_up_def by blast
  from Get_exact [OF this] get show ?thesis
    by (simp add: etcd_ad_GetByID_def etcd_ad_handleGetResp_def entry_def split: option.splits)
qed

lemma ad_Get_eq:
  assumes "kv_up kv e" "name \<noteq> ''''" "Original ver \<noteq> ''''"
  shows "etcd_ad_Get ac kv ns name ver e =
    (case content e (etcd_ad_nameVersionKey ns (name @ ''|'' @ String ver)) of
       None \<Rightarrow> Some (Inl NotFoundError) | Some b \<Rightarrow> etcd_ad_decodeDSOToDM ac b)"
proof -
  let ?k = "etcd_ad_nameVersionKey ns (name @ ''|'' @ String ver)"
  from assms(1) obtain kvs where get: "kvGet kv ?k ExactKey e = Inr kvs" unfolding kv_up_def by blast
  from Get_exact [OF this] get assms(2,3) show ?thesis
    by (simp add: etcd_ad_Get_def etcd_ad_nameVersion_def etcd_ad_handleGetResp_def entry_def split: option.splits)
qed

end


definition trimV :: "string \<Rightarrow> Version result" where
  "trimV s = Inr \<lparr>Original = s, String = (if strHasPrefix s ''v'' then tl s else s)\<rparr>"

definition example_codec :: addonCodec where
  "example_codec = \<lparr>ac_NewVersion = trimV, ac_gobSchema = GJson,
     ac_ungobSchema = \<lambda>g. (case g of GJson j \<Rightarrow> Some j | _ \<Rightarrow> None)\<rparr>"

definition stored_plan :: AddonPlan where
  "stored_plan = \<lparr>pl_ID = ''p-1'', pl_Name = ''micro'', pl_Description = ''Micro'', pl_Schemas = [],
     pl_ChartRef = \<lparr>cr_Name = ''redis'', cr_Version = \<lparr>Original = ''v1.0.0'', String = ''1.0.0''\<rparr>\<rparr>,
     pl_ChartValues = [(''hosts'', JArr [JStr ''a''])], pl_Metadata = \<lparr>pm_DisplayName = ''Micro''\<rparr>,
     pl_Bindable = Some False, pl_Free = Some True, pl_BindTemplate = None\<rparr>"

definition stored_addon :: Addon where
  "stored_addon = \<lparr>ad_ID = ''a-1'', ad_Name = ''redis'', ad_Version = \<lparr>Original = ''1.0.0'', String = ''1.0.0''\<rparr>,
     ad_Description = ''Redis'', ad_Plans = [(''p-1'', stored_plan)],
     ad_Metadata = \<lparr>am_DisplayName = ''Redis'', am_ProviderDisplayName = '''', am_LongDescription = '''',
       am_DocumentationURL = '''', am_SupportURL = '''', am_ProvisionOnlyOnce = False, am_ImageURL = '''',
       am_Labels = Some []\<rparr>,
     ad_RepositoryURL = ''https://repo'', ad_Tags = [''db''], ad_Requires = [], ad_Bindable = True,
     ad_BindingsRetrievable = False, ad_PlanUpdatable = None, ad_Docs = [], ad_Status = AddonStatusUnset,
     ad_Reason = AddonReasonUnset, ad_Message = '''', ad_SecretRef = \<lparr>sr_Name = '''', sr_Namespace = ''''\<rparr>\<rparr>"

lemma example_codec_ok: "schema_codec example_codec" "version_codec example_codec vs"
  by (auto simp: schema_codec_def version_codec_def example_codec_def trimV_def list_all_iff)

definition stored_state :: "gob Etcd" where
  "stored_state = snd (etcd_ad_Upsert example_codec etcdKV ''ab'' (Some stored_addon) NewEtcd)"

lemma stored_addon_simps [simp]:
  "ad_ID stored_addon = ''a-1''" "ad_Name stored_addon = ''redis''" "ad_Bindable stored_addon = True"
  "Original (ad_Version stored_addon) = ''1.0.0''" "String (ad_Version stored_addon) = ''1.0.0''"
  "ad_Plans stored_addon = [(''p-1'', stored_plan)]"
  by (simp_all add: stored_addon_def)

lemma stored_state_eq:
  "etcd_ad_Upsert example_codec etcdKV ''ab'' (Some stored_addon) NewEtcd = (Inr False, stored_state)"
  "et_kvs stored_state = [(''id/ns/ab/a-1'', gobAddonDSO example_codec (newAddonDSO stored_addon)),
     (''nv/ns/ab/redis|1.0.0'', gobAddonDSO example_codec (newAddonDSO stored_addon))]"
  "et_fault stored_state = NoFault"
  by (simp_all add: stored_state_def etcd_ad_Upsert_def etcd_ad_nameVersionFromAddon_def
      etcd_ad_nameVersion_def etcd_ad_encodeDMToDSO_def etcdPut_def NewEtcd_def etcdContent_def
      ClusterWide_def etcd_ad_key_defs Let_def)

lemma stored_state_up: "kv_up etcdKV stored_state"
  by (simp add: etcd_up stored_state_eq)


text \<open>
  A plan that switches binding off does not stay so in etcd: the flag is a pointer to false, which
  the coding drops, and the plan that is read back follows the flag of its addon again.
\<close>

theorem etcd_ad_unbindable_plan_lost:
  assumes "gob_store kv content" and "schema_codec ac" and "version_codec ac (versions a)"
    and "etcd_ad_Upsert ac kv ns (Some a) e = (Inr r, e')" and "kv_up kv e'"
    and "(k, p) \<in> set (ad_Plans a)" and "pl_Bindable p = Some False"
  shows "\<not> isBindable p (ad_Bindable a) \<and>
    (\<exists>b q. etcd_ad_GetByID ac kv ns (ad_ID a) e' = Some (Inr b) \<and> (k, q) \<in> set (ad_Plans b) \<and>
       isBindable q (ad_Bindable b) = ad_Bindable a)"
proof -
  from gob_store.ad_Upsert_ok [OF assms(1,4)] obtain dso where up: "etcd_ad_encodeDMToDSO ac a = Inr dso"
    "content e' = (content e)(etcd_ad_idKey ns (ad_ID a) \<mapsto> dso,
       etcd_ad_nameVersionKey ns (ad_Name a @ ''|'' @ String (ad_Version a)) \<mapsto> dso)" by metis
  have "etcd_ad_GetByID ac kv ns (ad_ID a) e' = Some (Inr (storedAddon ac a))"
    using gob_store.ad_GetByID_eq [OF assms(1,5)] up(2) decode_stored [OF assms(2,3) up(1)] id_nv_disjoint by simp
  moreover have "(k, storedPlan ac p) \<in> set (ad_Plans (storedAddon ac a))"
    using assms(6) by (force simp: storedAddon_def)
  moreover have "isBindable (storedPlan ac p) (ad_Bindable (storedAddon ac a)) = ad_Bindable a"
    using assms(7) by (simp add: isBindable_def storedPlan_def storedAddon_def flatBool_def)
  moreover have "\<not> isBindable p (ad_Bindable a)" using assms(7) by (simp add: isBindable_def)
  ultimately show ?thesis by blast
qed

theorem etcd_ad_unbindable_plan_lost_witness:
  "\<not> isBindable stored_plan True \<and>
   (\<exists>b q. etcd_ad_GetByID example_codec etcdKV ''ab'' ''a-1'' stored_state = Some (Inr b) \<and>
      (''p-1'', q) \<in> set (ad_Plans b) \<and> isBindable q (ad_Bindable b))"
  using etcd_ad_unbindable_plan_lost [OF gos.gob_store_axioms example_codec_ok stored_state_eq(1) stored_state_up, of "''p-1''" stored_plan]
  by (simp add: stored_plan_def [THEN arg_cong [of _ _ pl_Bindable]])

text \<open>
  A chart can be lost behind its plan in etcd: the driver stores a chart under the version as it
  is written in its metadata, and a plan with the canonical text of the version. When the two differ, as for
  v1.0.0, the chart is stored and found under its own version, and the plan that is read back asks for
  one that is not there.
\<close>

theorem etcd_chart_of_plan_lost:
  assumes "chart_store kv content" and "\<And>s v. ac_NewVersion ac s = Inr v \<Longrightarrow> Original v = s" and "version_codec ac [cr_Version (pl_ChartRef p)]"
    and "ch_Metadata c = Some md" "cm_Name md = cr_Name (pl_ChartRef p)"
    and "cm_Version md = Original (cr_Version (pl_ChartRef p))"
    and "String (cr_Version (pl_ChartRef p)) \<noteq> Original (cr_Version (pl_ChartRef p))" "String (cr_Version (pl_ChartRef p)) \<noteq> ''''"
    and "etcd_ch_Upsert (ac_NewVersion ac) kv ns (Some c) e = (Inr r, e')" and "kv_up kv e'"
    and "content e (etcd_ch_key ns (cm_Name md @ ''|'' @ String (cr_Version (pl_ChartRef p)))) = None"
  shows "etcd_ch_Get kv ns (cr_Name (pl_ChartRef p)) (cr_Version (pl_ChartRef p)) e' = Some (Inr c) \<and>
    etcd_ch_Get kv ns (cr_Name (pl_ChartRef (storedPlan ac p))) (cr_Version (pl_ChartRef (storedPlan ac p))) e' =
      Some (Inl NotFoundError)"
proof -
  let ?n = "cr_Name (pl_ChartRef p)" and ?v = "cr_Version (pl_ChartRef p)"
  from chart_store.ch_Upsert_ok [OF assms(1,9)] assms(2,4,5,6) have up: "?n \<noteq> ''''" "Original ?v \<noteq> ''''"
    "content e' = (content e)(etcd_ch_key ns (?n @ ''|'' @ Original ?v) \<mapsto> jsonDto (toDto c))"
    by (metis option.inject)+
  note get = chart_store.ch_Get_eq [OF assms(1,10) up(1)]
  have dec: "etcd_ch_decodeChart (jsonDto (toDto c)) = Some (Inr c)"
    by (rule decodeChart_encodeChart) (simp add: etcd_ch_encodeChart_def)
  obtain v' where v': "ac_NewVersion ac (String ?v) = Inr v'" using assms(3) by (auto simp: version_codec_def)
  from assms(2) [OF v'] have orig: "Original v' = String ?v" .
  have "etcd_ch_key ns (?n @ ''|'' @ String ?v) \<noteq> etcd_ch_key ns (?n @ ''|'' @ Original ?v)"
    using assms(7) by (simp add: etcd_ch_key_def)
  with get [of v' ns] orig assms(5,8,11) up(3) have "etcd_ch_Get kv ns ?n v' e' = Some (Inl NotFoundError)" by simp
  moreover have "etcd_ch_Get kv ns ?n ?v e' = Some (Inr c)" using get [OF up(2)] up(3) dec by simp
  ultimately show ?thesis by (simp add: storedPlan_def storedChartRef_def v')
qed

definition v_chart :: Chart where
  "v_chart = Chart (Some \<lparr>cm_Name = ''redis'', cm_Version = ''v1.0.0''\<rparr>) [] []"

theorem etcd_chart_of_plan_lost_witness:
  "\<exists>e'. etcd_ch_Upsert trimV etcdKV ''ab'' (Some v_chart) NewEtcd = (Inr False, e') \<and>
     etcd_ch_Get etcdKV ''ab'' ''redis'' \<lparr>Original = ''v1.0.0'', String = ''1.0.0''\<rparr> e' = Some (Inr v_chart) \<and>
     etcd_ch_Get etcdKV ''ab'' ''redis'' (cr_Version (pl_ChartRef (storedPlan example_codec stored_plan))) e' =
       Some (Inl NotFoundError)"
proof -
  let ?md = "\<lparr>cm_Name = ''redis'', cm_Version = ''v1.0.0''\<rparr>"
  obtain e' where up: "etcd_ch_Upsert trimV etcdKV ''ab'' (Some v_chart) NewEtcd = (Inr False, e')" "kv_up etcdKV e'"
    by (force simp: etcd_ch_Upsert_def etcd_ch_nameVersionFromChart_def etcd_ch_nameVersion_def trimV_def v_chart_def
        etcd_ch_encodeChart_def etcdKV_def etcdPut_def NewEtcd_def etcdContent_def Let_def etcd_up [unfolded etcdKV_def])
  have sv: "ac_NewVersion example_codec = trimV" "cr_Name (pl_ChartRef (storedPlan example_codec stored_plan)) = ''redis''"
    by (simp_all add: example_codec_def storedPlan_def storedChartRef_def stored_plan_def)
  have orig: "ac_NewVersion example_codec s = Inr v \<Longrightarrow> Original v = s" for s v by (auto simp: sv trimV_def)
  have plan: "pl_ChartRef stored_plan = \<lparr>cr_Name = ''redis'', cr_Version = \<lparr>Original = ''v1.0.0'', String = ''1.0.0''\<rparr>\<rparr>"
    by (simp add: stored_plan_def)
  from etcd_chart_of_plan_lost [OF cst.chart_store_axioms orig example_codec_ok(2), of v_chart ?md stored_plan "''ab''"
      NewEtcd False e'] up
  show ?thesis unfolding sv plan by (intro exI [of _ e']) (simp add: v_chart_def etcdContent_def NewEtcd_def)
qed

text \<open>
  The addons of a namespace are listed by a prefix of keys that does not end in the separator, so
  that listing a namespace also lists the addons of every namespace whose name continues it.
\<close>

theorem etcd_ad_FindAll_leaks:
  assumes "gob_store kv content" and "ns \<noteq> ''''" and "etcd_ad_FindAll ac kv ns e = Some (Inr addons)"
    and "content e (etcd_ad_idKey (ns @ suffix) aid) = Some dso" and "etcd_ad_decodeDSOToDM ac dso = Some (Inr a)"
  shows "a \<in> set addons"
proof -
  from assms(3) obtain kvs where kvs: "kvGet kv (etcd_ad_idPrefixForNamespace ns) WithPrefix e = Inr kvs"
    "etcd_ad_decodeAll ac kvs = Some (Inr addons)" by (auto simp: etcd_ad_FindAll_def split: sum.splits)
  have "strHasPrefix (etcd_ad_idKey (ns @ suffix) aid) (etcd_ad_idPrefixForNamespace ns)"
    using assms(2) by (simp add: strHasPrefix_iff etcd_ad_key_defs ClusterWide_def)
  with kv_store.Get_range [OF gob_store.axioms [OF assms(1)] kvs(1)] assms(4)
  have "(etcd_ad_idKey (ns @ suffix) aid, dso) \<in> set kvs" by blast
  with kvs(2) assms(5) show ?thesis
  proof (induction kvs arbitrary: addons)
    case (Cons p kvs)
    then show ?case by (cases p) (auto split: option.splits sum.splits)
  qed simp
qed

theorem etcd_ad_FindAll_leaks_witness:
  "\<exists>addons a. etcd_ad_FindAll example_codec etcdKV ''a'' stored_state = Some (Inr addons) \<and>
     etcd_ad_GetByID example_codec etcdKV ''a'' ''a-1'' stored_state = Some (Inl NotFoundError) \<and>
     a \<in> set addons \<and> ad_ID a = ''a-1''"
proof -
  let ?dso = "gobAddonDSO example_codec (newAddonDSO stored_addon)"
  have dec: "etcd_ad_decodeDSOToDM example_codec ?dso = Some (Inr (storedAddon example_codec stored_addon))"
    by (rule decode_stored [OF example_codec_ok]) (simp add: etcd_ad_encodeDMToDSO_def)
  have all: "etcd_ad_FindAll example_codec etcdKV ''a'' stored_state = Some (Inr [storedAddon example_codec stored_addon])"
    by (simp add: etcd_ad_FindAll_def etcdGet_def stored_state_eq ClusterWide_def etcd_ad_key_defs dec)
  have none: "etcd_ad_GetByID example_codec etcdKV ''a'' ''a-1'' stored_state = Some (Inl NotFoundError)"
    by (simp add: etcd_ad_GetByID_def etcdGet_def stored_state_eq ClusterWide_def etcd_ad_key_defs etcd_ad_handleGetResp_def)
  have "etcdContent stored_state (etcd_ad_idKey (''a'' @ ''b'') ''a-1'') = Some ?dso"
    by (simp add: etcdContent_def stored_state_eq etcd_ad_key_defs ClusterWide_def)
  then have "storedAddon example_codec stored_addon \<in> set [storedAddon example_codec stored_addon]"
    by (intro etcd_ad_FindAll_leaks [where ns = "''a''", OF gos.gob_store_axioms _ all _ dec]) simp_all
  moreover have "ad_ID (storedAddon example_codec stored_addon) = ''a-1''" by (simp add: storedAddon_def)
  ultimately show ?thesis using all none by blast
qed

text \<open>
  Storing an addon in a new version under the same identifier leaves the key of the old name and
  version behind, and removing the old version then also removes the new addon.
\<close>

definition next_addon :: Addon where
  "next_addon = stored_addon\<lparr>ad_Version := \<lparr>Original = ''2.0.0'', String = ''2.0.0''\<rparr>\<rparr>"

lemma etcd_ad_successor_removed:
  "let s = snd (etcd_ad_Upsert example_codec etcdKV ''ab'' (Some next_addon) stored_state);
       gone = etcd_ad_Remove example_codec etcdKV ''ab'' ''redis'' (ad_Version stored_addon) s
   in etcd_ad_GetByID example_codec etcdKV ''ab'' ''a-1'' s = Some (Inr (storedAddon example_codec next_addon)) \<and>
      (\<exists>s'. gone = (Some None, s') \<and> etcd_ad_GetByID example_codec etcdKV ''ab'' ''a-1'' s' = Some (Inl NotFoundError))"
proof -
  have dec: "etcd_ad_decodeDSOToDM example_codec (gobAddonDSO example_codec (newAddonDSO a)) =
      Some (Inr (storedAddon example_codec a))" for a
    by (rule decode_stored [OF example_codec_ok]) (simp add: etcd_ad_encodeDMToDSO_def)
  show ?thesis
    by (simp add: Let_def etcd_ad_Upsert_def etcd_ad_Remove_def etcd_ad_nameVersionFromAddon_def
      etcd_ad_nameVersion_def etcd_ad_encodeDMToDSO_def etcdPut_def etcdGet_def etcdDelete_def etcdContent_def
      ClusterWide_def etcd_ad_key_defs stored_state_eq next_addon_def etcd_ad_GetByID_def
      etcd_ad_handleGetResp_def etcd_ad_handleDeleteResp_def entry_def dec storedAddon_def)
qed

end
