(* ===== verification/BindResolver.thy ===== *)
theory BindResolver
  imports Broker_Interface
begin

text \<open>
  Rendering and resolving of bind templates, \<open>internal/bind\<close>. Parameters: the template engine of Helm,
  the YAML parser, JSON paths, and the read calls of the Kubernetes API.
\<close>

section \<open>The bind file\<close>

record KeySelector =
  ks_Name :: string
  ks_Key :: string

record JSONPathSelector =
  js_Name :: string
  js_JSONPath :: string

record CredentialVarSource =
  cvs_ConfigMapKeyRef :: "KeySelector option"
  cvs_SecretKeyRef :: "KeySelector option"
  cvs_ServiceRef :: "JSONPathSelector option"

record CredentialVar =
  cv_Name :: string
  cv_Value :: string
  cv_ValueFrom :: "CredentialVarSource option"

text \<open>A name selector is the name.\<close>

record CredentialFromSource =
  cfs_ConfigMapRef :: "string option"
  cfs_SecretRef :: "string option"

record YAML =
  y_Credential :: "CredentialVar list"
  y_CredentialFrom :: "CredentialFromSource list"

section \<open>Calls\<close>

record Resolver =
  yamlUnmarshal :: "string \<Rightarrow> YAML result"
  getSecret :: "Namespace \<Rightarrow> string \<Rightarrow> (string, string) gomap result"
  getConfigMap :: "Namespace \<Rightarrow> string \<Rightarrow> (string, string) gomap result"
  getService :: "Namespace \<Rightarrow> string \<Rightarrow> json result"
  jsonpathParse :: "string \<Rightarrow> error option"
  jsonpathExecute :: "string \<Rightarrow> json \<Rightarrow> string result"

section \<open>Resolving\<close>

definition brackets :: "string \<Rightarrow> string" where
  "brackets s = ''['' @ s @ '']''"

definition getSecretAllValues :: "Resolver \<Rightarrow> Namespace \<Rightarrow> string \<Rightarrow> (string, string) gomap result" where
  "getSecretAllValues r ns name =
     (case getSecret r ns name of
        Inl err \<Rightarrow> Inl (Wrapped err (''while getting secrets '' @ brackets name @ '' from namespace '' @ brackets ns))
      | Inr data \<Rightarrow> Inr data)"

definition getConfigMapAllValues :: "Resolver \<Rightarrow> Namespace \<Rightarrow> string \<Rightarrow> (string, string) gomap result" where
  "getConfigMapAllValues r ns name =
     (case getConfigMap r ns name of
        Inl err \<Rightarrow> Inl (Wrapped err (''while getting configmap '' @ brackets name @ '' from namespace '' @ brackets ns))
      | Inr data \<Rightarrow> Inr data)"

definition getSecretKeyValue :: "Resolver \<Rightarrow> Namespace \<Rightarrow> KeySelector \<Rightarrow> string result" where
  "getSecretKeyValue r ns sel =
     (case getSecret r ns (ks_Name sel) of
        Inl err \<Rightarrow>
          Inl (Wrapped err (''while getting secrets '' @ brackets (ks_Name sel) @ '' from namespace '' @ brackets ns))
      | Inr data \<Rightarrow>
          (case map_of data (ks_Key sel) of
             None \<Rightarrow> Inl (ErrorString (''key '' @ ks_Key sel @ '' not found in secret '' @ ks_Name sel @
                        '' in namespace '' @ ns))
           | Some v \<Rightarrow> Inr v))"

definition getConfigMapKeyValue :: "Resolver \<Rightarrow> Namespace \<Rightarrow> KeySelector \<Rightarrow> string result" where
  "getConfigMapKeyValue r ns sel =
     (case getConfigMap r ns (ks_Name sel) of
        Inl err \<Rightarrow>
          Inl (Wrapped err (''while getting configmap '' @ brackets (ks_Name sel) @ '' from namespace '' @ brackets ns))
      | Inr data \<Rightarrow>
          (case map_of data (ks_Key sel) of
             None \<Rightarrow> Inl (ErrorString (''key '' @ ks_Key sel @ '' not found in config map '' @ ks_Name sel @
                        '' in namespace '' @ ns))
           | Some v \<Rightarrow> Inr v))"

definition getServiceJSONPathValue :: "Resolver \<Rightarrow> Namespace \<Rightarrow> JSONPathSelector \<Rightarrow> string result" where
  "getServiceJSONPathValue r ns sel =
     (case getService r ns (js_Name sel) of
        Inl err \<Rightarrow>
          Inl (Wrapped err (''while getting service '' @ brackets (js_Name sel) @ '' from namespace '' @ brackets ns))
      | Inr service \<Rightarrow>
          (case jsonpathParse r (js_JSONPath sel) of
             Some err \<Rightarrow>
               Inl (Wrapped err (''while parsing json path '' @ brackets (js_JSONPath sel) @ '' for service '' @
                 brackets (js_Name sel) @ '' in namespace '' @ brackets ns))
           | None \<Rightarrow>
               (case jsonpathExecute r (js_JSONPath sel) service of
                  Inl err \<Rightarrow>
                    Inl (Wrapped err (''while selecting json path '' @ brackets (js_JSONPath sel) @ '' for service '' @
                      brackets (js_Name sel) @ '' in namespace '' @ brackets ns))
                | Inr out \<Rightarrow> Inr out)))"

definition getCredFromAllRefValues ::
  "Resolver \<Rightarrow> Namespace \<Rightarrow> CredentialFromSource \<Rightarrow> (string, string) gomap result" where
  "getCredFromAllRefValues r ns from =
     (case cfs_ConfigMapRef from of
        Some name \<Rightarrow> getConfigMapAllValues r ns name
      | None \<Rightarrow>
          (case cfs_SecretRef from of
             Some name \<Rightarrow> getSecretAllValues r ns name
           | None \<Rightarrow> Inl (ErrorString ''invalid credentialFrom'')))"

definition getCredVarKeyRefValue :: "Resolver \<Rightarrow> Namespace \<Rightarrow> CredentialVarSource \<Rightarrow> string result" where
  "getCredVarKeyRefValue r ns from =
     (case cvs_SecretKeyRef from of
        Some sel \<Rightarrow> getSecretKeyValue r ns sel
      | None \<Rightarrow>
          (case cvs_ConfigMapKeyRef from of
             Some sel \<Rightarrow> getConfigMapKeyValue r ns sel
           | None \<Rightarrow>
               (case cvs_ServiceRef from of
                  Some sel \<Rightarrow> getServiceJSONPathValue r ns sel
                | None \<Rightarrow> Inl (ErrorString ''invalid valueFrom''))))"

definition credentials_Insert :: "string \<Rightarrow> string \<Rightarrow> (string, string) gomap \<Rightarrow> (string, string) gomap result" where
  "credentials_Insert name val e =
     (if map_of e name \<noteq> None
      then Inl (ErrorString (''conflict: found credentials with the same name '' @ goQuote name))
      else Inr (AList.update name val e))"

definition credentials_Set :: "string \<Rightarrow> string \<Rightarrow> (string, string) gomap \<Rightarrow> (string, string) gomap" where
  "credentials_Set name val e = AList.update name val e"

fun setAll :: "(string, string) gomap \<Rightarrow> (string, string) gomap \<Rightarrow> (string, string) gomap" where
  "setAll [] c = c"
| "setAll ((k, v) # envs) c = setAll envs (credentials_Set k v c)"

fun resolveFrom ::
  "Resolver \<Rightarrow> Namespace \<Rightarrow> CredentialFromSource list \<Rightarrow> (string, string) gomap
    \<Rightarrow> (string, string) gomap result" where
  "resolveFrom r ns [] credFrom = Inr credFrom"
| "resolveFrom r ns (v # vs) credFrom =
     (case getCredFromAllRefValues r ns v of
        Inl err \<Rightarrow> Inl err
      | Inr envs \<Rightarrow> resolveFrom r ns vs (setAll envs credFrom))"

fun resolveCred ::
  "Resolver \<Rightarrow> Namespace \<Rightarrow> CredentialVar list \<Rightarrow> (string, string) gomap \<Rightarrow> (string, string) gomap result" where
  "resolveCred r ns [] cred = Inr cred"
| "resolveCred r ns (v # vs) cred =
     (if cv_Value v \<noteq> ''''
      then (case credentials_Insert (cv_Name v) (cv_Value v) cred of
              Inl err \<Rightarrow> Inl err
            | Inr cred' \<Rightarrow> resolveCred r ns vs cred')
      else (case cv_ValueFrom v of
              None \<Rightarrow> resolveCred r ns vs cred
            | Some from \<Rightarrow>
                (case getCredVarKeyRefValue r ns from of
                   Inl err \<Rightarrow> Inl err
                 | Inr val \<Rightarrow>
                     (case credentials_Insert (cv_Name v) val cred of
                        Inl err \<Rightarrow> Inl err
                      | Inr cred' \<Rightarrow> resolveCred r ns vs cred'))))"

definition Resolve :: "Resolver \<Rightarrow> string \<Rightarrow> Namespace \<Rightarrow> ResolveOutput result" where
  "Resolve r bindYAML ns =
     (case yamlUnmarshal r bindYAML of
        Inl err \<Rightarrow> Inl (Wrapped err ''while unmarshaling bind yaml'')
      | Inr bind \<Rightarrow>
          (case resolveFrom r ns (y_CredentialFrom bind) [] of
             Inl err \<Rightarrow> Inl err
           | Inr credFrom \<Rightarrow>
               (case resolveCred r ns (y_Credential bind) [] of
                  Inl err \<Rightarrow> Inl err
                | Inr cred \<Rightarrow> Inr \<lparr>ro_Credentials = setAll cred credFrom\<rparr>)))"

section \<open>The policy\<close>

text \<open>
  The specification: the sources in their order, each overriding the ones before, and then the
  single credentials, whose names must differ. A credential without value and source is left out.
\<close>

definition credentialValue :: "Resolver \<Rightarrow> Namespace \<Rightarrow> CredentialVar \<Rightarrow> string option result" where
  "credentialValue r ns v =
     (if cv_Value v \<noteq> '''' then Inr (Some (cv_Value v))
      else case cv_ValueFrom v of
             None \<Rightarrow> Inr None
           | Some from \<Rightarrow> (case getCredVarKeyRefValue r ns from of Inl err \<Rightarrow> Inl err | Inr x \<Rightarrow> Inr (Some x)))"

fun named :: "CredentialVar list \<Rightarrow> string option list \<Rightarrow> (string \<times> string) list" where
  "named (v # vs) (Some x # xs) = (cv_Name v, x) # named vs xs"
| "named (v # vs) (None # xs) = named vs xs"
| "named _ _ = []"

definition resolvable :: "Resolver \<Rightarrow> Namespace \<Rightarrow> YAML \<Rightarrow> (string, string) gomap list \<Rightarrow> (string, string) gomap \<Rightarrow> bool" where
  "resolvable r ns b envs creds \<longleftrightarrow>
     map (getCredFromAllRefValues r ns) (y_CredentialFrom b) = map Inr envs \<and>
     (\<exists>xs. map (credentialValue r ns) (y_Credential b) = map Inr xs \<and> creds = named (y_Credential b) xs) \<and>
     distinct (map fst creds)"

lemma map_of_setAll: "wf_map envs \<Longrightarrow> map_of (setAll envs c) = map_of c ++ map_of envs"
proof (induction envs arbitrary: c)
  case (Cons p envs)
  obtain k v where p: "p = (k, v)" by fastforce
  with Cons have "map_of envs k = None" by (simp add: map_of_eq_None_iff)
  with Cons p show ?case by (auto simp: credentials_Set_def fun_eq_iff map_add_def split: option.splits)
qed simp

lemma resolveFrom_eq:
  assumes "\<And>v envs. getCredFromAllRefValues r ns v = Inr envs \<Longrightarrow> wf_map envs"
  shows "case resolveFrom r ns vs c of
      Inl err \<Rightarrow> \<nexists>envs. map (getCredFromAllRefValues r ns) vs = map Inr envs
    | Inr c' \<Rightarrow> \<exists>envs. map (getCredFromAllRefValues r ns) vs = map Inr envs \<and>
        map_of c' = foldl (++) (map_of c) (map map_of envs)"
proof (induction vs arbitrary: c)
  case (Cons v vs)
  show ?case
  proof (cases "getCredFromAllRefValues r ns v")
    case (Inr envs)
    with Cons.IH [of "setAll envs c"] map_of_setAll [OF assms [OF Inr]] show ?thesis
      by (auto simp: Cons_eq_map_conv split: sum.splits)
  qed (auto simp: Cons_eq_map_conv)
qed simp

definition credentials_ok ::
  "Resolver \<Rightarrow> Namespace \<Rightarrow> CredentialVar list \<Rightarrow> (string, string) gomap \<Rightarrow> string option list \<Rightarrow> bool" where
  "credentials_ok r ns vs c xs \<longleftrightarrow>
     map (credentialValue r ns) vs = map Inr xs \<and> distinct (map fst (named vs xs)) \<and>
     (\<forall>k \<in> fst ` set (named vs xs). map_of c k = None)"

lemma credentials_ok_Cons:
  "credentials_ok r ns (v # vs) c xs \<longleftrightarrow>
     (\<exists>x ys. xs = x # ys \<and> credentialValue r ns v = Inr x \<and>
        (case x of
           None \<Rightarrow> credentials_ok r ns vs c ys
         | Some val \<Rightarrow> map_of c (cv_Name v) = None \<and> credentials_ok r ns vs (AList.update (cv_Name v) val c) ys))"
  by (cases xs) (auto simp: credentials_ok_def image_iff split: option.splits)

lemma resolveCred_eq:
  assumes "wf_map c"
  shows "case resolveCred r ns vs c of
      Inl err \<Rightarrow> \<nexists>xs. credentials_ok r ns vs c xs
    | Inr c' \<Rightarrow> \<exists>xs. credentials_ok r ns vs c xs \<and> wf_map c' \<and> map_of c' = map_of c ++ map_of (named vs xs)"
  using assms
proof (induction vs arbitrary: c)
  case (Cons v vs)
  show ?case
  proof (cases "credentialValue r ns v")
    case (Inl err)
    then have "resolveCred r ns (v # vs) c = Inl err"
      by (auto simp: credentialValue_def split: if_splits option.splits sum.splits)
    with Inl show ?thesis by (simp add: credentials_ok_Cons)
  next
    case (Inr x)
    show ?thesis
    proof (cases x)
      case None
      with Inr have "resolveCred r ns (v # vs) c = resolveCred r ns vs c"
        by (auto simp: credentialValue_def split: if_splits option.splits sum.splits)
      with Cons.IH [OF Cons.prems] Inr None show ?thesis
        by (auto simp: credentials_ok_Cons split: sum.splits)
    next
      case (Some val)
      with Inr have step: "resolveCred r ns (v # vs) c = (case credentials_Insert (cv_Name v) val c of
          Inl err \<Rightarrow> Inl err | Inr cred' \<Rightarrow> resolveCred r ns vs cred')"
        by (auto simp: credentialValue_def split: if_splits option.splits sum.splits)
      show ?thesis
      proof (cases "map_of c (cv_Name v)")
        case (Some old)
        with step Inr \<open>x = Some val\<close> show ?thesis by (simp add: credentials_Insert_def credentials_ok_Cons)
      next
        case None
        let ?c = "AList.update (cv_Name v) val c"
        have eq: "resolveCred r ns (v # vs) c = resolveCred r ns vs ?c"
          using None step by (simp add: credentials_Insert_def)
        have add: "map_of c ++ map_of (named (v # vs) (Some val # ys)) = map_of ?c ++ map_of (named vs ys)"
          if "credentials_ok r ns vs ?c ys" for ys
        proof -
          from that have "map_of (named vs ys) (cv_Name v) = None"
            by (auto simp: credentials_ok_def map_of_eq_None_iff)
          then show ?thesis by (auto simp: fun_eq_iff map_add_def split: option.splits)
        qed
        from Cons.IH [of ?c] Cons.prems show ?thesis
          unfolding eq using Inr \<open>x = Some val\<close> None add
          by (auto simp: credentials_ok_Cons split: sum.splits)
      qed
    qed
  qed
qed (simp add: credentials_ok_def)

text \<open>
  C17. Credentials are resolved by the three rules of the policy: of the sources of all values the
  last one that has a key wins, single credentials override them, and two single credentials with the same
  name are an error. Resolving succeeds exactly when every value can be read and the names differ.
\<close>

theorem Resolve_correct:
  assumes "\<And>ns name data. getSecret r ns name = Inr data \<Longrightarrow> wf_map data"
    and "\<And>ns name data. getConfigMap r ns name = Inr data \<Longrightarrow> wf_map data"
    and "yamlUnmarshal r bindYAML = Inr b"
  shows "case Resolve r bindYAML ns of
      Inl err \<Rightarrow> \<nexists>envs creds. resolvable r ns b envs creds
    | Inr out \<Rightarrow> \<exists>envs creds. resolvable r ns b envs creds \<and>
        map_of (ro_Credentials out) = foldl (++) Map.empty (map map_of envs) ++ map_of creds"
proof -
  have wf: "wf_map envs" if "getCredFromAllRefValues r ns v = Inr envs" for v envs
    using that assms(1,2) by (auto simp: getCredFromAllRefValues_def getSecretAllValues_def getConfigMapAllValues_def
        split: option.splits sum.splits)
  have from_eq: "case resolveFrom r ns (y_CredentialFrom b) [] of
      Inl err \<Rightarrow> \<nexists>envs. map (getCredFromAllRefValues r ns) (y_CredentialFrom b) = map Inr envs
    | Inr c' \<Rightarrow> \<exists>envs. map (getCredFromAllRefValues r ns) (y_CredentialFrom b) = map Inr envs \<and>
        map_of c' = foldl (++) (map_of []) (map map_of envs)"
    by (rule resolveFrom_eq) (rule wf)
  note cred_eq = resolveCred_eq [of "[]" r ns "y_Credential b"]
  have res: "resolvable r ns b envs creds \<longleftrightarrow>
      map (getCredFromAllRefValues r ns) (y_CredentialFrom b) = map Inr envs \<and>
      (\<exists>xs. credentials_ok r ns (y_Credential b) [] xs \<and> creds = named (y_Credential b) xs)" for envs creds
    by (auto simp: resolvable_def credentials_ok_def)
  show ?thesis
  proof (cases "resolveFrom r ns (y_CredentialFrom b) []")
    case (Inl err)
    with from_eq assms(3) show ?thesis by (simp add: Resolve_def res)
  next
    case credFrom: (Inr credFrom)
    show ?thesis
    proof (cases "resolveCred r ns (y_Credential b) []")
      case (Inl err)
      with cred_eq credFrom assms(3) show ?thesis by (simp add: Resolve_def res)
    next
      case (Inr cred)
      with cred_eq obtain xs where xs: "credentials_ok r ns (y_Credential b) [] xs" "wf_map cred"
        "map_of cred = map_of (named (y_Credential b) xs)" by auto
      from credFrom from_eq obtain envs where "map (getCredFromAllRefValues r ns) (y_CredentialFrom b) = map Inr envs"
        "map_of credFrom = foldl (++) Map.empty (map map_of envs)" by auto
      with Inr credFrom assms(3) xs map_of_setAll [OF xs(2)] show ?thesis
        by (auto simp: Resolve_def res)
    qed
  qed
qed

definition example_resolver :: Resolver where
  "example_resolver = \<lparr>
     yamlUnmarshal = \<lambda>y. Inr \<lparr>y_Credential =
       [\<lparr>cv_Name = ''USER'', cv_Value = ''admin'', cv_ValueFrom = None\<rparr>,
        \<lparr>cv_Name = ''PASSWORD'', cv_Value = '''', cv_ValueFrom = Some \<lparr>cvs_ConfigMapKeyRef = None,
           cvs_SecretKeyRef = Some \<lparr>ks_Name = ''redis'', ks_Key = ''password''\<rparr>, cvs_ServiceRef = None\<rparr>\<rparr>],
       y_CredentialFrom = [\<lparr>cfs_ConfigMapRef = Some ''cm'', cfs_SecretRef = None\<rparr>,
         \<lparr>cfs_ConfigMapRef = None, cfs_SecretRef = Some ''redis''\<rparr>]\<rparr>,
     getSecret = \<lambda>ns n. if n = ''redis'' then Inr [(''password'', ''s3cret''), (''PORT'', ''6379'')]
       else Inl (StatusError ApiNotFound ''not found''),
     getConfigMap = \<lambda>ns n. if n = ''cm'' then Inr [(''PORT'', ''80''), (''USER'', ''guest'')]
       else Inl (StatusError ApiNotFound ''not found''),
     getService = \<lambda>ns n. Inl (StatusError ApiNotFound ''not found''),
     jsonpathParse = \<lambda>p. None, jsonpathExecute = \<lambda>p j. Inr ''''\<rparr>"

definition example_bind :: YAML where
  "example_bind = projr (yamlUnmarshal example_resolver ''bind'')"

theorem Resolve_correct_witness:
  "\<exists>out envs creds. Resolve example_resolver ''bind'' ''stage'' = Inr out \<and>
     resolvable example_resolver ''stage'' example_bind envs creds \<and> map_of (ro_Credentials out) =
     [''PORT'' \<mapsto> ''6379'', ''password'' \<mapsto> ''s3cret'', ''USER'' \<mapsto> ''admin'', ''PASSWORD'' \<mapsto> ''s3cret'']"
proof -
  have run: "Resolve example_resolver ''bind'' ''stage'' = Inr \<lparr>ro_Credentials =
      [(''PORT'', ''6379''), (''USER'', ''admin''), (''password'', ''s3cret''), (''PASSWORD'', ''s3cret'')]\<rparr>"
    by (simp add: Resolve_def example_resolver_def getCredFromAllRefValues_def getConfigMapAllValues_def
        getSecretAllValues_def getCredVarKeyRefValue_def getSecretKeyValue_def credentials_Insert_def
        credentials_Set_def brackets_def)
  have wf: "getSecret example_resolver ns n = Inr d \<Longrightarrow> wf_map d" "getConfigMap example_resolver ns n = Inr d \<Longrightarrow> wf_map d"
    for ns n d by (auto simp: example_resolver_def split: if_splits)
  have y: "yamlUnmarshal example_resolver ''bind'' = Inr example_bind"
    by (simp add: example_bind_def) (simp add: example_resolver_def)
  have "case Resolve example_resolver ''bind'' ''stage'' of
      Inl err \<Rightarrow> \<nexists>envs creds. resolvable example_resolver ''stage'' example_bind envs creds
    | Inr out \<Rightarrow> \<exists>envs creds. resolvable example_resolver ''stage'' example_bind envs creds \<and>
        map_of (ro_Credentials out) = foldl (++) Map.empty (map map_of envs) ++ map_of creds"
    by (rule Resolve_correct) (rule wf y, assumption?)+
  then obtain envs creds where res: "resolvable example_resolver ''stage'' example_bind envs creds"
    unfolding run by auto
  show ?thesis by (intro exI conjI, rule run, rule res) (auto simp: fun_eq_iff)
qed

section \<open>Rendering\<close>

text \<open>
  The template is added to the templates of the chart, in place: the result is the rendered text
  and the chart as the caller has it afterwards. \<open>toRenderValues\<close> and \<open>engineRender\<close> are Helm's.
\<close>

record ReleaseOptions =
  rop_Name :: string
  rop_Namespace :: string
  rop_Revision :: int
  rop_IsInstall :: bool

record Renderer =
  toRenderValuesCaps :: "Chart \<Rightarrow> jobject \<Rightarrow> ReleaseOptions \<Rightarrow> jobject result"
  renderEngine :: "Chart \<Rightarrow> jobject \<Rightarrow> (string, string) gomap result"

definition bindFile :: string where
  "bindFile = ''bindTmpl''"

definition createReleaseOptions :: "Instance \<Rightarrow> ReleaseOptions" where
  "createReleaseOptions i =
     \<lparr>rop_Name = in_ReleaseName i, rop_Namespace = in_Namespace i, rop_Revision = ri_Revision (in_ReleaseInfo i),
      rop_IsInstall = True\<rparr>"

fun addTemplate :: "string \<Rightarrow> Chart \<Rightarrow> Chart" where
  "addTemplate tmpl (Chart md ts ds) = Chart md (ts @ [(bindFile, tmpl)]) ds"

text \<open>\<open>None\<close> is the dereference of absent metadata.\<close>

definition Render ::
  "Renderer \<Rightarrow> AddonPlanBindTemplate \<Rightarrow> Instance \<Rightarrow> Chart \<Rightarrow> string result option \<times> Chart" where
  "Render r bindTemplate inst ch =
     (case toRenderValuesCaps r ch (ri_ConfigValues (in_ReleaseInfo inst)) (createReleaseOptions inst) of
        Inl err \<Rightarrow> (Some (Inl (Wrapped err ''while merging values to render'')), ch)
      | Inr vals \<Rightarrow>
          (let ch1 = addTemplate (case bindTemplate of None \<Rightarrow> '''' | Some t \<Rightarrow> t) ch in
           case renderEngine r ch1 vals of
             Inl err \<Rightarrow> (Some (Inl (Wrapped err ''while rendering files'')), ch1)
           | Inr files \<Rightarrow>
               (case ch_Metadata ch1 of
                  None \<Rightarrow> (None, ch1)
                | Some md \<Rightarrow>
                    (case map_of files (cm_Name md @ ''/'' @ bindFile) of
                       None \<Rightarrow> (Some (Inl (ErrorString (bindFile @ '' file was not resolved after rendering''))), ch1)
                     | Some rendered \<Rightarrow> (Some (Inr rendered), ch1)))))"

text \<open>Every rendering leaves one more template in the chart it was given.\<close>

lemma Render_adds_template:
  assumes "Render r t inst ch = (Some (Inr out), ch')"
  shows "length (ch_Templates ch') = Suc (length (ch_Templates ch)) \<and> fst (last (ch_Templates ch')) = bindFile"
proof -
  from assms have "ch' = addTemplate (case t of None \<Rightarrow> '''' | Some t \<Rightarrow> t) ch"
    by (auto simp: Render_def Let_def split: sum.splits option.splits)
  then show ?thesis by (cases ch) simp
qed

end
