(* ===== verification/AddonForm.thy ===== *)
theory AddonForm
  imports Model
begin

text \<open>
  The form of an addon as its files describe it, its validation and its conversion to the model,
  \<open>internal/addon/form.go\<close>. The parser of versions is a parameter.
\<close>

section \<open>Data\<close>

record FormMeta =
  fm_ID :: string
  fm_Name :: string
  fm_Version :: string
  fm_Description :: string
  fm_DisplayName :: string
  fm_Tags :: string
  fm_ProviderDisplayName :: string
  fm_LongDescription :: string
  fm_DocumentationURL :: string
  fm_SupportURL :: string
  fm_ImageURL :: string
  fm_Bindable :: bool
  fm_ProvisionOnlyOnce :: bool
  fm_Labels :: "(string, string) gomap"
  fm_Requires :: "string list"
  fm_BindingsRetrievable :: bool
  fm_PlanUpdatable :: "bool option"

record DocsMeta =
  dm_Docs :: "AddonDocs list"

record formPlanMeta =
  fpm_ID :: string
  fpm_Name :: string
  fpm_Description :: string
  fpm_DisplayName :: string
  fpm_Bindable :: "bool option"
  fpm_Free :: "bool option"

record formPlan =
  fp_Meta :: "formPlanMeta option"
  fp_SchemasCreate :: "PlanSchema option"
  fp_SchemasBind :: "PlanSchema option"
  fp_SchemasUpdate :: "PlanSchema option"
  fp_Values :: jobject
  fp_BindTemplate :: "string option"

definition EmptyFormPlan :: formPlan where
  "EmptyFormPlan = \<lparr>fp_Meta = None, fp_SchemasCreate = None, fp_SchemasBind = None, fp_SchemasUpdate = None,
     fp_Values = [], fp_BindTemplate = None\<rparr>"

record form =
  f_Meta :: "FormMeta option"
  f_DocsMeta :: "DocsMeta option"
  f_Plans :: "(string, formPlan) gomap"

definition addonMetaName :: string where [go_consts]: "addonMetaName = ''meta.yaml''"
definition addonPlanMetaName :: string where [go_consts]: "addonPlanMetaName = ''meta.yaml''"
definition addonPlanBindTemplateFileName :: string where [go_consts]: "addonPlanBindTemplateFileName = ''bind.yaml''"

section \<open>Validation\<close>

definition missing :: "string \<Rightarrow> string \<Rightarrow> string list" where
  "missing v name = (if v = '''' then [''missing '' @ name @ '' field''] else [])"

definition joinMessages :: "string list \<Rightarrow> error option" where
  "joinMessages messages = (if length messages > 0 then Some (ErrorString (strJoin messages '', '')) else None)"

definition FormMeta_Validate :: "FormMeta \<Rightarrow> error option" where
  "FormMeta_Validate m = joinMessages
     (missing (fm_ID m) ''ID'' @ missing (fm_Name m) ''Name'' @ missing (fm_Version m) ''Version'' @
      missing (fm_Description m) ''Description'' @ missing (fm_DisplayName m) ''displayName'')"

definition DocsMeta_Validate :: "DocsMeta \<Rightarrow> error option" where
  "DocsMeta_Validate m = joinMessages
     (if length (dm_Docs m) \<noteq> 1 then [''docs array should have at most one entry''] else [])"

definition formPlanMeta_Validate :: "formPlanMeta \<Rightarrow> error option" where
  "formPlanMeta_Validate f = joinMessages
     (missing (fpm_ID f) ''ID'' @ missing (fpm_Name f) ''Name'' @ missing (fpm_Description f) ''Description'' @
      missing (fpm_DisplayName f) ''displayName'')"

definition formPlan_Validate :: "formPlan \<Rightarrow> error option" where
  "formPlan_Validate p =
     (case fp_Meta p of
        None \<Rightarrow> Some (ErrorString (''missing metadata information about plan. Please check if plan contains '' @
                   goQuote addonPlanMetaName @ '' file''))
      | Some m \<Rightarrow>
          if fpm_Bindable m = Some True \<and> fp_BindTemplate p = None
          then Some (ErrorString (''plans is marked as bindable but '' @ addonPlanBindTemplateFileName @
                 '' file was not found in plan '' @ fpm_Name m))
          else (case formPlanMeta_Validate m of
                  Some err \<Rightarrow> Some (Wrapped err ''while validating plan meta'')
                | None \<Rightarrow> None))"

fun planMessages :: "(string, formPlan) gomap \<Rightarrow> string list" where
  "planMessages [] = []"
| "planMessages ((name, plan) # ps) =
     (case formPlan_Validate plan of
        Some err \<Rightarrow> [''while validating '' @ goQuote name @ '' plan: '' @ Error err]
      | None \<Rightarrow> []) @ planMessages ps"

definition form_Validate :: "form \<Rightarrow> error option" where
  "form_Validate f = joinMessages
     ((if f_Meta f = None
       then [''missing metadata information about addon. Please check if addon contains '' @ goQuote addonMetaName @ '' file'']
       else []) @
      (if length (f_Plans f) = 0 then [''addon does not contains any plans''] else []) @
      planMessages (f_Plans f) @
      (case f_Meta f of
         None \<Rightarrow> []
       | Some m \<Rightarrow> (case FormMeta_Validate m of
           Some err \<Rightarrow> [''while validating addon meta: '' @ Error err] | None \<Rightarrow> [])) @
      (case f_DocsMeta f of
         None \<Rightarrow> []
       | Some m \<Rightarrow> (case DocsMeta_Validate m of
           Some err \<Rightarrow> [''while validating addon docs meta: '' @ Error err] | None \<Rightarrow> [])))"

section \<open>Conversion\<close>

fun labelsLoop :: "(string, string) gomap \<Rightarrow> Labels \<Rightarrow> Labels" where
  "labelsLoop [] mapped = mapped"
| "labelsLoop ((k, v) # ls) mapped = labelsLoop ls (AList.update k v mapped)"

definition MapLabelsToModel :: "FormMeta \<Rightarrow> Labels" where
  "MapLabelsToModel m = labelsLoop (fm_Labels m) []"

text \<open>\<open>strings.TrimSpace\<close> on the spaces of one byte.\<close>

definition spaces :: string where
  "spaces = [CHR 0x09, CHR 0x0A, CHR 0x0B, CHR 0x0C, CHR 0x0D, CHR 0x20]"

definition MapTagsToModel :: "FormMeta \<Rightarrow> AddonTag list" where
  "MapTagsToModel m = map (\<lambda>t. strTrim t spaces) (strSplit (CHR '','') (fm_Tags m))"

definition schemaEntry ::
  "PlanSchemaType \<Rightarrow> PlanSchema option \<Rightarrow> (PlanSchemaType, PlanSchema) gomap \<Rightarrow> (PlanSchemaType, PlanSchema) gomap" where
  "schemaEntry t s m = (case s of None \<Rightarrow> m | Some x \<Rightarrow> AList.update t x m)"

text \<open>\<open>None\<close> is the dereference of absent metadata of the plan, which validation excludes.\<close>

definition formPlan_ToModel ::
  "(string \<Rightarrow> Version result) \<Rightarrow> formPlan \<Rightarrow> Chart option \<Rightarrow> AddonPlan result option" where
  "formPlan_ToModel sv p arg =
     (case arg of
        None \<Rightarrow> Some (Inl (ErrorString ''missing input param chart''))
      | Some c \<Rightarrow>
          (case ch_Metadata c of
             None \<Rightarrow> Some (Inl (ErrorString ''missing Metadata field in input param chart''))
           | Some md \<Rightarrow>
               (case sv (cm_Version md) of
                  Inl err \<Rightarrow> Some (Inl (Wrapped err ''while converting chart string version to semver type''))
                | Inr cVer \<Rightarrow>
                    (case fp_Meta p of
                       None \<Rightarrow> None
                     | Some m \<Rightarrow>
                         Some (Inr \<lparr>pl_ID = fpm_ID m, pl_Name = fpm_Name m, pl_Description = fpm_Description m,
                           pl_Schemas = schemaEntry SchemaTypeBind (fp_SchemasBind p)
                             (schemaEntry SchemaTypeProvision (fp_SchemasCreate p)
                               (schemaEntry SchemaTypeUpdate (fp_SchemasUpdate p) [])),
                           pl_ChartRef = \<lparr>cr_Name = cm_Name md, cr_Version = cVer\<rparr>,
                           pl_ChartValues = fp_Values p, pl_Metadata = \<lparr>pm_DisplayName = fpm_DisplayName m\<rparr>,
                           pl_Bindable = fpm_Bindable m, pl_Free = fpm_Free m,
                           pl_BindTemplate = fp_BindTemplate p\<rparr>)))))"

fun mapPlans ::
  "(string \<Rightarrow> Version result) \<Rightarrow> Chart option \<Rightarrow> (string, formPlan) gomap \<Rightarrow> (AddonPlanID, AddonPlan) gomap
    \<Rightarrow> (AddonPlanID, AddonPlan) gomap result option" where
  "mapPlans sv c [] mapped = Some (Inr mapped)"
| "mapPlans sv c ((name, plan) # ps) mapped =
     (case formPlan_ToModel sv plan c of
        None \<Rightarrow> None
      | Some (Inl err) \<Rightarrow> Some (Inl (Wrapped err (''while mapping to model '' @ goQuote name @ '' plan'')))
      | Some (Inr p) \<Rightarrow> mapPlans sv c ps (AList.update (pl_ID p) p mapped))"

definition form_ToModel ::
  "(string \<Rightarrow> Version result) \<Rightarrow> form \<Rightarrow> Chart option \<Rightarrow> Addon result option" where
  "form_ToModel sv f c =
     (case f_Meta f of
        None \<Rightarrow> None
      | Some m \<Rightarrow>
          (case sv (fm_Version m) of
             Inl err \<Rightarrow> Some (Inl (Wrapped err ''while converting form string version to semver type''))
           | Inr ybVer \<Rightarrow>
               (case mapPlans sv c (f_Plans f) [] of
                  None \<Rightarrow> None
                | Some (Inl err) \<Rightarrow> Some (Inl err)
                | Some (Inr mappedPlans) \<Rightarrow>
                    Some (Inr \<lparr>ad_ID = fm_ID m, ad_Name = fm_Name m, ad_Version = ybVer,
                      ad_Description = fm_Description m, ad_Plans = mappedPlans,
                      ad_Metadata = \<lparr>am_DisplayName = fm_DisplayName m,
                        am_ProviderDisplayName = fm_ProviderDisplayName m, am_LongDescription = fm_LongDescription m,
                        am_DocumentationURL = fm_DocumentationURL m, am_SupportURL = fm_SupportURL m,
                        am_ProvisionOnlyOnce = fm_ProvisionOnlyOnce m, am_ImageURL = fm_ImageURL m,
                        am_Labels = Some (MapLabelsToModel m)\<rparr>,
                      ad_RepositoryURL = '''', ad_Tags = MapTagsToModel m, ad_Requires = fm_Requires m,
                      ad_Bindable = fm_Bindable m, ad_BindingsRetrievable = fm_BindingsRetrievable m,
                      ad_PlanUpdatable = fm_PlanUpdatable m,
                      ad_Docs = (case f_DocsMeta f of None \<Rightarrow> [] | Some d \<Rightarrow> dm_Docs d),
                      ad_Status = AddonStatusUnset, ad_Reason = AddonReasonUnset, ad_Message = '''',
                      ad_SecretRef = \<lparr>sr_Name = '''', sr_Namespace = ''''\<rparr>\<rparr>))))"

section \<open>Valid forms\<close>

definition plan_valid :: "formPlan \<Rightarrow> bool" where
  "plan_valid p \<longleftrightarrow> (\<exists>m. fp_Meta p = Some m \<and> (fpm_Bindable m = Some True \<longrightarrow> fp_BindTemplate p \<noteq> None) \<and>
     fpm_ID m \<noteq> '''' \<and> fpm_Name m \<noteq> '''' \<and> fpm_Description m \<noteq> '''' \<and> fpm_DisplayName m \<noteq> '''')"

definition form_valid :: "form \<Rightarrow> bool" where
  "form_valid f \<longleftrightarrow> (\<exists>m. f_Meta f = Some m \<and> fm_ID m \<noteq> '''' \<and> fm_Name m \<noteq> '''' \<and> fm_Version m \<noteq> '''' \<and>
     fm_Description m \<noteq> '''' \<and> fm_DisplayName m \<noteq> '''') \<and>
     f_Plans f \<noteq> [] \<and> (\<forall>(name, p) \<in> set (f_Plans f). plan_valid p) \<and>
     (\<forall>d. f_DocsMeta f = Some d \<longrightarrow> length (dm_Docs d) = 1)"

lemma joinMessages_None [simp]: "joinMessages ms = None \<longleftrightarrow> ms = []"
  by (simp add: joinMessages_def)

lemma missing_Nil [simp]: "missing v name = [] \<longleftrightarrow> v \<noteq> ''''"
  by (simp add: missing_def)

lemma formPlanMeta_Validate_iff:
  "formPlanMeta_Validate m = None \<longleftrightarrow>
     fpm_ID m \<noteq> '''' \<and> fpm_Name m \<noteq> '''' \<and> fpm_Description m \<noteq> '''' \<and> fpm_DisplayName m \<noteq> ''''"
  by (simp add: formPlanMeta_Validate_def)

lemma FormMeta_Validate_iff:
  "FormMeta_Validate m = None \<longleftrightarrow> fm_ID m \<noteq> '''' \<and> fm_Name m \<noteq> '''' \<and> fm_Version m \<noteq> '''' \<and>
     fm_Description m \<noteq> '''' \<and> fm_DisplayName m \<noteq> ''''"
  by (simp add: FormMeta_Validate_def)

lemma DocsMeta_Validate_iff: "DocsMeta_Validate m = None \<longleftrightarrow> length (dm_Docs m) = 1"
  by (simp add: DocsMeta_Validate_def)

lemma message_Nil [simp]: "(case x of Some err \<Rightarrow> [g err] | None \<Rightarrow> []) = [] \<longleftrightarrow> x = None"
  by (cases x) simp_all

lemma formPlan_Validate_iff: "formPlan_Validate p = None \<longleftrightarrow> plan_valid p"
proof (cases "fp_Meta p")
  case (Some m)
  then show ?thesis
    by (cases "formPlanMeta_Validate m") (auto simp: formPlan_Validate_def plan_valid_def formPlanMeta_Validate_iff [symmetric])
qed (simp add: formPlan_Validate_def plan_valid_def)

lemma planMessages_Nil: "planMessages ps = [] \<longleftrightarrow> (\<forall>(name, p) \<in> set ps. plan_valid p)"
  by (induction ps rule: planMessages.induct) (simp_all add: formPlan_Validate_iff)

lemma form_Validate_iff: "form_Validate f = None \<longleftrightarrow> form_valid f"
  by (cases "f_Meta f"; cases "f_DocsMeta f")
    (auto simp: form_Validate_def form_valid_def planMessages_Nil FormMeta_Validate_iff DocsMeta_Validate_iff)

section \<open>Well-formed addons\<close>

text \<open>
  What the rest of the program takes for granted of an addon: it is named and described, it has
  plans, each plan is stored under its identifier, names the chart of the addon, and has a bind
  template when it is bindable by itself.
\<close>

definition plan_wf :: "Chart \<Rightarrow> AddonPlan \<Rightarrow> bool" where
  "plan_wf c p \<longleftrightarrow> pl_ID p \<noteq> '''' \<and> pl_Name p \<noteq> '''' \<and> pl_Description p \<noteq> '''' \<and>
     (pl_Bindable p = Some True \<longrightarrow> pl_BindTemplate p \<noteq> None) \<and>
     (\<exists>md. ch_Metadata c = Some md \<and> cr_Name (pl_ChartRef p) = cm_Name md) \<and>
     wf_map (pl_Schemas p) \<and> set (keys (pl_Schemas p)) \<subseteq> {SchemaTypeBind, SchemaTypeProvision, SchemaTypeUpdate}"

definition addon_wf :: "Chart \<Rightarrow> Addon \<Rightarrow> bool" where
  "addon_wf c a \<longleftrightarrow> ad_ID a \<noteq> '''' \<and> ad_Name a \<noteq> '''' \<and> ad_Description a \<noteq> '''' \<and> ad_Plans a \<noteq> [] \<and>
     wf_map (ad_Plans a) \<and> (\<forall>(k, p) \<in> set (ad_Plans a). pl_ID p = k \<and> plan_wf c p) \<and>
     (\<exists>ls. am_Labels (ad_Metadata a) = Some ls \<and> wf_map ls) \<and> length (ad_Docs a) \<le> 1"

lemma labelsLoop_wf: "wf_map m \<Longrightarrow> wf_map (labelsLoop ls m)"
  by (induction ls m rule: labelsLoop.induct) auto

lemma schemaEntry_wf: "wf_map m \<Longrightarrow> wf_map (schemaEntry t s m)"
  by (simp add: schemaEntry_def split: option.splits)

lemma keys_schemaEntry:
  "set (keys m) \<subseteq> S \<Longrightarrow> t \<in> S \<Longrightarrow> set (keys (schemaEntry t s m)) \<subseteq> S"
  by (auto simp: schemaEntry_def update_conv' dom_map_of_conv_image_fst [symmetric] split: option.splits)

lemma formPlan_ToModel_wf:
  assumes "plan_valid p" "formPlan_ToModel sv p (Some c) = Some (Inr q)"
  shows "plan_wf c q"
proof -
  let ?s = "\<lambda>p. schemaEntry SchemaTypeBind (fp_SchemasBind p) (schemaEntry SchemaTypeProvision (fp_SchemasCreate p)
    (schemaEntry SchemaTypeUpdate (fp_SchemasUpdate p) []))"
  have keys: "set (keys (?s p)) \<subseteq> {SchemaTypeBind, SchemaTypeProvision, SchemaTypeUpdate}"
    by (intro keys_schemaEntry) simp_all
  have "pl_Schemas q = ?s p" using assms(2) by (auto simp: formPlan_ToModel_def split: option.splits sum.splits)
  with keys have "wf_map (pl_Schemas q)" "set (keys (pl_Schemas q)) \<subseteq> {SchemaTypeBind, SchemaTypeProvision, SchemaTypeUpdate}"
    by (simp_all add: schemaEntry_wf)
  moreover have "pl_ID q \<noteq> '''' \<and> pl_Name q \<noteq> '''' \<and> pl_Description q \<noteq> '''' \<and>
      (pl_Bindable q = Some True \<longrightarrow> pl_BindTemplate q \<noteq> None) \<and>
      (\<exists>md. ch_Metadata c = Some md \<and> cr_Name (pl_ChartRef q) = cm_Name md)"
    using assms by (auto simp: plan_valid_def formPlan_ToModel_def split: option.splits sum.splits)
  ultimately show ?thesis unfolding plan_wf_def by blast
qed

lemma mapPlans_Cons:
  assumes "mapPlans sv c ((name, plan) # ps) m = Some (Inr m')"
  obtains p where "formPlan_ToModel sv plan c = Some (Inr p)"
    "mapPlans sv c ps (AList.update (pl_ID p) p m) = Some (Inr m')"
  using assms by (auto split: option.splits sum.splits)

definition plans_wf :: "Chart \<Rightarrow> (AddonPlanID, AddonPlan) gomap \<Rightarrow> bool" where
  "plans_wf c m \<longleftrightarrow> wf_map m \<and> (\<forall>(k, p) \<in> set m. pl_ID p = k \<and> plan_wf c p)"

lemma plans_wf_update: "plans_wf c m \<Longrightarrow> plan_wf c p \<Longrightarrow> plans_wf c (AList.update (pl_ID p) p m)"
  unfolding plans_wf_def by (auto simp: in_update_iff split: if_splits)

lemma mapPlans_wf:
  assumes "\<forall>(name, p) \<in> set ps. plan_valid p" "mapPlans sv (Some c) ps m = Some (Inr m')" "plans_wf c m"
  shows "plans_wf c m' \<and> (ps \<noteq> [] \<or> m \<noteq> [] \<longrightarrow> m' \<noteq> [])"
  using assms
proof (induction ps arbitrary: m)
  case (Cons np ps)
  obtain name plan where np: "np = (name, plan)" by fastforce
  from Cons.prems(2) [unfolded np] obtain p where p: "formPlan_ToModel sv plan (Some c) = Some (Inr p)"
    "mapPlans sv (Some c) ps (AList.update (pl_ID p) p m) = Some (Inr m')" by (rule mapPlans_Cons)
  from Cons.prems(1) np have "plan_valid plan" "\<forall>(name, p) \<in> set ps. plan_valid p" by simp_all
  moreover from this p(1) Cons.prems(3) have "plans_wf c (AList.update (pl_ID p) p m)"
    by (blast intro: plans_wf_update formPlan_ToModel_wf)
  ultimately show ?case using Cons.IH [OF _ p(2)] by (simp add: update_nonempty)
qed simp

lemma form_ToModel_wf:
  assumes "form_valid f" "form_ToModel sv f (Some c) = Some (Inr a)"
  shows "addon_wf c a"
proof -
  from assms(1) obtain m where m: "f_Meta f = Some m" "fm_ID m \<noteq> ''''" "fm_Name m \<noteq> ''''" "fm_Description m \<noteq> ''''"
    and f: "f_Plans f \<noteq> []" "\<forall>(name, p) \<in> set (f_Plans f). plan_valid p"
      "\<forall>d. f_DocsMeta f = Some d \<longrightarrow> length (dm_Docs d) = 1" unfolding form_valid_def by blast
  from assms(2) m(1) obtain v plans where v: "sv (fm_Version m) = Inr v"
    and plans: "mapPlans sv (Some c) (f_Plans f) [] = Some (Inr plans)"
    by (auto simp: form_ToModel_def split: option.splits sum.splits)
  from mapPlans_wf [OF f(2) plans] f(1)
  have "wf_map plans" "\<forall>(k, p) \<in> set plans. pl_ID p = k \<and> plan_wf c p" "plans \<noteq> []"
    by (simp_all add: plans_wf_def)
  with assms(2) m v plans f(3) labelsLoop_wf show ?thesis
    by (auto simp: form_ToModel_def addon_wf_def MapLabelsToModel_def split: option.splits)
qed

text \<open>A valid form never makes the conversion dereference absent metadata.\<close>

lemma formPlan_ToModel_no_panic: "plan_valid p \<Longrightarrow> formPlan_ToModel sv p c \<noteq> None"
  by (auto simp: plan_valid_def formPlan_ToModel_def split: option.splits sum.splits)

lemma mapPlans_no_panic:
  "\<forall>(name, p) \<in> set ps. plan_valid p \<Longrightarrow> mapPlans sv c ps m \<noteq> None"
proof (induction sv c ps m rule: mapPlans.induct)
  case (2 sv c name plan ps m)
  then obtain r where "formPlan_ToModel sv plan c = Some r" using formPlan_ToModel_no_panic [of plan sv c] by auto
  with 2 show ?case by (cases r) auto
qed simp

lemma form_ToModel_no_panic:
  assumes "form_valid f"
  shows "form_ToModel sv f c \<noteq> None"
proof -
  from assms obtain m where m: "f_Meta f = Some m" by (auto simp: form_valid_def)
  from assms mapPlans_no_panic [of "f_Plans f" sv c "[]"] obtain r where "mapPlans sv c (f_Plans f) [] = Some r"
    by (auto simp: form_valid_def)
  with m show ?thesis by (cases r; cases "sv (fm_Version m)") (simp_all add: form_ToModel_def)
qed

end
