(* ===== verification/FileSystem.thy ===== *)
theory FileSystem
  imports Prelude "HOL-Library.Sublist" "HOL-Library.List_Lexorder" "HOL-Library.Char_ord"
begin

text \<open>
  The part of Go's packages \<open>path\<close>, \<open>path/filepath\<close>, \<open>os\<close> and \<open>io/ioutil\<close> that the program uses, over
  a file system without links: a map from the segments of a path to a directory or a file. A
  call may also fail for a reason of its own (permissions, a full disk), which \<open>fs_fault\<close> decides.
\<close>

section \<open>Paths\<close>

text \<open>\<open>Clean\<close>: empty and dot segments are dropped, and a double dot removes the segment before it.\<close>

definition pathSegments :: "string \<Rightarrow> string list" where
  "pathSegments p = filter (\<lambda>s. s \<noteq> '''' \<and> s \<noteq> ''.'') (strSplit (CHR ''/'') p)"

fun cleanSegments :: "bool \<Rightarrow> string list \<Rightarrow> string list \<Rightarrow> string list" where
  "cleanSegments rooted out [] = rev out"
| "cleanSegments rooted out (s # ss) =
     (if s = ''..''
      then (case out of
              [] \<Rightarrow> cleanSegments rooted (if rooted then [] else [''..'']) ss
            | x # xs \<Rightarrow> cleanSegments rooted (if x = ''..'' then s # out else xs) ss)
      else cleanSegments rooted (s # out) ss)"

definition rooted :: "string \<Rightarrow> bool" where
  "rooted p \<longleftrightarrow> strHasPrefix p ''/''"

definition pathClean :: "string \<Rightarrow> string" where
  "pathClean p =
     (let segs = cleanSegments (rooted p) [] (pathSegments p) in
      if rooted p then ''/'' @ strJoin segs ''/''
      else if segs = [] then ''.'' else strJoin segs ''/'')"

definition pathJoin :: "string list \<Rightarrow> string" where
  "pathJoin elems =
     (let es = filter (\<lambda>e. e \<noteq> '''') elems in if es = [] then '''' else pathClean (strJoin es ''/''))"

definition pathBase :: "string \<Rightarrow> string" where
  "pathBase p =
     (if p = '''' then ''.''
      else let q = strTrimRight p ''/'' in
           if q = '''' then ''/'' else last (strSplit (CHR ''/'') q))"

section \<open>The file system\<close>

datatype fnode = FDir | FFile string

record filesys =
  fs_cwd :: string
  fs_nodes :: "(string list, fnode) gomap"
  fs_fault :: "string list \<Rightarrow> error option"

definition pathAbs :: "filesys \<Rightarrow> string \<Rightarrow> string" where
  "pathAbs fs p = (if rooted p then pathClean p else pathJoin [fs_cwd fs, p])"

text \<open>The place of a path in the tree; the root is its empty list.\<close>

definition locate :: "filesys \<Rightarrow> string \<Rightarrow> string list" where
  "locate fs p = pathSegments (pathAbs fs p)"

definition nodeAt :: "filesys \<Rightarrow> string list \<Rightarrow> fnode option" where
  "nodeAt fs k = (if k = [] then Some FDir else map_of (fs_nodes fs) k)"

definition throughFile :: "filesys \<Rightarrow> string list \<Rightarrow> bool" where
  "throughFile fs k \<longleftrightarrow>
     list_ex (\<lambda>q. case nodeAt fs q of Some (FFile c) \<Rightarrow> True | _ \<Rightarrow> False) (butlast (prefixes k))"

definition notDirectory :: "string \<Rightarrow> error" where
  "notDirectory p = ErrorString (p @ '': not a directory'')"

definition isDirectory :: "string \<Rightarrow> error" where
  "isDirectory p = ErrorString (p @ '': is a directory'')"

definition IsNotExist :: "error \<Rightarrow> bool" where
  "IsNotExist e \<longleftrightarrow> (case e of PathNotExist p \<Rightarrow> True | _ \<Rightarrow> False)"

definition Stat :: "filesys \<Rightarrow> string \<Rightarrow> fnode result" where
  "Stat fs p =
     (let k = locate fs p in
      case fs_fault fs k of
        Some err \<Rightarrow> Inl err
      | None \<Rightarrow>
          if throughFile fs k then Inl (notDirectory p)
          else (case nodeAt fs k of None \<Rightarrow> Inl (PathNotExist p) | Some n \<Rightarrow> Inr n))"

definition ReadFile :: "filesys \<Rightarrow> string \<Rightarrow> string result" where
  "ReadFile fs p =
     (case Stat fs p of
        Inl err \<Rightarrow> Inl err
      | Inr FDir \<Rightarrow> Inl (isDirectory p)
      | Inr (FFile c) \<Rightarrow> Inr c)"

text \<open>The entries of a directory, by name, with whether they are directories.\<close>

definition children :: "filesys \<Rightarrow> string list \<Rightarrow> (string \<times> bool) list" where
  "children fs k = sort_key fst
     (map (\<lambda>(q, n). (last q, n = FDir)) (filter (\<lambda>(q, n). q \<noteq> [] \<and> butlast q = k) (fs_nodes fs)))"

definition ReadDir :: "filesys \<Rightarrow> string \<Rightarrow> (string \<times> bool) list result" where
  "ReadDir fs p =
     (case Stat fs p of
        Inl err \<Rightarrow> Inl err
      | Inr (FFile c) \<Rightarrow> Inl (notDirectory p)
      | Inr FDir \<Rightarrow> Inr (children fs (locate fs p)))"

definition putNode :: "string list \<Rightarrow> fnode \<Rightarrow> filesys \<Rightarrow> filesys" where
  "putNode k n fs = fs\<lparr>fs_nodes := AList.update k n (fs_nodes fs)\<rparr>"

text \<open>\<open>MkdirAll\<close> makes the missing directories from the root on.\<close>

fun mkdirs :: "string \<Rightarrow> string list list \<Rightarrow> filesys \<Rightarrow> error option \<times> filesys" where
  "mkdirs p [] fs = (None, fs)"
| "mkdirs p (k # ks) fs =
     (case nodeAt fs k of
        Some FDir \<Rightarrow> mkdirs p ks fs
      | Some (FFile c) \<Rightarrow> (Some (notDirectory p), fs)
      | None \<Rightarrow>
          (case fs_fault fs k of
             Some err \<Rightarrow> (Some err, fs)
           | None \<Rightarrow> mkdirs p ks (putNode k FDir fs)))"

definition MkdirAll :: "string \<Rightarrow> filesys \<Rightarrow> error option \<times> filesys" where
  "MkdirAll p fs = mkdirs p (prefixes (locate fs p)) fs"

text \<open>
  Opening a file with \<open>O_CREATE|O_RDWR\<close> and copying to it: an existing file is written over from its
  start and not truncated. The copy ends with an error when its source does.
\<close>

definition writeOver :: "string \<Rightarrow> string \<Rightarrow> string" where
  "writeOver old new = new @ drop (length new) old"

definition OpenAndCopy :: "string \<Rightarrow> string \<Rightarrow> error option \<Rightarrow> filesys \<Rightarrow> error option \<times> filesys" where
  "OpenAndCopy p new srcErr fs =
     (let k = locate fs p in
      case fs_fault fs k of
        Some err \<Rightarrow> (Some err, fs)
      | None \<Rightarrow>
          if throughFile fs k then (Some (notDirectory p), fs)
          else (case nodeAt fs k of
                  Some FDir \<Rightarrow> (Some (isDirectory p), fs)
                | Some (FFile old) \<Rightarrow> (srcErr, putNode k (FFile (writeOver old new)) fs)
                | None \<Rightarrow>
                    if nodeAt fs (butlast k) = None then (Some (PathNotExist p), fs)
                    else (srcErr, putNode k (FFile new) fs)))"

text \<open>\<open>os.Create\<close>, and opening with \<open>O_WRONLY|O_CREATE|O_TRUNC\<close>, make a file or truncate it.\<close>

definition createTrunc :: "string \<Rightarrow> filesys \<Rightarrow> error option \<times> filesys" where
  "createTrunc p fs =
     (case OpenAndCopy p '''' None fs of
        (Some err, fs1) \<Rightarrow> (Some err, fs1)
      | (None, fs1) \<Rightarrow> (None, putNode (locate fs1 p) (FFile '''') fs1))"

text \<open>\<open>RemoveAll\<close> removes a path and everything below it, and is silent when there is nothing.\<close>

definition RemoveAll :: "string \<Rightarrow> filesys \<Rightarrow> error option \<times> filesys" where
  "RemoveAll p fs =
     (let k = locate fs p in
      case fs_fault fs k of
        Some err \<Rightarrow> (Some err, fs)
      | None \<Rightarrow> (None, fs\<lparr>fs_nodes := filter (\<lambda>(q, n). \<not> prefix k q) (fs_nodes fs)\<rparr>))"

text \<open>\<open>Remove\<close> removes a file or an empty directory.\<close>

definition Remove :: "string \<Rightarrow> filesys \<Rightarrow> error option \<times> filesys" where
  "Remove p fs =
     (case Stat fs p of
        Inl err \<Rightarrow> (Some err, fs)
      | Inr n \<Rightarrow>
          if n = FDir \<and> children fs (locate fs p) \<noteq> [] then (Some (ErrorString (p @ '': directory not empty'')), fs)
          else (None, fs\<lparr>fs_nodes := AList.delete (locate fs p) (fs_nodes fs)\<rparr>))"

text \<open>\<open>Open\<close> for reading, with what reading everything then returns; a directory can be opened and not read.\<close>

definition Open :: "filesys \<Rightarrow> string \<Rightarrow> string result result" where
  "Open fs p =
     (case Stat fs p of
        Inl err \<Rightarrow> Inl err
      | Inr FDir \<Rightarrow> Inr (Inl (isDirectory p))
      | Inr (FFile c) \<Rightarrow> Inr (Inr c))"

section \<open>Paths that stay below a directory\<close>

lemma strSplit_append: "strSplit c (a @ c # b) = strSplit c a @ strSplit c b"
proof (induction a)
  case (Cons x a)
  obtain p ps where "strSplit c a = p # ps" by (cases "strSplit c a") auto
  with Cons show ?case by simp
qed simp

lemma strSplit_none: "c \<notin> set s \<Longrightarrow> strSplit c s = [s]"
  by (induction s) auto

lemma pathSegments_append: "pathSegments (a @ ''/'' @ b) = pathSegments a @ pathSegments b"
  by (simp add: pathSegments_def strSplit_append)

definition segment :: "string \<Rightarrow> bool" where
  "segment s \<longleftrightarrow> s \<noteq> '''' \<and> s \<noteq> ''.'' \<and> CHR ''/'' \<notin> set s"

lemma segment_pathSegments: "s \<in> set (pathSegments p) \<Longrightarrow> segment s"
  by (auto simp: pathSegments_def segment_def dest: strSplit_no_sep)

lemma pathSegments_Nil [simp]: "pathSegments '''' = []"
  by (simp add: pathSegments_def)

lemma pathSegments_segment: "segment s \<Longrightarrow> pathSegments s = [s]"
  by (simp add: pathSegments_def segment_def strSplit_none)

lemma pathSegments_strJoin: "\<forall>s \<in> set segs. segment s \<Longrightarrow> pathSegments (strJoin segs ''/'') = segs"
  by (induction segs "''/''" rule: strJoin.induct)
    (simp_all add: pathSegments_segment pathSegments_append [simplified])

lemma cleanSegments_segment:
  "\<forall>s \<in> set out \<union> set ss. segment s \<Longrightarrow> s \<in> set (cleanSegments r out ss) \<Longrightarrow> segment s"
proof (induction r out ss rule: cleanSegments.induct)
  case (2 r out s ss)
  have "segment ''..''" by (simp add: segment_def)
  with 2 show ?case by (auto split: if_splits list.splits)
qed auto

lemma cleanSegments_append:
  "''..'' \<notin> set b \<Longrightarrow> cleanSegments r out (a @ b) = cleanSegments r out a @ b"
proof (induction r out a rule: cleanSegments.induct)
  case (1 r out)
  then show ?case
  proof (induction b arbitrary: out)
    case (Cons s b)
    from Cons.prems have "s \<noteq> ''..''" "''..'' \<notin> set b" by auto
    with Cons.IH [of "s # out"] show ?case by simp
  qed simp
qed (auto split: list.splits)

lemma cleanSegments_rooted_no_dots: "''..'' \<notin> set out \<Longrightarrow> ''..'' \<notin> set (cleanSegments True out ss)"
  by (induction True out ss rule: cleanSegments.induct) (auto split: list.splits if_splits)

lemma pathSegments_pathClean:
  assumes "rooted p"
  shows "pathSegments (pathClean p) = cleanSegments True [] (pathSegments p)"
proof -
  have "\<forall>s \<in> set (cleanSegments True [] (pathSegments p)). segment s"
    by (metis UnE cleanSegments_segment empty_iff empty_set segment_pathSegments)
  from pathSegments_strJoin [OF this] have "pathSegments (''/'' @ strJoin (cleanSegments True [] (pathSegments p)) ''/'')
      = cleanSegments True [] (pathSegments p)"
    using pathSegments_append [of "''''"] by simp
  with assms show ?thesis by (simp add: pathClean_def Let_def)
qed

lemma rooted_append: "rooted p \<Longrightarrow> rooted (p @ q)"
  by (auto simp: rooted_def strHasPrefix_iff)

lemma rooted_pathClean [simp]: "rooted p \<Longrightarrow> rooted (pathClean p)"
  by (simp add: pathClean_def Let_def) (simp add: rooted_def)

lemma cleanSegments_id: "''..'' \<notin> set ss \<Longrightarrow> cleanSegments True [] ss = ss"
  using cleanSegments_append [of ss True "[]" "[]"] by simp

lemma locate_rooted: "rooted p \<Longrightarrow> locate fs p = cleanSegments True [] (pathSegments p)"
  by (simp add: locate_def pathAbs_def pathSegments_pathClean)

lemma locate_pathClean: "rooted p \<Longrightarrow> locate fs (pathClean p) = locate fs p"
  by (simp add: locate_rooted pathSegments_pathClean cleanSegments_id cleanSegments_rooted_no_dots)

lemma last_strSplit_append: "c \<notin> set b \<Longrightarrow> last (strSplit c (a @ c # b)) = b"
  by (simp add: strSplit_append strSplit_none)

lemma strTrimRight_keep: "s \<noteq> [] \<Longrightarrow> last s \<notin> set cs \<Longrightarrow> strTrimRight s cs = s"
  by (cases s rule: rev_cases) (simp_all add: strTrimRight_def)

lemma pathBase_append:
  assumes "CHR ''/'' \<notin> set name" "name \<noteq> ''''" "dir = '''' \<or> last dir = CHR ''/''"
  shows "pathBase (dir @ name) = name"
proof -
  have "last name \<noteq> CHR ''/''" using assms(1,2) last_in_set by metis
  then have trim: "strTrimRight (dir @ name) ''/'' = dir @ name" using assms(2) by (intro strTrimRight_keep) auto
  have "last (strSplit (CHR ''/'') (dir @ name)) = name"
  proof (cases dir rule: rev_cases)
    case (snoc d x)
    with assms show ?thesis by (simp add: last_strSplit_append)
  qed (use assms(1) in \<open>simp add: strSplit_none\<close>)
  with trim assms(2) show ?thesis by (simp add: pathBase_def Let_def)
qed

text \<open>A name without double dots stays below the directory it is joined to.\<close>

lemma locate_pathJoin:
  assumes "rooted dir" "''..'' \<notin> set (pathSegments name)"
  shows "locate fs (pathJoin [dir, name]) = locate fs dir @ pathSegments name"
proof -
  have "dir \<noteq> ''''" using assms(1) by (auto simp: rooted_def)
  then have "pathJoin [dir, name] = pathClean (if name = '''' then dir else dir @ ''/'' @ name)"
    by (simp add: pathJoin_def)
  moreover have "rooted (dir @ ''/'' @ name)" using assms(1) by (rule rooted_append)
  ultimately have "locate fs (pathJoin [dir, name]) = locate fs (if name = '''' then dir else dir @ ''/'' @ name)"
    using assms(1) by (simp add: locate_pathClean)
  with assms \<open>rooted (dir @ ''/'' @ name)\<close> show ?thesis
    by (simp add: locate_rooted pathSegments_append [simplified] cleanSegments_append)
qed

section \<open>What the calls keep\<close>

text \<open>Two file systems agree outside of a directory.\<close>

definition same_outside :: "string list \<Rightarrow> filesys \<Rightarrow> filesys \<Rightarrow> bool" where
  "same_outside d fs fs' \<longleftrightarrow> fs_cwd fs' = fs_cwd fs \<and> fs_fault fs' = fs_fault fs \<and>
     (\<forall>k. \<not> prefix d k \<longrightarrow> map_of (fs_nodes fs') k = map_of (fs_nodes fs) k)"

lemma same_outside_refl [simp]: "same_outside d fs fs"
  by (simp add: same_outside_def)

lemma same_outside_trans [trans]: "same_outside d a b \<Longrightarrow> same_outside d b c \<Longrightarrow> same_outside d a c"
  by (simp add: same_outside_def)

lemma same_outside_put: "prefix d k \<Longrightarrow> same_outside d fs (putNode k n fs)"
  by (auto simp: same_outside_def putNode_def)

lemma locate_same: "same_outside d fs fs' \<Longrightarrow> locate fs' p = locate fs p"
  by (simp add: same_outside_def locate_def pathAbs_def)

lemma nodeAt_put [simp]: "k \<noteq> [] \<Longrightarrow> nodeAt (putNode k n fs) q = (if q = k then Some n else nodeAt fs q)"
  by (simp add: nodeAt_def putNode_def)

text \<open>Directories above \<open>d\<close> exist, so that making a path below \<open>d\<close> creates nothing outside of it.\<close>

definition parents_exist :: "string list \<Rightarrow> filesys \<Rightarrow> bool" where
  "parents_exist d fs \<longleftrightarrow> (\<forall>k. strict_prefix k d \<longrightarrow> nodeAt fs k = Some FDir)"

lemma same_outside_parents:
  assumes "same_outside d fs fs'" "parents_exist d fs"
  shows "parents_exist d fs'"
proof -
  have "nodeAt fs' k = nodeAt fs k" if "strict_prefix k d" for k
  proof -
    from that have "\<not> prefix d k" by (auto dest: prefix_order.leD)
    with assms(1) show ?thesis by (simp add: same_outside_def nodeAt_def)
  qed
  with assms(2) show ?thesis by (simp add: parents_exist_def)
qed

lemma mkdirs_same_outside:
  assumes "parents_exist d fs" "\<forall>k \<in> set ks. prefix k d \<or> prefix d k"
  shows "same_outside d fs (snd (mkdirs p ks fs))"
  using assms
proof (induction p ks fs rule: mkdirs.induct)
  case (2 p k ks fs)
  show ?case
  proof (cases "nodeAt fs k")
    case None
    with 2(3,4) have d: "prefix d k" by (auto simp: parents_exist_def strict_prefix_def)
    note put = same_outside_put [OF this, of fs FDir]
    have "same_outside d fs (snd (mkdirs p ks (putNode k FDir fs)))" if "fs_fault fs k = None"
      using 2(1) [OF None that] 2(3,4) put same_outside_parents [OF put] same_outside_trans [OF put] by simp
    with None show ?thesis by (simp split: option.splits)
  next
    case (Some n)
    with 2 show ?thesis by (cases n) simp_all
  qed
qed simp

lemma MkdirAll_same_outside:
  assumes "parents_exist d fs" "prefix d (locate fs p)"
  shows "same_outside d fs (snd (MkdirAll p fs))"
  unfolding MkdirAll_def using assms
  by (intro mkdirs_same_outside) (auto dest: prefix_same_cases)

lemma OpenAndCopy_same_outside:
  "prefix d (locate fs p) \<Longrightarrow> same_outside d fs (snd (OpenAndCopy p new e fs))"
  by (auto simp: OpenAndCopy_def Let_def intro: same_outside_put split: option.splits fnode.splits)

lemma set_update_subset: "set (AList.update k v m) \<subseteq> insert (k, v) (set m)"
  by (induction m) auto

lemma map_of_filter_key: "map_of (filter (\<lambda>(q, n). P q) m) k = (if P k then map_of m k else None)"
  by (induction m) auto

lemma RemoveAll_nodes:
  assumes "fs_fault fs (locate fs p) = None"
  shows "map_of (fs_nodes (snd (RemoveAll p fs))) k =
    (if prefix (locate fs p) k then None else map_of (fs_nodes fs) k)"
  using assms by (simp add: RemoveAll_def Let_def map_of_filter_key)

text \<open>No call turns a directory into a file, and only \<open>RemoveAll\<close> removes one.\<close>

lemma mkdirs_keeps_dir: "nodeAt fs q = Some FDir \<Longrightarrow> nodeAt (snd (mkdirs p ks fs)) q = Some FDir"
proof (induction p ks fs rule: mkdirs.induct)
  case (2 p k ks fs)
  then have "k \<noteq> []" if "nodeAt fs k = None" using that by (auto simp: nodeAt_def)
  with 2 show ?case by (auto split: option.splits fnode.splits)
qed simp

lemma MkdirAll_keeps_dir: "nodeAt fs q = Some FDir \<Longrightarrow> nodeAt (snd (MkdirAll p fs)) q = Some FDir"
  by (simp add: MkdirAll_def mkdirs_keeps_dir)

lemma OpenAndCopy_keeps_dir:
  assumes "nodeAt fs q = Some FDir"
  shows "nodeAt (snd (OpenAndCopy p new e fs)) q = Some FDir"
proof -
  have "locate fs p \<noteq> []" if "nodeAt fs (locate fs p) \<noteq> Some FDir" using that by (auto simp: nodeAt_def)
  with assms show ?thesis by (auto simp: OpenAndCopy_def Let_def split: option.splits fnode.splits)
qed

end
