(* ===== verification/AddonLoader.thy ===== *)
theory AddonLoader
  imports AddonForm FileSystem
begin

text \<open>
  The loader of addons, \<open>internal/addon/loader.go\<close>: unpacking an archive to a temporary directory,
  reading an addon from its directory, and converting it. Parameters: the chart loader of Helm, the
  name of a temporary directory, the YAML and JSON parsers of the typed targets and the parser of
  versions. An archive is the sequence of what \<open>tar.Reader.Next\<close> returns on it, with the content of each entry;
  the mode of a created file is not kept.
\<close>

section \<open>Data\<close>

definition addonChartDirName :: string where [go_consts]: "addonChartDirName = ''chart''"
definition addonDocsMetaPath :: string where [go_consts]: "addonDocsMetaPath = ''docs/meta.yaml''"
definition addonPlanDirName :: string where [go_consts]: "addonPlanDirName = ''plans''"
definition addonPlaSchemaCreateJSONName :: string where [go_consts]:
  "addonPlaSchemaCreateJSONName = ''create-instance-schema.json''"
definition addonPlanSchemaBindJSONName :: string where [go_consts]:
  "addonPlanSchemaBindJSONName = ''bind-instance-schema.json''"
definition addonPlanSchemaUpdateJSONName :: string where [go_consts]:
  "addonPlanSchemaUpdateJSONName = ''update-instance-schema.json''"
definition addonPlanValuesFileName :: string where [go_consts]: "addonPlanValuesFileName = ''values.yaml''"

definition maxSchemaLength :: nat where
  "maxSchemaLength = 65536"

record Loader =
  ld_tmpDir :: string
  ld_loadChart :: "filesys \<Rightarrow> string \<Rightarrow> Chart result"
  ld_createTmpDir :: "string \<Rightarrow> string \<Rightarrow> filesys \<Rightarrow> string result \<times> filesys"
  ld_newVersion :: "string \<Rightarrow> Version result"
  ld_yamlMeta :: "string \<Rightarrow> FormMeta option result"
  ld_yamlDocs :: "string \<Rightarrow> DocsMeta option result"
  ld_yamlPlanMeta :: "string \<Rightarrow> formPlanMeta option result"
  ld_yamlValues :: "string \<Rightarrow> jobject result"
  ld_jsonSchema :: "string \<Rightarrow> PlanSchema result"

datatype typeflag = TypeDir | TypeReg | TypeOther

record Header =
  hd_Name :: string
  hd_Typeflag :: typeflag
  hd_Mode :: int
  hd_Content :: string
  hd_Err :: "error option"

datatype archive = TarEOF | TarErr error | TarNext Header archive

text \<open>The reader of the compressed stream refuses it, or there is an archive to read.\<close>

type_synonym tgz = "archive result"

section \<open>Reading an addon\<close>

definition loader_yamlUnmarshal ::
  "filesys \<Rightarrow> string \<Rightarrow> string \<Rightarrow> (string \<Rightarrow> 'a result) \<Rightarrow> 'a \<Rightarrow> bool \<Rightarrow> 'a result" where
  "loader_yamlUnmarshal fs basePath fileName parse unmarshalTo required =
     (case ReadFile fs (pathJoin [basePath, fileName]) of
        Inl err \<Rightarrow>
          if IsNotExist err \<and> \<not> required then Inr unmarshalTo
          else if IsNotExist err \<and> required then Inl (ErrorString (goQuote fileName @ '' is required but is not present''))
          else Inl err
      | Inr b \<Rightarrow> parse b)"

definition loadPlanSchema ::
  "Loader \<Rightarrow> filesys \<Rightarrow> string \<Rightarrow> string \<Rightarrow> bool \<Rightarrow> PlanSchema option result" where
  "loadPlanSchema l fs basePath fileName required =
     (case ReadFile fs (pathJoin [basePath, fileName]) of
        Inl err \<Rightarrow>
          if IsNotExist err \<and> \<not> required then Inr None
          else if IsNotExist err \<and> required then Inl (ErrorString (goQuote fileName @ '' is required but is not present''))
          else Inl (Wrapped err ''while loading plan schema'')
      | Inr b \<Rightarrow>
          if length b \<ge> maxSchemaLength then Inl (ErrorString (''schema '' @ fileName @ '' is larger than 64 kB''))
          else (case ld_jsonSchema l b of
                  Inl err \<Rightarrow> Inl (Wrapped err ''while loading plan shcema'')
                | Inr schema \<Rightarrow> Inr (Some schema)))"

definition loadRaw :: "filesys \<Rightarrow> string \<Rightarrow> string \<Rightarrow> bool \<Rightarrow> string option result" where
  "loadRaw fs basePath fileName required =
     (case ReadFile fs (pathJoin [basePath, fileName]) of
        Inl err \<Rightarrow>
          if IsNotExist err \<and> \<not> required then Inr None
          else if IsNotExist err \<and> required then Inl (ErrorString (goQuote fileName @ '' is required but is not present''))
          else Inl err
      | Inr b \<Rightarrow> Inr (Some b))"

definition unmarshalPlanErr :: "error \<Rightarrow> string \<Rightarrow> error" where
  "unmarshalPlanErr err filename = Wrapped err (''while unmarshaling plan '' @ goQuote filename @ '' file'')"

definition loadPlanDefinition :: "Loader \<Rightarrow> filesys \<Rightarrow> string \<Rightarrow> formPlan \<Rightarrow> formPlan result" where
  "loadPlanDefinition l fs path plan =
     (let topdir = pathAbs fs path in
      case loader_yamlUnmarshal fs topdir addonPlanMetaName (ld_yamlPlanMeta l) (fp_Meta plan) True of
        Inl err \<Rightarrow> Inl (unmarshalPlanErr err addonPlanMetaName)
      | Inr meta \<Rightarrow>
     (case loader_yamlUnmarshal fs topdir addonPlanValuesFileName (ld_yamlValues l) (fp_Values plan) False of
        Inl err \<Rightarrow> Inl (unmarshalPlanErr err addonPlanValuesFileName)
      | Inr vals \<Rightarrow>
     (case loadPlanSchema l fs topdir addonPlaSchemaCreateJSONName False of
        Inl err \<Rightarrow> Inl (unmarshalPlanErr err addonPlaSchemaCreateJSONName)
      | Inr sCreate \<Rightarrow>
     (case loadPlanSchema l fs topdir addonPlanSchemaBindJSONName False of
        Inl err \<Rightarrow> Inl (unmarshalPlanErr err addonPlanSchemaBindJSONName)
      | Inr sBind \<Rightarrow>
     (case loadPlanSchema l fs topdir addonPlanSchemaUpdateJSONName False of
        Inl err \<Rightarrow> Inl (unmarshalPlanErr err addonPlanSchemaUpdateJSONName)
      | Inr sUpdate \<Rightarrow>
     (case loadRaw fs topdir addonPlanBindTemplateFileName False of
        Inl err \<Rightarrow> Inl (Wrapped err (''while loading plan '' @ goQuote addonPlanBindTemplateFileName @ '' file''))
      | Inr tmpl \<Rightarrow>
          Inr \<lparr>fp_Meta = meta, fp_SchemasCreate = sCreate, fp_SchemasBind = sBind, fp_SchemasUpdate = sUpdate,
               fp_Values = vals, fp_BindTemplate = tmpl\<rparr>))))))"

fun loadPlans ::
  "Loader \<Rightarrow> filesys \<Rightarrow> string \<Rightarrow> (string \<times> bool) list \<Rightarrow> (string, formPlan) gomap
    \<Rightarrow> (string, formPlan) gomap result" where
  "loadPlans l fs plansPath [] plans = Inr plans"
| "loadPlans l fs plansPath ((planName, isDir) # files) plans =
     (if isDir
      then (case loadPlanDefinition l fs (pathJoin [plansPath, planName]) EmptyFormPlan of
              Inl err \<Rightarrow> Inl err
            | Inr plan \<Rightarrow> loadPlans l fs plansPath files (AList.update planName plan plans))
      else loadPlans l fs plansPath files plans)"

definition createFormFromAddonDir :: "Loader \<Rightarrow> filesys \<Rightarrow> string \<Rightarrow> form result" where
  "createFormFromAddonDir l fs baseDir =
     (case ReadFile fs (pathJoin [baseDir, addonMetaName]) of
        Inl err \<Rightarrow>
          if IsNotExist err
          then Inl (ErrorString (''missing metadata information about addon, please check if addon contains '' @
                 goQuote addonMetaName @ '' file''))
          else Inl (Wrapped err (''while reading '' @ goQuote addonMetaName @ '' file''))
      | Inr addonMetaFile \<Rightarrow>
     (case ld_yamlMeta l addonMetaFile of
        Inl err \<Rightarrow> Inl (Wrapped err (''while unmarshaling addon '' @ goQuote addonMetaName @ '' file''))
      | Inr meta \<Rightarrow>
     (case (case ReadFile fs (pathJoin [baseDir, addonDocsMetaPath]) of
              Inl err \<Rightarrow> if \<not> IsNotExist err then Inl err else Inr ''''
            | Inr b \<Rightarrow> Inr b) of
        Inl err \<Rightarrow> Inl (Wrapped err (''while reading '' @ goQuote addonDocsMetaPath @ '' file''))
      | Inr addonDocsFile \<Rightarrow>
     (case ld_yamlDocs l addonDocsFile of
        Inl err \<Rightarrow> Inl (Wrapped err (''while unmarshaling addon '' @ goQuote addonDocsMetaPath @ '' file''))
      | Inr docs \<Rightarrow>
     (let plansPath = pathJoin [baseDir, addonPlanDirName] in
      case ReadDir fs plansPath of
        Inl err \<Rightarrow>
          if IsNotExist err
          then Inl (ErrorString (''addon does not contains any plans, please check if addon contains '' @
                 goQuote addonPlanDirName @ '' directory''))
          else Inl (Wrapped err (''while reading '' @ goQuote addonMetaName @ '' file''))
      | Inr files \<Rightarrow>
     (case loadPlans l fs plansPath files [] of
        Inl err \<Rightarrow> Inl err
      | Inr plans \<Rightarrow> Inr \<lparr>f_Meta = meta, f_DocsMeta = docs, f_Plans = plans\<rparr>))))))"

definition splitForDirectoriesAndFiles :: "(string \<times> bool) list \<Rightarrow> string list \<times> string list" where
  "splitForDirectoriesAndFiles rawFiles =
     (map fst (filter snd rawFiles), map fst (filter (\<lambda>f. \<not> snd f) rawFiles))"

definition discoverPathToHelmChart :: "filesys \<Rightarrow> string \<Rightarrow> string result" where
  "discoverPathToHelmChart fs baseDir =
     (let cDir = pathJoin [baseDir, addonChartDirName] in
      case ReadDir fs cDir of
        Inl err \<Rightarrow>
          if IsNotExist err
          then Inl (ErrorString (''addon does not contains '' @ goQuote addonChartDirName @ '' directory''))
          else Inl (Wrapped err (''while reading directory '' @ cDir))
      | Inr rawFiles \<Rightarrow>
          (let directories = fst (splitForDirectoriesAndFiles rawFiles) in
           if length directories = 0
           then Inl (ErrorString (goQuote addonChartDirName @ '' directory SHOULD contain one Helm Chart folder but it'' @
                  [CHR 0x27] @ ''s empty''))
           else if length directories > 1
           then Inl (ErrorString (goQuote addonChartDirName @
                  '' directory MUST contain only one Helm Chart folder but found multiple directories: ['' @
                  strJoin directories '', '' @ '']''))
           else Inr (pathJoin [cDir, directories ! 0])))"

definition loadChartFromDir :: "Loader \<Rightarrow> filesys \<Rightarrow> string \<Rightarrow> Chart result" where
  "loadChartFromDir l fs baseDir =
     (case discoverPathToHelmChart fs baseDir of
        Inl err \<Rightarrow> Inl (Wrapped err (''while discovering the name of the Helm Chart under the '' @
                     goQuote addonChartDirName @ '' addon directory''))
      | Inr chartPath \<Rightarrow>
          (case ld_loadChart l fs chartPath of
             Inl err \<Rightarrow>
               if IsNotExist err then Inl (ErrorString (''addon does not contains '' @ goQuote ''chart'' @ '' directory''))
               else Inl (Wrapped err ''while loading chart'')
           | Inr c \<Rightarrow> Inr c))"

text \<open>\<open>None\<close> is a dereference of an absent value.\<close>

definition loadDir :: "Loader \<Rightarrow> filesys \<Rightarrow> string \<Rightarrow> (Addon \<times> Chart list) result option" where
  "loadDir l fs path =
     (case loadChartFromDir l fs path of
        Inl err \<Rightarrow> Some (Inl (Wrapped err ''while loading chart''))
      | Inr c \<Rightarrow>
          (case createFormFromAddonDir l fs path of
             Inl err \<Rightarrow> Some (Inl (Wrapped err ''while mapping buffered files to form''))
           | Inr f \<Rightarrow>
               (case form_Validate f of
                  Some err \<Rightarrow> Some (Inl (Wrapped err ''while validating form''))
                | None \<Rightarrow>
                    (case form_ToModel (ld_newVersion l) f (Some c) of
                       None \<Rightarrow> None
                     | Some (Inl err) \<Rightarrow> Some (Inl (Wrapped err ''while mapping form to model''))
                     | Some (Inr yb) \<Rightarrow> Some (Inr (yb, [c]))))))"

definition LoadDir :: "Loader \<Rightarrow> filesys \<Rightarrow> string \<Rightarrow> (Addon \<times> Chart list) result option" where
  "LoadDir l fs path = loadDir l fs path"

section \<open>Unpacking\<close>

definition createFile :: "string \<Rightarrow> Header \<Rightarrow> filesys \<Rightarrow> error option \<times> filesys" where
  "createFile target h fs = OpenAndCopy target (hd_Content h) (hd_Err h) fs"

definition unpackEntry :: "string \<Rightarrow> Header \<Rightarrow> filesys \<Rightarrow> error option \<times> filesys" where
  "unpackEntry dir h fs =
     (let target = pathJoin [dir, hd_Name h] in
      case hd_Typeflag h of
        TypeDir \<Rightarrow>
          (case Stat fs target of
             Inl err \<Rightarrow> if IsNotExist err then MkdirAll target fs else (None, fs)
           | Inr n \<Rightarrow> (None, fs))
      | TypeReg \<Rightarrow> createFile target h fs
      | TypeOther \<Rightarrow> (None, fs))"

fun unpack :: "string \<Rightarrow> archive \<Rightarrow> filesys \<Rightarrow> error option \<times> filesys" where
  "unpack dir TarEOF fs = (None, fs)"
| "unpack dir (TarErr err) fs = (Some err, fs)"
| "unpack dir (TarNext h rest) fs =
     (case unpackEntry dir h fs of
        (Some err, fs1) \<Rightarrow> (Some err, fs1)
      | (None, fs1) \<Rightarrow> unpack dir rest fs1)"

definition unpackArchive :: "Loader \<Rightarrow> string \<Rightarrow> tgz \<Rightarrow> filesys \<Rightarrow> string result \<times> filesys" where
  "unpackArchive l baseDir arg fs =
     (case ld_createTmpDir l baseDir ''unpacked-addon'' fs of
        (Inl err, fs1) \<Rightarrow> (Inl err, fs1)
      | (Inr dir, fs1) \<Rightarrow>
          (case arg of
             Inl err \<Rightarrow> (Inl err, fs1)
           | Inr ar \<Rightarrow>
               (case unpack dir ar fs1 of
                  (Some err, fs2) \<Rightarrow> (Inl err, fs2)
                | (None, fs2) \<Rightarrow> (Inr dir, fs2))))"

definition Load :: "Loader \<Rightarrow> tgz \<Rightarrow> filesys \<Rightarrow> (Addon \<times> Chart list) result option \<times> filesys" where
  "Load l arg fs =
     (case unpackArchive l (ld_tmpDir l) arg fs of
        (Inl err, fs1) \<Rightarrow> (Some (Inl err), fs1)
      | (Inr unpackedDir, fs1) \<Rightarrow>
          (loadDir l fs1 unpackedDir,
           if strHasPrefix (pathClean unpackedDir) (ld_tmpDir l) then snd (RemoveAll unpackedDir fs1) else fs1))"

section \<open>What unpacking does to the file system\<close>

fun headers :: "archive \<Rightarrow> Header list" where
  "headers (TarNext h rest) = h # headers rest"
| "headers _ = []"

definition tidy_name :: "Header \<Rightarrow> bool" where
  "tidy_name h \<longleftrightarrow> ''..'' \<notin> set (pathSegments (hd_Name h))"

lemma unpackEntry_same_outside:
  assumes "rooted dir" "tidy_name h" "parents_exist (locate fs dir) fs"
  shows "same_outside (locate fs dir) fs (snd (unpackEntry dir h fs))"
proof -
  have "prefix (locate fs dir) (locate fs (pathJoin [dir, hd_Name h]))"
    using assms(1,2) by (simp add: tidy_name_def locate_pathJoin)
  then show ?thesis using assms(3)
    by (auto simp: unpackEntry_def createFile_def Let_def MkdirAll_same_outside OpenAndCopy_same_outside
        split: typeflag.splits sum.splits)
qed

lemma unpack_same_outside:
  assumes "rooted dir" "list_all tidy_name (headers ar)" "parents_exist (locate fs dir) fs"
  shows "same_outside (locate fs dir) fs (snd (unpack dir ar fs))"
  using assms(2,3)
proof (induction ar arbitrary: fs)
  case (TarNext h rest)
  let ?fs1 = "snd (unpackEntry dir h fs)"
  from TarNext.prems assms(1) have step: "same_outside (locate fs dir) fs ?fs1"
    by (simp add: unpackEntry_same_outside)
  note eq = locate_same [OF step, of dir]
  from TarNext.IH [of ?fs1] TarNext.prems same_outside_parents [OF step]
  have "same_outside (locate fs dir) ?fs1 (snd (unpack dir rest ?fs1))" by (simp add: eq)
  with step show ?case by (auto split: prod.splits option.splits intro: same_outside_trans)
qed simp_all

lemma unpackEntry_keeps_dir:
  "nodeAt fs q = Some FDir \<Longrightarrow> nodeAt (snd (unpackEntry dir h fs)) q = Some FDir"
  by (auto simp: unpackEntry_def createFile_def Let_def MkdirAll_keeps_dir OpenAndCopy_keeps_dir
      split: typeflag.splits sum.splits)

lemma unpack_keeps_dir: "nodeAt fs q = Some FDir \<Longrightarrow> nodeAt (snd (unpack dir ar fs)) q = Some FDir"
proof (induction ar arbitrary: fs)
  case (TarNext h rest)
  from TarNext.IH [OF unpackEntry_keeps_dir [OF TarNext.prems], of dir h] unpackEntry_keeps_dir [OF TarNext.prems, of dir h]
  show ?case by (auto split: prod.splits option.splits)
qed simp_all

text \<open>What \<open>ioutil.TempDir\<close> promises: a new directory in an existing one, and nothing else.\<close>

definition makes_tmp_dir :: "Loader \<Rightarrow> filesys \<Rightarrow> string \<Rightarrow> bool" where
  "makes_tmp_dir l fs dir \<longleftrightarrow>
     ld_createTmpDir l (ld_tmpDir l) ''unpacked-addon'' fs = (Inr dir, putNode (locate fs dir) FDir fs) \<and>
     rooted dir \<and> locate fs dir \<noteq> [] \<and> parents_exist (locate fs dir) fs \<and>
     (\<forall>k \<in> set (keys (fs_nodes fs)). \<not> prefix (locate fs dir) k)"

lemma makes_tmp_dir_start:
  assumes "makes_tmp_dir l fs dir"
  defines "fs1 \<equiv> putNode (locate fs dir) FDir fs"
  shows "same_outside (locate fs dir) fs fs1" "locate fs1 dir = locate fs dir" "parents_exist (locate fs dir) fs1"
    "nodeAt fs1 (locate fs dir) = Some FDir"
proof -
  show same: "same_outside (locate fs dir) fs fs1" unfolding fs1_def by (simp add: same_outside_put)
  show "locate fs1 dir = locate fs dir" by (rule locate_same [OF same])
  show "parents_exist (locate fs dir) fs1"
    using assms same_outside_parents [OF same] by (simp add: makes_tmp_dir_def)
  show "nodeAt fs1 (locate fs dir) = Some FDir" using assms by (simp add: makes_tmp_dir_def)
qed


lemma loadDir_returns: "loadDir l fs path \<noteq> None"
  by (auto simp: loadDir_def form_Validate_iff split: sum.splits option.splits dest: form_ToModel_no_panic)

lemma loadDir_wf:
  assumes "loadDir l fs path = Some (Inr (a, cs))"
  shows "\<exists>c. loadChartFromDir l fs path = Inr c \<and> cs = [c] \<and> addon_wf c a"
  using assms form_ToModel_wf by (auto simp: loadDir_def form_Validate_iff split: sum.splits option.splits)

lemma loadDir_error: "loadDir l fs path = Some (Inl err) \<Longrightarrow> \<exists>e m. err = Wrapped e m"
  by (auto simp: loadDir_def split: sum.splits option.splits)

text \<open>
  C30. Loading a directory never dereferences an absent value, and what it returns is one chart,
  the one of the directory, and an addon that is well formed with it: named and described, with at least
  one plan, every plan stored under its own identifier, described, referring to the chart, with a bind
  template when it is marked as bindable, and with schemas of the three known kinds only.
\<close>

theorem loadDir_type:
  "case loadDir l fs path of
     None \<Rightarrow> False
   | Some (Inl err) \<Rightarrow> \<exists>e m. err = Wrapped e m
   | Some (Inr (a, cs)) \<Rightarrow> \<exists>c. loadChartFromDir l fs path = Inr c \<and> cs = [c] \<and> addon_wf c a"
proof (cases "loadDir l fs path")
  case None
  then show ?thesis using loadDir_returns by blast
next
  case (Some r)
  then show ?thesis using loadDir_wf loadDir_error by (cases r) auto
qed

section \<open>An example\<close>

definition example_loader :: Loader where
  "example_loader = \<lparr>ld_tmpDir = ''/tmp'',
     ld_loadChart = \<lambda>fs p. (case Stat fs p of
       Inl err \<Rightarrow> Inl err
     | Inr n \<Rightarrow> Inr (Chart (Some \<lparr>cm_Name = ''redis'', cm_Version = ''1.0.0''\<rparr>) [] [])),
     ld_createTmpDir = \<lambda>d p fs. let k = d @ ''/'' @ p @ ''1'' in (Inr k, putNode (locate fs k) FDir fs),
     ld_newVersion = \<lambda>v. Inr \<lparr>Original = v, String = v\<rparr>,
     ld_yamlMeta = \<lambda>b. Inr (Some \<lparr>fm_ID = ''id-1'', fm_Name = b, fm_Version = ''0.1.0'', fm_Description = ''d'',
       fm_DisplayName = ''n'', fm_Tags = ''db, cache'', fm_ProviderDisplayName = '''', fm_LongDescription = '''',
       fm_DocumentationURL = '''', fm_SupportURL = '''', fm_ImageURL = '''', fm_Bindable = True,
       fm_ProvisionOnlyOnce = False, fm_Labels = [], fm_Requires = [], fm_BindingsRetrievable = False,
       fm_PlanUpdatable = None\<rparr>),
     ld_yamlDocs = \<lambda>b. Inr None,
     ld_yamlPlanMeta = \<lambda>b. Inr (Some \<lparr>fpm_ID = b, fpm_Name = ''micro'', fpm_Description = ''d'', fpm_DisplayName = ''n'',
       fpm_Bindable = None, fpm_Free = None\<rparr>),
     ld_yamlValues = \<lambda>b. Inr [], ld_jsonSchema = \<lambda>b. Inl (ErrorString ''no JSON'')\<rparr>"

definition example_fs :: filesys where
  "example_fs = \<lparr>fs_cwd = ''/'', fs_nodes = [([''tmp''], FDir), ([''etc''], FDir), ([''etc'', ''passwd''], FFile ''root'')],
     fs_fault = \<lambda>k. None\<rparr>"

fun archiveOf :: "(string \<times> string option) list \<Rightarrow> archive" where
  "archiveOf [] = TarEOF"
| "archiveOf ((name, content) # es) = TarNext \<lparr>hd_Name = name,
     hd_Typeflag = (case content of None \<Rightarrow> TypeDir | Some _ \<Rightarrow> TypeReg), hd_Mode = 420,
     hd_Content = (case content of None \<Rightarrow> '''' | Some c \<Rightarrow> c), hd_Err = None\<rparr> (archiveOf es)"

definition example_archive :: archive where
  "example_archive = archiveOf [(''meta.yaml'', Some ''redis''), (''chart/redis/'', None), (''plans/micro/'', None),
     (''plans/micro/meta.yaml'', Some ''p-1''), (''plans/micro/bind.yaml'', Some ''credential:'')]"

lemma example_tmp_dir: "makes_tmp_dir example_loader example_fs ''/tmp/unpacked-addon1''"
proof -
  have loc: "locate example_fs ''/tmp/unpacked-addon1'' = [''tmp'', ''unpacked-addon1'']" by code_simp
  have "parents_exist [''tmp'', ''unpacked-addon1''] example_fs"
    by (auto simp: parents_exist_def strict_prefix_def prefix_Cons nodeAt_def example_fs_def)
  moreover have "ld_createTmpDir example_loader (ld_tmpDir example_loader) ''unpacked-addon'' example_fs =
      (Inr ''/tmp/unpacked-addon1'', putNode (locate example_fs ''/tmp/unpacked-addon1'') FDir example_fs)"
    by (simp add: example_loader_def Let_def)
  ultimately show ?thesis unfolding makes_tmp_dir_def loc
    by (simp add: example_fs_def rooted_def)
qed


theorem loadDir_type_witness:
  "\<exists>a c. fst (Load example_loader (Inr example_archive) example_fs) = Some (Inr (a, [c])) \<and> ad_Name a = ''redis'' \<and>
     addon_wf c a"
proof -
  let ?fs = "snd (unpackArchive example_loader (ld_tmpDir example_loader) (Inr example_archive) example_fs)"
  have un: "fst (unpackArchive example_loader (ld_tmpDir example_loader) (Inr example_archive) example_fs) =
      Inr ''/tmp/unpacked-addon1''" by code_simp
  have ok: "case loadDir example_loader ?fs ''/tmp/unpacked-addon1'' of
      Some (Inr (a, cs)) \<Rightarrow> ad_Name a = ''redis'' | _ \<Rightarrow> False" by code_simp
  have "fst (Load example_loader (Inr example_archive) example_fs) = loadDir example_loader ?fs ''/tmp/unpacked-addon1''"
    unfolding Load_def using un by (auto split: prod.splits sum.splits)
  with loadDir_type [of example_loader ?fs "''/tmp/unpacked-addon1''"] ok show ?thesis
    by (auto split: option.splits sum.splits prod.splits)
qed


end
