(* ===== verification/AddonErrors.thy ===== *)
theory AddonErrors
  imports Prelude
begin

text \<open>The kinds of errors of loading addons, \<open>internal/addon/errors.go\<close>.\<close>

section \<open>Kinds of addon errors\<close>

definition NewLoadingError :: "error \<Rightarrow> error" where
  "NewLoadingError err = AddonError LoadingErrorKind err"

definition NewFetchingError :: "error \<Rightarrow> error" where
  "NewFetchingError err = AddonError FetchingErrorKind err"

fun reasonForError :: "error \<Rightarrow> errorKind" where
  "reasonForError (AddonError k e) = k"
| "reasonForError _ = Unknown"

definition isKindError :: "error \<Rightarrow> errorKind \<Rightarrow> bool" where
  "isKindError err kind \<longleftrightarrow> reasonForError (Cause err) = kind"

definition IsLoadingError :: "error \<Rightarrow> bool" where
  "IsLoadingError err \<longleftrightarrow> isKindError err LoadingErrorKind"

definition IsFetchingError :: "error \<Rightarrow> bool" where
  "IsFetchingError err \<longleftrightarrow> isKindError err FetchingErrorKind"

text \<open>
  The kind of an addon error is found below the messages that were wrapped around it, and
  the two kinds exclude each other.
\<close>

theorem addon_error_kinds:
  "IsFetchingError (Wrapped (NewFetchingError e) m) \<and> IsLoadingError (Wrapped (NewLoadingError e) m) \<and>
   IsFetchingError (Wrapped e m) = IsFetchingError e \<and> IsLoadingError (Wrapped e m) = IsLoadingError e \<and>
   \<not> (IsFetchingError e \<and> IsLoadingError e) \<and> Error (NewFetchingError e) = Error e"
  by (auto simp: IsFetchingError_def IsLoadingError_def isKindError_def NewFetchingError_def
      NewLoadingError_def)

end
