(* ===== verification/Rafter.thy ===== *)
theory Rafter
  imports Prelude
begin

text \<open>
  The client of the upload service, \<open>internal/rafter/client.go\<close>. Parameters: the service
  itself (\<open>uc_do\<close>, by the body of its response) and the JSON parser of the response. The request is the URL and the
  single file of its form.
\<close>

record UploadedFile =
  uf_FileName :: string
  uf_RemotePath :: string
  uf_Bucket :: string
  uf_Size :: int

record ResponseError =
  re_Message :: string
  re_FileName :: string

record Response =
  rs_UploadedFiles :: "UploadedFile list"
  rs_Errors :: "ResponseError list"

record uploadRequest =
  ur_URL :: string
  ur_Field :: string
  ur_FileName :: string
  ur_Contents :: string

record uploadClient =
  uc_uploadServiceURL :: string
  uc_newRequest :: "string \<Rightarrow> error option"
  uc_do :: "uploadRequest \<Rightarrow> string result result"
  uc_json :: "string \<Rightarrow> Response result"

definition publicFileField :: string where [go_consts]:
  "publicFileField = ''public''"

definition prepareRequest :: "uploadClient \<Rightarrow> string \<Rightarrow> string \<Rightarrow> uploadRequest result" where
  "prepareRequest uc fileName contents =
     (let url = uc_uploadServiceURL uc @ ''/v1/upload'' in
      case uc_newRequest uc url of
        Some err \<Rightarrow> Inl (Wrapped err ''Failed to create request'')
      | None \<Rightarrow> Inr \<lparr>ur_URL = url, ur_Field = publicFileField, ur_FileName = fileName, ur_Contents = contents\<rparr>)"

definition executeRequest :: "uploadClient \<Rightarrow> uploadRequest \<Rightarrow> string result result" where
  "executeRequest uc r =
     (case uc_do uc r of
        Inl err \<Rightarrow> Inl (Wrapped err ''Failed to execute request.'')
      | Inr res \<Rightarrow> Inr res)"

definition unmarshalResponse :: "uploadClient \<Rightarrow> string result \<Rightarrow> Response result" where
  "unmarshalResponse uc body =
     (case body of
        Inl err \<Rightarrow> Inl (Wrapped err ''Failed to read request body'')
      | Inr b \<Rightarrow>
          (case uc_json uc b of
             Inl err \<Rightarrow> Inl (Wrapped err ''Failed to unmarshal body'')
           | Inr r \<Rightarrow> Inr r))"

definition uc_extract :: "string \<Rightarrow> Response \<Rightarrow> UploadedFile result" where
  "uc_extract fileName response =
     (if length (rs_UploadedFiles response) = 1 then Inr (rs_UploadedFiles response ! 0)
      else Inl (ErrorString (''Failed to extract '' @ fileName @ '' file from response.'')))"

definition Upload :: "uploadClient \<Rightarrow> string \<Rightarrow> string \<Rightarrow> UploadedFile result" where
  "Upload uc fileName contents =
     (case prepareRequest uc fileName contents of
        Inl err \<Rightarrow> Inl err
      | Inr req \<Rightarrow>
          (case executeRequest uc req of
             Inl err \<Rightarrow> Inl err
           | Inr httpRes \<Rightarrow>
               (case unmarshalResponse uc httpRes of
                  Inl err \<Rightarrow> Inl err
                | Inr uploadRes \<Rightarrow> uc_extract fileName uploadRes)))"

text \<open>Uploading succeeds exactly when the service answers with one file, and returns that one.\<close>

lemma Upload_iff:
  "Upload uc fileName contents = Inr f \<longleftrightarrow>
     uc_newRequest uc (uc_uploadServiceURL uc @ ''/v1/upload'') = None \<and>
     (\<exists>b r. uc_do uc \<lparr>ur_URL = uc_uploadServiceURL uc @ ''/v1/upload'', ur_Field = publicFileField,
        ur_FileName = fileName, ur_Contents = contents\<rparr> = Inr (Inr b) \<and>
        uc_json uc b = Inr r \<and> rs_UploadedFiles r = [f])"
proof -
  have one: "length xs = 1 \<and> xs ! 0 = f \<longleftrightarrow> xs = [f]" for xs :: "UploadedFile list"
    by (cases xs) auto
  show ?thesis
    by (auto simp: Upload_def prepareRequest_def executeRequest_def unmarshalResponse_def uc_extract_def Let_def
        one [symmetric] split: option.splits sum.splits if_splits)
qed

end
