(* ===== verification/AddonProvider.thy ===== *)
theory AddonProvider
  imports AddonLoader AddonErrors Rafter
begin

text \<open>
  Fetching addons from repositories, \<open>internal/addon/provider\<close>: the client over a repository getter and
  the loader, the getter over HTTP, the one over directories (git, hg, S3), and the factory that picks a
  getter by the scheme of the address. Parameters: the downloads, the detection of addresses
  and the archiver of third-party packages, the parsers of URLs and of the index, and random names.
\<close>

section \<open>Interfaces\<close>

record URL =
  u_Scheme :: string
  u_String :: string

datatype LoadType = DirectoryLoadType | ArchiveLoadType | UnknownLoadType

record RepositoryGetter =
  rg_Cleanup :: "filesys \<Rightarrow> error option \<times> filesys"
  rg_IndexReader :: "filesys \<Rightarrow> string result result \<times> filesys"
  rg_AddonLoadInfo :: "AddonName \<Rightarrow> AddonVersion \<Rightarrow> filesys \<Rightarrow> (LoadType \<times> string) result \<times> filesys"
  rg_AddonDocURL :: "AddonName \<Rightarrow> AddonVersion \<Rightarrow> filesys \<Rightarrow> string result \<times> filesys"

text \<open>\<open>addonLoader\<close>: an addon and its charts, an error, or \<open>None\<close> when it panics.\<close>

record addonLoader =
  al_Load :: "string result \<Rightarrow> filesys \<Rightarrow> (Addon \<times> Chart list) result option \<times> filesys"
  al_LoadDir :: "string \<Rightarrow> filesys \<Rightarrow> (Addon \<times> Chart list) result option"

record AddonClient =
  cl_addonLoader :: addonLoader
  cl_concreteGetter :: RepositoryGetter
  cl_documentationEnabled :: bool
  cl_yamlIndex :: "string \<Rightarrow> Index result"

section \<open>The client\<close>

definition loadByType ::
  "AddonClient \<Rightarrow> LoadType \<Rightarrow> string \<Rightarrow> filesys \<Rightarrow> (Addon \<times> Chart list) result option \<times> filesys" where
  "loadByType d loadType path fs =
     (case loadType of
        DirectoryLoadType \<Rightarrow> (al_LoadDir (cl_addonLoader d) path fs, fs)
      | ArchiveLoadType \<Rightarrow>
          (case Open fs path of
             Inl err \<Rightarrow> (Some (Inl (Wrapped err (''while opening archive from path: '' @ path))), fs)
           | Inr reader \<Rightarrow> al_Load (cl_addonLoader d) reader fs)
      | UnknownLoadType \<Rightarrow>
          (Some (Inl (ErrorString (''unsupported load type '' @ [CHR 0x27, CHR 0x5C] @ ''x02'' @ [CHR 0x27] @
             ''. Allowed load types: Directory, Archive''))), fs))"

definition loadAddonAndCharts ::
  "AddonClient \<Rightarrow> AddonName \<Rightarrow> AddonVersion \<Rightarrow> filesys \<Rightarrow> (Addon \<times> Chart list) result option \<times> filesys" where
  "loadAddonAndCharts d entryName version fs =
     (case rg_AddonLoadInfo (cl_concreteGetter d) entryName version fs of
        (Inl err, fs1) \<Rightarrow>
          (Some (Inl (NewFetchingError (Wrapped err (''while reading addon archive for name ['' @ entryName @
             ''] and version ['' @ version @ '']'')))), fs1)
      | (Inr (lType, path), fs1) \<Rightarrow>
          (case loadByType d lType path fs1 of
             (None, fs2) \<Rightarrow> (None, fs2)
           | (Some (Inl err), fs2) \<Rightarrow>
               (Some (Inl (NewLoadingError (Wrapped err (''while loading addon and charts for addon ['' @ entryName @
                  ''] and version ['' @ version @ '']'')))), fs2)
           | (Some (Inr r), fs2) \<Rightarrow> (Some (Inr r), fs2)))"

definition GetCompleteAddon ::
  "AddonClient \<Rightarrow> IndexEntry \<Rightarrow> filesys \<Rightarrow> AddonWithCharts result option \<times> filesys" where
  "GetCompleteAddon d entry fs =
     (case loadAddonAndCharts d (ie_Name entry) (ie_Version entry) fs of
        (None, fs1) \<Rightarrow> (None, fs1)
      | (Some (Inl err), fs1) \<Rightarrow> (Some (Inl (Wrapped err (''while loading addon '' @ ie_Name entry))), fs1)
      | (Some (Inr (a, c)), fs1) \<Rightarrow>
          if cl_documentationEnabled d
          then (case rg_AddonDocURL (cl_concreteGetter d) (ie_Name entry) (ie_Version entry) fs1 of
                  (Inl err, fs2) \<Rightarrow> (Some (Inl (Wrapped err (''while getting Docs URL for addon '' @ ie_Name entry))), fs2)
                | (Inr url, fs2) \<Rightarrow> (Some (Inr \<lparr>awc_Addon = a\<lparr>ad_RepositoryURL := url\<rparr>, awc_Charts = c\<rparr>), fs2))
          else (Some (Inr \<lparr>awc_Addon = a, awc_Charts = c\<rparr>), fs1))"

text \<open>The proper names of the entries are the ones they are listed under.\<close>

fun fillNames :: "(AddonName, IndexEntry list) gomap \<Rightarrow> (AddonName, IndexEntry list) gomap" where
  "fillNames [] = []"
| "fillNames ((name, entries) # es) = (name, map (\<lambda>e. e\<lparr>ie_Name := name\<rparr>) entries) # fillNames es"

definition GetIndex :: "AddonClient \<Rightarrow> filesys \<Rightarrow> Index result \<times> filesys" where
  "GetIndex d fs =
     (case rg_IndexReader (cl_concreteGetter d) fs of
        (Inl err, fs1) \<Rightarrow> (Inl (Wrapped err ''while getting index file''), fs1)
      | (Inr (Inl err), fs1) \<Rightarrow> (Inl (Wrapped err ''while reading index file''), fs1)
      | (Inr (Inr b), fs1) \<Rightarrow>
          (case cl_yamlIndex d b of
             Inl err \<Rightarrow> (Inl (Wrapped err ''while unmarshaling index file''), fs1)
           | Inr idx \<Rightarrow> (Inr \<lparr>idx_Entries = fillNames (idx_Entries idx)\<rparr>, fs1)))"

definition AddonClient_Cleanup :: "AddonClient \<Rightarrow> filesys \<Rightarrow> error option \<times> filesys" where
  "AddonClient_Cleanup d fs = rg_Cleanup (cl_concreteGetter d) fs"

section \<open>The getter over HTTP\<close>

record getterEnv =
  ge_getFile :: "string \<Rightarrow> string \<Rightarrow> filesys \<Rightarrow> error option \<times> filesys"
  ge_urlParse :: "string \<Rightarrow> URL result"
  ge_randString :: "filesys \<Rightarrow> string"
  ge_get :: "string \<Rightarrow> string \<Rightarrow> string \<Rightarrow> filesys \<Rightarrow> error option \<times> filesys"
  ge_sourceDirSubdir :: "string \<Rightarrow> string \<times> string"
  ge_tarArchive :: "string list \<Rightarrow> string \<Rightarrow> filesys \<Rightarrow> error option \<times> filesys"
  ge_detect :: "string \<Rightarrow> string \<Rightarrow> string result"

record HTTPGetter =
  h_dst :: string
  h_idxURL :: URL
  h_repoURL :: URL

definition baseOfURL :: "string \<Rightarrow> string" where
  "baseOfURL fullURL = strTrimRight fullURL (pathBase fullURL)"

definition NewHTTP :: "getterEnv \<Rightarrow> string \<Rightarrow> string \<Rightarrow> filesys \<Rightarrow> HTTPGetter result" where
  "NewHTTP env idxAddr dst fs =
     (case ge_urlParse env (baseOfURL idxAddr) of
        Inl err \<Rightarrow> Inl err
      | Inr repoURL \<Rightarrow>
          (case ge_urlParse env idxAddr of
             Inl err \<Rightarrow> Inl err
           | Inr idxURL \<Rightarrow>
               Inr \<lparr>h_dst = pathJoin [dst, ge_randString env fs], h_idxURL = idxURL, h_repoURL = repoURL\<rparr>))"

definition HTTP_Cleanup :: "HTTPGetter \<Rightarrow> filesys \<Rightarrow> error option \<times> filesys" where
  "HTTP_Cleanup h fs = RemoveAll (h_dst h) fs"

definition HTTP_IndexReader :: "getterEnv \<Rightarrow> HTTPGetter \<Rightarrow> filesys \<Rightarrow> string result result \<times> filesys" where
  "HTTP_IndexReader env h fs =
     (let savePath = pathJoin [h_dst h, ''index''] in
      case ge_getFile env savePath (u_String (h_idxURL h)) fs of
        (Some err, fs1) \<Rightarrow> (Inl err, fs1)
      | (None, fs1) \<Rightarrow> (Open fs1 savePath, fs1))"

definition HTTP_AddonDocURL :: "HTTPGetter \<Rightarrow> AddonName \<Rightarrow> AddonVersion \<Rightarrow> string result" where
  "HTTP_AddonDocURL h name version = Inr (u_String (h_repoURL h) @ name @ ''-'' @ version @ ''.tgz'')"

definition HTTP_AddonLoadInfo ::
  "getterEnv \<Rightarrow> HTTPGetter \<Rightarrow> AddonName \<Rightarrow> AddonVersion \<Rightarrow> filesys \<Rightarrow> (LoadType \<times> string) result \<times> filesys" where
  "HTTP_AddonLoadInfo env h name version fs =
     (case HTTP_AddonDocURL h name version of
        Inl err \<Rightarrow> (Inl err, fs)
      | Inr rawURL \<Rightarrow>
          (case ge_urlParse env rawURL of
             Inl err \<Rightarrow> (Inl err, fs)
           | Inr u \<Rightarrow>
               (let savePath = pathJoin [h_dst h, ge_randString env fs] in
                case ge_getFile env savePath (u_String u) fs of
                  (Some err, fs1) \<Rightarrow> (Inl err, fs1)
                | (None, fs1) \<Rightarrow> (Inr (ArchiveLoadType, savePath), fs1))))"

definition HTTP_getter :: "getterEnv \<Rightarrow> HTTPGetter \<Rightarrow> RepositoryGetter" where
  "HTTP_getter env h = \<lparr>rg_Cleanup = HTTP_Cleanup h, rg_IndexReader = HTTP_IndexReader env h,
     rg_AddonLoadInfo = HTTP_AddonLoadInfo env h, rg_AddonDocURL = \<lambda>n v fs. (HTTP_AddonDocURL h n v, fs)\<rparr>"

section \<open>The getter over directories\<close>

record ClientModeDirGetter =
  dg_dst :: string
  dg_idxPath :: string
  dg_addonDirPath :: string
  dg_cli :: uploadClient
  dg_tmpDir :: string
  dg_protocol :: string

text \<open>The configuration; the underlying getter is named by its kind.\<close>

record ClientModeDirGetterCfg =
  dc_Cli :: uploadClient
  dc_TmpDir :: string
  dc_Underlying :: string
  dc_Addr :: string
  dc_Src :: string
  dc_Protocol :: string

definition NewClientModeDirGetter ::
  "getterEnv \<Rightarrow> ClientModeDirGetterCfg \<Rightarrow> filesys \<Rightarrow> ClientModeDirGetter result \<times> filesys" where
  "NewClientModeDirGetter env arg fs =
     (let finalDst = pathJoin [dc_Src arg, ge_randString env fs];
          (upstreamAddr, indexPath) = ge_sourceDirSubdir env (dc_Addr arg) in
      if indexPath = ''''
      then (Inl (ErrorString (''index path needs to be provided. Check documentation about using '' @
              dc_Protocol arg @ '' protocol'')), fs)
      else (case ge_urlParse env upstreamAddr of
              Inl err \<Rightarrow> (Inl err, fs)
            | Inr ru \<Rightarrow>
                (case ge_get env (dc_Underlying arg) finalDst (u_String ru) fs of
                   (Some err, fs1) \<Rightarrow> (Inl err, fs1)
                 | (None, fs1) \<Rightarrow>
                     (Inr \<lparr>dg_dst = finalDst, dg_idxPath = indexPath,
                        dg_addonDirPath = strTrimRight indexPath (pathBase indexPath), dg_cli = dc_Cli arg,
                        dg_tmpDir = dc_TmpDir arg, dg_protocol = dc_Protocol arg\<rparr>, fs1))))"

definition Dir_Cleanup :: "ClientModeDirGetter \<Rightarrow> filesys \<Rightarrow> error option \<times> filesys" where
  "Dir_Cleanup g fs = RemoveAll (dg_dst g) fs"

definition Dir_IndexReader :: "ClientModeDirGetter \<Rightarrow> filesys \<Rightarrow> string result result \<times> filesys" where
  "Dir_IndexReader g fs = (Open fs (pathJoin [dg_dst g, dg_idxPath g]), fs)"

definition pathToAddon :: "ClientModeDirGetter \<Rightarrow> AddonName \<Rightarrow> AddonVersion \<Rightarrow> string" where
  "pathToAddon g name version = pathJoin [dg_dst g, dg_addonDirPath g, name @ ''-'' @ version]"

definition Dir_AddonLoadInfo ::
  "ClientModeDirGetter \<Rightarrow> AddonName \<Rightarrow> AddonVersion \<Rightarrow> (LoadType \<times> string) result" where
  "Dir_AddonLoadInfo g name version = Inr (DirectoryLoadType, pathToAddon g name version)"

definition Dir_AddonDocURL ::
  "getterEnv \<Rightarrow> ClientModeDirGetter \<Rightarrow> AddonName \<Rightarrow> AddonVersion \<Rightarrow> filesys \<Rightarrow> string result \<times> filesys" where
  "Dir_AddonDocURL env g name version fs =
     (let addonDirName = name @ ''-'' @ version;
          pathToDocs = pathJoin [pathToAddon g name version, ''/docs''];
          pathToTgz = dg_tmpDir g @ ''/docs-'' @ addonDirName @ ''.tgz'';
          quoted = [CHR 0x27] @ pathToTgz @ [CHR 0x27] in
      case Stat fs pathToDocs of
        Inl err \<Rightarrow> if IsNotExist err then (Inr '''', fs) else (Inl (Wrapped err ''while checking if doc exists''), fs)
      | Inr _ \<Rightarrow>
          (case ge_tarArchive env [pathToDocs] pathToTgz fs of
             (Some err, fs1) \<Rightarrow> (Inl (Wrapped err (''while creating archive '' @ quoted)), fs1)
           | (None, fs1) \<Rightarrow>
               (let fs2 = snd (Remove pathToTgz fs1) in
                case Open fs1 pathToTgz of
                  Inl err \<Rightarrow> (Inl (Wrapped err (''while opening file '' @ quoted)), fs2)
                | Inr (Inl err) \<Rightarrow> (Inl (Wrapped err (''while reading file '' @ quoted)), fs2)
                | Inr (Inr docs) \<Rightarrow>
                    (case Upload (dg_cli g) pathToTgz docs of
                       Inl err \<Rightarrow> (Inl (Wrapped err (''while uploading Tgz '' @ quoted @ '' to uploadService'')), fs2)
                     | Inr uploaded \<Rightarrow> (Inr (uf_RemotePath uploaded), fs2)))))"

definition Dir_getter :: "getterEnv \<Rightarrow> ClientModeDirGetter \<Rightarrow> RepositoryGetter" where
  "Dir_getter env g = \<lparr>rg_Cleanup = Dir_Cleanup g, rg_IndexReader = Dir_IndexReader g,
     rg_AddonLoadInfo = \<lambda>n v fs. (Dir_AddonLoadInfo g n v, fs), rg_AddonDocURL = Dir_AddonDocURL env g\<rparr>"

section \<open>The factory\<close>

text \<open>A provider makes a getter for an address and a directory.\<close>

type_synonym getterProvider = "string \<Rightarrow> string \<Rightarrow> filesys \<Rightarrow> RepositoryGetter result \<times> filesys"

definition provideHTTP :: "getterEnv \<Rightarrow> getterProvider" where
  "provideHTTP env addr src fs =
     (case NewHTTP env addr src fs of Inl err \<Rightarrow> (Inl err, fs) | Inr h \<Rightarrow> (Inr (HTTP_getter env h), fs))"

definition provideDir :: "getterEnv \<Rightarrow> uploadClient \<Rightarrow> string \<Rightarrow> string \<Rightarrow> string \<Rightarrow> getterProvider" where
  "provideDir env cli tmpDir underlying protocol addr src fs =
     (case NewClientModeDirGetter env \<lparr>dc_Cli = cli, dc_TmpDir = tmpDir, dc_Underlying = underlying, dc_Addr = addr,
          dc_Src = src, dc_Protocol = protocol\<rparr> fs of
        (Inl err, fs1) \<Rightarrow> (Inl err, fs1)
      | (Inr g, fs1) \<Rightarrow> (Inr (Dir_getter env g), fs1))"

definition NewGit :: "getterEnv \<Rightarrow> uploadClient \<Rightarrow> string \<Rightarrow> getterProvider" where
  "NewGit env cli tmpDir = provideDir env cli tmpDir ''GitGetter'' ''git''"

definition NewHg :: "getterEnv \<Rightarrow> uploadClient \<Rightarrow> string \<Rightarrow> getterProvider" where
  "NewHg env cli tmpDir = provideDir env cli tmpDir ''HgGetter'' ''hg''"

definition NewS3 :: "getterEnv \<Rightarrow> uploadClient \<Rightarrow> string \<Rightarrow> getterProvider" where
  "NewS3 env cli tmpDir = provideDir env cli tmpDir ''S3Getter'' ''''"

record ClientFactory =
  cf_gettersProviders :: "(string, getterProvider) gomap"
  cf_addonLoader :: addonLoader
  cf_documentationEnabled :: bool
  cf_yamlIndex :: "string \<Rightarrow> Index result"

text \<open>The regular expression \<open>^([A-Za-z0-9]+)::(.+)$\<close>.\<close>

definition alphanumeric :: "char \<Rightarrow> bool" where
  "alphanumeric c \<longleftrightarrow> (CHR ''A'' \<le> c \<and> c \<le> CHR ''Z'') \<or> (CHR ''a'' \<le> c \<and> c \<le> CHR ''z'') \<or>
     (CHR ''0'' \<le> c \<and> c \<le> CHR ''9'')"

definition forcedMatch :: "string \<Rightarrow> (string \<times> string) option" where
  "forcedMatch s =
     (let schem = takeWhile alphanumeric s; rest = dropWhile alphanumeric s; src = drop 2 rest in
      if schem \<noteq> '''' \<and> take 2 rest = ''::'' \<and> src \<noteq> '''' \<and> CHR 0x0A \<notin> set src then Some (schem, src) else None)"

definition getSchemaAndSrc :: "URL \<Rightarrow> string \<times> string" where
  "getSchemaAndSrc url =
     (case forcedMatch (u_String url) of
        Some (schem, src) \<Rightarrow> (schem, src)
      | None \<Rightarrow> (u_Scheme url, u_String url))"

definition NewGetter ::
  "getterEnv \<Rightarrow> ClientFactory \<Rightarrow> string \<Rightarrow> string \<Rightarrow> filesys \<Rightarrow> AddonClient result \<times> filesys" where
  "NewGetter env cli rawURL instPath fs =
     (case ge_detect env rawURL instPath of
        Inl err \<Rightarrow> (Inl err, fs)
      | Inr fullRealAddr \<Rightarrow>
          (case ge_urlParse env fullRealAddr of
             Inl err \<Rightarrow> (Inl err, fs)
           | Inr fullRealAddrURL \<Rightarrow>
               (let (scheme, realAddr) = getSchemaAndSrc fullRealAddrURL in
                case map_of (cf_gettersProviders cli) scheme of
                  None \<Rightarrow> (Inl (ErrorString (''not supported scheme '' @ [CHR 0x27] @ scheme @ [CHR 0x27] @
                             '' for addons repository'')), fs)
                | Some getterProvider \<Rightarrow>
                    (case getterProvider realAddr instPath fs of
                       (Inl err, fs1) \<Rightarrow> (Inl err, fs1)
                     | (Inr concreteGetter, fs1) \<Rightarrow>
                         (Inr \<lparr>cl_addonLoader = cf_addonLoader cli, cl_concreteGetter = concreteGetter,
                            cl_documentationEnabled = cf_documentationEnabled cli, cl_yamlIndex = cf_yamlIndex cli\<rparr>, fs1)))))"

section \<open>Names and addresses\<close>

lemma fillNames_names: "(name, es) \<in> set (fillNames m) \<Longrightarrow> e \<in> set es \<Longrightarrow> ie_Name e = name"
  by (induction m rule: fillNames.induct) auto

lemma fillNames_shape: "map (\<lambda>(n, es). (n, map ie_Version es)) (fillNames m) = map (\<lambda>(n, es). (n, map ie_Version es)) m"
  by (induction m rule: fillNames.induct) auto

text \<open>
  The cut set of \<open>strings.TrimRight\<close> is the set of the bytes of the last segment; as a segment has
  no slash, exactly that segment is cut.
\<close>

lemma baseOfURL_eq:
  assumes "CHR ''/'' \<notin> set name" "name \<noteq> ''''" "dir = '''' \<or> last dir = CHR ''/''"
  shows "baseOfURL (dir @ name) = dir"
proof -
  have cut: "dropWhile (\<lambda>c. c \<in> set name) (rev name @ rev dir) = dropWhile (\<lambda>c. c \<in> set name) (rev dir)"
    by (rule dropWhile_append2) simp
  have "dropWhile (\<lambda>c. c \<in> set name) (rev dir) = rev dir"
    using assms(1,3) by (cases dir rule: rev_cases) auto
  with cut show ?thesis by (simp add: baseOfURL_def pathBase_append [OF assms] strTrimRight_def)
qed

text \<open>
  The getter over HTTP fetches the archive of an addon from beside the index: for an index
  address that ends in a file name, the archive of name and version comes from the address with that
  file name replaced by name-version.tgz, and is saved in the directory of the getter.
\<close>

theorem HTTP_fetches_beside_index:
  assumes "CHR ''/'' \<notin> set file" "file \<noteq> ''''" "dir = '''' \<or> last dir = CHR ''/''"
    and "\<And>s u. ge_urlParse env s = Inr u \<Longrightarrow> u_String u = s"
    and "NewHTTP env (dir @ file) dst fs = Inr h" "HTTP_AddonLoadInfo env h name version fs1 = (Inr (t, path), fs2)"
  shows "t = ArchiveLoadType \<and> path = pathJoin [h_dst h, ge_randString env fs1] \<and>
    h_dst h = pathJoin [dst, ge_randString env fs] \<and>
    ge_getFile env path (dir @ name @ ''-'' @ version @ ''.tgz'') fs1 = (None, fs2) \<and>
    HTTP_AddonDocURL h name version = Inr (dir @ name @ ''-'' @ version @ ''.tgz'') \<and> u_String (h_idxURL h) = dir @ file"
  using assms(5,6) assms(4) unfolding NewHTTP_def baseOfURL_eq [OF assms(1-3)]
  by (auto simp: HTTP_AddonLoadInfo_def HTTP_AddonDocURL_def Let_def split: sum.splits prod.splits option.splits)

definition example_env :: getterEnv where
  "example_env = \<lparr>ge_getFile = \<lambda>p u fs. (None, putNode (locate fs p) (FFile u) fs),
     ge_urlParse = \<lambda>s. Inr \<lparr>u_Scheme = ''https'', u_String = s\<rparr>, ge_randString = \<lambda>fs. ''r'', ge_get = \<lambda>k p u fs. (None, fs),
     ge_sourceDirSubdir = \<lambda>a. (a, ''index.yaml''), ge_tarArchive = \<lambda>ps p fs. (None, fs), ge_detect = \<lambda>a p. Inr a\<rparr>"

theorem HTTP_fetches_beside_index_witness:
  "\<exists>h fs2. NewHTTP example_env ''https://x.io/a/index.yaml'' ''/tmp'' example_fs = Inr h \<and>
     HTTP_AddonLoadInfo example_env h ''redis'' ''0.1.0'' example_fs = (Inr (ArchiveLoadType, ''/tmp/r/r''), fs2) \<and>
     ge_getFile example_env ''/tmp/r/r'' ''https://x.io/a/redis-0.1.0.tgz'' example_fs = (None, fs2)"
proof -
  obtain h where h: "NewHTTP example_env (''https://x.io/a/'' @ ''index.yaml'') ''/tmp'' example_fs = Inr h"
    by (simp add: NewHTTP_def example_env_def)
  then have dst: "h_dst h = ''/tmp/r''" by (auto simp: NewHTTP_def example_env_def) code_simp
  obtain t path fs2 where info: "HTTP_AddonLoadInfo example_env h ''redis'' ''0.1.0'' example_fs = (Inr (t, path), fs2)"
    by (simp add: HTTP_AddonLoadInfo_def HTTP_AddonDocURL_def example_env_def Let_def)
  have parse: "ge_urlParse example_env s = Inr u \<Longrightarrow> u_String u = s" for s u by (auto simp: example_env_def)
  have "pathJoin [h_dst h, ge_randString example_env example_fs] = ''/tmp/r/r''"
    unfolding dst by (simp add: example_env_def) code_simp
  with HTTP_fetches_beside_index [OF _ _ _ parse h info] h info show ?thesis by auto
qed

lemma forcedMatch_forced:
  assumes "list_all alphanumeric schem" "schem \<noteq> ''''" "src \<noteq> ''''" "CHR 0x0A \<notin> set src"
  shows "forcedMatch (schem @ ''::'' @ src) = Some (schem, src)"
proof -
  have "\<not> alphanumeric (CHR '':'')" by code_simp
  with assms show ?thesis
    by (simp add: forcedMatch_def list_all_iff takeWhile_append2 dropWhile_append2)
qed

section \<open>The loader as the client sees it\<close>

text \<open>
  What the client relies on: the loader does not panic, and an addon it returns is well formed
  with its charts.
\<close>

locale addon_loader =
  fixes load :: "string result \<Rightarrow> filesys \<Rightarrow> (Addon \<times> Chart list) result option \<times> filesys"
    and loadDirectory :: "string \<Rightarrow> filesys \<Rightarrow> (Addon \<times> Chart list) result option"
    and wf :: "Chart list \<Rightarrow> Addon \<Rightarrow> bool"
  assumes load_returns: "fst (load r fs) \<noteq> None"
    and load_wf: "fst (load r fs) = Some (Inr (a, cs)) \<Longrightarrow> wf cs a"
    and loadDirectory_returns: "loadDirectory p fs \<noteq> None"
    and loadDirectory_wf: "loadDirectory p fs = Some (Inr (a, cs)) \<Longrightarrow> wf cs a"
    and wf_url: "wf cs a \<Longrightarrow> wf cs (a\<lparr>ad_RepositoryURL := u\<rparr>)"
begin

definition uses :: "AddonClient \<Rightarrow> bool" where
  "uses d \<longleftrightarrow> al_Load (cl_addonLoader d) = load \<and> al_LoadDir (cl_addonLoader d) = loadDirectory"

lemma loadByType_returns: "uses d \<Longrightarrow> fst (loadByType d t p fs) \<noteq> None"
  using load_returns [of _ fs] loadDirectory_returns [of p fs]
  by (cases t; cases "Open fs p") (simp_all add: uses_def loadByType_def)

lemma loadByType_wf: "uses d \<Longrightarrow> fst (loadByType d t p fs) = Some (Inr (a, cs)) \<Longrightarrow> wf cs a"
  using load_wf [of _ fs a cs] loadDirectory_wf [of p fs a cs]
  by (cases t; cases "Open fs p") (simp_all add: uses_def loadByType_def)

lemma GetCompleteAddon_cases:
  assumes "uses d"
  obtains
    (fetching) err m where "fst (GetCompleteAddon d e fs) = Some (Inl (Wrapped (NewFetchingError err) m))"
      "\<exists>err'. fst (rg_AddonLoadInfo (cl_concreteGetter d) (ie_Name e) (ie_Version e) fs) = Inl err'"
  | (loading) err m t p fs1 where "fst (GetCompleteAddon d e fs) = Some (Inl (Wrapped (NewLoadingError err) m))"
      "rg_AddonLoadInfo (cl_concreteGetter d) (ie_Name e) (ie_Version e) fs = (Inr (t, p), fs1)"
      "\<exists>err'. fst (loadByType d t p fs1) = Some (Inl err')"
  | (docs) err m t p fs1 r fs2 where "fst (GetCompleteAddon d e fs) = Some (Inl (Wrapped err m))"
      "rg_AddonLoadInfo (cl_concreteGetter d) (ie_Name e) (ie_Version e) fs = (Inr (t, p), fs1)"
      "loadByType d t p fs1 = (Some (Inr r), fs2)" "cl_documentationEnabled d"
      "fst (rg_AddonDocURL (cl_concreteGetter d) (ie_Name e) (ie_Version e) fs2) = Inl err"
  | (ok) t p fs1 a cs fs2 a' where "fst (GetCompleteAddon d e fs) = Some (Inr \<lparr>awc_Addon = a', awc_Charts = cs\<rparr>)"
      "rg_AddonLoadInfo (cl_concreteGetter d) (ie_Name e) (ie_Version e) fs = (Inr (t, p), fs1)"
      "loadByType d t p fs1 = (Some (Inr (a, cs)), fs2)" "wf cs a'"
      "if cl_documentationEnabled d
       then \<exists>u. fst (rg_AddonDocURL (cl_concreteGetter d) (ie_Name e) (ie_Version e) fs2) = Inr u \<and> a' = a\<lparr>ad_RepositoryURL := u\<rparr>
       else a' = a"
proof (cases "rg_AddonLoadInfo (cl_concreteGetter d) (ie_Name e) (ie_Version e) fs")
  case (Pair info fs1)
  show thesis
  proof (cases info)
    case (Inl err)
    with Pair show thesis by (intro fetching) (simp_all add: GetCompleteAddon_def loadAddonAndCharts_def)
  next
    case (Inr tp)
    obtain t p where tp: "tp = (t, p)" by fastforce
    obtain r fs2 where r: "loadByType d t p fs1 = (Some r, fs2)"
      using loadByType_returns [OF assms, of t p fs1] by (cases "loadByType d t p fs1") auto
    show thesis
    proof (cases r)
      case Inl: (Inl err)
      show thesis using Pair Inr tp r Inl
        by (intro loading [of _ _ t p fs1]) (simp_all add: GetCompleteAddon_def loadAddonAndCharts_def)
    next
      case ac: (Inr ac)
      obtain a cs where ac': "ac = (a, cs)" by fastforce
      have wf: "wf cs a" using loadByType_wf [OF assms] r ac ac' by (metis fst_conv)
      show thesis
      proof (cases "rg_AddonDocURL (cl_concreteGetter d) (ie_Name e) (ie_Version e) fs2")
        case doc: (Pair u fs3)
        from Pair Inr tp r ac ac' doc wf show thesis
          by (cases "cl_documentationEnabled d"; cases u)
            (auto simp: GetCompleteAddon_def loadAddonAndCharts_def wf_url
              intro: docs [of _ _ t p fs1 ac fs2] ok [of _ cs t p fs1 a fs2])
      qed
    qed
  qed
qed

end

text \<open>The loader of \<open>internal/addon\<close> behind the interface; \<open>decode\<close> is the decompression of what is read.\<close>

definition loaderOf :: "Loader \<Rightarrow> (string result \<Rightarrow> tgz) \<Rightarrow> addonLoader" where
  "loaderOf l decode = \<lparr>al_Load = \<lambda>r. Load l (decode r), al_LoadDir = \<lambda>p fs. LoadDir l fs p\<rparr>"

definition loaded_wf :: "Chart list \<Rightarrow> Addon \<Rightarrow> bool" where
  "loaded_wf cs a \<longleftrightarrow> (\<exists>c. cs = [c] \<and> addon_wf c a)"

lemma Load_cases:
  obtains err where "fst (Load l r fs) = Some (Inl err)" | fs' dir where "fst (Load l r fs) = loadDir l fs' dir"
proof (cases "unpackArchive l (ld_tmpDir l) r fs")
  case (Pair x fs1)
  with that show thesis by (cases x) (simp_all add: Load_def)
qed

interpretation adl: addon_loader "al_Load (loaderOf l decode)" "al_LoadDir (loaderOf l decode)" loaded_wf for l decode
proof
  fix r fs p a cs u
  show "fst (al_Load (loaderOf l decode) r fs) \<noteq> None"
    by (rule Load_cases [of l "decode r" fs]) (auto simp: loaderOf_def loadDir_returns)
  show "loaded_wf cs a" if "fst (al_Load (loaderOf l decode) r fs) = Some (Inr (a, cs))"
    using that by (rule_tac Load_cases [of l "decode r" fs]) (auto simp: loaderOf_def loaded_wf_def dest: loadDir_wf)
  show "al_LoadDir (loaderOf l decode) p fs \<noteq> None" by (simp add: loaderOf_def LoadDir_def loadDir_returns)
  show "loaded_wf cs a" if "al_LoadDir (loaderOf l decode) p fs = Some (Inr (a, cs))"
    using that by (auto simp: loaderOf_def LoadDir_def loaded_wf_def dest: loadDir_wf)
  show "loaded_wf cs (a\<lparr>ad_RepositoryURL := u\<rparr>)" if "loaded_wf cs a"
    using that by (auto simp: loaded_wf_def addon_wf_def)
qed

text \<open>
  The addon client with the loader: it always returns. Its error is a fetching error when the
  getter could not say how to load the addon, a loading error when reading what was fetched failed, and
  else the failure of the documentation, which is asked for only when it is enabled. What
  it returns is a well formed addon with its one chart, which carries the address of its documentation exactly when
  documentation is enabled.
\<close>

theorem GetCompleteAddon_correct:
  assumes "cl_addonLoader d = loaderOf l decode"
    and "rg_AddonLoadInfo (cl_concreteGetter d) (ie_Name e) (ie_Version e) fs = (info, fs1)"
  shows "case fst (GetCompleteAddon d e fs) of
      None \<Rightarrow> False
    | Some (Inl err) \<Rightarrow>
        (case info of
           Inl _ \<Rightarrow> IsFetchingError err \<and> \<not> IsLoadingError err
         | Inr (t, p) \<Rightarrow>
             (case loadByType d t p fs1 of
                (None, _) \<Rightarrow> False
              | (Some (Inl _), _) \<Rightarrow> IsLoadingError err \<and> \<not> IsFetchingError err
              | (Some (Inr _), fs2) \<Rightarrow> cl_documentationEnabled d \<and>
                  (\<exists>err'. fst (rg_AddonDocURL (cl_concreteGetter d) (ie_Name e) (ie_Version e) fs2) = Inl err' \<and>
                     Cause err = Cause err')))
    | Some (Inr complete) \<Rightarrow>
        (\<exists>c. awc_Charts complete = [c] \<and> addon_wf c (awc_Addon complete)) \<and>
        (\<exists>t p a fs2. info = Inr (t, p) \<and> loadByType d t p fs1 = (Some (Inr (a, awc_Charts complete)), fs2) \<and>
          awc_Addon complete = a\<lparr>ad_RepositoryURL :=
            (if cl_documentationEnabled d
             then projr (fst (rg_AddonDocURL (cl_concreteGetter d) (ie_Name e) (ie_Version e) fs2))
             else ad_RepositoryURL a)\<rparr>)"
proof -
  have uses: "adl.uses l decode d" using assms(1) by (simp add: adl.uses_def)
  note kinds = IsFetchingError_def IsLoadingError_def isKindError_def NewFetchingError_def NewLoadingError_def
  from uses show ?thesis
  proof (cases rule: adl.GetCompleteAddon_cases [where e = e and fs = fs])
    case (fetching err m)
    with assms(2) show ?thesis by (auto simp: kinds)
  next
    case (loading err m t p fs1)
    with assms(2) show ?thesis by (auto simp: kinds split: prod.splits option.splits)
  next
    case (docs err m t p fs1 r fs2)
    with assms(2) show ?thesis by (auto simp: kinds)
  next
    case (ok t p fs1 a cs fs2 a')
    with assms(2) show ?thesis by (auto simp: loaded_wf_def split: if_splits)
  qed
qed

definition example_repo_fs :: filesys where
  "example_repo_fs = snd (unpack ''/tmp/repo/redis-0.1.0'' example_archive
     (putNode [''tmp'', ''repo'', ''redis-0.1.0''] FDir (putNode [''tmp'', ''repo''] FDir example_fs)))"

definition example_client :: AddonClient where
  "example_client = \<lparr>cl_addonLoader = loaderOf example_loader (\<lambda>r. Inl (ErrorString ''no gzip'')),
     cl_concreteGetter = Dir_getter example_env \<lparr>dg_dst = ''/tmp/repo'', dg_idxPath = ''index.yaml'', dg_addonDirPath = '''',
       dg_cli = \<lparr>uc_uploadServiceURL = ''up'', uc_newRequest = \<lambda>u. None, uc_do = \<lambda>r. Inl (ErrorString ''down''),
         uc_json = \<lambda>b. Inl (ErrorString ''no JSON'')\<rparr>, dg_tmpDir = ''/tmp'', dg_protocol = ''git''\<rparr>,
     cl_documentationEnabled = True, cl_yamlIndex = \<lambda>b. Inl (ErrorString ''no YAML'')\<rparr>"

definition example_index_entry :: IndexEntry where
  "example_index_entry = \<lparr>ie_Name = ''redis'', ie_DisplayName = '''', ie_Description = '''', ie_Version = ''0.1.0''\<rparr>"

theorem GetCompleteAddon_correct_witness:
  "\<exists>complete c. fst (GetCompleteAddon example_client example_index_entry example_repo_fs) = Some (Inr complete) \<and>
     awc_Charts complete = [c] \<and> addon_wf c (awc_Addon complete) \<and> ad_Name (awc_Addon complete) = ''redis''"
proof -
  have loader: "cl_addonLoader example_client = loaderOf example_loader (\<lambda>r. Inl (ErrorString ''no gzip''))"
    by (simp add: example_client_def)
  have run: "case fst (GetCompleteAddon example_client example_index_entry example_repo_fs) of
      Some (Inr complete) \<Rightarrow> ad_Name (awc_Addon complete) = ''redis'' | _ \<Rightarrow> False" by code_simp
  from GetCompleteAddon_correct [OF loader, of example_index_entry example_repo_fs, OF prod.collapse [symmetric]] run
  show ?thesis by (auto split: option.splits sum.splits)
qed

end
