(* ===== verification/Kube_Interface.thy ===== *)
theory Kube_Interface
  imports Model
begin

text \<open>
  The Kubernetes API as the controllers use it: a record of the calls of the typed client
  (\<open>client.Client\<close> of controller-runtime) on service brokers, service instances, service classes
  and addons configurations, the tests on API errors, the two retry loops of the client
  libraries, and what the controllers rely on as two locales, \<open>broker_api\<close> and \<open>config_api\<close>. A
  small store of API objects, \<open>Cluster\<close>, satisfies both.
\<close>

section \<open>Errors of the API\<close>

text \<open>The tests of \<open>k8s.io/apimachinery/pkg/api/errors\<close> look below the wrappers of an error.\<close>

definition kReason :: "error \<Rightarrow> apiReason" where
  "kReason e = (case Cause e of StatusError r m \<Rightarrow> r | _ \<Rightarrow> ApiOther)"

definition kIsNotFound :: "error \<Rightarrow> bool" where
  "kIsNotFound e \<longleftrightarrow> kReason e = ApiNotFound"

definition kIsAlreadyExists :: "error \<Rightarrow> bool" where
  "kIsAlreadyExists e \<longleftrightarrow> kReason e = ApiAlreadyExists"

definition kIsConflict :: "error \<Rightarrow> bool" where
  "kIsConflict e \<longleftrightarrow> kReason e = ApiConflict"

lemmas kube_error_defs = kReason_def kIsNotFound_def kIsAlreadyExists_def kIsConflict_def

section \<open>Objects and calls\<close>

text \<open>
  The client is typed: the kind of an object selects the resource. An object is named by its
  namespace and its name; cluster-scoped objects have the empty namespace. Listing in the empty
  namespace lists every namespace.
\<close>

datatype brokerKind = KServiceBroker | KClusterServiceBroker

datatype configKind = KAddonsConfiguration | KClusterAddonsConfiguration

type_synonym NamespacedName = "Namespace \<times> string"

record ServiceBroker =
  sb_Name :: string
  sb_Namespace :: Namespace
  sb_Labels :: Labels
  sb_URL :: string
  sb_RelistRequests :: int
  sb_DeletionTimestamp :: "time option"

abbreviation sb_key :: "ServiceBroker \<Rightarrow> NamespacedName" where
  "sb_key b \<equiv> (sb_Namespace b, sb_Name b)"

abbreviation ca_key :: "CommonAddon \<Rightarrow> NamespacedName" where
  "ca_key c \<equiv> (meta_Namespace (ca_Meta c), meta_Name (ca_Meta c))"

record ServiceInstance =
  si_Namespace :: Namespace
  si_ServiceClassRef :: "string option"
  si_ClusterServiceClassRef :: "string option"

record ServiceClass =
  sc_Namespace :: Namespace
  sc_Name :: string
  sc_BrokerName :: string

record 's kube =
  kGetBroker :: "brokerKind \<Rightarrow> NamespacedName \<Rightarrow> 's \<Rightarrow> ServiceBroker result"
  kCreateBroker :: "brokerKind \<Rightarrow> ServiceBroker \<Rightarrow> 's \<Rightarrow> error option \<times> 's"
  kUpdateBroker :: "brokerKind \<Rightarrow> ServiceBroker \<Rightarrow> 's \<Rightarrow> error option \<times> 's"
  kDeleteBroker :: "brokerKind \<Rightarrow> NamespacedName \<Rightarrow> 's \<Rightarrow> error option \<times> 's"
  kListInstances :: "Namespace \<Rightarrow> 's \<Rightarrow> ServiceInstance list result"
  kListServiceClasses :: "Namespace \<Rightarrow> 's \<Rightarrow> ServiceClass list result"
  kListClusterServiceClasses :: "'s \<Rightarrow> ServiceClass list result"
  kGetConfig :: "configKind \<Rightarrow> NamespacedName \<Rightarrow> 's \<Rightarrow> CommonAddon result"
  kUpdateConfig :: "configKind \<Rightarrow> CommonAddon \<Rightarrow> 's \<Rightarrow> CommonAddon result \<times> 's"
  kUpdateConfigStatus :: "configKind \<Rightarrow> CommonAddon \<Rightarrow> 's \<Rightarrow> error option \<times> 's"
  kListConfigs :: "configKind \<Rightarrow> Namespace \<Rightarrow> 's \<Rightarrow> CommonAddon list result"

section \<open>The retry loops of the client libraries\<close>

text \<open>
  \<open>wait.PollImmediate\<close> calls a condition at once and then at every tick until it holds or the time
  is over. How many attempts the time allows depends on how long the calls take; their number is
  a parameter. \<open>retry.RetryOnConflict\<close> repeats a call that was answered by a conflict, up to a
  number of steps, and then reports the last conflict.
\<close>

definition ErrWaitTimeout :: error where
  "ErrWaitTimeout = ErrorString ''timed out waiting for the condition''"

fun PollImmediate :: "nat \<Rightarrow> ('s \<Rightarrow> bool \<times> 's) \<Rightarrow> 's \<Rightarrow> error option \<times> 's" where
  "PollImmediate 0 cond s = (Some ErrWaitTimeout, s)"
| "PollImmediate (Suc n) cond s =
     (case cond s of
        (True, s1) \<Rightarrow> (None, s1)
      | (False, s1) \<Rightarrow> PollImmediate n cond s1)"

fun RetryOnConflict :: "nat \<Rightarrow> ('s \<Rightarrow> 'a result \<times> 's) \<Rightarrow> 's \<Rightarrow> 'a result \<times> 's" where
  "RetryOnConflict 0 fn s = fn s"
| "RetryOnConflict (Suc n) fn s =
     (case fn s of
        (Inr x, s1) \<Rightarrow> (Inr x, s1)
      | (Inl e, s1) \<Rightarrow> if kIsConflict e then RetryOnConflict n fn s1 else (Inl e, s1))"

lemma PollImmediate_ok:
  "PollImmediate n cond s = (None, s') \<Longrightarrow> \<exists>s1. cond s1 = (True, s')"
  by (induction n cond s rule: PollImmediate.induct) (auto split: prod.splits bool.splits)

lemma PollImmediate_inv:
  assumes "PollImmediate n cond s = (r, s')" and "I s"
    and "\<And>t b t'. I t \<Longrightarrow> cond t = (b, t') \<Longrightarrow> I t'"
  shows "I s'"
  using assms
  by (induction n cond s rule: PollImmediate.induct) (fastforce split: prod.splits bool.splits)+

text \<open>A successful retry ends in a successful attempt, and states between are reached by conflicts.\<close>

lemma RetryOnConflict_ok:
  "RetryOnConflict n fn s = (Inr x, s') \<Longrightarrow> \<exists>s1. fn s1 = (Inr x, s')"
  by (induction n fn s rule: RetryOnConflict.induct) (auto split: prod.splits sum.splits if_splits)

lemma RetryOnConflict_inv:
  assumes "RetryOnConflict n fn s = (r, s')" and "I s"
    and "\<And>t q t'. I t \<Longrightarrow> fn t = (q, t') \<Longrightarrow> I t'"
  shows "I s'"
  using assms
proof (induction n fn s rule: RetryOnConflict.induct)
  case (2 n fn s)
  obtain q s1 where f: "fn s = (q, s1)" by fastforce
  have "I s1" using 2 f by blast
  then show ?case using 2 f by (auto split: sum.splits if_splits)
qed auto

lemma RetryOnConflict_first:
  "fn s = (r, s1) \<Longrightarrow> (\<And>e. r = Inl e \<Longrightarrow> \<not> kIsConflict e) \<Longrightarrow> RetryOnConflict n fn s = (r, s1)"
  by (cases n) (auto split: sum.splits)

section \<open>What the controllers rely on\<close>

text \<open>
  The contract of the API on service brokers. Nothing is known of a call that failed for another
  reason, in particular an update answered by a conflict may find the object changed by someone
  else. An object with finalizers is not gone once it was deleted but is marked for deletion.
\<close>

locale broker_api =
  fixes k :: "'s kube"
    and brokers :: "'s \<Rightarrow> brokerKind \<Rightarrow> NamespacedName \<Rightarrow> ServiceBroker option"
  assumes broker_get: "kGetBroker k kd n s = Inr b \<Longrightarrow> brokers s kd n = Some b"
    and broker_get_missing: "kGetBroker k kd n s = Inl e \<Longrightarrow> kIsNotFound e \<Longrightarrow> brokers s kd n = None"
    and broker_get_error: "kGetBroker k kd n s = Inl e \<Longrightarrow> \<not> kIsAlreadyExists e"
    and broker_create: "kCreateBroker k kd b s = (None, s') \<Longrightarrow> brokers s' kd (sb_key b) = Some b"
    and broker_update: "kUpdateBroker k kd b s = (None, s') \<Longrightarrow> brokers s' kd (sb_key b) = Some b"
    and broker_delete: "kDeleteBroker k kd n s = (None, s') \<Longrightarrow>
      (\<forall>b. brokers s' kd n = Some b \<longrightarrow> sb_DeletionTimestamp b \<noteq> None)"
    and broker_delete_missing: "kDeleteBroker k kd n s = (Some e, s') \<Longrightarrow> kIsNotFound e \<Longrightarrow> brokers s' kd n = None"
    and broker_key: "brokers s kd n = Some b \<Longrightarrow> sb_key b = n"
    and broker_others: "(kd', n') \<noteq> (kd, sb_key b) \<Longrightarrow>
      brokers (snd (kCreateBroker k kd b s)) kd' n' = brokers s kd' n' \<and>
      brokers (snd (kUpdateBroker k kd b s)) kd' n' = brokers s kd' n' \<and>
      brokers (snd (kDeleteBroker k kd (sb_key b) s)) kd' n' = brokers s kd' n'"

text \<open>
  The contract on addons configurations, which have the status as a subresource: an update
  replaces finalizers and spec, keeps the status and raises the generation when the spec has
  changed; an update of the status replaces only the status. Both need the object to exist. An
  object that is being deleted disappears with its last finalizer.
\<close>

definition updated_config :: "CommonAddon \<Rightarrow> CommonAddon \<Rightarrow> CommonAddon" where
  "updated_config old c = old\<lparr>
     ca_Meta := (ca_Meta old)\<lparr>meta_Finalizers := meta_Finalizers (ca_Meta c),
       meta_Generation := (if ca_Spec c = ca_Spec old then meta_Generation (ca_Meta old)
                           else meta_Generation (ca_Meta old) + 1)\<rparr>,
     ca_Spec := ca_Spec c\<rparr>"

definition released :: "CommonAddon \<Rightarrow> bool" where
  "released c \<longleftrightarrow> meta_DeletionTimestamp (ca_Meta c) \<noteq> None \<and> meta_Finalizers (ca_Meta c) = []"

locale config_api =
  fixes k :: "'s kube"
    and configs :: "'s \<Rightarrow> configKind \<Rightarrow> NamespacedName \<Rightarrow> CommonAddon option"
  assumes config_get: "kGetConfig k kd n s = Inr c \<Longrightarrow> configs s kd n = Some c"
    and config_key: "configs s kd n = Some c \<Longrightarrow> ca_key c = n"
    and config_update: "kUpdateConfig k kd c s = (Inr c', s') \<Longrightarrow>
      \<exists>old. configs s kd (ca_key c) = Some old \<and> c' = updated_config old c \<and>
        configs s' kd (ca_key c) = (if released c' then None else Some c')"
    and config_status: "kUpdateConfigStatus k kd c s = (None, s') \<Longrightarrow>
      \<exists>old. configs s kd (ca_key c) = Some old \<and>
        configs s' kd (ca_key c) = Some (old\<lparr>ca_Status := ca_Status c\<rparr>)"
    and config_list: "kListConfigs k kd ns s = Inr cs \<Longrightarrow>
      c \<in> set cs \<longleftrightarrow> (\<exists>n. configs s kd n = Some c \<and> (ns = '''' \<or> fst n = ns))"
    and config_others: "(kd', n') \<noteq> (kd, ca_key c) \<Longrightarrow>
      configs (snd (kUpdateConfig k kd c s)) kd' n' = configs s kd' n' \<and>
      configs (snd (kUpdateConfigStatus k kd c s)) kd' n' = configs s kd' n'"

section \<open>A store of API objects\<close>

text \<open>
  Objects are kept in a list and found by the key they carry.
\<close>

definition find_obj :: "('a \<Rightarrow> 'k) \<Rightarrow> 'k \<Rightarrow> 'a list \<Rightarrow> 'a option" where
  "find_obj f x xs = find (\<lambda>y. f y = x) xs"

definition del_obj :: "('a \<Rightarrow> 'k) \<Rightarrow> 'k \<Rightarrow> 'a list \<Rightarrow> 'a list" where
  "del_obj f x xs = filter (\<lambda>y. f y \<noteq> x) xs"

definition put_obj :: "('a \<Rightarrow> 'k) \<Rightarrow> 'a \<Rightarrow> 'a list \<Rightarrow> 'a list" where
  "put_obj f y xs = y # del_obj f (f y) xs"

lemma find_obj_key: "find_obj f x xs = Some y \<Longrightarrow> f y = x"
  by (auto simp: find_obj_def find_Some_iff)

lemma find_obj_in: "find_obj f x xs = Some y \<Longrightarrow> y \<in> set xs"
  by (auto simp: find_obj_def find_Some_iff)

lemma find_obj_del [simp]: "find_obj f x (del_obj f z xs) = (if x = z then None else find_obj f x xs)"
  by (induction xs) (auto simp: find_obj_def del_obj_def)

lemma find_obj_put [simp]: "find_obj f x (put_obj f y xs) = (if x = f y then Some y else find_obj f x xs)"
  using find_obj_del [of f x "f y" xs] by (auto simp: put_obj_def find_obj_def)

text \<open>The objects of a cluster, and how many of the next updates are answered by a conflict.\<close>

record Cluster =
  cl_brokers :: "(brokerKind \<times> ServiceBroker) list"
  cl_configs :: "(configKind \<times> CommonAddon) list"
  cl_instances :: "ServiceInstance list"
  cl_classes :: "ServiceClass list"
  cl_clusterClasses :: "ServiceClass list"
  cl_conflicts :: nat

fun broker_id :: "brokerKind \<times> ServiceBroker \<Rightarrow> brokerKind \<times> NamespacedName" where
  "broker_id (kd, b) = (kd, sb_key b)"

fun config_id :: "configKind \<times> CommonAddon \<Rightarrow> configKind \<times> NamespacedName" where
  "config_id (kd, c) = (kd, ca_key c)"

definition clusterBrokers :: "Cluster \<Rightarrow> brokerKind \<Rightarrow> NamespacedName \<Rightarrow> ServiceBroker option" where
  "clusterBrokers s kd n = map_option snd (find_obj broker_id (kd, n) (cl_brokers s))"

definition clusterConfigs :: "Cluster \<Rightarrow> configKind \<Rightarrow> NamespacedName \<Rightarrow> CommonAddon option" where
  "clusterConfigs s kd n = map_option snd (find_obj config_id (kd, n) (cl_configs s))"

definition apiError :: "apiReason \<Rightarrow> error" where
  "apiError r = StatusError r ''api''"

definition inNamespace :: "Namespace \<Rightarrow> ('a \<Rightarrow> Namespace) \<Rightarrow> 'a list \<Rightarrow> 'a list" where
  "inNamespace ns f xs = (if ns = '''' then xs else filter (\<lambda>x. f x = ns) xs)"

definition cl_found :: "'a option \<Rightarrow> 'a result" where
  "cl_found r = (case r of None \<Rightarrow> Inl (apiError ApiNotFound) | Some y \<Rightarrow> Inr y)"

definition cl_createBroker :: "brokerKind \<Rightarrow> ServiceBroker \<Rightarrow> Cluster \<Rightarrow> error option \<times> Cluster" where
  "cl_createBroker kd b s =
     (if clusterBrokers s kd (sb_key b) \<noteq> None then (Some (apiError ApiAlreadyExists), s)
      else (None, s\<lparr>cl_brokers := put_obj broker_id (kd, b) (cl_brokers s)\<rparr>))"

definition cl_updateBroker :: "brokerKind \<Rightarrow> ServiceBroker \<Rightarrow> Cluster \<Rightarrow> error option \<times> Cluster" where
  "cl_updateBroker kd b s =
     (if cl_conflicts s > 0 then (Some (apiError ApiConflict), s\<lparr>cl_conflicts := cl_conflicts s - 1\<rparr>)
      else if clusterBrokers s kd (sb_key b) = None then (Some (apiError ApiNotFound), s)
      else (None, s\<lparr>cl_brokers := put_obj broker_id (kd, b) (cl_brokers s)\<rparr>))"

definition cl_deleteBroker :: "brokerKind \<Rightarrow> NamespacedName \<Rightarrow> Cluster \<Rightarrow> error option \<times> Cluster" where
  "cl_deleteBroker kd n s =
     (if clusterBrokers s kd n = None then (Some (apiError ApiNotFound), s)
      else (None, s\<lparr>cl_brokers := del_obj broker_id (kd, n) (cl_brokers s)\<rparr>))"

definition cl_updateConfig :: "configKind \<Rightarrow> CommonAddon \<Rightarrow> Cluster \<Rightarrow> CommonAddon result \<times> Cluster" where
  "cl_updateConfig kd c s =
     (if cl_conflicts s > 0 then (Inl (apiError ApiConflict), s\<lparr>cl_conflicts := cl_conflicts s - 1\<rparr>)
      else case clusterConfigs s kd (ca_key c) of
             None \<Rightarrow> (Inl (apiError ApiNotFound), s)
           | Some old \<Rightarrow>
               let c' = updated_config old c
               in (Inr c', s\<lparr>cl_configs :=
                     (if released c' then del_obj config_id (kd, ca_key c) (cl_configs s)
                      else put_obj config_id (kd, c') (cl_configs s))\<rparr>))"

definition cl_updateConfigStatus :: "configKind \<Rightarrow> CommonAddon \<Rightarrow> Cluster \<Rightarrow> error option \<times> Cluster" where
  "cl_updateConfigStatus kd c s =
     (if cl_conflicts s > 0 then (Some (apiError ApiConflict), s\<lparr>cl_conflicts := cl_conflicts s - 1\<rparr>)
      else case clusterConfigs s kd (ca_key c) of
             None \<Rightarrow> (Some (apiError ApiNotFound), s)
           | Some old \<Rightarrow>
               (None, s\<lparr>cl_configs := put_obj config_id (kd, old\<lparr>ca_Status := ca_Status c\<rparr>) (cl_configs s)\<rparr>))"

definition cl_listConfigs :: "configKind \<Rightarrow> Namespace \<Rightarrow> Cluster \<Rightarrow> CommonAddon list" where
  "cl_listConfigs kd ns s =
     inNamespace ns (\<lambda>c. meta_Namespace (ca_Meta c))
       (filter (\<lambda>c. clusterConfigs s kd (ca_key c) = Some c) (map snd (cl_configs s)))"

definition clusterKube :: "Cluster kube" where
  "clusterKube = \<lparr>
     kGetBroker = (\<lambda>kd n s. cl_found (clusterBrokers s kd n)),
     kCreateBroker = cl_createBroker,
     kUpdateBroker = cl_updateBroker,
     kDeleteBroker = cl_deleteBroker,
     kListInstances = (\<lambda>ns s. Inr (inNamespace ns si_Namespace (cl_instances s))),
     kListServiceClasses = (\<lambda>ns s. Inr (inNamespace ns sc_Namespace (cl_classes s))),
     kListClusterServiceClasses = (\<lambda>s. Inr (cl_clusterClasses s)),
     kGetConfig = (\<lambda>kd n s. cl_found (clusterConfigs s kd n)),
     kUpdateConfig = cl_updateConfig,
     kUpdateConfigStatus = cl_updateConfigStatus,
     kListConfigs = (\<lambda>kd ns s. Inr (cl_listConfigs kd ns s))\<rparr>"

lemmas cluster_defs = clusterKube_def clusterBrokers_def clusterConfigs_def cl_found_def cl_createBroker_def
  cl_updateBroker_def cl_deleteBroker_def cl_updateConfig_def cl_updateConfigStatus_def apiError_def

lemma clusterBrokers_key: "clusterBrokers s kd n = Some b \<Longrightarrow> sb_key b = n"
  by (auto simp: clusterBrokers_def dest: find_obj_key)

lemma clusterConfigs_key: "clusterConfigs s kd n = Some c \<Longrightarrow> ca_key c = n"
  by (auto simp: clusterConfigs_def dest: find_obj_key)

lemma clusterConfigs_in: "clusterConfigs s kd n = Some c \<Longrightarrow> c \<in> snd ` set (cl_configs s)"
  by (force simp: clusterConfigs_def dest: find_obj_in)

interpretation clb: broker_api clusterKube clusterBrokers
  by unfold_locales
    (auto simp: cluster_defs kube_error_defs split: if_splits option.splits dest: find_obj_key)

lemma updated_config_key [simp]: "ca_key (updated_config old c) = ca_key old"
  by (simp add: updated_config_def)

lemma clusterConfigs_put [simp]:
  "clusterConfigs (s\<lparr>cl_configs := put_obj config_id (kd, c) (cl_configs s)\<rparr>) kd' n =
     (if (kd', n) = (kd, ca_key c) then Some c else clusterConfigs s kd' n)"
  by (simp add: clusterConfigs_def)

lemma clusterConfigs_del [simp]:
  "clusterConfigs (s\<lparr>cl_configs := del_obj config_id (kd, x) (cl_configs s)\<rparr>) kd' n =
     (if (kd', n) = (kd, x) then None else clusterConfigs s kd' n)"
  by (simp add: clusterConfigs_def)

lemma clusterConfigs_conflicts [simp]: "clusterConfigs (s\<lparr>cl_conflicts := x\<rparr>) = clusterConfigs s"
  by (simp add: clusterConfigs_def fun_eq_iff)

lemma cluster_update_config:
  assumes "cl_updateConfig kd c s = (Inr c', s')"
  shows "\<exists>old. clusterConfigs s kd (ca_key c) = Some old \<and> c' = updated_config old c \<and>
    clusterConfigs s' kd (ca_key c) = (if released c' then None else Some c')"
proof -
  from assms obtain old where old: "clusterConfigs s kd (ca_key c) = Some old" and c': "c' = updated_config old c"
    and s': "s' = s\<lparr>cl_configs := (if released c' then del_obj config_id (kd, ca_key c) (cl_configs s)
        else put_obj config_id (kd, c') (cl_configs s))\<rparr>"
    by (auto simp: cl_updateConfig_def Let_def split: if_splits option.splits)
  have "ca_key c' = ca_key c" using clusterConfigs_key [OF old] c' by simp
  with old c' s' show ?thesis by simp
qed

lemma cluster_update_status:
  assumes "cl_updateConfigStatus kd c s = (None, s')"
  shows "\<exists>old. clusterConfigs s kd (ca_key c) = Some old \<and>
    clusterConfigs s' kd (ca_key c) = Some (old\<lparr>ca_Status := ca_Status c\<rparr>)"
proof -
  from assms obtain old where old: "clusterConfigs s kd (ca_key c) = Some old"
    and s': "s' = s\<lparr>cl_configs := put_obj config_id (kd, old\<lparr>ca_Status := ca_Status c\<rparr>) (cl_configs s)\<rparr>"
    by (auto simp: cl_updateConfigStatus_def split: if_splits option.splits)
  with clusterConfigs_key [OF old] show ?thesis by simp
qed

lemma cluster_config_others:
  assumes "(kd', n') \<noteq> (kd, ca_key c)"
  shows "clusterConfigs (snd (cl_updateConfig kd c s)) kd' n' = clusterConfigs s kd' n' \<and>
    clusterConfigs (snd (cl_updateConfigStatus kd c s)) kd' n' = clusterConfigs s kd' n'"
proof (cases "clusterConfigs s kd (ca_key c)")
  case None
  then show ?thesis by (simp add: cl_updateConfig_def cl_updateConfigStatus_def)
next
  case (Some old)
  have "ca_key (updated_config old c) = ca_key c" "ca_key (old\<lparr>ca_Status := ca_Status c\<rparr>) = ca_key c"
    using clusterConfigs_key [OF Some] by auto
  with Some assms show ?thesis
    by (auto simp: cl_updateConfig_def cl_updateConfigStatus_def Let_def)
qed

lemma cluster_list:
  "c \<in> set (cl_listConfigs kd ns s) \<longleftrightarrow> (\<exists>n. clusterConfigs s kd n = Some c \<and> (ns = '''' \<or> fst n = ns))"
proof -
  have "clusterConfigs s kd n = Some c \<Longrightarrow> n = ca_key c \<and> c \<in> snd ` set (cl_configs s)" for n
    using clusterConfigs_in [of s kd n c] clusterConfigs_key [of s kd n c] by simp
  then have "(\<exists>n. clusterConfigs s kd n = Some c \<and> (ns = '''' \<or> fst n = ns)) \<longleftrightarrow>
      c \<in> snd ` set (cl_configs s) \<and> clusterConfigs s kd (ca_key c) = Some c \<and>
      (ns = '''' \<or> meta_Namespace (ca_Meta c) = ns)"
    by (metis fst_conv)
  then show ?thesis by (auto simp: cl_listConfigs_def inNamespace_def)
qed

interpretation clc: config_api clusterKube clusterConfigs
proof (unfold_locales, goal_cases)
  case 1 then show ?case by (simp add: clusterKube_def cl_found_def split: option.splits)
next
  case 2 then show ?case by (rule clusterConfigs_key)
next
  case 3 then show ?case by (simp add: clusterKube_def cluster_update_config)
next
  case 4 then show ?case by (simp add: clusterKube_def cluster_update_status)
next
  case (5 kd ns s cs c)
  then have "cs = cl_listConfigs kd ns s" by (simp add: clusterKube_def)
  then show ?case by (simp only: cluster_list)
next
  case 6 then show ?case using cluster_config_others by (simp add: clusterKube_def)
qed

end
