(* ===== verification/Docs.thy ===== *)
theory Docs
  imports Kube_Interface
begin

text \<open>
  The documentation of addons, \<open>internal/controller/docs\<close>: asset groups for the addons of a
  namespace (\<open>provider.go\<close>) and cluster asset groups for cluster-wide ones (\<open>cluster_provider.go\<close>).
  The two providers differ in the kind and the namespace of the object. The calls of the API client
  are a record of functions; \<open>polls\<close> is the number of attempts the time of \<open>wait.PollImmediate\<close> allows
  and \<open>retries\<close> the number of repetitions of \<open>retry.RetryOnConflict\<close>.
\<close>

section \<open>Objects and calls\<close>

datatype assetKind = KAssetGroup | KClusterAssetGroup

record AssetGroup =
  ag_Name :: string
  ag_Namespace :: Namespace
  ag_Labels :: Labels
  ag_Spec :: AddonDocs

abbreviation ag_key :: "AssetGroup \<Rightarrow> NamespacedName" where
  "ag_key g \<equiv> (ag_Namespace g, ag_Name g)"

record 's assetApi =
  agGet :: "assetKind \<Rightarrow> NamespacedName \<Rightarrow> 's \<Rightarrow> AssetGroup result \<times> 's"
  agCreate :: "assetKind \<Rightarrow> AssetGroup \<Rightarrow> 's \<Rightarrow> error option \<times> 's"
  agUpdate :: "assetKind \<Rightarrow> AssetGroup \<Rightarrow> 's \<Rightarrow> error option \<times> 's"
  agDelete :: "assetKind \<Rightarrow> NamespacedName \<Rightarrow> 's \<Rightarrow> error option \<times> 's"

definition rafterLabelKey :: string where [go_consts]:
  "rafterLabelKey = ''rafter.kyma-project.io/view-context''"

definition hbLabelKey :: string where [go_consts]:
  "hbLabelKey = ''helm-broker.kyma-project.io/addon-docs''"

section \<open>Both providers\<close>

definition defaultDocsSourcesURLs :: "string \<Rightarrow> AddonDocs \<Rightarrow> DocsSource list" where
  "defaultDocsSourcesURLs repositoryURL docs =
     map (\<lambda>source. if src_URL source = '''' then source\<lparr>src_URL := repositoryURL\<rparr> else source) (docs_Sources docs)"

definition assetGroup :: "Namespace \<Rightarrow> AddonID \<Rightarrow> AddonDocs \<Rightarrow> AssetGroup" where
  "assetGroup ns i docs = \<lparr>ag_Name = i, ag_Namespace = ns,
     ag_Labels = [(rafterLabelKey, ''service-catalog''), (hbLabelKey, ''true'')], ag_Spec = docs\<rparr>"

definition kindText :: "assetKind \<Rightarrow> string" where
  "kindText kd = (case kd of KAssetGroup \<Rightarrow> ''AssetGroup'' | KClusterAssetGroup \<Rightarrow> ''ClusterAssetGroup'')"

definition updateOnce ::
  "'s assetApi \<Rightarrow> assetKind \<Rightarrow> Namespace \<Rightarrow> AddonID \<Rightarrow> AddonDocs \<Rightarrow> 's \<Rightarrow> unit result \<times> 's" where
  "updateOnce k kd ns i docs s =
     (case agGet k kd (ns, i) s of
        (Inl err, s1) \<Rightarrow> (Inl (Wrapped err (''while getting '' @ kindText kd @ '' '' @ i)), s1)
      | (Inr dt, s1) \<Rightarrow>
          if ag_Spec dt = docs then (Inr (), s1)
          else (case agUpdate k kd (dt\<lparr>ag_Spec := docs\<rparr>) s1 of
                  (Some err, s2) \<Rightarrow> (Inl err, s2)
                | (None, s2) \<Rightarrow> (Inr (), s2)))"

definition updateGroup ::
  "'s assetApi \<Rightarrow> nat \<Rightarrow> assetKind \<Rightarrow> Namespace \<Rightarrow> AddonID \<Rightarrow> AddonDocs \<Rightarrow> 's \<Rightarrow> unit result \<times> 's" where
  "updateGroup k retries kd ns i docs s = RetryOnConflict retries (updateOnce k kd ns i docs) s"

definition ensureOnce ::
  "'s assetApi \<Rightarrow> nat \<Rightarrow> assetKind \<Rightarrow> Namespace \<Rightarrow> AddonID \<Rightarrow> AddonDocs \<Rightarrow> 's \<Rightarrow> bool \<times> 's" where
  "ensureOnce k retries kd ns i docs s =
     (case agCreate k kd (assetGroup ns i docs) s of
        (None, s1) \<Rightarrow> (True, s1)
      | (Some err, s1) \<Rightarrow>
          if kIsAlreadyExists err
          then (case updateGroup k retries kd ns i docs s1 of
                  (Inl _, s2) \<Rightarrow> (False, s2)
                | (Inr _, s2) \<Rightarrow> (True, s2))
          else (False, s1))"

text \<open>
  The addon is changed through its pointer, so that it is returned. \<open>None\<close> is the access to the first
  of no documents, which the validation of addons does not exclude: the caller checks the number.
\<close>

definition ensureGroup ::
  "'s assetApi \<Rightarrow> nat \<Rightarrow> nat \<Rightarrow> assetKind \<Rightarrow> Namespace \<Rightarrow> Addon \<Rightarrow> 's \<Rightarrow> (error option \<times> Addon \<times> 's) option" where
  "ensureGroup k polls retries kd ns addon s =
     (case ad_Docs addon of
        [] \<Rightarrow> None
      | docs # rest \<Rightarrow>
          (let docs1 = docs\<lparr>docs_Sources := defaultDocsSourcesURLs (ad_RepositoryURL addon) docs\<rparr>;
               (err, s1) = PollImmediate polls (ensureOnce k retries kd ns (ad_ID addon) docs1) s in
           Some (err, addon\<lparr>ad_Docs := docs1 # rest\<rparr>, s1)))"

definition removeOnce :: "'s assetApi \<Rightarrow> assetKind \<Rightarrow> NamespacedName \<Rightarrow> 's \<Rightarrow> bool \<times> 's" where
  "removeOnce k kd n s =
     (case agDelete k kd n s of
        (None, s1) \<Rightarrow> (True, s1)
      | (Some err, s1) \<Rightarrow> (kIsNotFound err, s1))"

section \<open>The provider of a namespace\<close>

definition EnsureAssetGroup ::
  "'s assetApi \<Rightarrow> nat \<Rightarrow> nat \<Rightarrow> Namespace \<Rightarrow> Addon \<Rightarrow> 's \<Rightarrow> (error option \<times> Addon \<times> 's) option" where
  "EnsureAssetGroup k polls retries ns addon s = ensureGroup k polls retries KAssetGroup ns addon s"

definition EnsureAssetGroupRemoved ::
  "'s assetApi \<Rightarrow> nat \<Rightarrow> Namespace \<Rightarrow> AddonID \<Rightarrow> 's \<Rightarrow> error option \<times> 's" where
  "EnsureAssetGroupRemoved k polls ns i s = PollImmediate polls (removeOnce k KAssetGroup (ns, i)) s"

section \<open>The cluster-wide provider\<close>

definition EnsureClusterAssetGroup ::
  "'s assetApi \<Rightarrow> nat \<Rightarrow> nat \<Rightarrow> Addon \<Rightarrow> 's \<Rightarrow> (error option \<times> Addon \<times> 's) option" where
  "EnsureClusterAssetGroup k polls retries addon s = ensureGroup k polls retries KClusterAssetGroup '''' addon s"

definition EnsureClusterAssetGroupRemoved ::
  "'s assetApi \<Rightarrow> nat \<Rightarrow> AddonID \<Rightarrow> 's \<Rightarrow> error option \<times> 's" where
  "EnsureClusterAssetGroupRemoved k polls i s = PollImmediate polls (removeOnce k KClusterAssetGroup ('''', i)) s"

section \<open>What the providers rely on\<close>

locale asset_api =
  fixes k :: "'s assetApi"
    and groups :: "'s \<Rightarrow> assetKind \<Rightarrow> NamespacedName \<Rightarrow> AssetGroup option"
  assumes asset_get: "agGet k kd n s = (Inr g, s') \<Longrightarrow> groups s kd n = Some g"
    and asset_get_keeps: "groups (snd (agGet k kd n s)) = groups s"
    and asset_create: "agCreate k kd g s = (None, s') \<Longrightarrow> groups s' kd (ag_key g) = Some g"
    and asset_update: "agUpdate k kd g s = (None, s') \<Longrightarrow> groups s' kd (ag_key g) = Some g"
    and asset_delete: "agDelete k kd n s = (None, s') \<Longrightarrow> groups s' kd n = None"
    and asset_delete_missing: "agDelete k kd n s = (Some e, s') \<Longrightarrow> kIsNotFound e \<Longrightarrow> groups s' kd n = None"
    and asset_key: "groups s kd n = Some g \<Longrightarrow> ag_key g = n"
    and asset_others: "(kd', n') \<noteq> (kd, ag_key g) \<Longrightarrow>
      groups (snd (agCreate k kd g s)) kd' n' = groups s kd' n' \<and>
      groups (snd (agUpdate k kd g s)) kd' n' = groups s kd' n'"
    and asset_delete_others: "(kd', n') \<noteq> (kd, n) \<Longrightarrow> groups (snd (agDelete k kd n s)) kd' n' = groups s kd' n'"
begin

definition described :: "assetKind \<Rightarrow> Namespace \<Rightarrow> AddonID \<Rightarrow> AddonDocs \<Rightarrow> 's \<Rightarrow> bool" where
  "described kd ns i docs s \<longleftrightarrow> (\<exists>g. groups s kd (ns, i) = Some g \<and> ag_Spec g = docs)"

definition same_others :: "assetKind \<Rightarrow> NamespacedName \<Rightarrow> 's \<Rightarrow> 's \<Rightarrow> bool" where
  "same_others kd n s s' \<longleftrightarrow> (\<forall>kd' n'. (kd', n') \<noteq> (kd, n) \<longrightarrow> groups s' kd' n' = groups s kd' n')"

lemma same_others_refl [simp]: "same_others kd n s s"
  by (simp add: same_others_def)

lemma same_others_trans: "same_others kd n s t \<Longrightarrow> same_others kd n t u \<Longrightarrow> same_others kd n s u"
  by (simp add: same_others_def)

lemma same_others_poll:
  assumes "\<And>t. same_others kd n t (snd (c t))"
  shows "same_others kd n s (snd (PollImmediate m c s))"
proof (rule PollImmediate_inv [of m c s "fst (PollImmediate m c s)" _ "same_others kd n s"])
  fix t b t'
  assume "same_others kd n s t" "c t = (b, t')"
  with assms [of t] show "same_others kd n s t'" by (auto intro: same_others_trans)
qed simp_all

lemma same_others_retry:
  assumes "\<And>t. same_others kd n t (snd (f t))"
  shows "same_others kd n s (snd (RetryOnConflict m f s))"
proof (rule RetryOnConflict_inv [of m f s "fst (RetryOnConflict m f s)" _ "same_others kd n s"])
  fix t b t'
  assume "same_others kd n s t" "f t = (b, t')"
  with assms [of t] show "same_others kd n s t'" by (auto intro: same_others_trans)
qed simp_all

lemma updateOnce_described:
  assumes "updateOnce k kd ns i docs s = (Inr u, s')"
  shows "described kd ns i docs s'"
proof -
  from assms obtain dt s1 where get: "agGet k kd (ns, i) s = (Inr dt, s1)"
    by (auto simp: updateOnce_def split: prod.splits sum.splits)
  have here: "groups s1 kd (ns, i) = Some dt"
    using asset_get [OF get] asset_get_keeps [of kd "(ns, i)" s] get by simp
  then have key: "ag_key (dt\<lparr>ag_Spec := docs\<rparr>) = (ns, i)" using asset_key by fastforce
  show ?thesis
  proof (cases "ag_Spec dt = docs")
    case True
    with assms get here show ?thesis by (simp add: updateOnce_def described_def)
  next
    case False
    with assms get have "agUpdate k kd (dt\<lparr>ag_Spec := docs\<rparr>) s1 = (None, s')"
      by (auto simp: updateOnce_def split: prod.splits option.splits)
    from asset_update [OF this] key show ?thesis by (simp add: described_def)
  qed
qed

lemma updateOnce_others: "same_others kd (ns, i) s (snd (updateOnce k kd ns i docs s))"
proof -
  obtain r s1 where get: "agGet k kd (ns, i) s = (r, s1)" by fastforce
  then have s1: "groups s1 = groups s" using asset_get_keeps [of kd "(ns, i)" s] by simp
  show ?thesis
  proof (cases r)
    case (Inr dt)
    then have "ag_key (dt\<lparr>ag_Spec := docs\<rparr>) = (ns, i)" using asset_get get asset_key by fastforce
    then have "same_others kd (ns, i) s (snd (agUpdate k kd (dt\<lparr>ag_Spec := docs\<rparr>) s1))"
      using asset_others [of _ _ kd "dt\<lparr>ag_Spec := docs\<rparr>" s1] s1 by (auto simp: same_others_def)
    with get Inr s1 show ?thesis by (auto simp: updateOnce_def same_others_def split: prod.splits option.splits)
  qed (use get s1 in \<open>simp add: updateOnce_def same_others_def\<close>)
qed

lemma updateGroup_others: "same_others kd (ns, i) s (snd (updateGroup k retries kd ns i docs s))"
  unfolding updateGroup_def by (intro same_others_retry updateOnce_others)

lemma ensureOnce_ok:
  assumes "ensureOnce k retries kd ns i docs s = (True, s')"
  shows "described kd ns i docs s'"
proof -
  obtain r s1 where create: "agCreate k kd (assetGroup ns i docs) s = (r, s1)" by fastforce
  show ?thesis
  proof (cases r)
    case None
    with create assms asset_create [of kd "assetGroup ns i docs" s s1] show ?thesis
      by (simp add: ensureOnce_def described_def assetGroup_def)
  next
    case (Some err)
    with create assms obtain u where "updateGroup k retries kd ns i docs s1 = (Inr u, s')"
      by (auto simp: ensureOnce_def split: if_splits prod.splits sum.splits)
    then obtain s2 where "updateOnce k kd ns i docs s2 = (Inr u, s')"
      unfolding updateGroup_def by (blast dest: RetryOnConflict_ok)
    then show ?thesis by (rule updateOnce_described)
  qed
qed

lemma ensureOnce_others: "same_others kd (ns, i) s (snd (ensureOnce k retries kd ns i docs s))"
proof -
  obtain r s1 where create: "agCreate k kd (assetGroup ns i docs) s = (r, s1)" by fastforce
  then have s1: "same_others kd (ns, i) s s1"
    using asset_others [of _ _ kd "assetGroup ns i docs" s] by (simp add: same_others_def assetGroup_def)
  with create updateGroup_others [of kd ns i s1 retries docs] show ?thesis
    by (auto simp: ensureOnce_def same_others_def split: option.splits prod.splits sum.splits)
qed

lemma ensureGroup_correct:
  assumes "ensureGroup k polls retries kd ns addon s = Some (err, addon', s')"
  shows "same_others kd (ns, ad_ID addon) s s' \<and>
    (err = None \<longrightarrow> described kd ns (ad_ID addon) (ad_Docs addon' ! 0) s')"
proof -
  from assms obtain docs rest where d: "ad_Docs addon = docs # rest"
    by (auto simp: ensureGroup_def split: list.splits)
  let ?docs = "docs\<lparr>docs_Sources := defaultDocsSourcesURLs (ad_RepositoryURL addon) docs\<rparr>"
  let ?cond = "ensureOnce k retries kd ns (ad_ID addon) ?docs"
  from assms d have run: "PollImmediate polls ?cond s = (err, s')" and a: "ad_Docs addon' ! 0 = ?docs"
    by (auto simp: ensureGroup_def Let_def split: prod.splits)
  have "same_others kd (ns, ad_ID addon) s s'"
  proof -
    have "same_others kd (ns, ad_ID addon) s (snd (PollImmediate polls ?cond s))"
      by (intro same_others_poll ensureOnce_others)
    with run show ?thesis by simp
  qed
  moreover have "described kd ns (ad_ID addon) ?docs s'" if "err = None"
  proof -
    from run that obtain s1 where "?cond s1 = (True, s')" by (blast dest: PollImmediate_ok)
    then show ?thesis by (rule ensureOnce_ok)
  qed
  ultimately show ?thesis using a by simp
qed

lemma remove_correct:
  assumes "PollImmediate polls (removeOnce k kd n) s = (err, s')"
  shows "same_others kd n s s' \<and> (err = None \<longrightarrow> groups s' kd n = None)"
proof -
  have once: "same_others kd n t (snd (removeOnce k kd n t))" for t
    using asset_delete_others [of _ _ kd n t]
    by (auto simp: removeOnce_def same_others_def split: prod.splits option.splits)
  have "same_others kd n s s'"
    using same_others_poll [OF once, of s polls] assms by simp
  moreover have "groups s' kd n = None" if "err = None"
  proof -
    from assms that obtain s1 where "removeOnce k kd n s1 = (True, s')" by (blast dest: PollImmediate_ok)
    then show ?thesis
      by (auto simp: removeOnce_def split: prod.splits option.splits dest: asset_delete asset_delete_missing)
  qed
  ultimately show ?thesis by blast
qed

end

section \<open>A store of asset groups\<close>

text \<open>The store may refuse any call; \<open>ast_refuse\<close> decides by the number of calls so far.\<close>

record Assets =
  ast_groups :: "assetKind \<Rightarrow> AssetGroup list"
  ast_calls :: nat
  ast_refuse :: "nat \<Rightarrow> error option"

definition storedGroup :: "Assets \<Rightarrow> assetKind \<Rightarrow> NamespacedName \<Rightarrow> AssetGroup option" where
  "storedGroup s kd n = find_obj (\<lambda>g. ag_key g) n (ast_groups s kd)"

definition ast_tick :: "Assets \<Rightarrow> Assets" where
  "ast_tick s = s\<lparr>ast_calls := ast_calls s + 1\<rparr>"

definition ast_put :: "assetKind \<Rightarrow> AssetGroup \<Rightarrow> Assets \<Rightarrow> Assets" where
  "ast_put kd g s = s\<lparr>ast_groups := (ast_groups s)(kd := put_obj (\<lambda>g. ag_key g) g (ast_groups s kd))\<rparr>"

definition ast_del :: "assetKind \<Rightarrow> NamespacedName \<Rightarrow> Assets \<Rightarrow> Assets" where
  "ast_del kd n s = s\<lparr>ast_groups := (ast_groups s)(kd := del_obj (\<lambda>g. ag_key g) n (ast_groups s kd))\<rparr>"

definition ast_notFound :: error where
  "ast_notFound = StatusError ApiNotFound ''not found''"

definition ast_exists :: error where
  "ast_exists = StatusError ApiAlreadyExists ''already exists''"

definition assetStore :: "Assets assetApi" where
  "assetStore = \<lparr>
     agGet = \<lambda>kd n s. (case ast_refuse s (ast_calls s) of
         Some err \<Rightarrow> Inl err
       | None \<Rightarrow> (case storedGroup s kd n of None \<Rightarrow> Inl ast_notFound | Some g \<Rightarrow> Inr g), ast_tick s),
     agCreate = \<lambda>kd g s. (case ast_refuse s (ast_calls s) of
         Some err \<Rightarrow> (Some err, ast_tick s)
       | None \<Rightarrow> if storedGroup s kd (ag_key g) = None then (None, ast_put kd g (ast_tick s)) else (Some ast_exists, ast_tick s)),
     agUpdate = \<lambda>kd g s. (case ast_refuse s (ast_calls s) of
         Some err \<Rightarrow> (Some err, ast_tick s)
       | None \<Rightarrow> if storedGroup s kd (ag_key g) = None then (Some ast_notFound, ast_tick s) else (None, ast_put kd g (ast_tick s))),
     agDelete = \<lambda>kd n s.
       if storedGroup s kd n = None then (Some ast_notFound, ast_tick s)
       else (case ast_refuse s (ast_calls s) of
         Some err \<Rightarrow> (Some (if kIsNotFound err then ErrorString ''refused'' else err), ast_tick s)
       | None \<Rightarrow> (None, ast_del kd n (ast_tick s)))\<rparr>"

lemma storedGroup_steps [simp]:
  "storedGroup (ast_tick s) = storedGroup s"
  "storedGroup (ast_put kd g s) kd' n = (if kd' = kd \<and> n = ag_key g then Some g else storedGroup s kd' n)"
  "storedGroup (ast_del kd m s) kd' n = (if kd' = kd \<and> n = m then None else storedGroup s kd' n)"
  by (auto simp: storedGroup_def ast_tick_def ast_put_def ast_del_def fun_eq_iff)

lemma storedGroup_key: "storedGroup s kd n = Some g \<Longrightarrow> ag_key g = n"
  unfolding storedGroup_def by (rule find_obj_key)

interpretation ast: asset_api assetStore storedGroup
  by unfold_locales
    (simp_all add: assetStore_def storedGroup_key kube_error_defs split: option.splits if_splits, auto)


section \<open>The number of calls\<close>

text \<open>A run that adds at most \<open>b\<close> to a count, repeated, adds at most the multiple of it.\<close>

lemma PollImmediate_count:
  assumes "\<And>t. c (snd (f t)) \<le> c t + (b :: nat)"
  shows "c (snd (PollImmediate n f s)) \<le> c s + n * b"
proof (induction n arbitrary: s)
  case (Suc n)
  obtain d t where f: "f s = (d, t)" by fastforce
  from assms [of s] f have "c t \<le> c s + b" by simp
  with Suc.IH [of t] f show ?case by (cases d) simp_all
qed simp

lemma RetryOnConflict_count:
  assumes "\<And>t. c (snd (f t)) \<le> c t + (b :: nat)"
  shows "c (snd (RetryOnConflict n f s)) \<le> c s + Suc n * b"
proof (induction n arbitrary: s)
  case 0
  from assms [of s] show ?case by simp
next
  case (Suc n)
  obtain r t where f: "f s = (r, t)" by fastforce
  from assms [of s] f have "c t \<le> c s + b" by simp
  with Suc.IH [of t] f show ?case by (cases r) simp_all
qed

text \<open>The same calls, counted.\<close>

definition counted :: "'s assetApi \<Rightarrow> ('s \<times> nat) assetApi" where
  "counted k = \<lparr>
     agGet = \<lambda>kd n (s, c). (let (r, s') = agGet k kd n s in (r, (s', c + 1))),
     agCreate = \<lambda>kd g (s, c). (let (r, s') = agCreate k kd g s in (r, (s', c + 1))),
     agUpdate = \<lambda>kd g (s, c). (let (r, s') = agUpdate k kd g s in (r, (s', c + 1))),
     agDelete = \<lambda>kd n (s, c). (let (r, s') = agDelete k kd n s in (r, (s', c + 1)))\<rparr>"

lemma counted_calls:
  "snd (snd (agGet (counted k) kd n t)) = snd t + 1" "snd (snd (agCreate (counted k) kd g t)) = snd t + 1"
  "snd (snd (agUpdate (counted k) kd g t)) = snd t + 1" "snd (snd (agDelete (counted k) kd n t)) = snd t + 1"
  by (auto simp: counted_def split: prod.splits)

lemma updateOnce_calls: "snd (snd (updateOnce (counted k) kd ns i docs t)) \<le> snd t + 2"
proof -
  obtain r t1 where get: "agGet (counted k) kd (ns, i) t = (r, t1)" by (cases "agGet (counted k) kd (ns, i) t")
  with counted_calls(1) [of k kd "(ns, i)" t] have "snd t1 = snd t + 1" by simp
  moreover have "snd (snd (agUpdate (counted k) kd g t1)) = snd t1 + 1" for g by (rule counted_calls)
  ultimately show ?thesis using get
    by (auto simp: updateOnce_def split: sum.splits prod.splits option.splits) (metis le_refl snd_conv)+
qed

lemma ensureOnce_calls:
  "snd (snd (ensureOnce (counted k) retries kd ns i docs t)) \<le> snd t + (1 + Suc retries * 2)"
proof -
  obtain r t1 where create: "agCreate (counted k) kd (assetGroup ns i docs) t = (r, t1)"
    by (cases "agCreate (counted k) kd (assetGroup ns i docs) t")
  with counted_calls(2) [of k kd "assetGroup ns i docs" t] have "snd t1 = snd t + 1" by simp
  moreover have "snd (snd (updateGroup (counted k) retries kd ns i docs t1)) \<le> snd t1 + Suc retries * 2"
    unfolding updateGroup_def by (rule RetryOnConflict_count) (rule updateOnce_calls)
  ultimately show ?thesis using create
    by (auto simp: ensureOnce_def split: option.splits prod.splits sum.splits)
qed

text \<open>
  C39. Ensuring an asset group ends whatever the API answers: on an addon with documentation it returns,
  after at most a create per attempt and, for each, a read and a write per repetition of the update.
\<close>

theorem EnsureAssetGroup_terminates:
  assumes "ad_Docs addon \<noteq> []"
  shows "\<exists>err addon' s' calls. EnsureAssetGroup (counted k) polls retries ns addon (s, 0) = Some (err, addon', s', calls) \<and>
    calls \<le> polls * (1 + 2 * (retries + 1))"
proof -
  from assms obtain docs rest where d: "ad_Docs addon = docs # rest" by (cases "ad_Docs addon") auto
  let ?docs = "docs\<lparr>docs_Sources := defaultDocsSourcesURLs (ad_RepositoryURL addon) docs\<rparr>"
  obtain err s' calls where run:
    "PollImmediate polls (ensureOnce (counted k) retries KAssetGroup ns (ad_ID addon) ?docs) (s, 0) = (err, s', calls)"
    by (metis prod_cases3)
  have "snd (snd (PollImmediate polls (ensureOnce (counted k) retries KAssetGroup ns (ad_ID addon) ?docs) (s, 0)))
      \<le> snd (s, 0 :: nat) + polls * (1 + Suc retries * 2)"
    by (rule PollImmediate_count) (rule ensureOnce_calls)
  with run have "calls \<le> polls * (1 + 2 * (retries + 1))" by (simp add: algebra_simps)
  with run d show ?thesis by (simp add: EnsureAssetGroup_def ensureGroup_def)
qed

section \<open>An example\<close>

definition example_docs :: AddonDocs where
  "example_docs = \<lparr>docs_DisplayName = ''Redis'', docs_Description = '''',
     docs_Sources = [\<lparr>src_URL = '''', src_rest = ''md''\<rparr>]\<rparr>"

definition example_docs_addon :: Addon where
  "example_docs_addon = \<lparr>ad_ID = ''id-1'', ad_Name = ''redis'', ad_Version = \<lparr>Original = ''1.0.0'', String = ''1.0.0''\<rparr>,
     ad_Description = '''', ad_Plans = [], ad_Metadata = \<lparr>am_DisplayName = '''', am_ProviderDisplayName = '''',
       am_LongDescription = '''', am_DocumentationURL = '''', am_SupportURL = '''', am_ProvisionOnlyOnce = False, am_ImageURL = '''',
       am_Labels = None\<rparr>, ad_RepositoryURL = ''https://x.io/redis'', ad_Tags = [], ad_Requires = [], ad_Bindable = False,
     ad_BindingsRetrievable = False, ad_PlanUpdatable = None, ad_Docs = [example_docs], ad_Status = AddonStatusUnset,
     ad_Reason = AddonReasonUnset, ad_Message = '''', ad_SecretRef = \<lparr>sr_Name = '''', sr_Namespace = ''''\<rparr>\<rparr>"

text \<open>The first call is refused, the second attempt creates the group.\<close>

definition example_assets :: Assets where
  "example_assets = \<lparr>ast_groups = \<lambda>kd. [], ast_calls = 0,
     ast_refuse = \<lambda>n. if n = 0 then Some (StatusError ApiOther ''timeout'') else None\<rparr>"


theorem EnsureAssetGroup_terminates_witness:
  "\<exists>err addon' s' calls. EnsureAssetGroup (counted assetStore) 7 4 ''stage'' example_docs_addon (example_assets, 0) =
     Some (err, addon', s', calls) \<and> calls \<le> 77"
  using EnsureAssetGroup_terminates [of example_docs_addon assetStore 7 4 "''stage''" example_assets]
  by (simp add: example_docs_addon_def)

end
