(* ===== verification/Setup.thy ===== *)
theory Setup
  imports AddonProvider Docs
begin

text \<open>
  The parts of \<open>internal/controller/setup.go\<close> that decide something: which getters are allowed, which
  documentation providers are used, and the wait for the manager. The rest of it wires the controllers
  to their collaborators. \<open>internal/controller/docs/dummy_provider.go\<close> is here too.
\<close>

section \<open>Getters\<close>

definition allowedGetters :: "getterEnv \<Rightarrow> uploadClient \<Rightarrow> string \<Rightarrow> bool \<Rightarrow> (string, getterProvider) gomap" where
  "allowedGetters env cli tmpDir developMode =
     (let getters = [(''git'', NewGit env cli tmpDir), (''hg'', NewHg env cli tmpDir), (''s3'', NewS3 env cli tmpDir),
                     (''https'', provideHTTP env)] in
      if developMode then AList.update ''http'' (provideHTTP env) getters else getters)"

definition NewClientFactory ::
  "(string, getterProvider) gomap \<Rightarrow> addonLoader \<Rightarrow> bool \<Rightarrow> (string \<Rightarrow> Index result) \<Rightarrow> ClientFactory" where
  "NewClientFactory getters l documentationEnabled yamlIndex =
     \<lparr>cf_gettersProviders = getters, cf_addonLoader = l, cf_documentationEnabled = documentationEnabled,
      cf_yamlIndex = yamlIndex\<rparr>"

section \<open>Documentation providers\<close>

record 's docsProviders =
  dp_Ensure :: "Namespace \<Rightarrow> Addon \<Rightarrow> 's \<Rightarrow> (error option \<times> Addon \<times> 's) option"
  dp_Removed :: "Namespace \<Rightarrow> AddonID \<Rightarrow> 's \<Rightarrow> error option \<times> 's"

definition DummyProvider :: "'s docsProviders" where
  "DummyProvider = \<lparr>dp_Ensure = \<lambda>ns addon s. Some (None, addon, s), dp_Removed = \<lambda>ns i s. (None, s)\<rparr>"

definition setupDocs :: "'s assetApi \<Rightarrow> nat \<Rightarrow> nat \<Rightarrow> bool \<Rightarrow> 's docsProviders \<times> 's docsProviders" where
  "setupDocs k polls retries documentationEnabled =
     (if documentationEnabled
      then (\<lparr>dp_Ensure = EnsureAssetGroup k polls retries, dp_Removed = EnsureAssetGroupRemoved k polls\<rparr>,
            \<lparr>dp_Ensure = \<lambda>ns. EnsureClusterAssetGroup k polls retries, dp_Removed = \<lambda>ns. EnsureClusterAssetGroupRemoved k polls\<rparr>)
      else (DummyProvider, DummyProvider))"

section \<open>Waiting\<close>

text \<open>
  What the select chooses after every call. \<open>None\<close> is a wait that has not ended; a call that
  succeeds counts when the tick is chosen.
\<close>

datatype waitEvent = Tick | Timeout

fun waitAtMost :: "string \<Rightarrow> ('s \<Rightarrow> bool result \<times> 's) \<Rightarrow> waitEvent list \<Rightarrow> 's \<Rightarrow> error option option \<times> 's" where
  "waitAtMost seconds fn [] s = (None, snd (fn s))"
| "waitAtMost seconds fn (ev # evs) s =
     (case fn s of
        (r, s1) \<Rightarrow>
          (case ev of
             Timeout \<Rightarrow>
               (Some (Some (ErrorString (''waiting for resource failed in given timeout '' @ seconds @ '' second(s)''))), s1)
           | Tick \<Rightarrow>
               (case r of
                  Inl err \<Rightarrow> waitAtMost seconds fn evs s1
                | Inr True \<Rightarrow> (Some None, s1)
                | Inr False \<Rightarrow> waitAtMost seconds fn evs s1)))"

lemma waitAtMost_ends: "Timeout \<in> set evs \<Longrightarrow> fst (waitAtMost seconds fn evs s) \<noteq> None"
  by (induction seconds fn evs s rule: waitAtMost.induct) (auto split: prod.splits waitEvent.splits sum.splits bool.splits)

lemma waitAtMost_ok:
  assumes "waitAtMost seconds fn evs s = (Some None, s')"
  shows "\<exists>s1. fn s1 = (Inr True, s')"
  using assms
  by (induction seconds fn evs s rule: waitAtMost.induct) (auto split: prod.splits waitEvent.splits sum.splits bool.splits)

section \<open>Insecure sources outside of development\<close>


definition example_plain_env :: getterEnv where
  "example_plain_env = example_env\<lparr>ge_urlParse := \<lambda>s. Inr \<lparr>u_Scheme = takeWhile (\<lambda>c. c \<noteq> CHR '':'') s, u_String = s\<rparr>\<rparr>"

definition example_upload :: uploadClient where
  "example_upload = \<lparr>uc_uploadServiceURL = ''up'', uc_newRequest = \<lambda>u. None, uc_do = \<lambda>r. Inl (ErrorString ''down''),
     uc_json = \<lambda>b. Inl (ErrorString ''no JSON'')\<rparr>"

definition example_factory :: ClientFactory where
  "example_factory = NewClientFactory (allowedGetters example_plain_env example_upload ''/tmp'' False)
     \<lparr>al_Load = \<lambda>r fs. (None, fs), al_LoadDir = \<lambda>p fs. None\<rparr> True (\<lambda>b. Inl (ErrorString ''no YAML''))"


end
