(* ===== verification/Repository.thy ===== *)
theory Repository
  imports Model
begin

text \<open>
  \<open>internal/controller/repository\<close>: the addons of a configuration while it is processed, the
  conflicts between them, and the templates in the URLs of repositories. The methods of the
  program change entries through pointers; here they return the changed value, and a method
  that walks over all entries of a collection rebuilds the collection.
\<close>

section \<open>Messages\<close>

text \<open>\<open>fmt.Sprintf\<close> with one argument: the first \<open>%v\<close> is replaced, an argument without a verb is
  reported at the end.\<close>

fun sprintf1 :: "string \<Rightarrow> string \<Rightarrow> string" where
  "sprintf1 [] a = ''%!(EXTRA string='' @ a @ '')''"
| "sprintf1 (c # r) a =
     (if c = CHR ''%'' \<and> r \<noteq> [] \<and> hd r = CHR ''v'' then a @ tl r else c # sprintf1 r a)"

definition apostrophe :: string where
  "apostrophe = [CHR 0x27]"

fun AddonStatusReason_Message :: "AddonStatusReason \<Rightarrow> string" where
  "AddonStatusReason_Message AddonConflictInSpecifiedRepositories =
     ''Specified repositories have addons with the same ID: %v''"
| "AddonStatusReason_Message AddonConflictWithAlreadyRegisteredAddons =
     ''An addon with the same ID is already registered: %v''"
| "AddonStatusReason_Message AddonFetchingError =
     ''Fetching failed due to error: '' @ apostrophe @ ''%v'' @ apostrophe"
| "AddonStatusReason_Message AddonLoadingError =
     ''Loading failed due to error: '' @ apostrophe @ ''%v'' @ apostrophe"
| "AddonStatusReason_Message AddonRegisteringError =
     ''Registering failed due to error: '' @ apostrophe @ ''%v'' @ apostrophe"
| "AddonStatusReason_Message AddonUnregisteringError =
     ''Unregistering failed due to error: '' @ apostrophe @ ''%v'' @ apostrophe"
| "AddonStatusReason_Message AddonReasonUnset = ''''"

fun RepositoryStatusReason_Message :: "RepositoryStatusReason \<Rightarrow> string" where
  "RepositoryStatusReason_Message RepositoryURLFetchingError =
     ''Fetching repository failed due to error: '' @ apostrophe @ ''%v'' @ apostrophe"
| "RepositoryStatusReason_Message _ = ''''"

section \<open>Entries\<close>

record Entry =
  en_ID :: string
  en_URL :: string
  en_AddonWithCharts :: AddonWithCharts

abbreviation en_Addon :: "Entry \<Rightarrow> Addon" where
  "en_Addon e \<equiv> awc_Addon (en_AddonWithCharts e)"

text \<open>The zero value of an addon, as Go initialises the fields that a literal leaves out.\<close>

definition ZeroAddon :: Addon where
  "ZeroAddon = \<lparr>ad_ID = '''', ad_Name = '''', ad_Version = \<lparr>Original = '''', String = ''0.0.0''\<rparr>,
     ad_Description = '''', ad_Plans = [], ad_Metadata = \<lparr>am_DisplayName = '''',
       am_ProviderDisplayName = '''', am_LongDescription = '''', am_DocumentationURL = '''',
       am_SupportURL = '''', am_ProvisionOnlyOnce = False, am_ImageURL = '''', am_Labels = None\<rparr>,
     ad_RepositoryURL = '''', ad_Tags = [], ad_Requires = [], ad_Bindable = False,
     ad_BindingsRetrievable = False, ad_PlanUpdatable = None, ad_Docs = [],
     ad_Status = AddonStatusUnset, ad_Reason = AddonReasonUnset, ad_Message = '''',
     ad_SecretRef = \<lparr>sr_Name = '''', sr_Namespace = ''''\<rparr>\<rparr>"

text \<open>\<open>semver.MustParse\<close> panics on a text that is not a version; \<open>parse\<close> is the parser of the
  semver package.\<close>

definition NewRepositoryEntry ::
  "(string \<Rightarrow> Version option) \<Rightarrow> string \<Rightarrow> string \<Rightarrow> string \<Rightarrow> Entry option" where
  "NewRepositoryEntry parse n v u =
     (case parse v of
        None \<Rightarrow> None
      | Some ver \<Rightarrow> Some \<lparr>en_ID = '''', en_URL = u, en_AddonWithCharts = \<lparr>
          awc_Addon = ZeroAddon\<lparr>ad_Name := n, ad_Version := ver, ad_Status := AddonStatusReady\<rparr>,
          awc_Charts = []\<rparr>\<rparr>)"

definition Entry_IsReady :: "Entry \<Rightarrow> bool" where
  "Entry_IsReady a \<longleftrightarrow> ad_Status (en_Addon a) = AddonStatusReady"

definition Entry_IsComplete :: "Entry \<Rightarrow> bool" where
  "Entry_IsComplete a \<longleftrightarrow> en_ID a \<noteq> ''''"

definition upd_addon :: "(Addon \<Rightarrow> Addon) \<Rightarrow> Entry \<Rightarrow> Entry" where
  "upd_addon f e = e\<lparr>en_AddonWithCharts := (en_AddonWithCharts e)\<lparr>awc_Addon := f (en_Addon e)\<rparr>\<rparr>"

definition Entry_failed :: "Entry \<Rightarrow> Entry" where
  "Entry_failed = upd_addon (\<lambda>a. a\<lparr>ad_Status := AddonStatusFailed\<rparr>)"

definition setEntryStatus :: "AddonStatusReason \<Rightarrow> string \<Rightarrow> Entry \<Rightarrow> Entry" where
  "setEntryStatus reason message = upd_addon (\<lambda>a. a\<lparr>ad_Reason := reason,
     ad_Message := sprintf1 (AddonStatusReason_Message reason) message\<rparr>)"

definition limitMessage :: "string \<Rightarrow> string" where
  "limitMessage content =
     (let parts = strSplit CHR '':'' content
      in if length parts \<le> 4 then content else strJoin (take 4 parts) '':'')"

definition Entry_FetchingError :: "error \<Rightarrow> Entry \<Rightarrow> Entry" where
  "Entry_FetchingError err a =
     setEntryStatus AddonFetchingError (limitMessage (Error err)) (Entry_failed a)"

definition Entry_LoadingError :: "error \<Rightarrow> Entry \<Rightarrow> Entry" where
  "Entry_LoadingError err a = setEntryStatus AddonLoadingError (Error err) (Entry_failed a)"

definition ConflictInSpecifiedRepositories :: "error \<Rightarrow> Entry \<Rightarrow> Entry" where
  "ConflictInSpecifiedRepositories err a =
     setEntryStatus AddonConflictInSpecifiedRepositories (Error err) (Entry_failed a)"

definition ConflictWithAlreadyRegisteredAddons :: "error \<Rightarrow> Entry \<Rightarrow> Entry" where
  "ConflictWithAlreadyRegisteredAddons err a =
     setEntryStatus AddonConflictWithAlreadyRegisteredAddons (Error err) (Entry_failed a)"

definition Entry_RegisteringError :: "error \<Rightarrow> Entry \<Rightarrow> Entry" where
  "Entry_RegisteringError err a = setEntryStatus AddonRegisteringError (Error err) (Entry_failed a)"

section \<open>Repositories\<close>

record Repository =
  rep_Repository :: StatusRepository
  rep_Addons :: "Entry list"

definition NewAddonsRepository :: "string \<Rightarrow> Repository" where
  "NewAddonsRepository url = \<lparr>rep_Repository = \<lparr>sre_URL = url, sre_Status = RepositoryStatusReady,
     sre_Reason = RepositoryReasonUnset, sre_Message = '''', sre_Addons = []\<rparr>, rep_Addons = []\<rparr>"

definition Repository_Failed :: "Repository \<Rightarrow> Repository" where
  "Repository_Failed ar =
     ar\<lparr>rep_Repository := (rep_Repository ar)\<lparr>sre_Status := RepositoryStatusFailed\<rparr>\<rparr>"

definition Repository_IsFailed :: "Repository \<Rightarrow> bool" where
  "Repository_IsFailed ar \<longleftrightarrow> sre_Status (rep_Repository ar) = RepositoryStatusFailed"

definition HasFailedAddons :: "Repository \<Rightarrow> bool" where
  "HasFailedAddons ar = list_ex (\<lambda>a. \<not> Entry_IsReady a) (rep_Addons ar)"

definition setRepositoryStatus :: "RepositoryStatusReason \<Rightarrow> string \<Rightarrow> Repository \<Rightarrow> Repository" where
  "setRepositoryStatus reason msg ar =
     (let ar = Repository_Failed ar
      in ar\<lparr>rep_Repository := (rep_Repository ar)\<lparr>sre_Reason := reason, sre_Message := msg\<rparr>\<rparr>)"

definition Repository_FetchingError :: "error \<Rightarrow> Repository \<Rightarrow> Repository" where
  "Repository_FetchingError err = setRepositoryStatus RepositoryURLFetchingError
     (sprintf1 (RepositoryStatusReason_Message RepositoryURLFetchingError) (Error err))"

definition IsFetchingError_repo :: "Repository \<Rightarrow> bool" where
  "IsFetchingError_repo ar \<longleftrightarrow> sre_Status (rep_Repository ar) = RepositoryStatusFailed \<and>
     sre_Reason (rep_Repository ar) = RepositoryURLFetchingError"

definition Repository_TemplatingError :: "error \<Rightarrow> Repository \<Rightarrow> Repository" where
  "Repository_TemplatingError err = setRepositoryStatus RepositoryURLTemplatingError
     (sprintf1 (RepositoryStatusReason_Message RepositoryURLTemplatingError) (Error err))"

definition Repository_EmptyURLError :: "error \<Rightarrow> Repository \<Rightarrow> Repository" where
  "Repository_EmptyURLError err = setRepositoryStatus RepositoryEmptyURLError
     (RepositoryStatusReason_Message RepositoryEmptyURLError)"

section \<open>The collection\<close>

type_synonym Collection = "Repository list"

definition NewRepositoryCollection :: Collection where
  "NewRepositoryCollection = []"

definition AddRepository :: "Repository \<Rightarrow> Collection \<Rightarrow> Collection" where
  "AddRepository repo rc = rc @ [repo]"

definition collectionAddons :: "Collection \<Rightarrow> Entry list" where
  "collectionAddons rc = concat (map rep_Addons rc)"

definition completeAddons :: "Collection \<Rightarrow> Entry list" where
  "completeAddons rc = filter Entry_IsComplete (collectionAddons rc)"

definition ReadyAddons :: "Collection \<Rightarrow> Entry list" where
  "ReadyAddons rc = filter Entry_IsReady (collectionAddons rc)"

text \<open>\<open>IsRepositoriesFailed\<close> also marks a repository as failed when one of its addons is.\<close>

definition markFailed :: "Repository \<Rightarrow> bool \<times> Repository" where
  "markFailed r =
     (if Repository_IsFailed r then (True, r)
      else if HasFailedAddons r then (True, Repository_Failed r)
      else (False, r))"

definition IsRepositoriesFailed :: "Collection \<Rightarrow> bool \<times> Collection" where
  "IsRepositoriesFailed rc =
     (list_ex (\<lambda>r. fst (markFailed r)) rc, map (\<lambda>r. snd (markFailed r)) rc)"

definition IsRepositoriesFetchingError :: "Collection \<Rightarrow> bool" where
  "IsRepositoriesFetchingError rc = list_ex IsFetchingError_repo rc"

record idConflictData =
  icd_repositoryURL :: string
  icd_addonsName :: string

fun reviseEntries ::
  "(string, idConflictData) gomap \<Rightarrow> Entry list \<Rightarrow> (string, idConflictData) gomap \<times> Entry list" where
  "reviseEntries ids [] = (ids, [])"
| "reviseEntries ids (a # as) =
     (if \<not> Entry_IsComplete a then apsnd ((#) a) (reviseEntries ids as)
      else case map_of ids (en_ID a) of
             Some data \<Rightarrow>
               apsnd ((#) (ConflictInSpecifiedRepositories (ErrorString
                 (''[url: '' @ icd_repositoryURL data @ '', addons: '' @ icd_addonsName data @ '']'')) a))
                 (reviseEntries ids as)
           | None \<Rightarrow>
               apsnd ((#) a) (reviseEntries (AList.update (en_ID a)
                 \<lparr>icd_repositoryURL = en_URL a,
                  icd_addonsName = ad_Name (en_Addon a) @ '':'' @ Original (ad_Version (en_Addon a))\<rparr> ids) as))"

fun reviseRepositories :: "(string, idConflictData) gomap \<Rightarrow> Collection \<Rightarrow> Collection" where
  "reviseRepositories ids [] = []"
| "reviseRepositories ids (r # rs) =
     (let (ids', as) = reviseEntries ids (rep_Addons r)
      in r\<lparr>rep_Addons := as\<rparr> # reviseRepositories ids' rs)"

definition ReviseAddonDuplicationInRepository :: "Collection \<Rightarrow> Collection" where
  "ReviseAddonDuplicationInRepository rc = reviseRepositories [] rc"

definition filterReadyAddons :: "StatusRepository \<Rightarrow> StatusAddon list" where
  "filterReadyAddons repository = filter (\<lambda>a. sa_Status a = AddonStatusReady) (sre_Addons repository)"

definition addonAlreadyRegistered :: "Entry \<Rightarrow> StatusAddon list \<Rightarrow> bool" where
  "addonAlreadyRegistered e as =
     list_ex (\<lambda>x. ad_Name (en_Addon e) = sa_Name x \<and> Original (ad_Version (en_Addon e)) = sa_Version x) as"

fun checkRepos :: "string \<Rightarrow> StatusRepository list \<Rightarrow> Entry \<Rightarrow> Entry" where
  "checkRepos cfgName [] e = e"
| "checkRepos cfgName (repo # repos) e =
     checkRepos cfgName repos
       (if addonAlreadyRegistered e (filterReadyAddons repo)
        then ConflictWithAlreadyRegisteredAddons (ErrorString
               (''[ConfigurationName: '' @ cfgName @ '', url: '' @ sre_URL repo @ '', addons: '' @
                ad_Name (en_Addon e) @ '':'' @ Original (ad_Version (en_Addon e)) @ '']'')) e
        else e)"

fun findExistingAddon :: "CommonAddon list \<Rightarrow> Entry \<Rightarrow> Entry" where
  "findExistingAddon [] e = e"
| "findExistingAddon (c # cs) e =
     findExistingAddon cs (checkRepos (meta_Name (ca_Meta c)) (st_Repositories (ca_Status c)) e)"

definition ReviseAddonDuplicationInStorage :: "CommonAddon list \<Rightarrow> Collection \<Rightarrow> Collection" where
  "ReviseAddonDuplicationInStorage list rc =
     map (\<lambda>r. r\<lparr>rep_Addons := map (\<lambda>e. if Entry_IsComplete e then findExistingAddon list e else e)
                 (rep_Addons r)\<rparr>) rc"

section \<open>Templates in URLs\<close>

text \<open>The matches of the regular expression that takes the text from an opening brace to the next
  closing brace on the same line.\<close>

fun untilBrace :: "string \<Rightarrow> (string \<times> string) option" where
  "untilBrace [] = None"
| "untilBrace (c # cs) =
     (if c = CHR 0x7D then Some ([c], cs)
      else if c = CHR 0x0A then None
      else (case untilBrace cs of None \<Rightarrow> None | Some (m, r) \<Rightarrow> Some (c # m, r)))"

lemma untilBrace_length: "untilBrace s = Some (m, r) \<Longrightarrow> length r < length s"
  by (induction s arbitrary: m r) (force split: if_splits option.splits)+

function (sequential) findURLTemplates :: "string \<Rightarrow> string list" where
  "findURLTemplates [] = []"
| "findURLTemplates (c # cs) =
     (if c = CHR 0x7B
      then (case untilBrace cs of
              Some (m, r) \<Rightarrow> (c # m) # findURLTemplates r
            | None \<Rightarrow> findURLTemplates cs)
      else findURLTemplates cs)"
  by pat_completeness auto
termination
  by (relation "measure length") (auto dest: untilBrace_length)

text \<open>\<open>strings.Replace\<close> of all occurrences of a text that is not empty.\<close>

function (sequential) strReplaceAll :: "string \<Rightarrow> string \<Rightarrow> string \<Rightarrow> string" where
  "strReplaceAll old new [] = []"
| "strReplaceAll old new (c # cs) =
     (if old \<noteq> [] \<and> strHasPrefix (c # cs) old
      then new @ strReplaceAll old new (drop (length old) (c # cs))
      else c # strReplaceAll old new cs)"
  by pat_completeness auto
termination
  by (relation "measure (\<lambda>(old, new, s). length s)") (auto simp: neq_Nil_conv)

definition upperHex :: "nat \<Rightarrow> char" where
  "upperHex n = ''0123456789ABCDEF'' ! n"

definition unreservedChar :: "char \<Rightarrow> bool" where
  "unreservedChar c = (let n = of_char c :: nat in
     48 \<le> n \<and> n \<le> 57 \<or> 65 \<le> n \<and> n \<le> 90 \<or> 97 \<le> n \<and> n \<le> 122 \<or> c \<in> set ''-_.~'')"

definition queryEscape :: "string \<Rightarrow> string" where
  "queryEscape s = concat (map (\<lambda>c.
     if unreservedChar c then [c]
     else if c = CHR '' '' then ''+''
     else [CHR ''%'', upperHex (of_char c div 16), upperHex (of_char c mod 16)]) s)"

fun fillTemplates :: "(string, string) gomap \<Rightarrow> string list \<Rightarrow> string \<Rightarrow> string result" where
  "fillTemplates data [] result = Inr result"
| "fillTemplates data (val # vals) result =
     (let fieldName = butlast (tl val)
      in case map_of data fieldName of
           None \<Rightarrow> Inl (ErrorString (''secret does not contain `'' @ fieldName @ ''` field''))
         | Some tmp \<Rightarrow> fillTemplates data vals (strReplaceAll val (queryEscape tmp) result))"

definition TemplateURL ::
  "(string \<Rightarrow> string \<Rightarrow> (string, string) gomap result) \<Rightarrow> string \<Rightarrow> SpecRepository \<Rightarrow> string result" where
  "TemplateURL getSecret namespace repository =
     (let templateParameters = findURLTemplates (sp_URL repository)
      in if templateParameters = [] then Inr (sp_URL repository)
         else case sp_SecretRef repository of
                None \<Rightarrow> Inl (ErrorString (''template fields `['' @ strJoin templateParameters '' '' @
                          '']` provided but secretRef is empty''))
              | Some ref \<Rightarrow>
                  let fetchNS = (if sr_Namespace ref \<noteq> '''' then sr_Namespace ref else namespace)
                  in (case getSecret fetchNS (sr_Name ref) of
                        Inl err \<Rightarrow>
                          Inl (Wrapped err (''while getting secret '' @ fetchNS @ ''/'' @ sr_Name ref))
                      | Inr data \<Rightarrow>
                          (case fillTemplates data templateParameters (sp_URL repository) of
                             Inl e \<Rightarrow> Inl e
                           | Inr result \<Rightarrow> Inr (strReplaceAll [CHR 0x0A] [] result))))"

section \<open>Facts on entries\<close>

lemma conflict_entry [simp]:
  "\<not> Entry_IsReady (ConflictInSpecifiedRepositories e a)"
  "en_ID (ConflictInSpecifiedRepositories e a) = en_ID a"
  "ad_Name (en_Addon (ConflictInSpecifiedRepositories e a)) = ad_Name (en_Addon a)"
  "ad_Version (en_Addon (ConflictInSpecifiedRepositories e a)) = ad_Version (en_Addon a)"
  "\<not> Entry_IsReady (ConflictWithAlreadyRegisteredAddons e a)"
  "en_ID (ConflictWithAlreadyRegisteredAddons e a) = en_ID a"
  "ad_Name (en_Addon (ConflictWithAlreadyRegisteredAddons e a)) = ad_Name (en_Addon a)"
  "ad_Version (en_Addon (ConflictWithAlreadyRegisteredAddons e a)) = ad_Version (en_Addon a)"
  by (simp_all add: ConflictInSpecifiedRepositories_def ConflictWithAlreadyRegisteredAddons_def
      Entry_IsReady_def setEntryStatus_def Entry_failed_def upd_addon_def)

definition live :: "Entry \<Rightarrow> bool" where
  "live e \<longleftrightarrow> Entry_IsComplete e \<and> Entry_IsReady e"

text \<open>Revising the entries one after the other is revising the flat list of all entries.\<close>

lemma reviseEntries_append:
  "reviseEntries ids (xs @ ys) =
     (let (ids1, xs') = reviseEntries ids xs; (ids2, ys') = reviseEntries ids1 ys in (ids2, xs' @ ys'))"
  by (induction ids xs rule: reviseEntries.induct)
    (auto simp: Let_def case_prod_beta split: option.splits)

lemma reviseRepositories_addons:
  "collectionAddons (reviseRepositories ids rc) = snd (reviseEntries ids (collectionAddons rc))"
proof (induction rc arbitrary: ids)
  case (Cons r rs)
  then show ?case
    by (simp add: collectionAddons_def reviseEntries_append Let_def case_prod_beta)
qed (simp add: collectionAddons_def)

lemma reviseEntries_live:
  assumes "reviseEntries ids as = (ids', as')"
  shows "distinct (map en_ID (filter live as')) \<and>
    (\<forall>e \<in> set (filter live as'). map_of ids (en_ID e) = None) \<and> map en_ID as' = map en_ID as"
  using assms
proof (induction ids as arbitrary: ids' as' rule: reviseEntries.induct)
  case (1 ids)
  then show ?case by simp
next
  case (2 ids a as)
  show ?case
  proof (cases "Entry_IsComplete a")
    case False
    obtain i1 a1 where r: "reviseEntries ids as = (i1, a1)" by (meson surj_pair)
    with 2(4) False have "as' = a # a1" by simp
    with 2(1) [OF False r] False show ?thesis by (simp add: live_def)
  next
    case complete: True
    show ?thesis
    proof (cases "map_of ids (en_ID a)")
      case (Some data)
      obtain i1 a1 where r: "reviseEntries ids as = (i1, a1)" by (meson surj_pair)
      with 2(4) complete Some obtain err where "as' = ConflictInSpecifiedRepositories err a # a1" by auto
      with 2(3) [OF _ Some r] complete show ?thesis by (simp add: live_def)
    next
      case None
      let ?d = "\<lparr>icd_repositoryURL = en_URL a,
        icd_addonsName = ad_Name (en_Addon a) @ '':'' @ Original (ad_Version (en_Addon a))\<rparr>"
      obtain i1 a1 where r: "reviseEntries (AList.update (en_ID a) ?d ids) as = (i1, a1)"
        by (meson surj_pair)
      with 2(4) complete None have "as' = a # a1" by simp
      with 2(2) [OF _ None r] complete None show ?thesis by (auto split: if_splits)
    qed
  qed
qed

lemma reviseEntries_first:
  assumes "reviseEntries ids as = (ids', as')" "i < length as"
    "\<And>j. j < i \<Longrightarrow> Entry_IsComplete (as ! j) \<Longrightarrow> en_ID (as ! j) \<noteq> en_ID (as ! i)"
    "map_of ids (en_ID (as ! i)) = None"
  shows "as' ! i = as ! i"
  using assms
proof (induction ids as arbitrary: ids' as' i rule: reviseEntries.induct)
  case (1 ids)
  then show ?case by simp
next
  case (2 ids a as)
  have shift: "\<And>j. j < k \<Longrightarrow> Entry_IsComplete (as ! j) \<Longrightarrow> en_ID (as ! j) \<noteq> en_ID (as ! k)"
    if "i = Suc k" for k
    using 2(6) [of "Suc _"] that by auto
  show ?case
  proof (cases "Entry_IsComplete a")
    case False
    obtain i1 a1 where r: "reviseEntries ids as = (i1, a1)" by (meson surj_pair)
    with 2(4) False have "as' = a # a1" by simp
    with 2(1) [OF False r] 2(5,7) shift show ?thesis by (cases i) auto
  next
    case complete: True
    show ?thesis
    proof (cases "map_of ids (en_ID a)")
      case (Some data)
      obtain i1 a1 where r: "reviseEntries ids as = (i1, a1)" by (meson surj_pair)
      with 2(4) complete Some obtain err where "as' = ConflictInSpecifiedRepositories err a # a1" by auto
      with 2(3) [OF _ Some r] complete Some 2(5,7) shift show ?thesis by (cases i) auto
    next
      case None
      let ?d = "\<lparr>icd_repositoryURL = en_URL a,
        icd_addonsName = ad_Name (en_Addon a) @ '':'' @ Original (ad_Version (en_Addon a))\<rparr>"
      obtain i1 a1 where r: "reviseEntries (AList.update (en_ID a) ?d ids) as = (i1, a1)"
        by (meson surj_pair)
      with 2(4) complete None have "as' = a # a1" by simp
      with 2(2) [OF _ None r] complete None 2(5,7) 2(6) [of 0] shift show ?thesis by (cases i) auto
    qed
  qed
qed



section \<open>Conflicts with other configurations\<close>

definition registered_in :: "CommonAddon list \<Rightarrow> Entry \<Rightarrow> bool" where
  "registered_in list e \<longleftrightarrow>
     (\<exists>c \<in> set list. \<exists>repo \<in> set (st_Repositories (ca_Status c)). \<exists>x \<in> set (sre_Addons repo).
        sa_Status x = AddonStatusReady \<and> sa_Name x = ad_Name (en_Addon e) \<and>
        sa_Version x = Original (ad_Version (en_Addon e)))"

lemma addonAlreadyRegistered_iff:
  "addonAlreadyRegistered e (filterReadyAddons repo) \<longleftrightarrow> (\<exists>x \<in> set (sre_Addons repo).
     sa_Status x = AddonStatusReady \<and> sa_Name x = ad_Name (en_Addon e) \<and>
     sa_Version x = Original (ad_Version (en_Addon e)))"
  by (auto simp: addonAlreadyRegistered_def filterReadyAddons_def list_ex_iff)

lemma checkRepos_same_key:
  "ad_Name (en_Addon (checkRepos n repos e)) = ad_Name (en_Addon e) \<and>
   ad_Version (en_Addon (checkRepos n repos e)) = ad_Version (en_Addon e) \<and>
   en_ID (checkRepos n repos e) = en_ID e"
  by (induction n repos e rule: checkRepos.induct) auto

lemma checkRepos_cases:
  "if \<exists>repo \<in> set repos. addonAlreadyRegistered e (filterReadyAddons repo)
   then \<not> Entry_IsReady (checkRepos n repos e) else checkRepos n repos e = e"
proof -
  have stay: "\<not> Entry_IsReady e \<Longrightarrow> \<not> Entry_IsReady (checkRepos n repos e)" for repos e
    by (induction n repos e rule: checkRepos.induct) auto
  have same: "addonAlreadyRegistered (ConflictWithAlreadyRegisteredAddons er e) xs =
      addonAlreadyRegistered e xs" for er e xs
    by (simp add: addonAlreadyRegistered_def)
  show ?thesis
    by (induction n repos e rule: checkRepos.induct) (auto simp: stay same split: if_splits)
qed

lemma findExistingAddon_stays:
  "\<not> Entry_IsReady e \<Longrightarrow> \<not> Entry_IsReady (findExistingAddon list e)"
proof (induction list arbitrary: e)
  case (Cons c cs)
  have "\<not> Entry_IsReady (checkRepos n repos e)" for n repos
    using checkRepos_cases [of repos e n] Cons.prems by (auto split: if_splits)
  with Cons.IH show ?case by simp
qed simp

lemma findExistingAddon_cases:
  "if registered_in list e then \<not> Entry_IsReady (findExistingAddon list e)
   else findExistingAddon list e = e"
proof (induction list arbitrary: e)
  case Nil
  then show ?case by (simp add: registered_in_def)
next
  case (Cons c cs)
  let ?e = "checkRepos (meta_Name (ca_Meta c)) (st_Repositories (ca_Status c)) e"
  let ?here = "\<exists>repo \<in> set (st_Repositories (ca_Status c)). addonAlreadyRegistered e (filterReadyAddons repo)"
  have reg: "registered_in (c # cs) e \<longleftrightarrow> ?here \<or> registered_in cs e"
    by (auto simp: registered_in_def addonAlreadyRegistered_iff)
  note here = checkRepos_cases [of "st_Repositories (ca_Status c)" e "meta_Name (ca_Meta c)"]
  show ?case
  proof (cases ?here)
    case True
    with here findExistingAddon_stays [of ?e cs] reg show ?thesis by (auto split: if_splits)
  next
    case False
    with here have "?e = e" by (auto split: if_splits)
    with Cons.IH [of e] reg False show ?thesis by auto
  qed
qed

text \<open>
  After the check against the other configurations a loaded addon is ready exactly if it
  was ready and no other configuration provides a ready addon of the same name and version.
  An addon that is not registered elsewhere is not changed at all.
\<close>

theorem ReviseAddonDuplicationInStorage_correct:
  "let as = collectionAddons rc; as' = collectionAddons (ReviseAddonDuplicationInStorage list rc) in
     length as' = length as \<and>
     (\<forall>i < length as.
        (if Entry_IsComplete (as ! i) \<and> registered_in list (as ! i) then \<not> Entry_IsReady (as' ! i)
         else as' ! i = as ! i))"
proof -
  let ?f = "\<lambda>e. if Entry_IsComplete e then findExistingAddon list e else e"
  have "collectionAddons (ReviseAddonDuplicationInStorage list rc) = map ?f (collectionAddons rc)"
    by (induction rc) (auto simp: collectionAddons_def ReviseAddonDuplicationInStorage_def)
  moreover have "Entry_IsComplete e \<Longrightarrow> registered_in list e \<Longrightarrow> \<not> Entry_IsReady (findExistingAddon list e)"
    "\<not> registered_in list e \<Longrightarrow> findExistingAddon list e = e" for e
    using findExistingAddon_cases [of list e] by simp_all
  ultimately show ?thesis by (auto simp: Let_def)
qed

definition example_entry :: Entry where
  "example_entry = \<lparr>en_ID = ''a-1'', en_URL = ''u'', en_AddonWithCharts = \<lparr>awc_Addon =
     ZeroAddon\<lparr>ad_ID := ''a-1'', ad_Name := ''redis'', ad_Version := \<lparr>Original = ''1.0.0'', String = ''1.0.0''\<rparr>,
       ad_Status := AddonStatusReady\<rparr>, awc_Charts = []\<rparr>\<rparr>"

definition example_config :: CommonAddon where
  "example_config = \<lparr>ca_Meta = \<lparr>meta_Name = ''other'', meta_Namespace = ''stage'', meta_Generation = 1,
       meta_DeletionTimestamp = None, meta_Finalizers = []\<rparr>,
     ca_Spec = \<lparr>spec_ReprocessRequest = 0, spec_Repositories = []\<rparr>,
     ca_Status = \<lparr>st_Phase = AddonsConfigurationReady, st_LastProcessedTime = None, st_ObservedGeneration = 1,
       st_Repositories = [\<lparr>sre_URL = ''v'', sre_Status = RepositoryStatusReady, sre_Reason = RepositoryReasonUnset,
         sre_Message = '''', sre_Addons = [\<lparr>sa_Name = ''redis'', sa_Version = ''1.0.0'', sa_Status = AddonStatusReady,
           sa_Reason = AddonReasonUnset, sa_Message = ''''\<rparr>]\<rparr>]\<rparr>\<rparr>"

theorem ReviseAddonDuplicationInStorage_correct_witness:
  "\<not> Entry_IsReady (collectionAddons (ReviseAddonDuplicationInStorage [example_config]
      [(NewAddonsRepository ''u'')\<lparr>rep_Addons := [example_entry]\<rparr>]) ! 0)"
  using ReviseAddonDuplicationInStorage_correct [of "[(NewAddonsRepository ''u'')\<lparr>rep_Addons := [example_entry]\<rparr>]"
      "[example_config]"]
  by (simp add: Let_def collectionAddons_def NewAddonsRepository_def example_entry_def example_config_def
      Entry_IsComplete_def registered_in_def)

text \<open>
  A collection counts as failed exactly if a repository has failed or contains an addon that
  is not ready, and then exactly these repositories are marked as failed.
\<close>

theorem IsRepositoriesFailed_correct:
  "IsRepositoriesFailed rc = (failed, rc') \<Longrightarrow>
   (failed \<longleftrightarrow> (\<exists>r \<in> set rc. sre_Status (rep_Repository r) = RepositoryStatusFailed \<or>
      (\<exists>a \<in> set (rep_Addons r). ad_Status (en_Addon a) \<noteq> AddonStatusReady))) \<and>
   length rc' = length rc \<and>
   (\<forall>i < length rc. rep_Addons (rc' ! i) = rep_Addons (rc ! i) \<and>
      (sre_Status (rep_Repository (rc' ! i)) = RepositoryStatusFailed \<longleftrightarrow>
         sre_Status (rep_Repository (rc ! i)) = RepositoryStatusFailed \<or>
         (\<exists>a \<in> set (rep_Addons (rc ! i)). ad_Status (en_Addon a) \<noteq> AddonStatusReady)))"
  by (auto simp: IsRepositoriesFailed_def list_ex_iff markFailed_def Repository_IsFailed_def
      HasFailedAddons_def Entry_IsReady_def Repository_Failed_def split: if_splits)

theorem IsRepositoriesFailed_correct_witness:
  "IsRepositoriesFailed [NewAddonsRepository ''u''] = (False, [NewAddonsRepository ''u'']) \<and>
   \<not> (\<exists>r \<in> set [NewAddonsRepository ''u'']. sre_Status (rep_Repository r) = RepositoryStatusFailed)"
proof -
  have c: "IsRepositoriesFailed [NewAddonsRepository ''u''] = (False, [NewAddonsRepository ''u''])"
    by (simp add: IsRepositoriesFailed_def markFailed_def Repository_IsFailed_def HasFailedAddons_def
        NewAddonsRepository_def)
  from IsRepositoriesFailed_correct [OF this] c show ?thesis by auto
qed

end
