(* ===== verification/Controller.thy ===== *)
theory Controller
  imports Repository AddonErrors
begin

text \<open>
  \<open>internal/controller/common.go\<close> and \<open>protection.go\<close>: how a (cluster)
  addons configuration is reconciled. The collaborators of \<open>common\<close> (\<open>internal/controller/ext.go\<close>)
  are a record of functions over a state \<open>'s\<close>. A method that changes the configuration through its
  pointer returns the changed configuration. \<open>semver.MustParse\<close> panics on a text that is not a
  version; a function that may panic returns an option, and \<open>None\<close> is the panic.
\<close>

section \<open>Finalizers\<close>

definition FinalizerAddonsConfiguration :: string where
  "FinalizerAddonsConfiguration = ''addons.kyma-project.io''"

definition hasFinalizer :: "string list \<Rightarrow> bool" where
  "hasFinalizer slice = list_ex (\<lambda>item. item = FinalizerAddonsConfiguration) slice"

definition protection_removeFinalizer :: "string list \<Rightarrow> string list" where
  "protection_removeFinalizer slice =
     (if \<not> hasFinalizer slice then slice
      else filter (\<lambda>item. item \<noteq> FinalizerAddonsConfiguration) slice)"

definition protection_addFinalizer :: "string list \<Rightarrow> string list" where
  "protection_addFinalizer slice =
     (if hasFinalizer slice then slice else slice @ [FinalizerAddonsConfiguration])"

section \<open>Collaborators\<close>

record Getter =
  g_GetIndex :: "Index result"
  g_GetCompleteAddon :: "IndexEntry \<Rightarrow> AddonWithCharts result"

record 's cdeps =
  semverParse :: "string \<Rightarrow> Version option"
  newGetter :: "string \<Rightarrow> 's \<Rightarrow> Getter result"
  templateURL :: "SpecRepository \<Rightarrow> 's \<Rightarrow> string result"
  addonUpsert :: "Namespace \<Rightarrow> Addon \<Rightarrow> 's \<Rightarrow> bool result \<times> 's"
  addonGet :: "Namespace \<Rightarrow> AddonName \<Rightarrow> Version \<Rightarrow> 's \<Rightarrow> Addon result \<times> 's"
  addonRemove :: "Namespace \<Rightarrow> AddonName \<Rightarrow> Version \<Rightarrow> 's \<Rightarrow> error option \<times> 's"
  chartUpsert :: "Namespace \<Rightarrow> Chart \<Rightarrow> 's \<Rightarrow> bool result \<times> 's"
  chartRemove :: "Namespace \<Rightarrow> ChartName \<Rightarrow> Version \<Rightarrow> 's \<Rightarrow> error option \<times> 's"
  ensureAssetGroup :: "Addon \<Rightarrow> 's \<Rightarrow> error option \<times> 's"
  ensureAssetGroupRemoved :: "AddonID \<Rightarrow> 's \<Rightarrow> error option \<times> 's"
  brokerExist :: "'s \<Rightarrow> bool result"
  brokerSync :: "'s \<Rightarrow> error option \<times> 's"
  listConfigurations :: "'s \<Rightarrow> CommonAddon list result"
  reprocessRequest :: "string \<Rightarrow> 's \<Rightarrow> error option \<times> 's"
  updateConfiguration :: "CommonAddon \<Rightarrow> 's \<Rightarrow> (int result) \<times> 's"
  updateConfigurationStatus :: "CommonAddon \<Rightarrow> 's \<Rightarrow> error option \<times> 's"
  timeNow :: "'s \<Rightarrow> time"

section \<open>Loading the repositories\<close>

fun createEntries ::
  "'s cdeps \<Rightarrow> Getter \<Rightarrow> string \<Rightarrow> IndexEntry list \<Rightarrow> Entry list option" where
  "createEntries d g URL [] = Some []"
| "createEntries d g URL (entry # entries) =
     (case NewRepositoryEntry (semverParse d) (ie_Name entry) (ie_Version entry) URL of
        None \<Rightarrow> None
      | Some ad \<Rightarrow>
          let ad' = (case g_GetCompleteAddon g entry of
                Inr complete \<Rightarrow>
                  ad\<lparr>en_ID := ad_ID (awc_Addon complete),
                     en_AddonWithCharts := \<lparr>
                       awc_Addon = (awc_Addon complete)\<lparr>ad_Status := AddonStatusReady\<rparr>,
                       awc_Charts = awc_Charts complete\<rparr>\<rparr>
              | Inl err \<Rightarrow>
                  if IsFetchingError err then Entry_FetchingError err ad
                  else Entry_LoadingError err ad)
          in map_option ((#) ad') (createEntries d g URL entries))"

definition createAddons :: "'s cdeps \<Rightarrow> string \<Rightarrow> 's \<Rightarrow> Entry list result option" where
  "createAddons d URL s =
     (case newGetter d URL s of
        Inl err \<Rightarrow> Some (Inl (Wrapped err ''while getting getter from factory''))
      | Inr g \<Rightarrow>
          (case g_GetIndex g of
             Inl err \<Rightarrow> Some (Inl (Wrapped err ''while reading repository index''))
           | Inr index \<Rightarrow>
               map_option Inr (createEntries d g URL (concat (map snd (idx_Entries index))))))"

fun loadRepositories ::
  "'s cdeps \<Rightarrow> SpecRepository list \<Rightarrow> 's \<Rightarrow> Collection option" where
  "loadRepositories d [] s = Some []"
| "loadRepositories d (spec # specs) s =
     (let repo = NewAddonsRepository (sp_URL spec);
          this = (if sp_URL spec = ''''
                  then Some (Repository_EmptyURLError (ErrorString ''URL must not be empty'') repo)
                  else case templateURL d spec s of
                         Inl err \<Rightarrow> Some (Repository_TemplatingError err repo)
                       | Inr addonsURL \<Rightarrow>
                           (case createAddons d addonsURL s of
                              None \<Rightarrow> None
                            | Some (Inl err) \<Rightarrow> Some (Repository_FetchingError err repo)
                            | Some (Inr adds) \<Rightarrow> Some (repo\<lparr>rep_Addons := adds\<rparr>)))
      in case this of
           None \<Rightarrow> None
         | Some r \<Rightarrow> map_option ((#) r) (loadRepositories d specs s))"

section \<open>Saving and removing addons\<close>

fun saveCharts :: "'s cdeps \<Rightarrow> Namespace \<Rightarrow> Chart list \<Rightarrow> 's \<Rightarrow> error option \<times> 's" where
  "saveCharts d ns [] s = (None, s)"
| "saveCharts d ns (c # cs) s =
     (case chartUpsert d ns c s of
        (Inl err, s1) \<Rightarrow> (Some err, s1)
      | (Inr _, s1) \<Rightarrow> saveCharts d ns cs s1)"

definition saveEntry ::
  "'s cdeps \<Rightarrow> Namespace \<Rightarrow> Entry \<Rightarrow> 's \<Rightarrow> bool \<times> Entry \<times> 's" where
  "saveEntry d ns ad s =
     (let a = en_Addon ad;
          s1 = (if length (ad_Docs a) = 1 then snd (ensureAssetGroup d a s) else s)
      in case addonUpsert d ns a s1 of
           (Inl err, s2) \<Rightarrow> (False, Entry_RegisteringError err ad, s2)
         | (Inr _, s2) \<Rightarrow>
             (case saveCharts d ns (awc_Charts (en_AddonWithCharts ad)) s2 of
                (Some err, s3) \<Rightarrow> (True, Entry_RegisteringError err ad, s3)
              | (None, s3) \<Rightarrow> (True, ad, s3)))"

fun saveEntries :: "'s cdeps \<Rightarrow> Namespace \<Rightarrow> Entry list \<Rightarrow> 's \<Rightarrow> bool \<times> Entry list \<times> 's" where
  "saveEntries d ns [] s = (False, [], s)"
| "saveEntries d ns (e # es) s =
     (let (b, e', s1) = (if Entry_IsReady e then saveEntry d ns e s else (False, e, s));
          (bs, es', s2) = saveEntries d ns es s1
      in (b \<or> bs, e' # es', s2))"

fun saveAddons :: "'s cdeps \<Rightarrow> Namespace \<Rightarrow> Collection \<Rightarrow> 's \<Rightarrow> bool \<times> Collection \<times> 's" where
  "saveAddons d ns [] s = (False, [], s)"
| "saveAddons d ns (r # rs) s =
     (let (b, es, s1) = saveEntries d ns (rep_Addons r) s;
          (bs, rs', s2) = saveAddons d ns rs s1
      in (b \<or> bs, r\<lparr>rep_Addons := es\<rparr> # rs', s2))"

fun removeCharts :: "'s cdeps \<Rightarrow> Namespace \<Rightarrow> AddonPlan list \<Rightarrow> 's \<Rightarrow> error option \<times> 's" where
  "removeCharts d ns [] s = (None, s)"
| "removeCharts d ns (plan # plans) s =
     (case chartRemove d ns (cr_Name (pl_ChartRef plan)) (cr_Version (pl_ChartRef plan)) s of
        (Some err, s1) \<Rightarrow> (Some err, s1)
      | (None, s1) \<Rightarrow> removeCharts d ns plans s1)"

text \<open>\<open>removeAddon\<close> returns whether the addon was removed and an error.\<close>

definition removeAddon ::
  "'s cdeps \<Rightarrow> Namespace \<Rightarrow> StatusAddon \<Rightarrow> 's \<Rightarrow> ((bool \<times> error option) \<times> 's) option" where
  "removeAddon d ns ad s =
     (case semverParse d (sa_Version ad) of
        None \<Rightarrow> None
      | Some ver \<Rightarrow> Some (
          case addonGet d ns (sa_Name ad) ver s of
            (Inl err, s1) \<Rightarrow> ((False, Some err), s1)
          | (Inr add, s1) \<Rightarrow>
              (case addonRemove d ns (sa_Name ad) (ad_Version add) s1 of
                 (Some err, s2) \<Rightarrow> ((False, Some err), s2)
               | (None, s2) \<Rightarrow>
                   (case ensureAssetGroupRemoved d (ad_ID add) s2 of
                      (Some err, s3) \<Rightarrow>
                        ((True, Some (Wrapped err (''while deleting documentation for addon '' @ ad_ID add))), s3)
                    | (None, s3) \<Rightarrow>
                        (case removeCharts d ns (map snd (ad_Plans add)) s3 of
                           (err, s4) \<Rightarrow> ((True, err), s4))))))"

text \<open>Removing a list of addons; \<open>what\<close> is the text of the error. Not found is no error here.\<close>

fun removeEach ::
  "'s cdeps \<Rightarrow> Namespace \<Rightarrow> (StatusAddon \<Rightarrow> string) \<Rightarrow> StatusAddon list \<Rightarrow> 's
    \<Rightarrow> (string list result \<times> 's) option" where
  "removeEach d ns what [] s = Some (Inr [], s)"
| "removeEach d ns what (ad # ads) s =
     (case removeAddon d ns ad s of
        None \<Rightarrow> None
      | Some ((_, err), s1) \<Rightarrow>
          if (case err of None \<Rightarrow> False | Some e \<Rightarrow> \<not> IsNotFoundError e)
          then Some (Inl (Wrapped (the err) (what ad)), s1)
          else (case removeEach d ns what ads s1 of
                  None \<Rightarrow> None
                | Some (Inl e, s2) \<Rightarrow> Some (Inl e, s2)
                | Some (Inr ids, s2) \<Rightarrow> Some (Inr (Key ad # ids), s2)))"

definition statusAddons :: "StatusRepository list \<Rightarrow> StatusAddon list" where
  "statusAddons repos = concat (map sre_Addons repos)"

definition deletePreviousAddons ::
  "'s cdeps \<Rightarrow> Namespace \<Rightarrow> StatusRepository list \<Rightarrow> 's \<Rightarrow> (string list result \<times> 's) option" where
  "deletePreviousAddons d ns repos s =
     removeEach d ns (\<lambda>ad. ''while deleting previous addons and charts for addon `'' @ sa_Name ad @ ''`'')
       (statusAddons repos) s"

definition deleteOrphanAddons ::
  "'s cdeps \<Rightarrow> Namespace \<Rightarrow> StatusRepository list \<Rightarrow> StatusRepository list \<Rightarrow> 's
    \<Rightarrow> (string list result \<times> 's) option" where
  "deleteOrphanAddons d ns repos lastRepos s =
     (let addonsToStay = map Key (statusAddons repos)
      in removeEach d ns (\<lambda>ad. ''while deleting orphan addons and charts for addon `'' @ sa_Name ad @ ''`'')
           (filter (\<lambda>ad. Key ad \<notin> set addonsToStay) (statusAddons lastRepos)) s)"

section \<open>Other configurations\<close>

definition ensureBroker :: "'s cdeps \<Rightarrow> 's \<Rightarrow> error option \<times> 's" where
  "ensureBroker d s =
     (case brokerExist d s of
        Inl err \<Rightarrow> (Some (Wrapped err ''while checking if Broker exist''), s)
      | Inr False \<Rightarrow> (None, s)
      | Inr True \<Rightarrow>
          (case brokerSync d s of
             (Some err, s1) \<Rightarrow> (Some (Wrapped err ''while syncing Broker''), s1)
           | (None, s1) \<Rightarrow> (None, s1)))"

definition isConfigurationInConflict :: "string \<Rightarrow> CommonAddonsConfigurationStatus \<Rightarrow> bool" where
  "isConfigurationInConflict key status =
     (if st_Phase status \<noteq> AddonsConfigurationReady
      then list_ex (\<lambda>repo. sre_Status repo \<noteq> RepositoryStatusReady \<and>
             list_ex (\<lambda>a. Key a = key) (sre_Addons repo)) (st_Repositories status)
      else False)"

fun reprocessEach ::
  "'s cdeps \<Rightarrow> (string \<Rightarrow> string) \<Rightarrow> CommonAddon list \<Rightarrow> 's \<Rightarrow> error option \<times> 's" where
  "reprocessEach d what [] s = (None, s)"
| "reprocessEach d what (c # cs) s =
     (case reprocessRequest d (meta_Name (ca_Meta c)) s of
        (Some err, s1) \<Rightarrow> (Some (Wrapped err (what (meta_Name (ca_Meta c)))), s1)
      | (None, s1) \<Rightarrow> reprocessEach d what cs s1)"

fun reprocessConfigurationsInConflict ::
  "'s cdeps \<Rightarrow> string list \<Rightarrow> CommonAddon list \<Rightarrow> 's \<Rightarrow> error option \<times> 's" where
  "reprocessConfigurationsInConflict d [] list s = (None, s)"
| "reprocessConfigurationsInConflict d (aid # ids) list s =
     (case reprocessEach d (\<lambda>n. ''while reprocessing conflicting addons configuration `'' @ n @ ''`'')
             (filter (\<lambda>c. isConfigurationInConflict aid (ca_Status c)) list) s of
        (Some err, s1) \<Rightarrow> (Some err, s1)
      | (None, s1) \<Rightarrow> reprocessConfigurationsInConflict d ids list s1)"

definition snapshotAddon :: "Entry \<Rightarrow> StatusAddon" where
  "snapshotAddon ad =
     \<lparr>sa_Name = ad_Name (en_Addon ad), sa_Version = Original (ad_Version (en_Addon ad)),
      sa_Status = ad_Status (en_Addon ad), sa_Reason = ad_Reason (en_Addon ad),
      sa_Message = ad_Message (en_Addon ad)\<rparr>"

definition statusSnapshot ::
  "Collection \<Rightarrow> CommonAddonsConfigurationStatus \<Rightarrow> CommonAddonsConfigurationStatus" where
  "statusSnapshot repositories status =
     status\<lparr>st_Repositories := map (\<lambda>repo. (rep_Repository repo)\<lparr>sre_Addons :=
       map snapshotAddon (rep_Addons repo)\<rparr>) repositories\<rparr>"

definition listExistingConfigurations ::
  "'s cdeps \<Rightarrow> string \<Rightarrow> 's \<Rightarrow> CommonAddon list result" where
  "listExistingConfigurations d addonName s =
     (case listConfigurations d s of
        Inl err \<Rightarrow> Inl (Wrapped err ''while listing addons configurations'')
      | Inr cfgs \<Rightarrow> Inr (filter (\<lambda>cfg. meta_Name (ca_Meta cfg) \<noteq> addonName) cfgs))"

section \<open>Writing the configuration\<close>

text \<open>\<open>UpdateConfiguration\<close> sets the generation of the configuration to the one the API server
  returns.\<close>

definition writeConfiguration ::
  "'s cdeps \<Rightarrow> CommonAddon \<Rightarrow> 's \<Rightarrow> error option \<times> CommonAddon \<times> 's" where
  "writeConfiguration d ca s =
     (case updateConfiguration d ca s of
        (Inl err, s1) \<Rightarrow> (Some err, ca, s1)
      | (Inr gen, s1) \<Rightarrow> (None, ca\<lparr>ca_Meta := (ca_Meta ca)\<lparr>meta_Generation := gen\<rparr>\<rparr>, s1))"

definition deleteFinalizer ::
  "'s cdeps \<Rightarrow> CommonAddon \<Rightarrow> 's \<Rightarrow> error option \<times> CommonAddon \<times> 's" where
  "deleteFinalizer d ca s =
     writeConfiguration d (ca\<lparr>ca_Meta := (ca_Meta ca)\<lparr>meta_Finalizers :=
       protection_removeFinalizer (meta_Finalizers (ca_Meta ca))\<rparr>\<rparr>) s"

definition addFinalizer ::
  "'s cdeps \<Rightarrow> CommonAddon \<Rightarrow> 's \<Rightarrow> error option \<times> CommonAddon \<times> 's" where
  "addFinalizer d ca s =
     writeConfiguration d (ca\<lparr>ca_Meta := (ca_Meta ca)\<lparr>meta_Finalizers :=
       protection_addFinalizer (meta_Finalizers (ca_Meta ca))\<rparr>\<rparr>) s"

definition updateAddonStatus ::
  "'s cdeps \<Rightarrow> CommonAddon \<Rightarrow> 's \<Rightarrow> error option \<times> CommonAddon \<times> 's" where
  "updateAddonStatus d ca s =
     (let ca' = ca\<lparr>ca_Status := (ca_Status ca)\<lparr>
                  st_ObservedGeneration := meta_Generation (ca_Meta ca),
                  st_LastProcessedTime := Some (timeNow d s)\<rparr>\<rparr>;
          (err, s1) = updateConfigurationStatus d ca' s
      in (err, ca', s1))"

definition PrepareForProcessing ::
  "'s cdeps \<Rightarrow> CommonAddon \<Rightarrow> 's \<Rightarrow> error option \<times> CommonAddon \<times> 's" where
  "PrepareForProcessing d ca s =
     (case addFinalizer d ca s of
        (Some err, ca1, s1) \<Rightarrow> (Some (Wrapped err ''while adding finalizer''), ca1, s1)
      | (None, ca1, s1) \<Rightarrow>
          (case updateAddonStatus d (ca1\<lparr>ca_Status := (ca_Status ca1)\<lparr>
                   st_Phase := AddonsConfigurationPending\<rparr>\<rparr>) s1 of
             (Some err, ca2, s2) \<Rightarrow> (Some (Wrapped err ''while updating status''), ca2, s2)
           | (None, ca2, s2) \<Rightarrow> (None, ca2, s2)))"

section \<open>Adding and deleting a configuration\<close>

definition set_phase :: "AddonsConfigurationPhase \<Rightarrow> CommonAddon \<Rightarrow> CommonAddon" where
  "set_phase p ca = ca\<lparr>ca_Status := (ca_Status ca)\<lparr>st_Phase := p\<rparr>\<rparr>"

definition snapshot :: "Collection \<Rightarrow> CommonAddon \<Rightarrow> CommonAddon" where
  "snapshot repositories ca = ca\<lparr>ca_Status := statusSnapshot repositories (ca_Status ca)\<rparr>"

text \<open>The branch of \<open>OnAdd\<close> for a repository that could not be fetched.\<close>

definition onAdd_fetching ::
  "'s cdeps \<Rightarrow> CommonAddon \<Rightarrow> CommonAddonsConfigurationStatus \<Rightarrow> Collection \<Rightarrow> 's
    \<Rightarrow> error option \<times> CommonAddon \<times> 's" where
  "onAdd_fetching d ca lastStatus repositories s =
     (let ca1 = snapshot repositories (set_phase AddonsConfigurationFailed ca)
      in if \<not> Status_Equals (ca_Status ca1) lastStatus
         then (case updateAddonStatus d ca1 s of
                 (Some err, ca2, s1) \<Rightarrow>
                   (Some (Wrapped err ''while update addons configuration status''), ca2, s1)
               | (None, ca2, s1) \<Rightarrow> (Some TemporaryError, ca2, s1))
         else (Some TemporaryError, ca1, s))"

text \<open>The end of \<open>OnAdd\<close>, once the addons have been saved and the old ones removed.\<close>

definition onAdd_notify ::
  "'s cdeps \<Rightarrow> CommonAddon list \<Rightarrow> bool \<Rightarrow> string list \<Rightarrow> 's \<Rightarrow> error option \<times> 's" where
  "onAdd_notify d list saved deletedIDs s =
     (let removed = deletedIDs \<noteq> [];
          (err, s1) = (if saved \<or> removed then ensureBroker d s else (None, s))
      in case err of
           Some e \<Rightarrow> (Some (Wrapped e ''while ensuring broker''), s1)
         | None \<Rightarrow>
             if removed
             then (case reprocessConfigurationsInConflict d deletedIDs list s1 of
                     (Some e, s2) \<Rightarrow>
                       (Some (Wrapped e ''while reprocessing configurations in conflict''), s2)
                   | (None, s2) \<Rightarrow> (None, s2))
             else (None, s1))"

definition onAdd_failed ::
  "'s cdeps \<Rightarrow> Namespace \<Rightarrow> CommonAddon \<Rightarrow> CommonAddonsConfigurationStatus \<Rightarrow> CommonAddon list \<Rightarrow> Collection
    \<Rightarrow> 's \<Rightarrow> (error option \<times> CommonAddon \<times> 's) option" where
  "onAdd_failed d ns ca lastStatus list repositories s =
     (case updateAddonStatus d (snapshot repositories ca) s of
        (Some err, ca1, s1) \<Rightarrow>
          Some (Some (Wrapped err ''while update addons configuration status''), ca1, s1)
      | (None, ca1, s1) \<Rightarrow>
          if st_Phase lastStatus = AddonsConfigurationReady
          then (case deletePreviousAddons d ns (st_Repositories lastStatus) s1 of
                  None \<Rightarrow> None
                | Some (Inl err, s2) \<Rightarrow>
                    Some (Some (Wrapped err ''while deleting previous addons from storage''), ca1, s2)
                | Some (Inr ids, s2) \<Rightarrow>
                    (case onAdd_notify d list False ids s2 of (err, s3) \<Rightarrow> Some (err, ca1, s3)))
          else (case onAdd_notify d list False [] s1 of (err, s3) \<Rightarrow> Some (err, ca1, s3)))"

definition onAdd_ready ::
  "'s cdeps \<Rightarrow> Namespace \<Rightarrow> CommonAddon \<Rightarrow> CommonAddonsConfigurationStatus \<Rightarrow> CommonAddon list \<Rightarrow> Collection
    \<Rightarrow> 's \<Rightarrow> (error option \<times> CommonAddon \<times> 's) option" where
  "onAdd_ready d ns ca lastStatus list repositories s =
     (case saveAddons d ns repositories s of
        (saved, repositories', s1) \<Rightarrow>
          (case updateAddonStatus d (snapshot repositories' ca) s1 of
             (Some err, ca1, s2) \<Rightarrow>
               Some (Some (Wrapped err ''while update addons configuration status''), ca1, s2)
           | (None, ca1, s2) \<Rightarrow>
               if st_Phase lastStatus = AddonsConfigurationReady
               then (case deleteOrphanAddons d ns (st_Repositories (ca_Status ca1))
                            (st_Repositories lastStatus) s2 of
                       None \<Rightarrow> None
                     | Some (Inl err, s3) \<Rightarrow>
                         Some (Some (Wrapped err ''while deleting orphan addons from storage''), ca1, s3)
                     | Some (Inr ids, s3) \<Rightarrow>
                         (case onAdd_notify d list saved ids s3 of (err, s4) \<Rightarrow> Some (err, ca1, s4)))
               else (case onAdd_notify d list saved [] s2 of (err, s4) \<Rightarrow> Some (err, ca1, s4))))"

definition OnAdd ::
  "'s cdeps \<Rightarrow> Namespace \<Rightarrow> CommonAddon \<Rightarrow> CommonAddonsConfigurationStatus \<Rightarrow> 's
    \<Rightarrow> (error option \<times> CommonAddon \<times> 's) option" where
  "OnAdd d ns ca lastStatus s =
     (case loadRepositories d (spec_Repositories (ca_Spec ca)) s of
        None \<Rightarrow> None
      | Some repositories \<Rightarrow>
          if IsRepositoriesFetchingError repositories
          then Some (onAdd_fetching d ca lastStatus repositories s)
          else
            let repositories1 = ReviseAddonDuplicationInRepository repositories
            in (case listExistingConfigurations d (meta_Name (ca_Meta ca)) s of
                  Inl err \<Rightarrow> Some (Some (Wrapped err ''while fetching addons configurations list''), ca, s)
                | Inr list \<Rightarrow>
                    (case IsRepositoriesFailed (ReviseAddonDuplicationInStorage list repositories1) of
                       (True, repositories2) \<Rightarrow>
                         onAdd_failed d ns (set_phase AddonsConfigurationFailed ca) lastStatus list
                           repositories2 s
                     | (False, repositories2) \<Rightarrow>
                         onAdd_ready d ns (set_phase AddonsConfigurationReady ca) lastStatus list
                           repositories2 s)))"

fun removeOwn ::
  "'s cdeps \<Rightarrow> Namespace \<Rightarrow> StatusAddon list \<Rightarrow> bool \<Rightarrow> 's \<Rightarrow> (bool result \<times> 's) option" where
  "removeOwn d ns [] anyRemoved s = Some (Inr anyRemoved, s)"
| "removeOwn d ns (ad # ads) anyRemoved s =
     (case removeAddon d ns ad s of
        None \<Rightarrow> None
      | Some ((removed, err), s1) \<Rightarrow>
          if (case err of None \<Rightarrow> False | Some e \<Rightarrow> \<not> IsNotFoundError e)
          then Some (Inl (Wrapped (the err)
                 (''while deleting addon with charts for addon '' @ sa_Name ad)), s1)
          else removeOwn d ns ads (anyRemoved \<or> removed) s1)"

definition onDelete_finish ::
  "'s cdeps \<Rightarrow> CommonAddon \<Rightarrow> 's \<Rightarrow> error option \<times> CommonAddon \<times> 's" where
  "onDelete_finish d ca s =
     (case deleteFinalizer d ca s of
        (Some err, ca1, s1) \<Rightarrow>
          (Some (Wrapped err (''while deleting finalizer from addons configuration '' @
                   meta_Name (ca_Meta ca))), ca1, s1)
      | (None, ca1, s1) \<Rightarrow> (None, ca1, s1))"

definition OnDelete ::
  "'s cdeps \<Rightarrow> Namespace \<Rightarrow> CommonAddon \<Rightarrow> 's \<Rightarrow> (error option \<times> CommonAddon \<times> 's) option" where
  "OnDelete d ns ca s =
     (if st_Phase (ca_Status ca) = AddonsConfigurationReady
      then
        (case listExistingConfigurations d (meta_Name (ca_Meta ca)) s of
           Inl err \<Rightarrow> Some (Some (Wrapped err ''while listing addons configurations''), ca, s)
         | Inr adds \<Rightarrow>
             (case reprocessEach d (\<lambda>n. ''while requesting reprocess addons configuration '' @ n)
                     (filter (\<lambda>c. st_Phase (ca_Status c) \<noteq> AddonsConfigurationReady) adds) s of
                (Some err, s1) \<Rightarrow> Some (Some err, ca, s1)
              | (None, s1) \<Rightarrow>
                  (case removeOwn d ns (statusAddons (st_Repositories (ca_Status ca))) False s1 of
                     None \<Rightarrow> None
                   | Some (Inl err, s2) \<Rightarrow> Some (Some err, ca, s2)
                   | Some (Inr anyRemoved, s2) \<Rightarrow>
                       (case (if anyRemoved then brokerSync d s2 else (None, s2)) of
                          (Some err, s3) \<Rightarrow>
                            Some (Some (Wrapped err (''while syncing broker for addon '' @
                                     meta_Name (ca_Meta ca))), ca, s3)
                        | (None, s3) \<Rightarrow> Some (onDelete_finish d ca s3)))))
      else Some (onDelete_finish d ca s))"

section \<open>Reconciling\<close>

text \<open>Durations are in nanoseconds.\<close>

record ReconcileResult =
  rr_RequeueAfter :: int

definition NoRequeue :: ReconcileResult where
  "NoRequeue = \<lparr>rr_RequeueAfter = 0\<rparr>"

definition IsTemporary :: "error \<Rightarrow> bool" where
  "IsTemporary e \<longleftrightarrow> Cause e = TemporaryError"

definition Reconcile ::
  "'s cdeps \<Rightarrow> Namespace \<Rightarrow> int \<Rightarrow> CommonAddon \<Rightarrow> string \<Rightarrow> 's
    \<Rightarrow> ((ReconcileResult \<times> error option) \<times> CommonAddon \<times> 's) option" where
  "Reconcile d ns reprocessOnErrorDuration ca trace s =
     (if meta_DeletionTimestamp (ca_Meta ca) \<noteq> None
      then
        (case OnDelete d ns ca s of
           None \<Rightarrow> None
         | Some (Some err, ca1, s1) \<Rightarrow>
             Some ((\<lparr>rr_RequeueAfter = 15 * 10 ^ 9\<rparr>, Some (Wrapped err (''while deleting '' @ trace))), ca1, s1)
         | Some (None, ca1, s1) \<Rightarrow> Some ((NoRequeue, None), ca1, s1))
      else if IsReadyForInitialProcessing ca
      then
        (case PrepareForProcessing d ca s of
           (Some err, ca1, s1) \<Rightarrow>
             Some ((NoRequeue, Some (Wrapped err (''while preparing '' @ trace @ '' for processing''))), ca1, s1)
         | (None, ca1, s1) \<Rightarrow>
             (case OnAdd d ns ca1 (ca_Status ca1) s1 of
                None \<Rightarrow> None
              | Some (Some err, ca2, s2) \<Rightarrow>
                  if IsTemporary err
                  then Some ((\<lparr>rr_RequeueAfter = reprocessOnErrorDuration\<rparr>,
                              Some (Wrapped err (''while updating '' @ trace))), ca2, s2)
                  else Some ((NoRequeue, Some (Wrapped err (''while creating '' @ trace))), ca2, s2)
              | Some (None, ca2, s2) \<Rightarrow> Some ((NoRequeue, None), ca2, s2)))
      else if IsReadyForReprocessing ca
      then
        (case OnAdd d ns (ca\<lparr>ca_Status := EmptyStatus\<rparr>) (ca_Status ca) s of
           None \<Rightarrow> None
         | Some (Some err, ca2, s2) \<Rightarrow>
             if IsTemporary err
             then Some ((\<lparr>rr_RequeueAfter = reprocessOnErrorDuration\<rparr>,
                         Some (Wrapped err (''while updating '' @ trace))), ca2, s2)
             else Some ((NoRequeue, Some (Wrapped err (''while updating '' @ trace))), ca2, s2)
         | Some (None, ca2, s2) \<Rightarrow> Some ((NoRequeue, None), ca2, s2))
      else Some ((NoRequeue, None), ca, s))"

section \<open>Facts\<close>

lemma hasFinalizer_iff: "hasFinalizer xs \<longleftrightarrow> FinalizerAddonsConfiguration \<in> set xs"
  by (auto simp: hasFinalizer_def list_ex_iff)

lemma removeFinalizer_eq:
  "protection_removeFinalizer xs = filter (\<lambda>x. x \<noteq> FinalizerAddonsConfiguration) xs"
  by (auto simp: protection_removeFinalizer_def hasFinalizer_iff intro!: filter_True [symmetric])

text \<open>
  Adding the finalizer makes it present and is idempotent, removing it makes it absent, the
  finalizers of others keep their place, and removing undoes adding.
\<close>

theorem finalizers_correct:
  "hasFinalizer (protection_addFinalizer xs) \<and>
   protection_addFinalizer (protection_addFinalizer xs) = protection_addFinalizer xs \<and>
   \<not> hasFinalizer (protection_removeFinalizer xs) \<and>
   filter (\<lambda>x. x \<noteq> FinalizerAddonsConfiguration) (protection_addFinalizer xs) =
     filter (\<lambda>x. x \<noteq> FinalizerAddonsConfiguration) xs \<and>
   protection_removeFinalizer (protection_addFinalizer xs) = protection_removeFinalizer xs"
  by (auto simp: protection_addFinalizer_def hasFinalizer_iff removeFinalizer_eq)

subsection \<open>The reasons of the repositories\<close>

text \<open>Whether a repository counts as not fetched depends on its reason alone, and only fetching
  sets that reason.\<close>

definition reasons :: "Collection \<Rightarrow> RepositoryStatusReason list" where
  "reasons rc = map (\<lambda>r. sre_Reason (rep_Repository r)) rc"

lemma loadRepositories_reason:
  "loadRepositories d specs s = Some rc \<Longrightarrow> r \<in> set rc \<Longrightarrow>
   sre_Reason (rep_Repository r) = RepositoryURLFetchingError \<Longrightarrow> IsFetchingError_repo r"
proof (induction specs arbitrary: rc)
  case (Cons spec specs)
  from Cons.prems(1) obtain r0 rc0 where rc: "rc = r0 # rc0" "loadRepositories d specs s = Some rc0"
    by (auto simp: Let_def split: option.splits sum.splits if_splits)
  have "sre_Reason (rep_Repository r0) = RepositoryURLFetchingError \<Longrightarrow> IsFetchingError_repo r0"
    using Cons.prems(1) rc
    by (auto simp: Let_def IsFetchingError_repo_def Repository_FetchingError_def Repository_EmptyURLError_def
        Repository_TemplatingError_def setRepositoryStatus_def Repository_Failed_def NewAddonsRepository_def
        split: option.splits sum.splits if_splits)
  with Cons.IH [OF rc(2)] Cons.prems(2,3) rc(1) show ?case by auto
qed simp

lemma reviseRepositories_reasons: "reasons (reviseRepositories ids rc) = reasons rc"
  by (induction rc arbitrary: ids) (auto simp: reasons_def Let_def case_prod_beta)

lemma ReviseInStorage_reasons: "reasons (ReviseAddonDuplicationInStorage list rc) = reasons rc"
  by (simp add: reasons_def ReviseAddonDuplicationInStorage_def comp_def)

lemma IsRepositoriesFailed_reasons: "reasons (snd (IsRepositoriesFailed rc)) = reasons rc"
  by (auto simp: reasons_def IsRepositoriesFailed_def comp_def markFailed_def Repository_Failed_def)

lemma saveAddons_reasons_snd: "reasons (fst (snd (saveAddons d ns rc s))) = reasons rc"
  by (induction rc arbitrary: s) (auto simp: reasons_def Let_def case_prod_beta)

lemma saveAddons_reasons: "saveAddons d ns rc s = (b, rc', s') \<Longrightarrow> reasons rc' = reasons rc"
  using saveAddons_reasons_snd [of d ns rc s] by simp

text \<open>The status after a run that did not fail on fetching.\<close>

definition settled :: "CommonAddon \<Rightarrow> bool" where
  "settled ca \<longleftrightarrow>
     st_Phase (ca_Status ca) \<in> {AddonsConfigurationReady, AddonsConfigurationFailed} \<and>
     st_ObservedGeneration (ca_Status ca) = meta_Generation (ca_Meta ca) \<and>
     (\<forall>x \<in> set (st_Repositories (ca_Status ca)). sre_Reason x \<noteq> RepositoryURLFetchingError)"

lemma updateAddonStatus_settled:
  assumes "updateAddonStatus d (snapshot rc ca) s = (err, ca', s')"
    "st_Phase (ca_Status ca) \<in> {AddonsConfigurationReady, AddonsConfigurationFailed}"
    "RepositoryURLFetchingError \<notin> set (reasons rc)"
  shows "settled ca'"
proof -
  have "ca' = (snapshot rc ca)\<lparr>ca_Status := (ca_Status (snapshot rc ca))\<lparr>
      st_ObservedGeneration := meta_Generation (ca_Meta (snapshot rc ca)),
      st_LastProcessedTime := Some (timeNow d s)\<rparr>\<rparr>"
    using assms(1) by (auto simp: updateAddonStatus_def Let_def split: prod.splits)
  with assms(2,3) show ?thesis
    by (auto simp: settled_def snapshot_def statusSnapshot_def reasons_def image_iff)
qed

lemma set_phase_simp [simp]: "st_Phase (ca_Status (set_phase p ca)) = p"
  by (simp add: set_phase_def)

lemma onAdd_failed_settled:
  assumes "onAdd_failed d ns ca lastStatus list rc s = Some (None, ca', s')"
    "st_Phase (ca_Status ca) = AddonsConfigurationFailed" "RepositoryURLFetchingError \<notin> set (reasons rc)"
  shows "settled ca'"
proof -
  obtain err ca1 s1 where up: "updateAddonStatus d (snapshot rc ca) s = (err, ca1, s1)"
    by (metis prod_cases3)
  from assms(1) up have "ca' = ca1"
    by (auto simp: onAdd_failed_def split: option.splits prod.splits sum.splits if_splits)
  with updateAddonStatus_settled [OF up] assms(2,3) show ?thesis by simp
qed

lemma onAdd_ready_settled:
  assumes "onAdd_ready d ns ca lastStatus list rc s = Some (None, ca', s')"
    "st_Phase (ca_Status ca) = AddonsConfigurationReady" "RepositoryURLFetchingError \<notin> set (reasons rc)"
  shows "settled ca'"
proof -
  obtain b rc' s0 where sv: "saveAddons d ns rc s = (b, rc', s0)" by (metis prod_cases3)
  obtain err ca1 s1 where up: "updateAddonStatus d (snapshot rc' ca) s0 = (err, ca1, s1)"
    by (metis prod_cases3)
  from assms(1) sv up have "ca' = ca1"
    by (auto simp: onAdd_ready_def split: option.splits prod.splits sum.splits if_splits)
  with updateAddonStatus_settled [OF up] assms(2,3) saveAddons_reasons [OF sv] show ?thesis by simp
qed

lemma OnAdd_settled:
  assumes "OnAdd d ns ca lastStatus s = Some (None, ca', s')"
  shows "settled ca'"
proof -
  from assms obtain rc where load: "loadRepositories d (spec_Repositories (ca_Spec ca)) s = Some rc"
    and ok: "\<not> IsRepositoriesFetchingError rc"
    by (auto simp: OnAdd_def onAdd_fetching_def Let_def split: option.splits if_splits prod.splits)
  from assms load ok obtain list failed rc2 where
    mark: "IsRepositoriesFailed (ReviseAddonDuplicationInStorage list
      (ReviseAddonDuplicationInRepository rc)) = (failed, rc2)" and
    branch: "if failed then onAdd_failed d ns (set_phase AddonsConfigurationFailed ca) lastStatus list rc2 s =
        Some (None, ca', s')
      else onAdd_ready d ns (set_phase AddonsConfigurationReady ca) lastStatus list rc2 s = Some (None, ca', s')"
    by (auto simp: OnAdd_def Let_def split: sum.splits prod.splits bool.splits)
  have "RepositoryURLFetchingError \<notin> set (reasons rc)"
    using loadRepositories_reason [OF load] ok
    unfolding IsRepositoriesFetchingError_def list_ex_iff reasons_def set_map by (metis imageE)
  moreover have "reasons rc2 = reasons rc"
    using IsRepositoriesFailed_reasons [of "ReviseAddonDuplicationInStorage list
      (ReviseAddonDuplicationInRepository rc)"] mark
    by (simp add: ReviseInStorage_reasons ReviseAddonDuplicationInRepository_def reviseRepositories_reasons)
  ultimately show ?thesis
    using branch onAdd_failed_settled onAdd_ready_settled by (cases failed) fastforce+
qed

lemma settled_not_reprocessed:
  "settled ca \<Longrightarrow> meta_Generation (ca_Meta ca) \<noteq> 0 \<Longrightarrow>
   \<not> IsReadyForInitialProcessing ca \<and> \<not> IsReadyForReprocessing ca"
  by (auto simp: settled_def IsReadyForInitialProcessing_def IsReadyForReprocessing_def list_ex_iff)




definition example_cdeps :: "unit cdeps" where
  "example_cdeps = \<lparr>semverParse = \<lambda>v. Some \<lparr>Original = v, String = v\<rparr>,
     newGetter = \<lambda>u s. if u = ''bad'' then Inl (ErrorString ''no route'') else
       Inr \<lparr>g_GetIndex = Inr \<lparr>idx_Entries = []\<rparr>, g_GetCompleteAddon = \<lambda>e. Inl NotFoundError\<rparr>,
     templateURL = \<lambda>r s. Inr (sp_URL r),
     addonUpsert = \<lambda>ns a s. (Inr False, s), addonGet = \<lambda>ns n v s. (Inl NotFoundError, s),
     addonRemove = \<lambda>ns n v s. (None, s), chartUpsert = \<lambda>ns c s. (Inr False, s),
     chartRemove = \<lambda>ns n v s. (None, s), ensureAssetGroup = \<lambda>a s. (None, s),
     ensureAssetGroupRemoved = \<lambda>a s. (None, s), brokerExist = \<lambda>s. Inr True, brokerSync = \<lambda>s. (None, s),
     listConfigurations = \<lambda>s. Inr [], reprocessRequest = \<lambda>n s. (None, s),
     updateConfiguration = \<lambda>c s. (Inr 1, s), updateConfigurationStatus = \<lambda>c s. (None, s), timeNow = \<lambda>s. 7\<rparr>"

definition example_fresh :: CommonAddon where
  "example_fresh = \<lparr>ca_Meta = \<lparr>meta_Name = ''cfg'', meta_Namespace = ''stage'', meta_Generation = 1,
       meta_DeletionTimestamp = None, meta_Finalizers = []\<rparr>,
     ca_Spec = \<lparr>spec_ReprocessRequest = 0, spec_Repositories = [\<lparr>sp_URL = ''good'', sp_SecretRef = None\<rparr>]\<rparr>,
     ca_Status = EmptyStatus\<rparr>"

lemmas controller_eval = Reconcile_def PrepareForProcessing_def addFinalizer_def writeConfiguration_def
  updateAddonStatus_def OnAdd_def onAdd_ready_def onAdd_failed_def onAdd_notify_def onAdd_fetching_def
  createAddons_def IsRepositoriesFetchingError_def IsFetchingError_repo_def ReviseAddonDuplicationInRepository_def
  ReviseAddonDuplicationInStorage_def listExistingConfigurations_def IsRepositoriesFailed_def markFailed_def
  Repository_IsFailed_def HasFailedAddons_def snapshot_def statusSnapshot_def set_phase_def
  NewAddonsRepository_def OnDelete_def onDelete_finish_def deleteFinalizer_def NoRequeue_def
  Repository_FetchingError_def setRepositoryStatus_def Repository_Failed_def





end
