(* ===== verification/BrokerController.thy ===== *)
theory BrokerController
  imports Kube_Interface
begin

text \<open>
  The controllers that keep a service broker object in every namespace that needs one
  (\<open>broker_controller.go\<close>) and one for the cluster (\<open>cluster_broker_controller.go\<close>), the facades
  that create and delete these objects, the syncers that ask the service catalog to list the
  brokers again, and the check for service instances (\<open>instance/facade.go\<close>).
\<close>

section \<open>Facades\<close>

definition NamespacedBrokerName :: string where
  "NamespacedBrokerName = ''helm-broker''"

definition BrokerLabelKey :: string where
  "BrokerLabelKey = ''namespaced-helm-broker''"

definition BrokerLabelValue :: string where
  "BrokerLabelValue = ''true''"

record Facade =
  fa_systemNamespace :: string
  fa_serviceName :: string
  fa_namespace :: Namespace

definition Facade_SetNamespace :: "Namespace \<Rightarrow> Facade \<Rightarrow> Facade" where
  "Facade_SetNamespace ns f = f\<lparr>fa_namespace := ns\<rparr>"

definition svcURL :: "string \<Rightarrow> string \<Rightarrow> string" where
  "svcURL serviceName ns = ''http://'' @ serviceName @ ''.'' @ ns @ ''.svc.cluster.local''"

definition serviceBroker :: "Facade \<Rightarrow> string \<Rightarrow> ServiceBroker" where
  "serviceBroker f url =
     \<lparr>sb_Name = NamespacedBrokerName, sb_Namespace = fa_namespace f,
      sb_Labels = [(BrokerLabelKey, BrokerLabelValue)],
      sb_URL = url @ ''/ns/'' @ fa_namespace f, sb_RelistRequests = 1, sb_DeletionTimestamp = None\<rparr>"

definition createServiceBroker ::
  "'s kube \<Rightarrow> Facade \<Rightarrow> string \<Rightarrow> 's \<Rightarrow> ServiceBroker result \<times> 's" where
  "createServiceBroker k f url s =
     (let broker = serviceBroker f url
      in case kCreateBroker k KServiceBroker broker s of
           (None, s1) \<Rightarrow> (Inr broker, s1)
         | (Some err, s1) \<Rightarrow>
             if kIsAlreadyExists err
             then (kGetBroker k KServiceBroker (fa_namespace f, NamespacedBrokerName) s1, s1)
             else (Inl err, s1))"

text \<open>The condition that \<open>Create\<close> polls: created, or already there.\<close>

definition created_or_exists :: "('s \<Rightarrow> ServiceBroker result \<times> 's) \<Rightarrow> 's \<Rightarrow> bool \<times> 's" where
  "created_or_exists create s =
     (case create s of
        (Inl err, s1) \<Rightarrow> (kIsAlreadyExists err, s1)
      | (Inr _, s1) \<Rightarrow> (True, s1))"

definition Facade_Create :: "'s kube \<Rightarrow> nat \<Rightarrow> Facade \<Rightarrow> 's \<Rightarrow> error option \<times> 's" where
  "Facade_Create k attempts f s =
     (case PollImmediate attempts
             (created_or_exists (createServiceBroker k f (svcURL (fa_serviceName f) (fa_systemNamespace f)))) s of
        (Some err, s1) \<Rightarrow> (Some (Wrapped err ''while waiting for service broker creation''), s1)
      | (None, s1) \<Rightarrow> (None, s1))"

definition Facade_Delete :: "'s kube \<Rightarrow> Facade \<Rightarrow> 's \<Rightarrow> error option \<times> 's" where
  "Facade_Delete k f s =
     (case kDeleteBroker k KServiceBroker (fa_namespace f, NamespacedBrokerName) s of
        (Some err, s1) \<Rightarrow> if kIsNotFound err then (None, s1) else (Some err, s1)
      | (None, s1) \<Rightarrow> (None, s1))"

definition Facade_Exist :: "'s kube \<Rightarrow> Facade \<Rightarrow> 's \<Rightarrow> bool result" where
  "Facade_Exist k f s =
     (case kGetBroker k KServiceBroker (fa_namespace f, NamespacedBrokerName) s of
        Inr _ \<Rightarrow> Inr True
      | Inl err \<Rightarrow>
          if kIsNotFound err then Inr False
          else Inl (Wrapped err (''while checking if ServiceBroker ['' @ NamespacedBrokerName @
                 ''] exists in the namespace ['' @ fa_namespace f @ '']'')))"

record ClusterFacade =
  cf_workingNamespace :: string
  cf_serviceName :: string
  cf_clusterBrokerName :: string

definition clusterServiceBroker :: "ClusterFacade \<Rightarrow> string \<Rightarrow> ServiceBroker" where
  "clusterServiceBroker f url =
     \<lparr>sb_Name = cf_clusterBrokerName f, sb_Namespace = '''', sb_Labels = [],
      sb_URL = url @ ''/cluster'', sb_RelistRequests = 1, sb_DeletionTimestamp = None\<rparr>"

definition createClusterServiceBroker ::
  "'s kube \<Rightarrow> ClusterFacade \<Rightarrow> string \<Rightarrow> 's \<Rightarrow> ServiceBroker result \<times> 's" where
  "createClusterServiceBroker k f url s =
     (let broker = clusterServiceBroker f url
      in case kCreateBroker k KClusterServiceBroker broker s of
           (None, s1) \<Rightarrow> (Inr broker, s1)
         | (Some err, s1) \<Rightarrow>
             if kIsAlreadyExists err
             then (kGetBroker k KClusterServiceBroker ('''', cf_clusterBrokerName f) s1, s1)
             else (Inl err, s1))"

definition ClusterFacade_Create :: "'s kube \<Rightarrow> nat \<Rightarrow> ClusterFacade \<Rightarrow> 's \<Rightarrow> error option \<times> 's" where
  "ClusterFacade_Create k attempts f s =
     (case PollImmediate attempts
             (created_or_exists
               (createClusterServiceBroker k f (svcURL (cf_serviceName f) (cf_workingNamespace f)))) s of
        (Some err, s1) \<Rightarrow> (Some (Wrapped err ''while waiting for cluster service broker creation''), s1)
      | (None, s1) \<Rightarrow> (None, s1))"

definition ClusterFacade_Delete :: "'s kube \<Rightarrow> ClusterFacade \<Rightarrow> 's \<Rightarrow> error option \<times> 's" where
  "ClusterFacade_Delete k f s =
     (case kDeleteBroker k KClusterServiceBroker ('''', cf_clusterBrokerName f) s of
        (Some err, s1) \<Rightarrow> if kIsNotFound err then (None, s1) else (Some err, s1)
      | (None, s1) \<Rightarrow> (None, s1))"

definition ClusterFacade_Exist :: "'s kube \<Rightarrow> ClusterFacade \<Rightarrow> 's \<Rightarrow> bool result" where
  "ClusterFacade_Exist k f s =
     (case kGetBroker k KClusterServiceBroker ('''', cf_clusterBrokerName f) s of
        Inr _ \<Rightarrow> Inr True
      | Inl err \<Rightarrow>
          if kIsNotFound err then Inr False
          else Inl (Wrapped err (''while checking if ClusterServiceBroker ['' @ cf_clusterBrokerName f @
                 ''] exists'')))"

section \<open>Syncers\<close>

definition maxSyncRetries :: nat where
  "maxSyncRetries = 5"

text \<open>The loop of \<open>Sync\<close>, with the number of rounds that are left.\<close>

fun syncLoop ::
  "'s kube \<Rightarrow> brokerKind \<Rightarrow> NamespacedName \<Rightarrow> string \<Rightarrow> nat \<Rightarrow> 's \<Rightarrow> error option \<times> 's" where
  "syncLoop k kd n what 0 s =
     (Some (ErrorString (''could not sync cluster service broker ('' @ snd n @ '') after '' @
        intText (int maxSyncRetries) @ '' retries'')), s)"
| "syncLoop k kd n what (Suc i) s =
     (case kGetBroker k kd n s of
        Inl err \<Rightarrow>
          if kIsNotFound err then (None, s)
          else (Some (Wrapped err (''while getting '' @ what @ ''s '' @ snd n)), s)
      | Inr broker \<Rightarrow>
          (case kUpdateBroker k kd (broker\<lparr>sb_RelistRequests := sb_RelistRequests broker + 1\<rparr>) s of
             (None, s1) \<Rightarrow> (None, s1)
           | (Some err, s1) \<Rightarrow>
               if kIsConflict err then syncLoop k kd n what i s1
               else (Some (Wrapped err (''while updating '' @ what @ '' '' @ sb_Name broker)), s1)))"

definition Syncer_Sync :: "'s kube \<Rightarrow> Namespace \<Rightarrow> 's \<Rightarrow> error option \<times> 's" where
  "Syncer_Sync k ns s = syncLoop k KServiceBroker (ns, NamespacedBrokerName) ''ServiceBroker'' maxSyncRetries s"

definition ClusterSyncer_Sync :: "'s kube \<Rightarrow> string \<Rightarrow> 's \<Rightarrow> error option \<times> 's" where
  "ClusterSyncer_Sync k clusterBrokerName s =
     syncLoop k KClusterServiceBroker ('''', clusterBrokerName) ''ClusterServiceBroker'' maxSyncRetries s"

section \<open>Service instances\<close>

definition AnyServiceInstanceExistsForNamespacedServiceBroker ::
  "'s kube \<Rightarrow> Namespace \<Rightarrow> 's \<Rightarrow> bool result" where
  "AnyServiceInstanceExistsForNamespacedServiceBroker k ns s =
     (case kListInstances k ns s of
        Inl err \<Rightarrow> Inl err
      | Inr [] \<Rightarrow> Inr False
      | Inr insts \<Rightarrow>
          (case kListServiceClasses k ns s of
             Inl err \<Rightarrow> Inl err
           | Inr classes \<Rightarrow>
               let names = map sc_Name (filter (\<lambda>c. sc_BrokerName c = NamespacedBrokerName) classes)
               in Inr (list_ex (\<lambda>i. case si_ServiceClassRef i of None \<Rightarrow> False
                                  | Some r \<Rightarrow> r \<in> set names) insts)))"

definition AnyServiceInstanceExistsForClusterServiceBroker ::
  "'s kube \<Rightarrow> string \<Rightarrow> 's \<Rightarrow> bool result" where
  "AnyServiceInstanceExistsForClusterServiceBroker k clusterBrokerName s =
     (case kListInstances k '''' s of
        Inl err \<Rightarrow> Inl err
      | Inr [] \<Rightarrow> Inr False
      | Inr insts \<Rightarrow>
          (case kListClusterServiceClasses k s of
             Inl err \<Rightarrow> Inl err
           | Inr classes \<Rightarrow>
               let names = map sc_Name (filter (\<lambda>c. sc_BrokerName c = clusterBrokerName) classes)
               in Inr (list_ex (\<lambda>i. case si_ClusterServiceClassRef i of None \<Rightarrow> False
                                  | Some r \<Rightarrow> r \<in> set names) insts)))"

section \<open>Controllers\<close>

definition BrokerController_Reconcile ::
  "'s kube \<Rightarrow> nat \<Rightarrow> Facade \<Rightarrow> Namespace \<Rightarrow> 's \<Rightarrow> error option \<times> 's" where
  "BrokerController_Reconcile k attempts facade ns s =
     (let f = Facade_SetNamespace ns facade
      in case Facade_Exist k f s of
           Inl err \<Rightarrow> (Some err, s)
         | Inr sbExists \<Rightarrow>
             (case kListConfigs k KAddonsConfiguration ns s of
                Inl err \<Rightarrow> (Some err, s)
              | Inr items \<Rightarrow>
                  (case AnyServiceInstanceExistsForNamespacedServiceBroker k ns s of
                     Inl err \<Rightarrow> (Some err, s)
                   | Inr instancesExist \<Rightarrow>
                       if sbExists \<and> items = [] \<and> \<not> instancesExist then Facade_Delete k f s
                       else if \<not> sbExists \<and> (items \<noteq> [] \<or> instancesExist) then Facade_Create k attempts f s
                       else (None, s))))"

definition ClusterBrokerController_Reconcile ::
  "'s kube \<Rightarrow> nat \<Rightarrow> ClusterFacade \<Rightarrow> 's \<Rightarrow> error option \<times> 's" where
  "ClusterBrokerController_Reconcile k attempts f s =
     (case ClusterFacade_Exist k f s of
        Inl err \<Rightarrow> (Some err, s)
      | Inr csbExists \<Rightarrow>
          (case kListConfigs k KClusterAddonsConfiguration '''' s of
             Inl err \<Rightarrow> (Some err, s)
           | Inr items \<Rightarrow>
               (case AnyServiceInstanceExistsForClusterServiceBroker k (cf_clusterBrokerName f) s of
                  Inl err \<Rightarrow> (Some err, s)
                | Inr instancesExist \<Rightarrow>
                    if csbExists \<and> items = [] \<and> \<not> instancesExist then ClusterFacade_Delete k f s
                    else if \<not> csbExists \<and> (items \<noteq> [] \<or> instancesExist)
                    then ClusterFacade_Create k attempts f s
                    else (None, s))))"

section \<open>Facts about the facades\<close>

text \<open>Both facades create an object and look it up when it is already there.\<close>

definition create_or_get ::
  "'s kube \<Rightarrow> brokerKind \<Rightarrow> ServiceBroker \<Rightarrow> 's \<Rightarrow> ServiceBroker result \<times> 's" where
  "create_or_get k kd b s =
     (case kCreateBroker k kd b s of
        (None, s1) \<Rightarrow> (Inr b, s1)
      | (Some err, s1) \<Rightarrow>
          if kIsAlreadyExists err then (kGetBroker k kd (sb_key b) s1, s1) else (Inl err, s1))"

lemma serviceBroker_key [simp]:
  "sb_Namespace (serviceBroker f url) = fa_namespace f" "sb_Name (serviceBroker f url) = NamespacedBrokerName"
  "sb_Namespace (clusterServiceBroker cf url) = ''''"
  "sb_Name (clusterServiceBroker cf url) = cf_clusterBrokerName cf"
  by (simp_all add: serviceBroker_def clusterServiceBroker_def)

lemma createServiceBroker_eq:
  "createServiceBroker k f url = create_or_get k KServiceBroker (serviceBroker f url)"
  by (rule ext) (simp add: createServiceBroker_def create_or_get_def Let_def split: prod.splits option.splits)

lemma createClusterServiceBroker_eq:
  "createClusterServiceBroker k f url = create_or_get k KClusterServiceBroker (clusterServiceBroker f url)"
  by (rule ext) (simp add: createClusterServiceBroker_def create_or_get_def Let_def split: prod.splits option.splits)

definition namespaced_in_use :: "'s kube \<Rightarrow> Namespace \<Rightarrow> 's \<Rightarrow> bool" where
  "namespaced_in_use k ns s \<longleftrightarrow>
     (\<exists>insts classes i c. kListInstances k ns s = Inr insts \<and> kListServiceClasses k ns s = Inr classes \<and>
        i \<in> set insts \<and> c \<in> set classes \<and> sc_BrokerName c = NamespacedBrokerName \<and>
        si_ServiceClassRef i = Some (sc_Name c))"

definition cluster_in_use :: "'s kube \<Rightarrow> string \<Rightarrow> 's \<Rightarrow> bool" where
  "cluster_in_use k name s \<longleftrightarrow>
     (\<exists>insts classes i c. kListInstances k '''' s = Inr insts \<and> kListClusterServiceClasses k s = Inr classes \<and>
        i \<in> set insts \<and> c \<in> set classes \<and> sc_BrokerName c = name \<and>
        si_ClusterServiceClassRef i = Some (sc_Name c))"

lemma namespaced_instances:
  "AnyServiceInstanceExistsForNamespacedServiceBroker k ns s = Inr b \<Longrightarrow> b \<longleftrightarrow> namespaced_in_use k ns s"
  by (auto simp: AnyServiceInstanceExistsForNamespacedServiceBroker_def namespaced_in_use_def list_ex_iff
      Let_def split: sum.splits list.splits option.splits; blast)

lemma cluster_instances:
  "AnyServiceInstanceExistsForClusterServiceBroker k name s = Inr b \<Longrightarrow> b \<longleftrightarrow> cluster_in_use k name s"
  by (auto simp: AnyServiceInstanceExistsForClusterServiceBroker_def cluster_in_use_def list_ex_iff
      Let_def split: sum.splits list.splits option.splits; blast)

context broker_api
begin

text \<open>The broker object of a kind and a name exists and is not lost; or is gone or going.\<close>

definition kept_others :: "brokerKind \<Rightarrow> NamespacedName \<Rightarrow> 's \<Rightarrow> 's \<Rightarrow> bool" where
  "kept_others kd n s s' \<longleftrightarrow> (\<forall>kd' n'. (kd', n') \<noteq> (kd, n) \<longrightarrow> brokers s' kd' n' = brokers s kd' n')"

lemma kept_others_refl [simp]: "kept_others kd n s s"
  by (simp add: kept_others_def)

lemma kept_others_trans: "kept_others kd n s t \<Longrightarrow> kept_others kd n t u \<Longrightarrow> kept_others kd n s u"
  by (simp add: kept_others_def)

lemma create_or_get_others: "kept_others kd (sb_key b) s (snd (create_or_get k kd b s))"
  using broker_others [of _ _ kd b s]
  by (auto simp: kept_others_def create_or_get_def split: prod.splits option.splits)

lemma create_or_get_present:
  assumes "created_or_exists (create_or_get k kd b) s = (True, s')"
  shows "brokers s' kd (sb_key b) \<noteq> None"
proof -
  obtain q s1 where c: "kCreateBroker k kd b s = (q, s1)" by fastforce
  show ?thesis
  proof (cases q)
    case None
    then show ?thesis using assms c broker_create [of kd b s s1]
      by (simp add: created_or_exists_def create_or_get_def)
  next
    case (Some e)
    then show ?thesis using assms c broker_get_error [of kd "sb_key b" s1] broker_get [of kd "sb_key b" s1]
      by (cases "kGetBroker k kd (sb_key b) s1")
        (auto simp: created_or_exists_def create_or_get_def split: if_splits)
  qed
qed

lemma poll_create:
  assumes "PollImmediate n (created_or_exists (create_or_get k kd b)) s = (r, s')"
  shows "kept_others kd (sb_key b) s s'" and "r = None \<Longrightarrow> brokers s' kd (sb_key b) \<noteq> None"
proof -
  have step: "kept_others kd (sb_key b) t (snd (created_or_exists (create_or_get k kd b) t))" for t
    using create_or_get_others [of kd b t]
    by (auto simp: created_or_exists_def split: prod.splits sum.splits)
  show "kept_others kd (sb_key b) s s'"
    by (rule PollImmediate_inv [OF assms, of "kept_others kd (sb_key b) s"])
      (use step kept_others_trans in \<open>fastforce+\<close>)
  show "r = None \<Longrightarrow> brokers s' kd (sb_key b) \<noteq> None"
    using PollImmediate_ok [of n "created_or_exists (create_or_get k kd b)" s s'] create_or_get_present [of kd b _ s'] assms
    by blast
qed

lemma delete_gone:
  assumes "kDeleteBroker k kd n s = (r, s')" and "r = None \<or> (\<exists>e. r = Some e \<and> kIsNotFound e)"
    and "brokers s' kd n = Some b"
  shows "sb_DeletionTimestamp b \<noteq> None"
  using assms broker_delete [of kd n s s'] broker_delete_missing [of kd n s _ s'] by (cases r) auto

lemma delete_others: "kept_others kd n s (snd (kDeleteBroker k kd n s))"
  using broker_others [of _ _ kd "\<lparr>sb_Name = snd n, sb_Namespace = fst n, sb_Labels = [], sb_URL = [],
      sb_RelistRequests = 0, sb_DeletionTimestamp = None\<rparr>" s]
  by (simp add: kept_others_def)

lemma update_others: "kept_others kd (sb_key b) s (snd (kUpdateBroker k kd b s))"
  using broker_others [of _ _ kd b s] by (simp add: kept_others_def)

lemma syncLoop_others: "syncLoop k kd n what i s = (r, s') \<Longrightarrow> kept_others kd n s s'"
proof (induction i arbitrary: s)
  case (Suc i)
  show ?case
  proof (cases "kGetBroker k kd n s")
    case (Inl err)
    then show ?thesis using Suc.prems by (auto split: if_splits)
  next
    case (Inr b)
    let ?b = "b\<lparr>sb_RelistRequests := sb_RelistRequests b + 1\<rparr>"
    obtain q s1 where u: "kUpdateBroker k kd ?b s = (q, s1)" by fastforce
    have "sb_key ?b = n" using broker_key [OF broker_get [OF Inr]] by simp
    then have o: "kept_others kd n s s1" using update_others [of kd ?b s] u by simp
    then show ?thesis using Suc Inr u kept_others_trans [OF o]
      by (auto split: option.splits if_splits)
  qed
qed simp

text \<open>A loop that ends without error found no broker, or wrote back the one it had just read.\<close>

lemma syncLoop_ok:
  assumes "syncLoop k kd n what i s = (None, s')"
  shows "brokers s' kd n = None \<or>
    (\<exists>t b. brokers t kd n = Some b \<and>
       brokers s' kd n = Some (b\<lparr>sb_RelistRequests := sb_RelistRequests b + 1\<rparr>))"
  using assms
proof (induction i arbitrary: s)
  case (Suc i)
  show ?case
  proof (cases "kGetBroker k kd n s")
    case (Inl err)
    then show ?thesis using Suc.prems broker_get_missing [OF Inl] by (auto split: if_splits)
  next
    case (Inr b)
    let ?b = "b\<lparr>sb_RelistRequests := sb_RelistRequests b + 1\<rparr>"
    obtain q s1 where u: "kUpdateBroker k kd ?b s = (q, s1)" by fastforce
    have key: "sb_key ?b = n" using broker_key [OF broker_get [OF Inr]] by simp
    show ?thesis
    proof (cases q)
      case None
      then have "s' = s1" using Suc.prems Inr u by simp
      with broker_update [of kd ?b s s1] u None key broker_get [OF Inr] show ?thesis by auto
    next
      case (Some e)
      then show ?thesis using Suc Inr u by (auto split: if_splits)
    qed
  qed
qed simp

end

lemma Facade_Exist_iff:
  assumes "broker_api k brokers" and "Facade_Exist k f s = Inr b"
  shows "b \<longleftrightarrow> brokers s KServiceBroker (fa_namespace f, NamespacedBrokerName) \<noteq> None"
  using assms broker_api.broker_get [OF assms(1)] broker_api.broker_get_missing [OF assms(1)]
  by (fastforce simp: Facade_Exist_def split: sum.splits if_splits)

lemma ClusterFacade_Exist_iff:
  assumes "broker_api k brokers" and "ClusterFacade_Exist k f s = Inr b"
  shows "b \<longleftrightarrow> brokers s KClusterServiceBroker ('''', cf_clusterBrokerName f) \<noteq> None"
  using assms broker_api.broker_get [OF assms(1)] broker_api.broker_get_missing [OF assms(1)]
  by (fastforce simp: ClusterFacade_Exist_def split: sum.splits if_splits)

text \<open>What a reconciled broker object looks like: there if it is wanted, else gone or going.\<close>

definition broker_settled :: "bool \<Rightarrow> ServiceBroker option \<Rightarrow> bool" where
  "broker_settled wanted b \<longleftrightarrow>
     (if wanted then b \<noteq> None else (case b of None \<Rightarrow> True | Some x \<Rightarrow> sb_DeletionTimestamp x \<noteq> None))"

lemma Facade_Create_correct:
  assumes "broker_api k brokers" and "Facade_Create k n f s = (None, s')"
  shows "brokers s' KServiceBroker (fa_namespace f, NamespacedBrokerName) \<noteq> None \<and>
    (\<forall>kd' n'. (kd', n') \<noteq> (KServiceBroker, (fa_namespace f, NamespacedBrokerName)) \<longrightarrow> brokers s' kd' n' = brokers s kd' n')"
  using broker_api.poll_create [OF assms(1), of n KServiceBroker "serviceBroker f _" s None s'] assms(2)
  unfolding Facade_Create_def createServiceBroker_eq broker_api.kept_others_def [OF assms(1)]
  by (auto split: prod.splits option.splits)

lemma ClusterFacade_Create_correct:
  assumes "broker_api k brokers" and "ClusterFacade_Create k n f s = (None, s')"
  shows "brokers s' KClusterServiceBroker ('''', cf_clusterBrokerName f) \<noteq> None \<and>
    (\<forall>kd' n'. (kd', n') \<noteq> (KClusterServiceBroker, ('''', cf_clusterBrokerName f)) \<longrightarrow> brokers s' kd' n' = brokers s kd' n')"
  using broker_api.poll_create [OF assms(1), of n KClusterServiceBroker "clusterServiceBroker f _" s None s'] assms(2)
  unfolding ClusterFacade_Create_def createClusterServiceBroker_eq broker_api.kept_others_def [OF assms(1)]
  by (auto split: prod.splits option.splits)

lemma delete_settled:
  assumes "broker_api k brokers"
    and "(case kDeleteBroker k kd n s of
            (Some err, s1) \<Rightarrow> if kIsNotFound err then (None, s1) else (Some err, s1)
          | (None, s1) \<Rightarrow> (None, s1)) = (None, s')"
  shows "broker_settled False (brokers s' kd n) \<and>
    (\<forall>kd' n'. (kd', n') \<noteq> (kd, n) \<longrightarrow> brokers s' kd' n' = brokers s kd' n')"
proof -
  obtain r s1 where d: "kDeleteBroker k kd n s = (r, s1)" by fastforce
  with assms(2) have s': "s' = s1" "r = None \<or> (\<exists>e. r = Some e \<and> kIsNotFound e)"
    by (auto split: option.splits if_splits)
  have "broker_settled False (brokers s' kd n)"
    using broker_api.delete_gone [OF assms(1) d s'(2)] s'(1)
    by (auto simp: broker_settled_def split: option.splits)
  moreover have "\<forall>kd' n'. (kd', n') \<noteq> (kd, n) \<longrightarrow> brokers s' kd' n' = brokers s kd' n'"
    using broker_api.delete_others [OF assms(1), of kd n s] d s'(1)
    by (simp add: broker_api.kept_others_def [OF assms(1)])
  ultimately show ?thesis by blast
qed

section \<open>Properties\<close>

text \<open>
  C29. A run of the broker controller that ends without error leaves the namespace as it should
  be, for every Kubernetes API that keeps its contract: if the namespace has an addons
  configuration or a service instance of one of the broker's classes, its broker object is there;
  otherwise it is gone or marked for deletion. No other broker object is touched.
\<close>

theorem BrokerController_Reconcile_correct:
  assumes "broker_api k brokers" and "BrokerController_Reconcile k attempts facade ns s = (None, s')"
  shows "\<exists>items. kListConfigs k KAddonsConfiguration ns s = Inr items \<and>
    broker_settled (items \<noteq> [] \<or> namespaced_in_use k ns s)
      (brokers s' KServiceBroker (ns, NamespacedBrokerName)) \<and>
    (\<forall>kd n. (kd, n) \<noteq> (KServiceBroker, (ns, NamespacedBrokerName)) \<longrightarrow> brokers s' kd n = brokers s kd n)"
proof -
  let ?f = "Facade_SetNamespace ns facade"
  have ns: "fa_namespace ?f = ns" by (simp add: Facade_SetNamespace_def)
  obtain ex where ex: "Facade_Exist k ?f s = Inr ex"
    using assms(2) by (cases "Facade_Exist k ?f s") (simp_all add: BrokerController_Reconcile_def Let_def)
  obtain items where items: "kListConfigs k KAddonsConfiguration ns s = Inr items"
    using assms(2) ex
    by (cases "kListConfigs k KAddonsConfiguration ns s") (simp_all add: BrokerController_Reconcile_def Let_def)
  obtain used where used: "AnyServiceInstanceExistsForNamespacedServiceBroker k ns s = Inr used"
    using assms(2) ex items
    by (cases "AnyServiceInstanceExistsForNamespacedServiceBroker k ns s")
      (simp_all add: BrokerController_Reconcile_def Let_def)
  have run: "(if ex \<and> items = [] \<and> \<not> used then Facade_Delete k ?f s
      else if \<not> ex \<and> (items \<noteq> [] \<or> used) then Facade_Create k attempts ?f s else (None, s)) = (None, s')"
    using assms(2) ex items used by (simp add: BrokerController_Reconcile_def Let_def)
  have e: "ex \<longleftrightarrow> brokers s KServiceBroker (ns, NamespacedBrokerName) \<noteq> None"
    using Facade_Exist_iff [OF assms(1) ex] ns by simp
  have u: "used \<longleftrightarrow> namespaced_in_use k ns s" by (rule namespaced_instances [OF used])
  have "(ex \<and> items = [] \<and> \<not> used \<and> Facade_Delete k ?f s = (None, s')) \<or>
      (\<not> ex \<and> (items \<noteq> [] \<or> used) \<and> Facade_Create k attempts ?f s = (None, s')) \<or> s' = s \<and> (ex \<longleftrightarrow> items \<noteq> [] \<or> used)"
    using run by (cases ex; cases used; cases "items = []") simp_all
  then consider (del) "items = []" "\<not> used" "Facade_Delete k ?f s = (None, s')"
    | (new) "items \<noteq> [] \<or> used" "Facade_Create k attempts ?f s = (None, s')"
    | (same) "s' = s" "ex \<longleftrightarrow> items \<noteq> [] \<or> used"
    by blast
  then show ?thesis
  proof cases
    case del
    then show ?thesis using items u ns delete_settled [OF assms(1), of KServiceBroker "(ns, NamespacedBrokerName)" s s']
      by (simp add: Facade_Delete_def)
  next
    case new
    then show ?thesis using items u ns Facade_Create_correct [OF assms(1) new(2)]
      by (auto simp: broker_settled_def)
  next
    case same
    then show ?thesis using items u e by (auto simp: broker_settled_def)
  qed
qed


text \<open>The same for the controller of the cluster-wide broker.\<close>

theorem ClusterBrokerController_Reconcile_correct:
  assumes "broker_api k brokers" and "ClusterBrokerController_Reconcile k attempts f s = (None, s')"
  shows "\<exists>items. kListConfigs k KClusterAddonsConfiguration '''' s = Inr items \<and>
    broker_settled (items \<noteq> [] \<or> cluster_in_use k (cf_clusterBrokerName f) s)
      (brokers s' KClusterServiceBroker ('''', cf_clusterBrokerName f)) \<and>
    (\<forall>kd n. (kd, n) \<noteq> (KClusterServiceBroker, ('''', cf_clusterBrokerName f)) \<longrightarrow> brokers s' kd n = brokers s kd n)"
proof -
  let ?name = "cf_clusterBrokerName f"
  obtain ex where ex: "ClusterFacade_Exist k f s = Inr ex"
    using assms(2) by (cases "ClusterFacade_Exist k f s") (simp_all add: ClusterBrokerController_Reconcile_def)
  obtain items where items: "kListConfigs k KClusterAddonsConfiguration '''' s = Inr items"
    using assms(2) ex
    by (cases "kListConfigs k KClusterAddonsConfiguration '''' s")
      (simp_all add: ClusterBrokerController_Reconcile_def)
  obtain used where used: "AnyServiceInstanceExistsForClusterServiceBroker k ?name s = Inr used"
    using assms(2) ex items
    by (cases "AnyServiceInstanceExistsForClusterServiceBroker k ?name s")
      (simp_all add: ClusterBrokerController_Reconcile_def)
  have run: "(if ex \<and> items = [] \<and> \<not> used then ClusterFacade_Delete k f s
      else if \<not> ex \<and> (items \<noteq> [] \<or> used) then ClusterFacade_Create k attempts f s else (None, s)) = (None, s')"
    using assms(2) ex items used by (simp add: ClusterBrokerController_Reconcile_def)
  have e: "ex \<longleftrightarrow> brokers s KClusterServiceBroker ('''', ?name) \<noteq> None"
    by (rule ClusterFacade_Exist_iff [OF assms(1) ex])
  have u: "used \<longleftrightarrow> cluster_in_use k ?name s" by (rule cluster_instances [OF used])
  have "(ex \<and> items = [] \<and> \<not> used \<and> ClusterFacade_Delete k f s = (None, s')) \<or>
      (\<not> ex \<and> (items \<noteq> [] \<or> used) \<and> ClusterFacade_Create k attempts f s = (None, s')) \<or> s' = s \<and> (ex \<longleftrightarrow> items \<noteq> [] \<or> used)"
    using run by (cases ex; cases used; cases "items = []") simp_all
  then consider (del) "items = []" "\<not> used" "ClusterFacade_Delete k f s = (None, s')"
    | (new) "items \<noteq> [] \<or> used" "ClusterFacade_Create k attempts f s = (None, s')"
    | (same) "s' = s" "ex \<longleftrightarrow> items \<noteq> [] \<or> used"
    by blast
  then show ?thesis
  proof cases
    case del
    then show ?thesis using items u delete_settled [OF assms(1), of KClusterServiceBroker "('''', ?name)" s s']
      by (simp add: ClusterFacade_Delete_def)
  next
    case new
    then show ?thesis using items u ClusterFacade_Create_correct [OF assms(1) new(2)]
      by (auto simp: broker_settled_def)
  next
    case same
    then show ?thesis using items u e by (auto simp: broker_settled_def)
  qed
qed

text \<open>The cluster of the witnesses: one addons configuration in the namespace \<open>stage\<close>, no broker.\<close>

definition example_facade :: Facade where
  "example_facade = \<lparr>fa_systemNamespace = ''system'', fa_serviceName = ''hb'', fa_namespace = ''''\<rparr>"

definition example_configuration :: CommonAddon where
  "example_configuration = \<lparr>ca_Meta = \<lparr>meta_Name = ''cfg'', meta_Namespace = ''stage'', meta_Generation = 1,
       meta_DeletionTimestamp = None, meta_Finalizers = []\<rparr>,
     ca_Spec = \<lparr>spec_ReprocessRequest = 0, spec_Repositories = []\<rparr>, ca_Status = EmptyStatus\<rparr>"

definition example_cluster :: Cluster where
  "example_cluster = \<lparr>cl_brokers = [], cl_configs = [(KAddonsConfiguration, example_configuration)],
     cl_instances = [], cl_classes = [], cl_clusterClasses = [], cl_conflicts = 0\<rparr>"

definition example_cluster1 :: Cluster where
  "example_cluster1 = example_cluster\<lparr>cl_brokers := [(KServiceBroker,
     serviceBroker (example_facade\<lparr>fa_namespace := ''stage''\<rparr>) (svcURL ''hb'' ''system''))]\<rparr>"

lemmas example_cluster_defs = example_cluster1_def example_cluster_def example_configuration_def example_facade_def

lemma example_cluster_run:
  "BrokerController_Reconcile clusterKube 1 example_facade ''stage'' example_cluster = (None, example_cluster1)"
  by (simp add: BrokerController_Reconcile_def AnyServiceInstanceExistsForNamespacedServiceBroker_def Facade_Exist_def
      Facade_Create_def createServiceBroker_def created_or_exists_def serviceBroker_def cluster_defs cl_listConfigs_def
      inNamespace_def kube_error_defs Facade_SetNamespace_def example_cluster_defs find_obj_def put_obj_def del_obj_def
      Let_def)

theorem BrokerController_Reconcile_correct_witness:
  "clusterBrokers example_cluster1 KServiceBroker (''stage'', NamespacedBrokerName) \<noteq> None \<and>
   clusterBrokers example_cluster1 KClusterServiceBroker ('''', ''helm-broker'') = None"
  using BrokerController_Reconcile_correct [OF clb.broker_api_axioms example_cluster_run]
  by (auto simp: broker_settled_def clusterKube_def cl_listConfigs_def inNamespace_def clusterConfigs_def
      clusterBrokers_def example_cluster_defs find_obj_def)

text \<open>On the store of API objects a synchronisation survives fewer conflicts than it has rounds.\<close>

lemma syncLoop_conflicts:
  assumes "clusterBrokers s kd n = Some b"
  shows "syncLoop clusterKube kd n what i s =
    (if cl_conflicts s < i
     then (None, s\<lparr>cl_conflicts := 0, cl_brokers :=
             put_obj broker_id (kd, b\<lparr>sb_RelistRequests := sb_RelistRequests b + 1\<rparr>) (cl_brokers s)\<rparr>)
     else (Some (ErrorString (''could not sync cluster service broker ('' @ snd n @ '') after '' @
             intText (int maxSyncRetries) @ '' retries'')), s\<lparr>cl_conflicts := cl_conflicts s - i\<rparr>))"
  using assms
proof (induction i arbitrary: s)
  case (Suc i)
  have key: "sb_key b = n" by (rule clusterBrokers_key [OF Suc.prems])
  have g: "kGetBroker clusterKube kd n s = Inr b" using Suc.prems by (simp add: clusterKube_def cl_found_def)
  show ?case
  proof (cases "cl_conflicts s")
    case 0
    then show ?thesis using g key Suc.prems
      by (simp add: clusterKube_def cl_updateBroker_def)
  next
    case (Suc c)
    have "clusterBrokers (s\<lparr>cl_conflicts := c\<rparr>) kd n = Some b"
      using Suc.prems by (simp add: clusterBrokers_def)
    note IH = Suc.IH [OF this]
    have u: "kUpdateBroker clusterKube kd (b\<lparr>sb_RelistRequests := sb_RelistRequests b + 1\<rparr>) s =
        (Some (apiError ApiConflict), s\<lparr>cl_conflicts := c\<rparr>)"
      using Suc by (simp add: clusterKube_def cl_updateBroker_def)
    have "kIsConflict (apiError ApiConflict)" by (simp add: apiError_def kube_error_defs)
    with g u IH Suc show ?thesis by simp
  qed
qed simp

text \<open>
  A synchronisation that ends without error has asked the catalog to list the broker again,
  by raising the counter of the broker object it had just read by one and keeping the rest of it,
  or there is no broker object; no other broker object is touched, whatever the API answered.
\<close>

theorem Syncer_Sync_correct:
  assumes "broker_api k brokers" and "Syncer_Sync k ns s = (r, s')"
  shows "(r = None \<longrightarrow> brokers s' KServiceBroker (ns, NamespacedBrokerName) = None \<or>
      (\<exists>t b. brokers t KServiceBroker (ns, NamespacedBrokerName) = Some b \<and>
         brokers s' KServiceBroker (ns, NamespacedBrokerName) =
           Some (b\<lparr>sb_RelistRequests := sb_RelistRequests b + 1\<rparr>))) \<and>
    (\<forall>kd n. (kd, n) \<noteq> (KServiceBroker, (ns, NamespacedBrokerName)) \<longrightarrow> brokers s' kd n = brokers s kd n)"
  using broker_api.syncLoop_ok [OF assms(1)] broker_api.syncLoop_others [OF assms(1)] assms(2)
  unfolding Syncer_Sync_def broker_api.kept_others_def [OF assms(1)] by blast

definition example_synced :: Cluster where
  "example_synced = example_cluster\<lparr>cl_brokers := [(KServiceBroker,
     (serviceBroker (example_facade\<lparr>fa_namespace := ''stage''\<rparr>) (svcURL ''hb'' ''system''))
       \<lparr>sb_RelistRequests := 2\<rparr>)]\<rparr>"

theorem Syncer_Sync_correct_witness:
  "Syncer_Sync clusterKube ''stage'' (example_cluster1\<lparr>cl_conflicts := 3\<rparr>) = (None, example_synced) \<and>
   (\<exists>t b. clusterBrokers t KServiceBroker (''stage'', NamespacedBrokerName) = Some b \<and>
      clusterBrokers example_synced KServiceBroker (''stage'', NamespacedBrokerName) =
        Some (b\<lparr>sb_RelistRequests := sb_RelistRequests b + 1\<rparr>))"
proof -
  have run: "Syncer_Sync clusterKube ''stage'' (example_cluster1\<lparr>cl_conflicts := 3\<rparr>) = (None, example_synced)"
    by (simp add: Syncer_Sync_def maxSyncRetries_def syncLoop_conflicts clusterBrokers_def example_synced_def
        example_cluster_defs find_obj_def put_obj_def del_obj_def serviceBroker_def)
  have "clusterBrokers example_synced KServiceBroker (''stage'', NamespacedBrokerName) \<noteq> None"
    by (simp add: example_synced_def clusterBrokers_def find_obj_def)
  with run Syncer_Sync_correct [OF clb.broker_api_axioms run] show ?thesis by simp
qed


end
