(* ===== verification/CommonClient.thy ===== *)
theory CommonClient
  imports Controller BrokerController
begin

text \<open>
  The client of the configuration reconciler (\<open>common_client.go\<close>) and the two reconcilers that
  read a configuration from the API and hand it to the common part (\<open>addons_controller.go\<close>,
  \<open>cluster_addons_controller.go\<close>), wired to the facades and the syncers. \<open>retries\<close> is the number of
  times \<open>retry.RetryOnConflict\<close> repeats an attempt that met a conflict.
\<close>

section \<open>The client\<close>

definition IsNamespaceScoped :: "Namespace \<Rightarrow> bool" where
  "IsNamespaceScoped ns \<longleftrightarrow> ns \<noteq> ClusterWide"

definition configKindOf :: "Namespace \<Rightarrow> configKind" where
  "configKindOf ns = (if IsNamespaceScoped ns then KAddonsConfiguration else KClusterAddonsConfiguration)"

text \<open>One attempt of \<open>UpdateConfiguration\<close>: read, replace finalizers and spec, write.\<close>

definition updateConfigurationOnce ::
  "'s kube \<Rightarrow> Namespace \<Rightarrow> CommonAddon \<Rightarrow> 's \<Rightarrow> int result \<times> 's" where
  "updateConfigurationOnce k ns addon s =
     (case kGetConfig k (configKindOf ns) (ns, meta_Name (ca_Meta addon)) s of
        Inl err \<Rightarrow> (Inl err, s)
      | Inr ad \<Rightarrow>
          (case kUpdateConfig k (configKindOf ns)
                  (ad\<lparr>ca_Meta := (ca_Meta ad)\<lparr>meta_Finalizers := meta_Finalizers (ca_Meta addon)\<rparr>,
                      ca_Spec := ca_Spec addon\<rparr>) s of
             (Inl err, s1) \<Rightarrow> (Inl err, s1)
           | (Inr ad', s1) \<Rightarrow> (Inr (meta_Generation (ca_Meta ad')), s1)))"

definition UpdateConfiguration ::
  "'s kube \<Rightarrow> nat \<Rightarrow> Namespace \<Rightarrow> CommonAddon \<Rightarrow> 's \<Rightarrow> int result \<times> 's" where
  "UpdateConfiguration k retries ns addon s =
     (case RetryOnConflict retries (updateConfigurationOnce k ns addon) s of
        (Inl err, s1) \<Rightarrow>
          (Inl (Wrapped err (''while updating addons configuration '' @ ns @ ''/'' @
             meta_Name (ca_Meta addon))), s1)
      | (Inr gen, s1) \<Rightarrow> (Inr gen, s1))"

definition updateStatusOnce ::
  "'s kube \<Rightarrow> Namespace \<Rightarrow> CommonAddon \<Rightarrow> 's \<Rightarrow> unit result \<times> 's" where
  "updateStatusOnce k ns addon s =
     (case kGetConfig k (configKindOf ns) (ns, meta_Name (ca_Meta addon)) s of
        Inl err \<Rightarrow> (Inl err, s)
      | Inr ad \<Rightarrow>
          (case kUpdateConfigStatus k (configKindOf ns) (ad\<lparr>ca_Status := ca_Status addon\<rparr>) s of
             (Some err, s1) \<Rightarrow> (Inl err, s1)
           | (None, s1) \<Rightarrow> (Inr (), s1)))"

definition UpdateConfigurationStatus ::
  "'s kube \<Rightarrow> nat \<Rightarrow> Namespace \<Rightarrow> CommonAddon \<Rightarrow> 's \<Rightarrow> error option \<times> 's" where
  "UpdateConfigurationStatus k retries ns addon s =
     (case RetryOnConflict retries (updateStatusOnce k ns addon) s of
        (Inl err, s1) \<Rightarrow>
          (Some (Wrapped err (''while updating addons configuration '' @ ns @ ''/'' @
             meta_Name (ca_Meta addon) @ '' status'')), s1)
      | (Inr _, s1) \<Rightarrow> (None, s1))"

definition ListConfigurations :: "'s kube \<Rightarrow> Namespace \<Rightarrow> 's \<Rightarrow> CommonAddon list result" where
  "ListConfigurations k ns s =
     (if IsNamespaceScoped ns
      then (case kListConfigs k KAddonsConfiguration ns s of
              Inl err \<Rightarrow> Inl (Wrapped err (''while fetching AddonConfiguration list from namespace '' @ ns))
            | Inr items \<Rightarrow> Inr items)
      else (case kListConfigs k KClusterAddonsConfiguration '''' s of
              Inl err \<Rightarrow> Inl (Wrapped err ''while fetching ClusterAddonConfiguration list'')
            | Inr items \<Rightarrow> Inr items))"

definition reprocessOnce :: "'s kube \<Rightarrow> Namespace \<Rightarrow> string \<Rightarrow> 's \<Rightarrow> CommonAddon result \<times> 's" where
  "reprocessOnce k ns addonName s =
     (case kGetConfig k (configKindOf ns) (ns, addonName) s of
        Inl err \<Rightarrow> (Inl err, s)
      | Inr ad \<Rightarrow>
          kUpdateConfig k (configKindOf ns)
            (ad\<lparr>ca_Spec := (ca_Spec ad)\<lparr>spec_ReprocessRequest := spec_ReprocessRequest (ca_Spec ad) + 1\<rparr>\<rparr>) s)"

definition ReprocessRequest ::
  "'s kube \<Rightarrow> nat \<Rightarrow> Namespace \<Rightarrow> string \<Rightarrow> 's \<Rightarrow> error option \<times> 's" where
  "ReprocessRequest k retries ns addonName s =
     (case RetryOnConflict retries (reprocessOnce k ns addonName) s of
        (Inl err, s1) \<Rightarrow>
          (Some (Wrapped err (''while updating addons configuration '' @ ns @ ''/'' @ addonName)), s1)
      | (Inr _, s1) \<Rightarrow> (None, s1))"

section \<open>The reconcilers\<close>

text \<open>
  \<open>newControllerCommon\<close> and \<open>SetWorkingNamespace\<close>: the collaborators of the common reconciler that
  talk to the API, for a namespace. The empty namespace is the cluster-wide reconciler, whose
  facade and syncer work on the cluster broker and ignore \<open>SetNamespace\<close>.
\<close>

definition controllerDeps ::
  "'s kube \<Rightarrow> nat \<Rightarrow> string \<Rightarrow> Namespace \<Rightarrow> 's cdeps \<Rightarrow> 's cdeps" where
  "controllerDeps k retries clusterBrokerName ns d = d\<lparr>
     brokerExist := (\<lambda>s. if IsNamespaceScoped ns
        then Facade_Exist k \<lparr>fa_systemNamespace = '''', fa_serviceName = '''', fa_namespace = ns\<rparr> s
        else ClusterFacade_Exist k \<lparr>cf_workingNamespace = '''', cf_serviceName = '''',
               cf_clusterBrokerName = clusterBrokerName\<rparr> s),
     brokerSync := (\<lambda>s. if IsNamespaceScoped ns then Syncer_Sync k ns s
        else ClusterSyncer_Sync k clusterBrokerName s),
     listConfigurations := ListConfigurations k ns,
     reprocessRequest := ReprocessRequest k retries ns,
     updateConfiguration := UpdateConfiguration k retries ns,
     updateConfigurationStatus := UpdateConfigurationStatus k retries ns\<rparr>"

definition AddonsConfiguration_Reconcile ::
  "'s kube \<Rightarrow> nat \<Rightarrow> string \<Rightarrow> (Namespace \<Rightarrow> 's cdeps) \<Rightarrow> int \<Rightarrow> NamespacedName \<Rightarrow> 's
    \<Rightarrow> ((ReconcileResult \<times> error option) \<times> 's) option" where
  "AddonsConfiguration_Reconcile k retries cbn deps dur request s =
     (case kGetConfig k KAddonsConfiguration request s of
        Inl err \<Rightarrow> Some ((NoRequeue, Some err), s)
      | Inr addon \<Rightarrow>
          (let ns = meta_Namespace (ca_Meta addon)
           in case Reconcile (controllerDeps k retries cbn ns (deps ns)) ns dur addon
                    (''AddonsConfiguration `'' @ meta_Name (ca_Meta addon) @ ''/'' @ ns @ ''`'') s of
                None \<Rightarrow> None
              | Some (r, _, s1) \<Rightarrow> Some (r, s1)))"

definition ClusterAddonsConfiguration_Reconcile ::
  "'s kube \<Rightarrow> nat \<Rightarrow> string \<Rightarrow> 's cdeps \<Rightarrow> int \<Rightarrow> NamespacedName \<Rightarrow> 's
    \<Rightarrow> ((ReconcileResult \<times> error option) \<times> 's) option" where
  "ClusterAddonsConfiguration_Reconcile k retries cbn d dur request s =
     (case kGetConfig k KClusterAddonsConfiguration request s of
        Inl err \<Rightarrow> Some ((NoRequeue, Some err), s)
      | Inr addon \<Rightarrow>
          (case Reconcile (controllerDeps k retries cbn ClusterWide d) ClusterWide dur addon
                  (''ClusterAddonsConfiguration `'' @ meta_Name (ca_Meta addon) @ ''`'') s of
             None \<Rightarrow> None
           | Some (r, _, s1) \<Rightarrow> Some (r, s1)))"

section \<open>Facts\<close>

context config_api
begin

lemma updateStatusOnce_ok:
  assumes "updateStatusOnce k ns c t = (Inr u, t')"
  shows "\<exists>old. configs t (configKindOf ns) (ns, meta_Name (ca_Meta c)) = Some old \<and>
    configs t' (configKindOf ns) (ns, meta_Name (ca_Meta c)) = Some (old\<lparr>ca_Status := ca_Status c\<rparr>)"
proof -
  obtain ad where g: "kGetConfig k (configKindOf ns) (ns, meta_Name (ca_Meta c)) t = Inr ad"
    using assms by (cases "kGetConfig k (configKindOf ns) (ns, meta_Name (ca_Meta c)) t")
      (simp_all add: updateStatusOnce_def)
  have u: "kUpdateConfigStatus k (configKindOf ns) (ad\<lparr>ca_Status := ca_Status c\<rparr>) t = (None, t')"
    using assms g
    by (cases "kUpdateConfigStatus k (configKindOf ns) (ad\<lparr>ca_Status := ca_Status c\<rparr>) t")
      (auto simp: updateStatusOnce_def split: option.splits)
  have "ca_key ad = (ns, meta_Name (ca_Meta c))" by (rule config_key [OF config_get [OF g]])
  with config_status [OF u] config_get [OF g] show ?thesis by auto
qed

lemma reprocessOnce_ok:
  assumes "reprocessOnce k ns name t = (Inr c', t')"
  shows "\<exists>old. configs t (configKindOf ns) (ns, name) = Some old \<and>
    c' = updated_config old (old\<lparr>ca_Spec := (ca_Spec old)\<lparr>spec_ReprocessRequest := spec_ReprocessRequest (ca_Spec old) + 1\<rparr>\<rparr>) \<and>
    configs t' (configKindOf ns) (ns, name) = (if released c' then None else Some c')"
proof -
  obtain ad where g: "kGetConfig k (configKindOf ns) (ns, name) t = Inr ad"
    using assms by (cases "kGetConfig k (configKindOf ns) (ns, name) t") (simp_all add: reprocessOnce_def)
  have "ca_key ad = (ns, name)" by (rule config_key [OF config_get [OF g]])
  with config_update [of "configKindOf ns" "ad\<lparr>ca_Spec := (ca_Spec ad)\<lparr>spec_ReprocessRequest := spec_ReprocessRequest (ca_Spec ad) + 1\<rparr>\<rparr>" t c' t']
    assms g config_get [OF g]
  show ?thesis by (auto simp: reprocessOnce_def)
qed

lemma updateOnce_ok:
  assumes "updateConfigurationOnce k ns c t = (Inr gen, t')"
  shows "\<exists>old c'. configs t (configKindOf ns) (ns, meta_Name (ca_Meta c)) = Some old \<and>
    c' = updated_config old c \<and> gen = meta_Generation (ca_Meta c') \<and>
    configs t' (configKindOf ns) (ns, meta_Name (ca_Meta c)) = (if released c' then None else Some c')"
proof -
  let ?n = "(ns, meta_Name (ca_Meta c))"
  obtain ad where g: "kGetConfig k (configKindOf ns) ?n t = Inr ad"
    using assms by (cases "kGetConfig k (configKindOf ns) ?n t") (simp_all add: updateConfigurationOnce_def)
  let ?ad = "ad\<lparr>ca_Meta := (ca_Meta ad)\<lparr>meta_Finalizers := meta_Finalizers (ca_Meta c)\<rparr>, ca_Spec := ca_Spec c\<rparr>"
  obtain c' where u: "kUpdateConfig k (configKindOf ns) ?ad t = (Inr c', t')"
    and gen: "gen = meta_Generation (ca_Meta c')"
    using assms g by (cases "kUpdateConfig k (configKindOf ns) ?ad t")
      (auto simp: updateConfigurationOnce_def split: sum.splits)
  have key: "ca_key ?ad = ?n" using config_key [OF config_get [OF g]] by simp
  have "updated_config old ?ad = updated_config old c" for old by (simp add: updated_config_def)
  with config_update [OF u] key gen config_get [OF g] show ?thesis by auto
qed

end

lemma UpdateConfigurationStatus_correct:
  assumes "config_api k configs" and "UpdateConfigurationStatus k retries ns c s = (None, s')"
  shows "\<exists>t old. configs t (configKindOf ns) (ns, meta_Name (ca_Meta c)) = Some old \<and>
    configs s' (configKindOf ns) (ns, meta_Name (ca_Meta c)) = Some (old\<lparr>ca_Status := ca_Status c\<rparr>)"
proof -
  from assms(2) obtain u where "RetryOnConflict retries (updateStatusOnce k ns c) s = (Inr u, s')"
    by (cases "RetryOnConflict retries (updateStatusOnce k ns c) s")
      (auto simp: UpdateConfigurationStatus_def split: sum.splits)
  from RetryOnConflict_ok [OF this] config_api.updateStatusOnce_ok [OF assms(1)] show ?thesis by blast
qed

lemma UpdateConfiguration_correct:
  assumes "config_api k configs" and "UpdateConfiguration k retries ns c s = (Inr gen, s')"
  shows "\<exists>t old. configs t (configKindOf ns) (ns, meta_Name (ca_Meta c)) = Some old \<and>
    gen = meta_Generation (ca_Meta (updated_config old c)) \<and>
    configs s' (configKindOf ns) (ns, meta_Name (ca_Meta c)) =
      (if released (updated_config old c) then None else Some (updated_config old c))"
proof -
  from assms(2) have "RetryOnConflict retries (updateConfigurationOnce k ns c) s = (Inr gen, s')"
    by (cases "RetryOnConflict retries (updateConfigurationOnce k ns c) s")
      (auto simp: UpdateConfiguration_def split: sum.splits)
  from RetryOnConflict_ok [OF this] config_api.updateOnce_ok [OF assms(1)] show ?thesis by metis
qed

section \<open>Properties\<close>

text \<open>
  A request to process a configuration again takes effect, for every Kubernetes API that keeps
  its contract: when it has been answered without error the stored configuration has a spec that
  differs only in the request counter, a newer generation and its old status, and the reconciler
  finds it ready for reprocessing, unless its status had run ahead of its generation. The only
  other outcome is that the configuration was being deleted and is gone.
\<close>

theorem ReprocessRequest_effective:
  assumes "config_api k configs" and "ReprocessRequest k retries ns name s = (None, s')"
  shows "\<exists>t old. configs t (configKindOf ns) (ns, name) = Some old \<and>
    (case configs s' (configKindOf ns) (ns, name) of
       None \<Rightarrow> released old
     | Some c \<Rightarrow>
         (st_ObservedGeneration (ca_Status old) \<le> meta_Generation (ca_Meta old) \<longrightarrow> IsReadyForReprocessing c) \<and>
         ca_Status c = ca_Status old \<and>
         meta_Generation (ca_Meta c) = meta_Generation (ca_Meta old) + 1 \<and>
         ca_Spec c = (ca_Spec old)\<lparr>spec_ReprocessRequest := spec_ReprocessRequest (ca_Spec old) + 1\<rparr>)"
proof -
  from assms(2) obtain c' where "RetryOnConflict retries (reprocessOnce k ns name) s = (Inr c', s')"
    by (cases "RetryOnConflict retries (reprocessOnce k ns name) s")
      (auto simp: ReprocessRequest_def split: sum.splits)
  from RetryOnConflict_ok [OF this] obtain t where "reprocessOnce k ns name t = (Inr c', s')" by blast
  from config_api.reprocessOnce_ok [OF assms(1) this] obtain old where
    old: "configs t (configKindOf ns) (ns, name) = Some old" and
    c': "c' = updated_config old (old\<lparr>ca_Spec := (ca_Spec old)\<lparr>spec_ReprocessRequest :=
           spec_ReprocessRequest (ca_Spec old) + 1\<rparr>\<rparr>)" and
    st: "configs s' (configKindOf ns) (ns, name) = (if released c' then None else Some c')"
    by blast
  have ne: "(ca_Spec old)\<lparr>spec_ReprocessRequest := spec_ReprocessRequest (ca_Spec old) + 1\<rparr> \<noteq> ca_Spec old"
    by (cases "ca_Spec old") simp
  have rel: "released c' = released old" by (simp add: c' updated_config_def released_def)
  have "st_ObservedGeneration (ca_Status old) \<le> meta_Generation (ca_Meta old) \<longrightarrow> IsReadyForReprocessing c'"
    using ne by (simp add: c' updated_config_def IsReadyForReprocessing_def)
  with old st rel ne show ?thesis
    by (intro exI [of _ t] exI [of _ old]) (simp add: c' updated_config_def)
qed

text \<open>The witness: a ready configuration, and two conflicts before the update is accepted.\<close>

definition example_ready_cluster :: Cluster where
  "example_ready_cluster = example_cluster\<lparr>cl_conflicts := 2, cl_configs := [(KAddonsConfiguration,
     example_configuration\<lparr>ca_Status := EmptyStatus\<lparr>st_Phase := AddonsConfigurationReady, st_ObservedGeneration := 1\<rparr>\<rparr>)]\<rparr>"

definition example_requested_cluster :: Cluster where
  "example_requested_cluster = example_cluster\<lparr>cl_configs := [(KAddonsConfiguration,
     example_configuration\<lparr>ca_Meta := (ca_Meta example_configuration)\<lparr>meta_Generation := 2\<rparr>,
       ca_Spec := \<lparr>spec_ReprocessRequest = 1, spec_Repositories = []\<rparr>,
       ca_Status := EmptyStatus\<lparr>st_Phase := AddonsConfigurationReady, st_ObservedGeneration := 1\<rparr>\<rparr>)]\<rparr>"

theorem ReprocessRequest_effective_witness:
  "ReprocessRequest clusterKube 4 ''stage'' ''cfg'' example_ready_cluster = (None, example_requested_cluster) \<and>
   (\<exists>c. clusterConfigs example_requested_cluster KAddonsConfiguration (''stage'', ''cfg'') = Some c \<and>
      meta_Generation (ca_Meta c) = 2 \<and> IsReadyForReprocessing c)"
proof -
  have run: "ReprocessRequest clusterKube 4 ''stage'' ''cfg'' example_ready_cluster = (None, example_requested_cluster)"
    by (simp add: ReprocessRequest_def reprocessOnce_def configKindOf_def IsNamespaceScoped_def ClusterWide_def
        cluster_defs example_ready_cluster_def example_requested_cluster_def example_cluster_defs find_obj_def
        put_obj_def del_obj_def updated_config_def released_def kube_error_defs numeral_eq_Suc Let_def)
  have c: "\<exists>c. clusterConfigs example_requested_cluster KAddonsConfiguration (''stage'', ''cfg'') = Some c \<and>
      meta_Generation (ca_Meta c) = 2 \<and> st_ObservedGeneration (ca_Status c) = 1"
    by (simp add: example_requested_cluster_def example_cluster_defs clusterConfigs_def find_obj_def)
  from ReprocessRequest_effective [OF clc.config_api_axioms run] c run show ?thesis
    by (auto simp: configKindOf_def IsNamespaceScoped_def ClusterWide_def)
qed

end
