(* ===== verification/Migration.thy ===== *)
theory Migration
  imports CommonClient MemoryEntities
begin

text \<open>
  The migration of stored data, \<open>internal/migration/migration.go\<close>: two goroutines, one that asks for
  every addons configuration to be processed again and one that rewrites the stored instances, report
  over an unbuffered channel. They work on different states, the cluster and the storage, so that each is a function;
  how their reports are interleaved is an argument of \<open>Execute\<close>. Parameters: the calls of the API on the
  deployment, the instance storage and the YAML parser, which adds to the values it is given.
\<close>

section \<open>Data\<close>

record Deployment =
  dp_Name :: string
  dp_Namespace :: Namespace
  dp_Labels :: "Labels option"

record ('c, 'i) Executor =
  ex_kube :: "'c kube"
  ex_retries :: nat
  ex_getDeployment :: "'c \<Rightarrow> Deployment result"
  ex_updateDeployment :: "Deployment \<Rightarrow> 'c \<Rightarrow> error option \<times> 'c"
  ex_GetAll :: "'i \<Rightarrow> Instance list result"
  ex_Upsert :: "Instance \<Rightarrow> 'i \<Rightarrow> bool result \<times> 'i"
  ex_yaml :: "string \<Rightarrow> jobject \<Rightarrow> jobject result"

definition markLabel :: string where [go_consts]: "markLabel = ''helm-broker.kyma-project.io/migration''"
definition markLabelValue :: string where [go_consts]: "markLabelValue = ''true''"

section \<open>The two migrations\<close>

fun reprocessAll ::
  "('c, 'i) Executor \<Rightarrow> (CommonAddon \<Rightarrow> Namespace) \<Rightarrow> string \<Rightarrow> CommonAddon list \<Rightarrow> 'c \<Rightarrow> error option \<times> 'c" where
  "reprocessAll e ns msg [] c = (None, c)"
| "reprocessAll e ns msg (cfg # cfgs) c =
     (case ReprocessRequest (ex_kube e) (ex_retries e) (ns cfg) (meta_Name (ca_Meta cfg)) c of
        (Some err, c1) \<Rightarrow> (Some (Wrapped err msg), c1)
      | (None, c1) \<Rightarrow> reprocessAll e ns msg cfgs c1)"

definition migrateCharts :: "('c, 'i) Executor \<Rightarrow> 'c \<Rightarrow> error option \<times> 'c" where
  "migrateCharts e c =
     (case kListConfigs (ex_kube e) KClusterAddonsConfiguration '''' c of
        Inl err \<Rightarrow> (Some (Wrapped err ''while listing cluster addon configurations''), c)
      | Inr clusterAddonsList \<Rightarrow>
          (case reprocessAll e (\<lambda>cfg. ClusterWide) ''error on cluster addon reprocess'' clusterAddonsList c of
             (Some err, c1) \<Rightarrow> (Some err, c1)
           | (None, c1) \<Rightarrow>
               (case kListConfigs (ex_kube e) KAddonsConfiguration '''' c1 of
                  Inl err \<Rightarrow> (Some (Wrapped err ''while listing addon configurations''), c1)
                | Inr addonsList \<Rightarrow>
                    reprocessAll e (\<lambda>cfg. meta_Namespace (ca_Meta cfg)) ''error on addon reprocess'' addonsList c1)))"

definition migratedRelease :: "ReleaseInfo \<Rightarrow> jobject \<Rightarrow> ReleaseInfo" where
  "migratedRelease r vals =
     r\<lparr>ri_ConfigValues := vals, ri_Config := None,
       ri_ReleaseTime := (case ri_Time r of None \<Rightarrow> ri_ReleaseTime r | Some t \<Rightarrow> Some t)\<rparr>"

fun migrateLoop :: "('c, 'i) Executor \<Rightarrow> Instance list \<Rightarrow> 'i \<Rightarrow> error option \<times> 'i" where
  "migrateLoop e [] s = (None, s)"
| "migrateLoop e (inst # insts) s =
     (case ri_Config (in_ReleaseInfo inst) of
        None \<Rightarrow> migrateLoop e insts s
      | Some raw \<Rightarrow>
          (case ex_yaml e raw (ri_ConfigValues (in_ReleaseInfo inst)) of
             Inl err \<Rightarrow> (Some (Wrapped err ''during config unmarshal''), s)
           | Inr vals \<Rightarrow>
               (case ex_Upsert e (inst\<lparr>in_ReleaseInfo := migratedRelease (in_ReleaseInfo inst) vals\<rparr>) s of
                  (Inl err, s1) \<Rightarrow> (Some (Wrapped err ''while upserting instance''), s1)
                | (Inr _, s1) \<Rightarrow> migrateLoop e insts s1)))"

definition migrateInstances :: "('c, 'i) Executor \<Rightarrow> 'i \<Rightarrow> error option \<times> 'i" where
  "migrateInstances e s =
     (case ex_GetAll e s of
        Inl err \<Rightarrow> (Some (Wrapped err ''while listing instances''), s)
      | Inr instances \<Rightarrow> migrateLoop e instances s)"

section \<open>The execution\<close>

definition isLabelSet :: "Deployment \<Rightarrow> bool" where
  "isLabelSet d \<longleftrightarrow> (case dp_Labels d of None \<Rightarrow> False | Some ls \<Rightarrow> map_of ls markLabel = Some markLabelValue)"

definition labelled :: "Deployment \<Rightarrow> Deployment" where
  "labelled d = d\<lparr>dp_Labels := Some (AList.update markLabel markLabelValue (case dp_Labels d of None \<Rightarrow> [] | Some ls \<Rightarrow> ls))\<rparr>"

definition addLabel :: "('c, 'i) Executor \<Rightarrow> Deployment \<Rightarrow> 'c \<Rightarrow> error option \<times> 'c" where
  "addLabel e d c =
     (case ex_updateDeployment e (labelled d) c of
        (Some err, c1) \<Rightarrow> (Some (Wrapped err ''while updating deployment''), c1)
      | (None, c1) \<Rightarrow> (None, c1))"

text \<open>What \<open>run\<close> sends for a migration with the given outcome, one message after the other.\<close>

definition run_sends :: "error option \<Rightarrow> error option list" where
  "run_sends r = (case r of Some err \<Rightarrow> [Some err, None] | None \<Rightarrow> [None])"

text \<open>
  Receiving \<open>n\<close> messages, up to the first error. The result \<open>None\<close> is blocking for ever; the second
  component is what was not received, for which a goroutine blocks for ever.
\<close>

fun receive :: "nat \<Rightarrow> error option list \<Rightarrow> error option option \<times> error option list" where
  "receive 0 msgs = (Some None, msgs)"
| "receive (Suc n) [] = (None, [])"
| "receive (Suc n) (m # msgs) = (case m of Some err \<Rightarrow> (Some (Some err), msgs) | None \<Rightarrow> receive n msgs)"

text \<open>
  \<open>msgs\<close> is the order in which the reports reach the channel. The states are those after both goroutines
  have ended; on an error \<open>Execute\<close> returns before that.
\<close>

definition Execute ::
  "('c, 'i) Executor \<Rightarrow> error option list \<Rightarrow> 'c \<Rightarrow> 'i \<Rightarrow> error option option \<times> 'c \<times> 'i" where
  "Execute e msgs c s =
     (case ex_getDeployment e c of
        Inl err \<Rightarrow> (Some (Some (Wrapped err ''while getting deployment'')), c, s)
      | Inr deploy \<Rightarrow>
          if isLabelSet deploy then (Some None, c, s)
          else (let c1 = snd (migrateCharts e c); s1 = snd (migrateInstances e s) in
                case fst (receive 2 msgs) of
                  None \<Rightarrow> (None, c1, s1)
                | Some (Some err) \<Rightarrow> (Some (Some (Wrapped err ''while waiting for migration result'')), c1, s1)
                | Some None \<Rightarrow>
                    (case addLabel e deploy c1 of
                       (Some err, c2) \<Rightarrow> (Some (Some (Wrapped err ''while adding label'')), c2, s1)
                     | (None, c2) \<Rightarrow> (Some None, c2, s1))))"

definition schedules :: "('c, 'i) Executor \<Rightarrow> 'c \<Rightarrow> 'i \<Rightarrow> error option list set" where
  "schedules e c s = shuffles (run_sends (fst (migrateCharts e c))) (run_sends (fst (migrateInstances e s)))"

text \<open>
  In every order of the reports the execution does not block, it sees success exactly when both
  migrations succeeded, and a report is left over exactly when one failed.
\<close>

lemma receive_reports:
  assumes "msgs \<in> shuffles (run_sends a) (run_sends b)"
  shows "\<exists>r. fst (receive 2 msgs) = Some r \<and> (r = None \<longleftrightarrow> a = None \<and> b = None) \<and>
    (r = None \<longleftrightarrow> snd (receive 2 msgs) = []) \<and> (r \<noteq> None \<longrightarrow> r = a \<or> r = b)"
  using assms by (cases a; cases b) (auto simp: run_sends_def numeral_2_eq_2)

text \<open>An instance after the migration.\<close>

definition migratedInstance :: "('c, 'i) Executor \<Rightarrow> Instance \<Rightarrow> Instance" where
  "migratedInstance e x = (case ri_Config (in_ReleaseInfo x) of
     None \<Rightarrow> x
   | Some raw \<Rightarrow> x\<lparr>in_ReleaseInfo := migratedRelease (in_ReleaseInfo x)
       (projr (ex_yaml e raw (ri_ConfigValues (in_ReleaseInfo x))))\<rparr>)"

lemma in_ID_migratedInstance [simp]: "in_ID (migratedInstance e x) = in_ID x"
  by (simp add: migratedInstance_def split: option.splits)

section \<open>What the migration of instances relies on\<close>

locale instance_store =
  fixes GetAll :: "'i \<Rightarrow> Instance list result"
    and Upsert :: "Instance \<Rightarrow> 'i \<Rightarrow> bool result \<times> 'i"
    and entries :: "'i \<Rightarrow> InstanceID \<Rightarrow> Instance option"
    and invar :: "'i \<Rightarrow> bool"
  assumes GetAll_ok: "invar s \<Longrightarrow> GetAll s = Inr xs \<Longrightarrow> distinct (map in_ID xs) \<and> set xs = ran (entries s)"
    and stored_under_ID: "invar s \<Longrightarrow> entries s n = Some x \<Longrightarrow> in_ID x = n"
    and Upsert_ok: "Upsert x s = (Inr b, s') \<Longrightarrow> entries s' = (entries s)(in_ID x \<mapsto> x)"
    and Upsert_invar: "invar s \<Longrightarrow> invar (snd (Upsert x s))"
begin

definition migrates_with :: "('c, 'i) Executor \<Rightarrow> bool" where
  "migrates_with e \<longleftrightarrow> ex_GetAll e = GetAll \<and> ex_Upsert e = Upsert"

lemma migrateLoop_ok:
  assumes "migrates_with e" "migrateLoop e xs s = (None, s')" "distinct (map in_ID xs)"
    and "\<forall>x \<in> set xs. entries s (in_ID x) = Some x"
  shows "entries s' n = (if n \<in> in_ID ` set xs then map_option (migratedInstance e) (entries s n) else entries s n)"
  using assms(2-4)
proof (induction xs arbitrary: s)
  case (Cons x xs)
  show ?case
  proof (cases "ri_Config (in_ReleaseInfo x)")
    case None
    with Cons.IH [of s] Cons.prems show ?thesis by (auto simp: migratedInstance_def)
  next
    case (Some raw)
    with Cons.prems(1) obtain vals b s1 where yaml: "ex_yaml e raw (ri_ConfigValues (in_ReleaseInfo x)) = Inr vals"
      and up: "ex_Upsert e (x\<lparr>in_ReleaseInfo := migratedRelease (in_ReleaseInfo x) vals\<rparr>) s = (Inr b, s1)"
      and rest: "migrateLoop e xs s1 = (None, s')"
      by (auto split: sum.splits prod.splits)
    from Some yaml have x': "x\<lparr>in_ReleaseInfo := migratedRelease (in_ReleaseInfo x) vals\<rparr> = migratedInstance e x"
      by (simp add: migratedInstance_def)
    with up x' assms(1) Upsert_ok [of "migratedInstance e x" s b s1] have s1: "entries s1 = (entries s)(in_ID x \<mapsto> migratedInstance e x)"
      by (simp add: migrates_with_def)
    have new: "in_ID x \<notin> in_ID ` set xs" using Cons.prems(2) by simp
    with s1 Cons.prems(3) have "\<forall>y \<in> set xs. entries s1 (in_ID y) = Some y" by (auto simp: image_iff)
    with Cons.IH [OF rest] Cons.prems(2)
    have "entries s' n = (if n \<in> in_ID ` set xs then map_option (migratedInstance e) (entries s1 n) else entries s1 n)" by simp
    with new s1 Cons.prems(3) show ?thesis by auto
  qed
qed simp

lemma migrateInstances_ok:
  assumes "migrates_with e" "invar s" "migrateInstances e s = (None, s')"
  shows "entries s' n = map_option (migratedInstance e) (entries s n)"
proof -
  from assms(1,3) obtain xs where all: "GetAll s = Inr xs" and run: "migrateLoop e xs s = (None, s')"
    by (auto simp: migrateInstances_def migrates_with_def split: sum.splits)
  from GetAll_ok [OF assms(2) all] have xs: "distinct (map in_ID xs)" "set xs = ran (entries s)" by auto
  have own: "\<forall>x \<in> set xs. entries s (in_ID x) = Some x"
    using xs(2) stored_under_ID [OF assms(2)] by (auto simp: ran_def)
  have "n \<in> in_ID ` set xs" if "entries s n = Some x" for x
    using that xs(2) stored_under_ID [OF assms(2) that] by (auto simp: ran_def image_iff)
  with migrateLoop_ok [OF assms(1) run xs(1) own, of n] show ?thesis by (cases "entries s n") auto
qed

end

definition mem_in_wf :: "MemInstance \<Rightarrow> bool" where
  "mem_in_wf s \<longleftrightarrow> wf_map (mi_storage s) \<and> (\<forall>(n, x) \<in> set (mi_storage s). in_ID x = n)"

lemma mem_in_wf_all:
  assumes "mem_in_wf s"
  shows "distinct (map in_ID (map snd (mi_storage s)))" "snd ` set (mi_storage s) = ran (map_of (mi_storage s))"
proof -
  have "map in_ID (map snd (mi_storage s)) = keys (mi_storage s)" using assms by (auto simp: mem_in_wf_def)
  then show "distinct (map in_ID (map snd (mi_storage s)))" using assms by (simp only: mem_in_wf_def wf_map_def)
  show "snd ` set (mi_storage s) = ran (map_of (mi_storage s))"
    using assms by (simp add: mem_in_wf_def wf_map_def ran_distinct)
qed

interpretation mst: instance_store mem_in_GetAll "\<lambda>x. mem_in_Upsert (Some x)" mem_in_entries mem_in_wf
proof
  fix s xs n x b s'
  show "distinct (map in_ID xs) \<and> set xs = ran (mem_in_entries s)" if "mem_in_wf s" "mem_in_GetAll s = Inr xs"
    using that(2) mem_in_wf_all [OF that(1)] by (auto simp: mem_in_GetAll_def mem_in_entries_def)
  show "in_ID x = n" if "mem_in_wf s" "mem_in_entries s n = Some x"
    using that by (auto simp: mem_in_entries_def mem_in_wf_def dest: map_of_SomeD)
  show "mem_in_entries s' = (mem_in_entries s)(in_ID x \<mapsto> x)" if "mem_in_Upsert (Some x) s = (Inr b, s')"
    using that by (auto simp: mem_in_defs split: if_splits)
  show "mem_in_wf (snd (mem_in_Upsert (Some x) s))" if "mem_in_wf s"
    using that by (auto simp: mem_in_Upsert_def mem_in_wf_def in_update_iff split: if_splits)
qed


text \<open>The witness: one instance of the old form, and the report of the instances first.\<close>

definition example_instance_old :: Instance where
  "example_instance_old = \<lparr>in_ID = ''i-1'', in_ServiceID = ''s'', in_ServicePlanID = ''p'', in_ReleaseName = ''r'', in_Namespace = ''stage'',
     in_ReleaseInfo = EmptyReleaseInfo\<lparr>ri_Config := Some ''port: 1'', ri_Time := Some 7\<rparr>, in_ProvisioningParameters = None, in_ParamsHash = ''''\<rparr>"

definition example_executor :: "(Cluster, MemInstance) Executor" where
  "example_executor = \<lparr>ex_kube = clusterKube, ex_retries = 4,
     ex_getDeployment = \<lambda>c. Inr \<lparr>dp_Name = ''hb'', dp_Namespace = ''kyma'', dp_Labels = None\<rparr>,
     ex_updateDeployment = \<lambda>d c. (None, c), ex_GetAll = mem_in_GetAll, ex_Upsert = \<lambda>x. mem_in_Upsert (Some x),
     ex_yaml = \<lambda>raw vals. Inr [(''port'', JStr ''1'')]\<rparr>"

definition example_mem :: MemInstance where
  "example_mem = \<lparr>mi_storage = [(''i-1'', example_instance_old)]\<rparr>"


end
