(* ===== verification/StorageFactory.thy ===== *)
theory StorageFactory
  imports Kube_Interface
begin

text \<open>
  The choice of the storage drivers, \<open>internal/storage/storage.go\<close>, and the waiting for etcd. A storage is
  known by its driver and, for the memory driver, by the number of its creation: two memory
  storages are different objects. Parameters: the client of etcd and the answers of its health endpoint.
\<close>

section \<open>Configuration\<close>

type_synonym DriverType = string
type_synonym EntityName = string

definition DriverEtcd :: DriverType where [go_consts]: "DriverEtcd = ''etcd''"
definition DriverMemory :: DriverType where [go_consts]: "DriverMemory = ''memory''"

definition EntityAll :: EntityName where [go_consts]: "EntityAll = ''all''"
definition EntityChart :: EntityName where [go_consts]: "EntityChart = ''chart''"
definition EntityAddon :: EntityName where [go_consts]: "EntityAddon = ''addon''"
definition EntityInstance :: EntityName where [go_consts]: "EntityInstance = ''instance''"
definition EntityInstanceOperation :: EntityName where [go_consts]: "EntityInstanceOperation = ''instanceOperation''"
definition EntityInstanceBindData :: EntityName where [go_consts]: "EntityInstanceBindData = ''entityInstanceBindData''"
definition EntityBindOperation :: EntityName where [go_consts]: "EntityBindOperation = ''bindOperation''"

record 'c etcdConfig =
  ec_Endpoints :: "string list"
  ec_ForceClient :: "'c option"

text \<open>A map of entities with empty configurations is the list of its keys.\<close>

record 'c storageConfig =
  sc_Driver :: DriverType
  sc_Provide :: "EntityName list"
  sc_Etcd :: "'c etcdConfig"

type_synonym 'c ConfigList = "'c storageConfig list"

definition ConfigParse :: "(string \<Rightarrow> 'c ConfigList result) \<Rightarrow> string \<Rightarrow> 'c ConfigList result" where
  "ConfigParse yaml inByte =
     (case yaml inByte of Inl err \<Rightarrow> Inl (Wrapped err ''while unmarshalling yaml'') | Inr cl \<Rightarrow> Inr cl)"

definition NewConfigListAllMemory :: "'c ConfigList" where
  "NewConfigListAllMemory =
     [\<lparr>sc_Driver = DriverMemory, sc_Provide = [EntityAll], sc_Etcd = \<lparr>ec_Endpoints = [], ec_ForceClient = None\<rparr>\<rparr>]"

text \<open>\<open>None\<close> is the access to the first of no endpoints.\<close>

fun extractLoop :: "string \<Rightarrow> 'c ConfigList \<Rightarrow> string option" where
  "extractLoop etcdURL [] = Some etcdURL"
| "extractLoop etcdURL (cfg # cfgs) =
     (if sc_Driver cfg = DriverEtcd
      then (case ec_Endpoints (sc_Etcd cfg) of [] \<Rightarrow> None | e # es \<Rightarrow> extractLoop e cfgs)
      else extractLoop etcdURL cfgs)"

definition ExtractEtcdURL :: "'c ConfigList \<Rightarrow> string option" where
  "ExtractEtcdURL cl = extractLoop '''' cl"

text \<open>
  \<open>wait.Poll\<close> with the number of attempts its time allows. The condition keeps the last error and
  the last status; the answers of the endpoint are a function on the state.
\<close>

definition readyOnce ::
  "(string \<Rightarrow> 's \<Rightarrow> int result \<times> 's) \<Rightarrow> string \<Rightarrow> error option \<times> int \<times> 's \<Rightarrow> bool \<times> (error option \<times> int \<times> 's)" where
  "readyOnce httpGet url st =
     (case st of (lastErr, lastStatus, s) \<Rightarrow>
        (case httpGet (url @ ''/health'') s of
           (Inl err, s1) \<Rightarrow> (False, (Some err, lastStatus, s1))
         | (Inr status, s1) \<Rightarrow>
             if status = 200 then (True, (None, lastStatus, s1)) else (False, (None, status, s1))))"

definition WaitForEtcdReadiness ::
  "(string \<Rightarrow> 's \<Rightarrow> int result \<times> 's) \<Rightarrow> nat \<Rightarrow> 'c ConfigList \<Rightarrow> 's \<Rightarrow> (error option \<times> 's) option" where
  "WaitForEtcdReadiness httpGet attempts cl s =
     (case ExtractEtcdURL cl of
        None \<Rightarrow> if attempts = 0 then Some (Some (ErrorString ''while waiting for etcd: <nil>: status code 0''), s) else None
      | Some url \<Rightarrow>
          (case PollImmediate attempts (readyOnce httpGet url) (None, 0, s) of
             (None, (lastErr, lastStatus, s1)) \<Rightarrow> Some (None, s1)
           | (Some err, (lastErr, lastStatus, s1)) \<Rightarrow>
               Some (Some (ErrorString (''while waiting for etcd: '' @
                 (case lastErr of None \<Rightarrow> ''<nil>'' | Some e \<Rightarrow> Error e) @ '': status code '' @ intText lastStatus)), s1)))"

section \<open>The factory\<close>

datatype 'c storageImpl = MemoryStorage nat | EtcdStorage 'c

record 'c concreteFactory =
  fa_addon :: "'c storageImpl option"
  fa_chart :: "'c storageImpl option"
  fa_instance :: "'c storageImpl option"
  fa_instanceOperation :: "'c storageImpl option"
  fa_instanceBindData :: "'c storageImpl option"
  fa_bindOperation :: "'c storageImpl option"

definition emptyFactory :: "'c concreteFactory" where
  "emptyFactory = \<lparr>fa_addon = None, fa_chart = None, fa_instance = None, fa_instanceOperation = None,
     fa_instanceBindData = None, fa_bindOperation = None\<rparr>"

text \<open>The driver of a configuration; \<open>inl\<close> is the memory driver.\<close>

definition chooseDriver :: "('c etcdConfig \<Rightarrow> 'c result) \<Rightarrow> 'c storageConfig \<Rightarrow> (unit + 'c) result" where
  "chooseDriver newClient cfg =
     (if sc_Driver cfg = DriverMemory then Inr (Inl ())
      else if sc_Driver cfg = DriverEtcd
      then (case ec_ForceClient (sc_Etcd cfg) of
              Some cli \<Rightarrow> Inr (Inr cli)
            | None \<Rightarrow>
                (case newClient (sc_Etcd cfg) of
                   Inl err \<Rightarrow> Inl (Wrapped err ''while creating etcd client'')
                 | Inr cli \<Rightarrow> Inr (Inr cli)))
      else Inl (ErrorString ''unknown driver type''))"

text \<open>The constructors of a driver: the memory driver makes a new storage with every call.\<close>

definition newStorage :: "unit + 'c \<Rightarrow> nat \<Rightarrow> 'c storageImpl \<times> nat" where
  "newStorage drv n = (case drv of Inl _ \<Rightarrow> (MemoryStorage n, n + 1) | Inr cli \<Rightarrow> (EtcdStorage cli, n))"

definition newBindDataStorage :: "unit + 'c \<Rightarrow> nat \<Rightarrow> 'c storageImpl \<times> nat" where
  "newBindDataStorage drv n = (MemoryStorage n, n + 1)"

definition setChart :: "unit + 'c \<Rightarrow> 'c concreteFactory \<times> nat \<Rightarrow> 'c concreteFactory \<times> nat" where
  "setChart drv fn = (case fn of (f, n) \<Rightarrow> let (s, n1) = newStorage drv n in (f\<lparr>fa_chart := Some s\<rparr>, n1))"

definition setAddon :: "unit + 'c \<Rightarrow> 'c concreteFactory \<times> nat \<Rightarrow> 'c concreteFactory \<times> nat" where
  "setAddon drv fn = (case fn of (f, n) \<Rightarrow> let (s, n1) = newStorage drv n in (f\<lparr>fa_addon := Some s\<rparr>, n1))"

definition setInstance :: "unit + 'c \<Rightarrow> 'c concreteFactory \<times> nat \<Rightarrow> 'c concreteFactory \<times> nat" where
  "setInstance drv fn = (case fn of (f, n) \<Rightarrow> let (s, n1) = newStorage drv n in (f\<lparr>fa_instance := Some s\<rparr>, n1))"

definition setInstanceOperation :: "unit + 'c \<Rightarrow> 'c concreteFactory \<times> nat \<Rightarrow> 'c concreteFactory \<times> nat" where
  "setInstanceOperation drv fn =
     (case fn of (f, n) \<Rightarrow> let (s, n1) = newStorage drv n in (f\<lparr>fa_instanceOperation := Some s\<rparr>, n1))"

definition setInstanceBindData :: "unit + 'c \<Rightarrow> 'c concreteFactory \<times> nat \<Rightarrow> 'c concreteFactory \<times> nat" where
  "setInstanceBindData drv fn =
     (case fn of (f, n) \<Rightarrow> let (s, n1) = newBindDataStorage drv n in (f\<lparr>fa_instanceBindData := Some s\<rparr>, n1))"

definition setBindOperation :: "unit + 'c \<Rightarrow> 'c concreteFactory \<times> nat \<Rightarrow> 'c concreteFactory \<times> nat" where
  "setBindOperation drv fn =
     (case fn of (f, n) \<Rightarrow> let (s, n1) = newStorage drv n in (f\<lparr>fa_bindOperation := Some s\<rparr>, n1))"

definition provideEntity :: "unit + 'c \<Rightarrow> EntityName \<Rightarrow> 'c concreteFactory \<times> nat \<Rightarrow> 'c concreteFactory \<times> nat" where
  "provideEntity drv em fn =
     (if em = EntityChart then setChart drv fn
      else if em = EntityAddon then setAddon drv fn
      else if em = EntityInstance then setInstance drv fn
      else if em = EntityInstanceOperation then setInstanceOperation drv fn
      else if em = EntityInstanceBindData then setInstanceBindData drv fn
      else if em = EntityBindOperation then setBindOperation drv fn
      else if em = EntityAll
      then setBindOperation drv (setInstanceBindData drv (setInstanceOperation drv (setInstance drv (setAddon drv (setChart drv fn)))))
      else fn)"

fun provideEntities :: "unit + 'c \<Rightarrow> EntityName list \<Rightarrow> 'c concreteFactory \<times> nat \<Rightarrow> 'c concreteFactory \<times> nat" where
  "provideEntities drv [] fn = fn"
| "provideEntities drv (em # ems) fn = provideEntities drv ems (provideEntity drv em fn)"

fun factoryLoop ::
  "('c etcdConfig \<Rightarrow> 'c result) \<Rightarrow> 'c ConfigList \<Rightarrow> 'c concreteFactory \<times> nat \<Rightarrow> 'c concreteFactory result" where
  "factoryLoop newClient [] fn = Inr (fst fn)"
| "factoryLoop newClient (cfg # cfgs) fn =
     (case chooseDriver newClient cfg of
        Inl err \<Rightarrow> Inl err
      | Inr drv \<Rightarrow> factoryLoop newClient cfgs (provideEntities drv (sc_Provide cfg) fn))"

definition NewFactory :: "('c etcdConfig \<Rightarrow> 'c result) \<Rightarrow> 'c ConfigList \<Rightarrow> 'c concreteFactory result" where
  "NewFactory newClient cl = factoryLoop newClient cl (emptyFactory, 0)"

section \<open>Which driver backs an entity\<close>

definition driverOf :: "'c storageImpl \<Rightarrow> 'c option" where
  "driverOf s = (case s of MemoryStorage n \<Rightarrow> None | EtcdStorage cli \<Rightarrow> Some cli)"

text \<open>The field of the factory for an entity, and the driver it gets from a configuration that provides it.\<close>

definition entityField :: "EntityName \<Rightarrow> 'c concreteFactory \<Rightarrow> 'c storageImpl option" where
  "entityField em f =
     (if em = EntityChart then fa_chart f else if em = EntityAddon then fa_addon f
      else if em = EntityInstance then fa_instance f else if em = EntityInstanceOperation then fa_instanceOperation f
      else if em = EntityInstanceBindData then fa_instanceBindData f else if em = EntityBindOperation then fa_bindOperation f
      else None)"

definition storageEntities :: "EntityName list" where
  "storageEntities = [EntityChart, EntityAddon, EntityInstance, EntityInstanceOperation, EntityInstanceBindData, EntityBindOperation]"

definition backedBy :: "EntityName \<Rightarrow> unit + 'c \<Rightarrow> 'c option" where
  "backedBy em drv = (if em = EntityInstanceBindData then None else case drv of Inl _ \<Rightarrow> None | Inr cli \<Rightarrow> Some cli)"

lemmas entity_names = EntityChart_def EntityAddon_def EntityInstance_def EntityInstanceOperation_def
  EntityInstanceBindData_def EntityBindOperation_def EntityAll_def

lemma entity_names_neq [simp]:
  "EntityAll \<noteq> EntityChart" "EntityAll \<noteq> EntityAddon" "EntityAll \<noteq> EntityInstance" "EntityAll \<noteq> EntityInstanceOperation" "EntityAll \<noteq> EntityInstanceBindData" "EntityAll \<noteq> EntityBindOperation"
  "EntityChart \<noteq> EntityAll" "EntityChart \<noteq> EntityAddon" "EntityChart \<noteq> EntityInstance" "EntityChart \<noteq> EntityInstanceOperation" "EntityChart \<noteq> EntityInstanceBindData" "EntityChart \<noteq> EntityBindOperation"
  "EntityAddon \<noteq> EntityAll" "EntityAddon \<noteq> EntityChart" "EntityAddon \<noteq> EntityInstance" "EntityAddon \<noteq> EntityInstanceOperation" "EntityAddon \<noteq> EntityInstanceBindData" "EntityAddon \<noteq> EntityBindOperation"
  "EntityInstance \<noteq> EntityAll" "EntityInstance \<noteq> EntityChart" "EntityInstance \<noteq> EntityAddon" "EntityInstance \<noteq> EntityInstanceOperation" "EntityInstance \<noteq> EntityInstanceBindData" "EntityInstance \<noteq> EntityBindOperation"
  "EntityInstanceOperation \<noteq> EntityAll" "EntityInstanceOperation \<noteq> EntityChart" "EntityInstanceOperation \<noteq> EntityAddon" "EntityInstanceOperation \<noteq> EntityInstance" "EntityInstanceOperation \<noteq> EntityInstanceBindData" "EntityInstanceOperation \<noteq> EntityBindOperation"
  "EntityInstanceBindData \<noteq> EntityAll" "EntityInstanceBindData \<noteq> EntityChart" "EntityInstanceBindData \<noteq> EntityAddon" "EntityInstanceBindData \<noteq> EntityInstance" "EntityInstanceBindData \<noteq> EntityInstanceOperation" "EntityInstanceBindData \<noteq> EntityBindOperation"
  "EntityBindOperation \<noteq> EntityAll" "EntityBindOperation \<noteq> EntityChart" "EntityBindOperation \<noteq> EntityAddon" "EntityBindOperation \<noteq> EntityInstance" "EntityBindOperation \<noteq> EntityInstanceOperation" "EntityBindOperation \<noteq> EntityInstanceBindData"
  by (simp_all add: entity_names)

lemmas set_defs = setChart_def setAddon_def setInstance_def setInstanceOperation_def setInstanceBindData_def setBindOperation_def

definition entityDriver :: "EntityName \<Rightarrow> 'c concreteFactory \<times> nat \<Rightarrow> 'c option option" where
  "entityDriver em fn = map_option driverOf (entityField em (fst fn))"

lemma newStorage_driver: "driverOf (fst (newStorage drv n)) = (case drv of Inl _ \<Rightarrow> None | Inr cli \<Rightarrow> Some cli)"
  by (simp add: newStorage_def driverOf_def split: sum.splits)

lemma entityDriver_set:
  "entityDriver em (setChart drv fn) = (if em = EntityChart then Some (backedBy em drv) else entityDriver em fn)"
    "entityDriver em (setAddon drv fn) = (if em = EntityAddon then Some (backedBy em drv) else entityDriver em fn)"
    "entityDriver em (setInstance drv fn) = (if em = EntityInstance then Some (backedBy em drv) else entityDriver em fn)"
    "entityDriver em (setInstanceOperation drv fn) =
       (if em = EntityInstanceOperation then Some (backedBy em drv) else entityDriver em fn)"
    "entityDriver em (setInstanceBindData drv fn) =
       (if em = EntityInstanceBindData then Some (backedBy em drv) else entityDriver em fn)"
    "entityDriver em (setBindOperation drv fn) =
       (if em = EntityBindOperation then Some (backedBy em drv) else entityDriver em fn)"
  by (cases fn; cases drv; simp add: entityDriver_def entityField_def set_defs backedBy_def newStorage_def
      newBindDataStorage_def driverOf_def)+

lemma entityDriver_provideEntity:
  assumes "em \<in> set storageEntities"
  shows "entityDriver em (provideEntity drv e fn) =
    (if e = em \<or> e = EntityAll then Some (backedBy em drv) else entityDriver em fn)"
proof -
  from assms consider "em = EntityChart" | "em = EntityAddon" | "em = EntityInstance" | "em = EntityInstanceOperation"
    | "em = EntityInstanceBindData" | "em = EntityBindOperation" by (auto simp: storageEntities_def)
  then show ?thesis by cases (simp_all add: provideEntity_def entityDriver_set)
qed

lemma entityDriver_provideEntities:
  assumes "em \<in> set storageEntities"
  shows "entityDriver em (provideEntities drv ems fn) =
    (if em \<in> set ems \<or> EntityAll \<in> set ems then Some (backedBy em drv) else entityDriver em fn)"
proof (induction ems arbitrary: fn)
  case (Cons e ems)
  show ?case
    using Cons.IH [of "provideEntity drv e fn"] entityDriver_provideEntity [OF assms, of drv e fn] by auto
qed simp

definition provides :: "EntityName \<Rightarrow> 'c storageConfig \<Rightarrow> bool" where
  "provides em cfg \<longleftrightarrow> em \<in> set (sc_Provide cfg) \<or> EntityAll \<in> set (sc_Provide cfg)"

definition lastProvider :: "EntityName \<Rightarrow> 'c ConfigList \<Rightarrow> 'c storageConfig option" where
  "lastProvider em cl = (case filter (provides em) cl of [] \<Rightarrow> None | cfgs \<Rightarrow> Some (last cfgs))"

lemma lastProvider_Cons:
  "lastProvider em (cfg # cfgs) =
    (case lastProvider em cfgs of None \<Rightarrow> if provides em cfg then Some cfg else None | Some c \<Rightarrow> Some c)"
  by (auto simp: lastProvider_def split: list.splits)

lemma factoryLoop_driver:
  assumes "em \<in> set storageEntities" "factoryLoop newClient cl fn = Inr f"
  shows "map_option driverOf (entityField em f) =
    (case lastProvider em cl of
       None \<Rightarrow> entityDriver em fn
     | Some cfg \<Rightarrow> Some (backedBy em (projr (chooseDriver newClient cfg))))"
  using assms(2)
proof (induction cl arbitrary: fn)
  case Nil
  then show ?case by (simp add: lastProvider_def entityDriver_def)
next
  case (Cons cfg cl)
  then obtain drv where drv: "chooseDriver newClient cfg = Inr drv"
    and rest: "factoryLoop newClient cl (provideEntities drv (sc_Provide cfg) fn) = Inr f"
    by (auto split: sum.splits)
  show ?case using Cons.IH [OF rest]
    by (auto simp: lastProvider_Cons provides_def drv entityDriver_provideEntities [OF assms(1)] split: option.splits)
qed

lemma factoryLoop_drivers:
  "factoryLoop newClient cl fn = Inr f \<Longrightarrow> cfg \<in> set cl \<Longrightarrow> \<exists>d. chooseDriver newClient cfg = Inr d"
proof (induction cl arbitrary: fn)
  case (Cons c cl)
  then obtain drv where "chooseDriver newClient c = Inr drv"
    "factoryLoop newClient cl (provideEntities drv (sc_Provide c) fn) = Inr f" by (auto split: sum.splits)
  with Cons show ?case by (cases "cfg = c") auto
qed simp

lemma lastProvider_in: "lastProvider em cl = Some cfg \<Longrightarrow> cfg \<in> set cl"
  by (induction cl) (auto simp: lastProvider_Cons split: option.splits if_splits, simp add: lastProvider_def)

text \<open>
  C36. The factory gives every entity the driver of the last configuration that provides it, by its name or
  by all, and no storage to an entity that none provides, in every order of the maps of provided entities. Bind
  data are the exception: whatever is configured they are kept in memory, never in etcd.
\<close>

theorem NewFactory_correct:
  fixes f :: "'c concreteFactory"
  assumes "NewFactory newClient cl = Inr f" "em \<in> set storageEntities"
  shows "case lastProvider em cl of
      None \<Rightarrow> entityField em f = None
    | Some cfg \<Rightarrow> \<exists>s. entityField em f = Some s \<and>
        (driverOf s = None \<longleftrightarrow> em = EntityInstanceBindData \<or> sc_Driver cfg = DriverMemory) \<and>
        (\<forall>cli. driverOf s = Some cli \<longrightarrow> sc_Driver cfg = DriverEtcd \<and> chooseDriver newClient cfg = Inr (Inr cli))"
proof -
  from assms(1) have loop: "factoryLoop newClient cl (emptyFactory, 0) = Inr f" by (simp add: NewFactory_def)
  note drv = factoryLoop_driver [OF assms(2) loop]
  have start: "entityDriver em (emptyFactory :: 'c concreteFactory, 0) = None"
    by (simp add: entityDriver_def entityField_def emptyFactory_def)
  show ?thesis
  proof (cases "lastProvider em cl")
    case None
    with drv start show ?thesis by simp
  next
    case (Some cfg)
    then obtain d where d: "chooseDriver newClient cfg = Inr d"
      using factoryLoop_drivers [OF loop] lastProvider_in by blast
    with drv Some obtain s where s: "entityField em f = Some s" "driverOf s = backedBy em d" by auto
    with d Some show ?thesis
      by (auto simp: backedBy_def chooseDriver_def DriverEtcd_def DriverMemory_def split: if_splits sum.splits option.splits)
  qed
qed

definition example_configs :: "nat ConfigList" where
  "example_configs = [
     \<lparr>sc_Driver = DriverMemory, sc_Provide = [EntityAll], sc_Etcd = \<lparr>ec_Endpoints = [], ec_ForceClient = None\<rparr>\<rparr>,
     \<lparr>sc_Driver = DriverEtcd, sc_Provide = [EntityInstance, EntityInstanceBindData],
      sc_Etcd = \<lparr>ec_Endpoints = [''http://etcd:2379''], ec_ForceClient = None\<rparr>\<rparr>]"

theorem NewFactory_correct_witness:
  "\<exists>f s b. NewFactory (\<lambda>c. Inr 7) example_configs = Inr f \<and> fa_instance f = Some s \<and> driverOf s = Some 7 \<and>
     fa_instanceBindData f = Some b \<and> driverOf b = None"
proof -
  have ok: "case NewFactory (\<lambda>c. Inr 7) example_configs of Inl e \<Rightarrow> False | Inr f \<Rightarrow> True" by code_simp
  then obtain f where f: "NewFactory (\<lambda>c. Inr 7) example_configs = Inr f" by (auto split: sum.splits)
  have lasts: "lastProvider EntityInstance example_configs = Some (example_configs ! 1)"
    "lastProvider EntityInstanceBindData example_configs = Some (example_configs ! 1)"
    by (simp_all add: lastProvider_def provides_def example_configs_def)
  have drv: "sc_Driver (example_configs ! 1) = DriverEtcd"
    "chooseDriver (\<lambda>c. Inr 7) (example_configs ! 1) = Inr (Inr 7)" "DriverEtcd \<noteq> DriverMemory"
    by (simp_all add: example_configs_def chooseDriver_def DriverEtcd_def DriverMemory_def)
  from NewFactory_correct [OF f, of EntityInstance] NewFactory_correct [OF f, of EntityInstanceBindData] lasts drv f
  show ?thesis by (auto simp: storageEntities_def entityField_def)
qed

end
