(* ===== verification/Health.thy ===== *)
theory Health
  imports Controller Kube_Interface
begin

text \<open>
  The probes, \<open>internal/health\<close>: the health of etcd behind the ready probes, and the live probe of the
  controller, which creates a configuration that must fail in a known way, waits for its status and
  removes it. Parameters: the answers of etcd and the calls of the API client; \<open>polls\<close> is the number of
  attempts the time of \<open>wait.Poll\<close> allows. A response is its status and its body.
\<close>

section \<open>Ready probes\<close>

type_synonym probeResponse = "int \<times> string"

definition probeOKStatus :: int where "probeOKStatus = 200"
definition probeFailedStatus :: int where "probeFailedStatus = 500"

definition handleHealth :: "(string \<Rightarrow> int result) \<Rightarrow> string \<Rightarrow> probeResponse" where
  "handleHealth httpGet etcdURL =
     (if etcdURL \<noteq> ''''
      then (case httpGet (etcdURL @ ''/health'') of
              Inl err \<Rightarrow> (probeFailedStatus, '''')
            | Inr status \<Rightarrow> if status \<noteq> 200 then (probeFailedStatus, '''') else (probeOKStatus, ''OK''))
      else (probeOKStatus, ''OK''))"

definition broker_liveProbe :: "(string \<Rightarrow> int result) \<Rightarrow> string \<times> probeResponse" where
  "broker_liveProbe httpGet = (''/live'', handleHealth httpGet '''')"

definition broker_readyProbe :: "(string \<Rightarrow> int result) \<Rightarrow> string \<Rightarrow> string \<times> probeResponse" where
  "broker_readyProbe httpGet etcdURL = (''/ready'', handleHealth httpGet etcdURL)"

definition handleReady :: "(string \<Rightarrow> int result) \<Rightarrow> string \<Rightarrow> string \<times> probeResponse" where
  "handleReady httpGet etcdURL = (''/ready'', handleHealth httpGet etcdURL)"

section \<open>The live probe of the controller\<close>

record 's probeApi =
  pa_create :: "CommonAddon \<Rightarrow> 's \<Rightarrow> error option \<times> 's"
  pa_get :: "NamespacedName \<Rightarrow> 's \<Rightarrow> CommonAddon result \<times> 's"
  pa_delete :: "NamespacedName \<Rightarrow> 's \<Rightarrow> error option \<times> 's"

definition probeName :: string where [go_consts]: "probeName = ''liveness-probe''"

definition probeConfiguration :: "Namespace \<Rightarrow> CommonAddon" where
  "probeConfiguration ns = \<lparr>
     ca_Meta = \<lparr>meta_Name = probeName, meta_Namespace = ns, meta_Generation = 0, meta_DeletionTimestamp = None,
       meta_Finalizers = []\<rparr>,
     ca_Spec = \<lparr>spec_ReprocessRequest = 0, spec_Repositories = [\<lparr>sp_URL = '''', sp_SecretRef = None\<rparr>]\<rparr>,
     ca_Status = EmptyStatus\<rparr>"

definition probeReached :: "CommonAddon \<Rightarrow> bool" where
  "probeReached c \<longleftrightarrow>
     (case st_Repositories (ca_Status c) of
        [r] \<Rightarrow> sre_Status r = RepositoryStatusFailed \<and> sre_Reason r = RepositoryEmptyURLError
      | _ \<Rightarrow> False)"

definition probeOnce :: "'s probeApi \<Rightarrow> Namespace \<Rightarrow> 's \<Rightarrow> bool \<times> 's" where
  "probeOnce k ns s =
     (case pa_get k (ns, probeName) s of
        (Inl err, s1) \<Rightarrow> (False, s1)
      | (Inr c, s1) \<Rightarrow> (probeReached c, s1))"

definition runAddonsConfigurationControllerCycle ::
  "'s probeApi \<Rightarrow> nat \<Rightarrow> Namespace \<Rightarrow> 's \<Rightarrow> error option \<times> 's" where
  "runAddonsConfigurationControllerCycle k polls ns s =
     (case pa_create k (probeConfiguration ns) s of
        (err, s1) \<Rightarrow>
          if (case err of None \<Rightarrow> False | Some e \<Rightarrow> \<not> kIsAlreadyExists e) then (err, s1)
          else (case PollImmediate polls (probeOnce k ns) s1 of
                  (Some err, s2) \<Rightarrow> (Some err, s2)
                | (None, s2) \<Rightarrow> pa_delete k (ns, probeName) s2))"

definition runFullControllersCycle :: "'s probeApi \<Rightarrow> nat \<Rightarrow> Namespace \<Rightarrow> 's \<Rightarrow> probeResponse \<times> 's" where
  "runFullControllersCycle k polls ns s =
     (case runAddonsConfigurationControllerCycle k polls ns s of
        (Some err, s1) \<Rightarrow> ((probeFailedStatus, ''''), s1)
      | (None, s1) \<Rightarrow> ((probeOKStatus, ''OK''), s1))"

definition controller_liveProbe :: "'s probeApi \<Rightarrow> nat \<Rightarrow> Namespace \<Rightarrow> 's \<Rightarrow> string \<times> probeResponse \<times> 's" where
  "controller_liveProbe k polls ns s = (''/live'', runFullControllersCycle k polls ns s)"

text \<open>The live probe answers well only after it has read the expected status and removed the configuration.\<close>

lemma live_ok:
  assumes "controller_liveProbe k polls ns s = (path, (probeOKStatus, body), s')"
  shows "\<exists>s1 s2 c. pa_get k (ns, probeName) s1 = (Inr c, s2) \<and> probeReached c \<and> pa_delete k (ns, probeName) s2 = (None, s')"
proof -
  from assms have cycle: "runAddonsConfigurationControllerCycle k polls ns s = (None, s')"
    by (auto simp: controller_liveProbe_def runFullControllersCycle_def probeOKStatus_def probeFailedStatus_def
        split: prod.splits option.splits)
  then obtain s0 s2 where poll: "PollImmediate polls (probeOnce k ns) s0 = (None, s2)"
    and del: "pa_delete k (ns, probeName) s2 = (None, s')"
    by (auto simp: runAddonsConfigurationControllerCycle_def split: prod.splits option.splits if_splits)
  from PollImmediate_ok [OF poll] obtain s1 where once: "probeOnce k ns s1 = (True, s2)" by blast
  obtain r t where "pa_get k (ns, probeName) s1 = (r, t)" by fastforce
  with once del show ?thesis by (cases r) (auto simp: probeOnce_def)
qed

section \<open>The probe and the reconciler\<close>

text \<open>A configuration whose only repository has no URL, as the reconciler sees it.\<close>

lemma loadRepositories_empty_URL:
  "loadRepositories d [\<lparr>sp_URL = '''', sp_SecretRef = r\<rparr>] s =
    Some [Repository_EmptyURLError (ErrorString ''URL must not be empty'') (NewAddonsRepository '''')]"
  by (simp add: Let_def)

definition probeRepository :: Repository where
  "probeRepository = Repository_EmptyURLError (ErrorString ''URL must not be empty'') (NewAddonsRepository '''')"

lemma probeRepository_facts:
  "rep_Addons probeRepository = []" "sre_Status (rep_Repository probeRepository) = RepositoryStatusFailed"
  "sre_Reason (rep_Repository probeRepository) = RepositoryEmptyURLError"
  by (simp_all add: probeRepository_def Repository_EmptyURLError_def setRepositoryStatus_def NewAddonsRepository_def
      Repository_Failed_def)

definition is_probe :: "CommonAddon \<Rightarrow> bool" where
  "is_probe ca \<longleftrightarrow> spec_Repositories (ca_Spec ca) = [\<lparr>sp_URL = '''', sp_SecretRef = None\<rparr>]"

lemma probeRepository_revised:
  "ReviseAddonDuplicationInRepository [probeRepository] = [probeRepository]"
  "ReviseAddonDuplicationInStorage cfgs [probeRepository] = [probeRepository]"
  "IsRepositoriesFailed [probeRepository] = (True, [probeRepository])" "\<not> IsRepositoriesFetchingError [probeRepository]"
  by (simp_all add: ReviseAddonDuplicationInRepository_def ReviseAddonDuplicationInStorage_def IsRepositoriesFailed_def
      markFailed_def Repository_IsFailed_def IsRepositoriesFetchingError_def IsFetchingError_repo_def probeRepository_facts)

lemma updateAddonStatus_ok:
  "updateAddonStatus d ca s = (None, ca', s') \<Longrightarrow>
    updateConfigurationStatus d ca' s = (None, s') \<and> st_Repositories (ca_Status ca') = st_Repositories (ca_Status ca)"
  by (auto simp: updateAddonStatus_def Let_def split: prod.splits)

lemma OnAdd_probe:
  assumes "is_probe ca" "OnAdd d ns ca lastStatus s = Some (None, ca', s')"
  shows "probeReached ca' \<and> (\<exists>t t'. updateConfigurationStatus d ca' t = (None, t'))"
proof -
  from assms obtain list where
    "onAdd_failed d ns (set_phase AddonsConfigurationFailed ca) lastStatus list [probeRepository] s = Some (None, ca', s')"
    by (auto simp: OnAdd_def is_probe_def loadRepositories_empty_URL probeRepository_def [symmetric]
        probeRepository_revised Let_def split: sum.splits)
  then obtain t' where up: "updateAddonStatus d (snapshot [probeRepository] (set_phase AddonsConfigurationFailed ca)) s =
      (None, ca', t')"
    by (auto simp: onAdd_failed_def split: prod.splits option.splits if_splits sum.splits)
  from updateAddonStatus_ok [OF up] show ?thesis
    by (auto simp: probeReached_def snapshot_def statusSnapshot_def probeRepository_facts)
qed

lemma Prepare_probe: "is_probe ca \<Longrightarrow> PrepareForProcessing d ca s = (None, ca', s') \<Longrightarrow> is_probe ca'"
  by (auto simp: is_probe_def PrepareForProcessing_def addFinalizer_def writeConfiguration_def updateAddonStatus_def Let_def
      split: prod.splits sum.splits option.splits)

text \<open>
  C37. The live probe and the reconciler fit together: when the reconciler has processed the configuration that
  the probe creates without reporting an error, the status it wrote is the one the probe waits for, so that
  the next read of the probe succeeds.
\<close>

theorem live_probe_answered:
  assumes "Reconcile d ns dur ca trace s = Some ((res, None), ca', s')" "is_probe ca"
    and "meta_DeletionTimestamp (ca_Meta ca) = None" "IsReadyForInitialProcessing ca \<or> IsReadyForReprocessing ca"
    and "pa_get k (pns, probeName) t = (Inr ca', t')"
  shows "(\<exists>u u'. updateConfigurationStatus d ca' u = (None, u')) \<and> PollImmediate (Suc polls) (probeOnce k pns) t = (None, t')"
proof -
  obtain ca1 last s1 where "OnAdd d ns ca1 last s1 = Some (None, ca', s')" "is_probe ca1"
  proof (cases "IsReadyForInitialProcessing ca")
    case True
    obtain e ca1 s1 where prep: "PrepareForProcessing d ca s = (e, ca1, s1)" by (rule prod_cases3)
    with True assms(1,3) have "e = None" by (auto simp: Reconcile_def split: option.splits)
    with True assms(1,3) prep have "OnAdd d ns ca1 (ca_Status ca1) s1 = Some (None, ca', s')"
      by (auto simp: Reconcile_def split: prod.splits option.splits if_splits)
    moreover have "is_probe ca1" using Prepare_probe [OF assms(2)] prep \<open>e = None\<close> by simp
    ultimately show thesis by (rule that)
  next
    case False
    with assms(1,3,4) have "OnAdd d ns (ca\<lparr>ca_Status := EmptyStatus\<rparr>) (ca_Status ca) s = Some (None, ca', s')"
      by (auto simp: Reconcile_def split: prod.splits option.splits if_splits)
    moreover have "is_probe (ca\<lparr>ca_Status := EmptyStatus\<rparr>)" using assms(2) by (simp add: is_probe_def)
    ultimately show thesis by (rule that)
  qed
  then have "probeReached ca' \<and> (\<exists>u u'. updateConfigurationStatus d ca' u = (None, u'))" by (rule OnAdd_probe [rotated])
  with assms(5) show ?thesis by (simp add: probeOnce_def)
qed

definition example_probe :: CommonAddon where
  "example_probe = (probeConfiguration ''kyma'')\<lparr>ca_Meta := (ca_Meta (probeConfiguration ''kyma''))\<lparr>meta_Generation := 1\<rparr>\<rparr>"

theorem live_probe_answered_witness:
  "\<exists>ca'. Reconcile example_cdeps ''kyma'' 5 example_probe ''probe'' () = Some ((NoRequeue, None), ca', ()) \<and>
     PollImmediate 3 (probeOnce \<lparr>pa_create = \<lambda>c s. (None, s), pa_get = \<lambda>n s. (Inr ca', s), pa_delete = \<lambda>n s. (None, s)\<rparr> ''kyma'') ()
       = (None, ())"
proof -
  have "\<exists>ca'. Reconcile example_cdeps ''kyma'' 5 example_probe ''probe'' () = Some ((NoRequeue, None), ca', ())"
    by (simp add: controller_eval example_probe_def probeConfiguration_def example_cdeps_def EmptyStatus_def
        IsReadyForInitialProcessing_def Repository_EmptyURLError_def)
  then obtain ca' where r: "Reconcile example_cdeps ''kyma'' 5 example_probe ''probe'' () = Some ((NoRequeue, None), ca', ())"
    by blast
  have pre: "is_probe example_probe" "meta_DeletionTimestamp (ca_Meta example_probe) = None"
    "IsReadyForInitialProcessing example_probe \<or> IsReadyForReprocessing example_probe"
    by (simp_all add: is_probe_def example_probe_def probeConfiguration_def IsReadyForInitialProcessing_def EmptyStatus_def)
  let ?k = "\<lparr>pa_create = \<lambda>c s. (None, s), pa_get = \<lambda>n s. (Inr ca', s), pa_delete = \<lambda>n s. (None, s)\<rparr> :: unit probeApi"
  have "pa_get ?k (''kyma'', probeName) () = (Inr ca', ())" by simp
  from live_probe_answered [OF r pre this, of 2] r show ?thesis by (simp add: numeral_3_eq_3 numeral_2_eq_2)
qed

end
