(* ===== verification/Webhook.thy ===== *)
theory Webhook
  imports Prelude
begin

text \<open>
  The admission webhook, \<open>internal/webhook/mutate.go\<close>, which replaces the image of a broker that is no longer
  published. Parameters: the kind of a pod in the scheme, the decoder of the request and the JSON of the pod; a pod is
  its containers and the rest.
\<close>

record Container =
  ctr_Name :: string
  ctr_Image :: string
  ctr_rest :: string

record Pod =
  pod_Name :: string
  pod_Containers :: "Container list"
  pod_rest :: string

record GroupVersionKind =
  gvk_Group :: string
  gvk_Version :: string
  gvk_Kind :: string

record admissionRequest =
  arq_Kind :: GroupVersionKind
  arq_Raw :: string

datatype admissionResponse = Errored int error | PatchResponseFromRaw string string

record webhookHandler =
  wh_gvkForPod :: "GroupVersionKind result"
  wh_decode :: "admissionRequest \<Rightarrow> Pod result"
  wh_marshal :: "Pod \<Rightarrow> string result"

definition deprecatedAzureBrokerImagePath :: string where [go_consts]:
  "deprecatedAzureBrokerImagePath = ''microsoft/azure-service-broker:v1.5.0''"

definition externalAzureBrokerImagePath :: string where [go_consts]:
  "externalAzureBrokerImagePath = ''eu.gcr.io/kyma-project/external/azure-service-broker:v1.5.0''"

definition EqualGVK :: "GroupVersionKind \<Rightarrow> GroupVersionKind \<Rightarrow> bool" where
  "EqualGVK a b \<longleftrightarrow> gvk_Kind a = gvk_Kind b \<and> gvk_Version a = gvk_Version b \<and> gvk_Group a = gvk_Group b"

definition gvkText :: "GroupVersionKind \<Rightarrow> string" where
  "gvkText g = gvk_Group g @ ''/'' @ gvk_Version g @ '', Kind='' @ gvk_Kind g"

definition MatchKinds :: "webhookHandler \<Rightarrow> GroupVersionKind \<Rightarrow> error option" where
  "MatchKinds h reqKind =
     (case wh_gvkForPod h of
        Inl err \<Rightarrow> Some err
      | Inr gvk \<Rightarrow>
          if \<not> EqualGVK reqKind gvk
          then Some (ErrorString (''type mismatch: want: '' @ gvkText gvk @ '' got: '' @ gvkText reqKind))
          else None)"

text \<open>The loop assigns by index; it never fails.\<close>

fun mutateContainers :: "nat \<Rightarrow> Container list \<Rightarrow> Container list \<Rightarrow> Container list" where
  "mutateContainers i [] ctrs = ctrs"
| "mutateContainers i (ctr # rest) ctrs =
     mutateContainers (i + 1) rest
       (if ctr_Image ctr = deprecatedAzureBrokerImagePath
        then ctrs[i := ctr\<lparr>ctr_Image := externalAzureBrokerImagePath\<rparr>]
        else ctrs)"

definition mutatePod :: "Pod \<Rightarrow> error option \<times> Pod" where
  "mutatePod pod = (None, pod\<lparr>pod_Containers := mutateContainers 0 (pod_Containers pod) (pod_Containers pod)\<rparr>)"

definition Handle :: "webhookHandler \<Rightarrow> admissionRequest \<Rightarrow> admissionResponse" where
  "Handle h req =
     (case MatchKinds h (arq_Kind req) of
        Some err \<Rightarrow> Errored 400 err
      | None \<Rightarrow>
          (case wh_decode h req of
             Inl err \<Rightarrow> Errored 400 err
           | Inr pod \<Rightarrow>
               (case mutatePod pod of
                  (Some err, pod') \<Rightarrow> Errored 500 err
                | (None, pod') \<Rightarrow>
                    (case wh_marshal h pod' of
                       Inl err \<Rightarrow> Errored 500 err
                     | Inr rawPod \<Rightarrow> PatchResponseFromRaw (arq_Raw req) rawPod))))"

section \<open>What the loop does\<close>

definition swapImage :: "Container \<Rightarrow> Container" where
  "swapImage c = (if ctr_Image c = deprecatedAzureBrokerImagePath then c\<lparr>ctr_Image := externalAzureBrokerImagePath\<rparr> else c)"

lemma mutateContainers_eq: "mutateContainers (length pre) rest (pre @ rest) = pre @ map swapImage rest"
proof (induction rest arbitrary: pre)
  case (Cons c rest)
  from Cons.IH [of "pre @ [swapImage c]"] show ?case
    by (cases "ctr_Image c = deprecatedAzureBrokerImagePath") (simp_all add: swapImage_def)
qed simp

lemma mutatePod_eq: "mutatePod pod = (None, pod\<lparr>pod_Containers := map swapImage (pod_Containers pod)\<rparr>)"
  using mutateContainers_eq [of "[]"] by (simp add: mutatePod_def)

text \<open>
  The webhook answers with a patch for every pod it can decode, in which exactly the withdrawn images are
  replaced, and answering for a pod that was mutated before changes nothing.
\<close>

lemma mutatePod_idempotent: "mutatePod (snd (mutatePod pod)) = (None, snd (mutatePod pod))"
proof -
  have "externalAzureBrokerImagePath \<noteq> deprecatedAzureBrokerImagePath"
    by (simp add: externalAzureBrokerImagePath_def deprecatedAzureBrokerImagePath_def)
  then have "swapImage (swapImage c) = swapImage c" for c by (simp add: swapImage_def)
  then show ?thesis by (simp add: mutatePod_eq)
qed

lemma mutatePod_no_deprecated:
  "\<forall>c \<in> set (pod_Containers (snd (mutatePod pod))). ctr_Image c \<noteq> deprecatedAzureBrokerImagePath"
  by (auto simp: mutatePod_eq swapImage_def externalAzureBrokerImagePath_def deprecatedAzureBrokerImagePath_def)

end
