(* ===== verification/HelmClient.thy ===== *)
theory HelmClient
  imports Broker_Interface
begin

text \<open>
  The client of Helm, \<open>internal/helm/client.go\<close>: what it asks the actions of Helm to do. Parameters: the
  initialisation of an action configuration and the actions themselves. Durations are in nanoseconds.
\<close>

record restConfig =
  rc_Host :: string
  rc_CAFile :: string
  rc_BearerToken :: string

record HelmClient =
  hc_helmDriver :: string
  hc_restConfig :: restConfig
  hc_installingTimeout :: int

record ConfigFlags =
  fl_Namespace :: string
  fl_APIServer :: string
  fl_CAFile :: string
  fl_BearerToken :: string

record InstallAction =
  ia_ReleaseName :: string
  ia_Namespace :: string
  ia_Wait :: bool
  ia_Timeout :: int
  ia_CreateNamespace :: bool

record ('cfg, 's) helmActions =
  hx_init :: "ConfigFlags \<Rightarrow> string \<Rightarrow> string \<Rightarrow> 'cfg result"
  hx_install :: "'cfg \<Rightarrow> InstallAction \<Rightarrow> Chart \<Rightarrow> ChartValues \<Rightarrow> 's \<Rightarrow> Release result \<times> 's"
  hx_uninstall :: "'cfg \<Rightarrow> string \<Rightarrow> 's \<Rightarrow> error option \<times> 's"
  hx_list :: "'cfg \<Rightarrow> 's \<Rightarrow> Release list result"

definition helm_NewClient :: "restConfig \<Rightarrow> string \<Rightarrow> HelmClient" where
  "helm_NewClient cfg helmDriver =
     \<lparr>hc_helmDriver = (if helmDriver = '''' then ''secrets'' else helmDriver), hc_restConfig = cfg,
      hc_installingTimeout = 3600 * 10 ^ 9\<rparr>"

definition newConfigFlags :: "HelmClient \<Rightarrow> string \<Rightarrow> ConfigFlags" where
  "newConfigFlags c namespace =
     \<lparr>fl_Namespace = namespace, fl_APIServer = rc_Host (hc_restConfig c), fl_CAFile = rc_CAFile (hc_restConfig c),
      fl_BearerToken = rc_BearerToken (hc_restConfig c)\<rparr>"

definition getConfig :: "('cfg, 's) helmActions \<Rightarrow> HelmClient \<Rightarrow> string \<Rightarrow> 'cfg result" where
  "getConfig x c namespace = hx_init x (newConfigFlags c namespace) namespace (hc_helmDriver c)"

definition helm_Install ::
  "('cfg, 's) helmActions \<Rightarrow> HelmClient \<Rightarrow> Chart \<Rightarrow> ChartValues \<Rightarrow> ReleaseName \<Rightarrow> Namespace \<Rightarrow> 's \<Rightarrow> Release result \<times> 's" where
  "helm_Install x c chrt values releaseName namespace s =
     (case getConfig x c namespace of
        Inl err \<Rightarrow> (Inl (Wrapped err ''while getting config''), s)
      | Inr cfg \<Rightarrow>
          (case hx_install x cfg \<lparr>ia_ReleaseName = releaseName, ia_Namespace = namespace, ia_Wait = True,
                  ia_Timeout = hc_installingTimeout c, ia_CreateNamespace = True\<rparr> chrt values s of
             (Inl err, s1) \<Rightarrow>
               (Inl (Wrapped err (''while installing release from chart with name ['' @ releaseName @
                  ''] in namespace ['' @ namespace @ '']'')), s1)
           | (Inr release, s1) \<Rightarrow> (Inr release, s1)))"

definition helm_Delete ::
  "('cfg, 's) helmActions \<Rightarrow> HelmClient \<Rightarrow> ReleaseName \<Rightarrow> Namespace \<Rightarrow> 's \<Rightarrow> error option \<times> 's" where
  "helm_Delete x c releaseName namespace s =
     (case getConfig x c namespace of
        Inl err \<Rightarrow> (Some (Wrapped err ''while getting config''), s)
      | Inr cfg \<Rightarrow>
          (case hx_uninstall x cfg releaseName s of
             (Some err, s1) \<Rightarrow> (Some (Wrapped err ''while executing uninstall action''), s1)
           | (None, s1) \<Rightarrow> (None, s1)))"

definition helm_ListReleases ::
  "('cfg, 's) helmActions \<Rightarrow> HelmClient \<Rightarrow> Namespace \<Rightarrow> 's \<Rightarrow> Release list result" where
  "helm_ListReleases x c namespace s =
     (case getConfig x c namespace of
        Inl err \<Rightarrow> Inl (Wrapped err ''while getting config'')
      | Inr cfg \<Rightarrow> hx_list x cfg s)"

definition SetInstallingTimeout :: "int \<Rightarrow> HelmClient \<Rightarrow> HelmClient" where
  "SetInstallingTimeout timeout c = c\<lparr>hc_installingTimeout := timeout\<rparr>"

text \<open>
  The cause of a failed removal survives the wrapping, which the deprovisioning task of the broker relies on to
  tell a release that is already gone.
\<close>

lemma helm_Delete_cause:
  assumes "getConfig x c namespace = Inr cfg" "hx_uninstall x cfg releaseName s = (Some err, s1)"
  shows "\<exists>e. helm_Delete x c releaseName namespace s = (Some e, s1) \<and> Cause e = Cause err"
  using assms by (simp add: helm_Delete_def)

text \<open>The client behind the broker: the two calls of the broker on Helm.\<close>

definition withHelm :: "('cfg, 's) helmActions \<Rightarrow> HelmClient \<Rightarrow> 's deps \<Rightarrow> 's deps" where
  "withHelm x c d = d\<lparr>helmInstall := helm_Install x c, helmDelete := helm_Delete x c\<rparr>"

end
