(* ===== verification/IndexBuilder.thy ===== *)
theory IndexBuilder
  imports AddonProvider
begin

text \<open>
  The builder of repository indexes, \<open>cmd/indexbuilder\<close>: the addons of a directory are loaded and listed by
  name. Parameters: the YAML encoder and what the loader needs; a panic of the command is \<open>Inl\<close>.
\<close>

record indexEntry =
  xe_Name :: AddonName
  xe_Description :: string
  xe_Version :: string

record indexDTO =
  xi_APIVersion :: string
  xi_Entries :: "(AddonName, indexEntry list) gomap"

definition indexEntryOf :: "Addon \<Rightarrow> indexEntry" where
  "indexEntryOf b = \<lparr>xe_Name = ad_Name b, xe_Description = ad_Description b, xe_Version = String (ad_Version b)\<rparr>"

fun collectEntries :: "Addon list \<Rightarrow> (AddonName, indexEntry list) gomap \<Rightarrow> (AddonName, indexEntry list) gomap" where
  "collectEntries [] es = es"
| "collectEntries (b # bs) es =
     collectEntries bs (AList.update (ad_Name b)
       ((case map_of es (ad_Name b) of None \<Rightarrow> [] | Some xs \<Rightarrow> xs) @ [indexEntryOf b]) es)"

definition indexOf :: "Addon list \<Rightarrow> indexDTO" where
  "indexOf bs = \<lparr>xi_APIVersion = ''v1'', xi_Entries = collectEntries bs []\<rparr>"

text \<open>The writer is a function of the file system, which returns the error of the write.\<close>

type_synonym writer = "string \<Rightarrow> filesys \<Rightarrow> error option \<times> filesys"

definition render_index :: "(indexDTO \<Rightarrow> string result) \<Rightarrow> Addon list \<Rightarrow> writer \<Rightarrow> filesys \<Rightarrow> error option \<times> filesys" where
  "render_index yamlMarshal bs w fs =
     (case yamlMarshal (indexOf bs) of
        Inl err \<Rightarrow> (Some (Wrapped err ''while encoding to YAML''), fs)
      | Inr entEnc \<Rightarrow>
          (case w entEnc fs of
             (Some err, fs1) \<Rightarrow> (Some (Wrapped err ''while writing encoded index''), fs1)
           | (None, fs1) \<Rightarrow> (None, fs1)))"

text \<open>
  \<open>tempDir\<close> creates a temporary directory, which is removed whatever loading does; a failing removal is the
  panic that is reported. The loader is made for that directory.
\<close>

definition processSingleAddon ::
  "Loader \<Rightarrow> (filesys \<Rightarrow> string result \<times> filesys) \<Rightarrow> string \<Rightarrow> filesys \<Rightarrow> Addon result \<times> filesys" where
  "processSingleAddon l tempDir fullPath fs =
     (case tempDir fs of
        (Inl err, fs1) \<Rightarrow> (Inl (Wrapped err ''while creating temp dir''), fs1)
      | (Inr tmpDir, fs1) \<Rightarrow>
          (case RemoveAll tmpDir fs1 of
             (Some err, fs2) \<Rightarrow> (Inl (Wrapped err ''while removing temp dir''), fs2)
           | (None, fs2) \<Rightarrow>
               (case LoadDir (l\<lparr>ld_tmpDir := tmpDir\<rparr>) fs1 fullPath of
                  None \<Rightarrow> (Inl (ErrorString ''panic''), fs2)
                | Some (Inl err) \<Rightarrow> (Inl (Wrapped err ''while loading addon''), fs2)
                | Some (Inr (b, charts)) \<Rightarrow> (Inr b, fs2))))"

fun processAddons ::
  "Loader \<Rightarrow> (filesys \<Rightarrow> string result \<times> filesys) \<Rightarrow> string \<Rightarrow> (string \<times> bool) list \<Rightarrow> Addon list \<Rightarrow> filesys
    \<Rightarrow> Addon list result \<times> filesys" where
  "processAddons l tempDir srcDir [] allAddons fs = (Inr allAddons, fs)"
| "processAddons l tempDir srcDir ((name, isDir) # objs) allAddons fs =
     (if \<not> isDir then processAddons l tempDir srcDir objs allAddons fs
      else (case processSingleAddon l tempDir (pathJoin [srcDir, name]) fs of
              (Inl err, fs1) \<Rightarrow> (Inl err, fs1)
            | (Inr b, fs1) \<Rightarrow> processAddons l tempDir srcDir objs (allAddons @ [b]) fs1))"

text \<open>An empty \<open>dstDir\<close> selects the standard output, here the writer \<open>stdout\<close>.\<close>

definition openDst :: "writer \<Rightarrow> string \<Rightarrow> filesys \<Rightarrow> writer result \<times> filesys" where
  "openDst stdout dstDir fs =
     (if dstDir = '''' then (Inr stdout, fs)
      else let fullFilename = pathJoin [dstDir, ''index.yaml''] in
           case createTrunc fullFilename fs of
             (Some err, fs1) \<Rightarrow>
               (Inl (Wrapped err (''while opening file to write (file: '' @ fullFilename @ '')'')), fs1)
           | (None, fs1) \<Rightarrow> (Inr (\<lambda>b s. (None, putNode (locate s fullFilename) (FFile b) s)), fs1))"

definition indexbuilder_main ::
  "Loader \<Rightarrow> (filesys \<Rightarrow> string result \<times> filesys) \<Rightarrow> (indexDTO \<Rightarrow> string result) \<Rightarrow> writer \<Rightarrow> string \<Rightarrow> string \<Rightarrow> filesys
    \<Rightarrow> unit result \<times> filesys" where
  "indexbuilder_main l tempDir yamlMarshal stdout srcDir dstDir fs =
     (case ReadDir fs srcDir of
        Inl err \<Rightarrow> (Inl (Wrapped err ''while listing source dir''), fs)
      | Inr srcObjs \<Rightarrow>
          (case processAddons l tempDir srcDir srcObjs [] fs of
             (Inl err, fs1) \<Rightarrow> (Inl err, fs1)
           | (Inr allAddons, fs1) \<Rightarrow>
               (case openDst stdout dstDir fs1 of
                  (Inl err, fs2) \<Rightarrow> (Inl err, fs2)
                | (Inr dst, fs2) \<Rightarrow>
                    (case render_index yamlMarshal allAddons dst fs2 of
                       (Some err, fs3) \<Rightarrow> (Inl (Wrapped err ''while rendering index''), fs3)
                     | (None, fs3) \<Rightarrow> (Inr (), fs3)))))"

section \<open>Reading the index back\<close>

text \<open>The index of the addon client that the built one decodes to.\<close>

definition decodedEntry :: "indexEntry \<Rightarrow> IndexEntry" where
  "decodedEntry e = \<lparr>ie_Name = xe_Name e, ie_DisplayName = '''', ie_Description = xe_Description e, ie_Version = xe_Version e\<rparr>"

definition decodedIndex :: "indexDTO \<Rightarrow> Index" where
  "decodedIndex i = \<lparr>idx_Entries = map (\<lambda>(n, es). (n, map decodedEntry es)) (xi_Entries i)\<rparr>"

definition listed :: "(AddonName, indexEntry list) gomap \<Rightarrow> AddonName \<Rightarrow> indexEntry list" where
  "listed es n = (case map_of es n of None \<Rightarrow> [] | Some xs \<Rightarrow> xs)"

lemma listed_collect:
  "listed (collectEntries bs es) n = listed es n @ map indexEntryOf (filter (\<lambda>b. ad_Name b = n) bs)"
  by (induction bs es rule: collectEntries.induct) (auto simp: listed_def split: option.splits)

lemma wf_collect: "wf_map es \<Longrightarrow> wf_map (collectEntries bs es)"
  by (induction bs es rule: collectEntries.induct) auto

definition entries_named :: "(AddonName, indexEntry list) gomap \<Rightarrow> bool" where
  "entries_named m \<longleftrightarrow> (\<forall>p \<in> set m. \<forall>e \<in> set (snd p). xe_Name e = fst p)"

lemma entries_named_update:
  "entries_named m \<Longrightarrow> \<forall>e \<in> set es. xe_Name e = n \<Longrightarrow> entries_named (AList.update n es m)"
  unfolding entries_named_def using set_update_subset [of n es m] by auto

lemma collect_named: "entries_named m \<Longrightarrow> entries_named (collectEntries bs m)"
proof (induction bs arbitrary: m)
  case (Cons b bs)
  have "\<forall>e \<in> set (case map_of m (ad_Name b) of None \<Rightarrow> [] | Some xs \<Rightarrow> xs). xe_Name e = ad_Name b"
    using Cons.prems by (cases "map_of m (ad_Name b)") (auto simp: entries_named_def dest!: map_of_SomeD)
  then have "\<forall>e \<in> set ((case map_of m (ad_Name b) of None \<Rightarrow> [] | Some xs \<Rightarrow> xs) @ [indexEntryOf b]). xe_Name e = ad_Name b"
    by (simp add: indexEntryOf_def)
  from Cons.IH [OF entries_named_update [OF Cons.prems this]] show ?case by simp
qed simp

lemma map_of_map_snd: "map_of (map (\<lambda>(n, x). (n, f x)) m) k = map_option f (map_of m k)"
  by (induction m) auto

lemma fillNames_id:
  assumes "\<forall>(n, es) \<in> set m. \<forall>e \<in> set es. ie_Name e = n"
  shows "fillNames m = m"
  using assms
proof (induction m)
  case (Cons p m)
  obtain n es where p: "p = (n, es)" by fastforce
  have "map (\<lambda>e. e\<lparr>ie_Name := n\<rparr>) es = es" using Cons.prems p by (intro map_idI) auto
  with Cons p show ?case by simp
qed simp

text \<open>
  The index that was written to a file for some addons is read back by the addon client with one entry for every
  addon, under its name and in the order of the addons, given that decoding undoes encoding.
\<close>

theorem index_round_trip:
  assumes "render_index yamlMarshal bs (\<lambda>b s. (None, putNode k (FFile b) s)) fs0 = (None, fs')"
    and "k \<noteq> []" "nodeAt fs' k = Some (FFile out)"
    and "\<And>i b. yamlMarshal i = Inr b \<Longrightarrow> cl_yamlIndex d b = Inr (decodedIndex i)"
    and "rg_IndexReader (cl_concreteGetter d) fs = (Inr (Inr out), fs1)"
  shows "\<exists>idx. GetIndex d fs = (Inr idx, fs1) \<and> wf_map (idx_Entries idx) \<and>
    (\<forall>n. (case map_of (idx_Entries idx) n of None \<Rightarrow> [] | Some es \<Rightarrow> es) =
       map (decodedEntry \<circ> indexEntryOf) (filter (\<lambda>b. ad_Name b = n) bs))"
proof -
  let ?m = "collectEntries bs []" and ?idx = "decodedIndex (indexOf bs)"
  have entries: "idx_Entries ?idx = map (\<lambda>(n, es). (n, map decodedEntry es)) ?m"
    by (simp add: decodedIndex_def indexOf_def)
  have "yamlMarshal (indexOf bs) = Inr out"
    using assms(1-3) by (auto simp: render_index_def split: sum.splits)
  from assms(4) [OF this] have decoded: "cl_yamlIndex d out = Inr ?idx" .
  have "\<forall>(n, es) \<in> set (idx_Entries ?idx). \<forall>e \<in> set es. ie_Name e = n"
    using collect_named [of "[]" bs] by (auto simp: entries decodedEntry_def entries_named_def)
  then have "GetIndex d fs = (Inr ?idx, fs1)"
    using decoded assms(5) by (simp add: GetIndex_def fillNames_id)
  moreover have "wf_map (idx_Entries ?idx)"
    using wf_collect [of "[]" bs] by (simp add: entries wf_map_def comp_def case_prod_unfold)
  moreover have "(case map_of (idx_Entries ?idx) n of None \<Rightarrow> [] | Some es \<Rightarrow> es) =
      map (decodedEntry \<circ> indexEntryOf) (filter (\<lambda>b. ad_Name b = n) bs)" for n
    using listed_collect [of bs "[]" n] by (auto simp: entries map_of_map_snd listed_def split: option.splits)
  ultimately show ?thesis by blast
qed

end
