(* ===== verification/Targz.thy ===== *)
theory Targz
  imports AddonLoader "HOL-Library.Word"
begin

text \<open>
  The packer of addons, \<open>cmd/targz\<close>: every addon directory of a repository becomes a compressed archive, which
  the loader of addons unpacks again. The parts of \<open>archiver\<close> that make archives and that recognise
  them are modelled; \<open>encode\<close> is the compressed text of a sequence of entries. The file system has no links.
\<close>

section \<open>Making archives\<close>

definition strTrimPrefix :: "string \<Rightarrow> string \<Rightarrow> string" where
  "strTrimPrefix s p = (if strHasPrefix s p then drop (length p) s else s)"

text \<open>
  \<open>filepath.Walk\<close> visits a directory before what is in it, entries by name: the nodes below the
  source in the lexical order of their paths. A node is given by its path from the source.
\<close>

definition walkNodes :: "filesys \<Rightarrow> string \<Rightarrow> (string list \<times> fnode) list" where
  "walkNodes fs source =
     (let k = locate fs source in
      map (\<lambda>(q, n). (drop (length k) q, n)) (sort_key fst (filter (\<lambda>(q, n). prefix k q) (fs_nodes fs))))"

definition walkPath :: "string \<Rightarrow> string list \<Rightarrow> string" where
  "walkPath source r = (if r = [] then source else pathJoin (source # r))"

definition headerFor :: "string \<Rightarrow> fnode \<Rightarrow> Header" where
  "headerFor name n = \<lparr>hd_Name = name, hd_Typeflag = (if n = FDir then TypeDir else TypeReg), hd_Mode = 0,
     hd_Content = (case n of FDir \<Rightarrow> '''' | FFile c \<Rightarrow> c), hd_Err = None\<rparr>"

text \<open>The function that is called for a visited node; nothing is written for the archive itself.\<close>

definition tarVisit :: "filesys \<Rightarrow> string \<Rightarrow> string \<Rightarrow> string \<Rightarrow> string list \<times> fnode \<Rightarrow> Header option result" where
  "tarVisit fs baseDir source dest rn =
     (let path = walkPath source (fst rn); n = snd rn in
      case fs_fault fs (locate fs path) of
        Some err \<Rightarrow> Inl (ErrorString (''error walking to '' @ path @ '': '' @ Error err))
      | None \<Rightarrow>
          (let name = (if baseDir \<noteq> '''' then pathJoin [baseDir, strTrimPrefix path source] else pathBase path) in
           if name = dest then Inr None
           else Inr (Some (headerFor (if n = FDir then name @ ''/'' else name) n))))"

fun tarWalk :: "filesys \<Rightarrow> string \<Rightarrow> string \<Rightarrow> string \<Rightarrow> (string list \<times> fnode) list \<Rightarrow> error option \<times> Header list" where
  "tarWalk fs baseDir source dest [] = (None, [])"
| "tarWalk fs baseDir source dest (rn # rns) =
     (case tarVisit fs baseDir source dest rn of
        Inl err \<Rightarrow> (Some err, [])
      | Inr h \<Rightarrow>
          (case tarWalk fs baseDir source dest rns of
             (err, hs) \<Rightarrow> (err, (case h of None \<Rightarrow> [] | Some x \<Rightarrow> [x]) @ hs)))"

definition tarFile :: "filesys \<Rightarrow> string \<Rightarrow> string \<Rightarrow> error option \<times> Header list" where
  "tarFile fs source dest =
     (case Stat fs source of
        Inl err \<Rightarrow> (Some (ErrorString (source @ '': stat: '' @ Error err)), [])
      | Inr info \<Rightarrow> tarWalk fs (if info = FDir then pathBase source else '''') source dest (walkNodes fs source))"

fun tarball :: "filesys \<Rightarrow> string list \<Rightarrow> string \<Rightarrow> error option \<times> Header list" where
  "tarball fs [] dest = (None, [])"
| "tarball fs (fpath # fpaths) dest =
     (case tarFile fs fpath dest of
        (Some err, hs) \<Rightarrow> (Some err, hs)
      | (None, hs) \<Rightarrow> (case tarball fs fpaths dest of (err, hs') \<Rightarrow> (err, hs @ hs')))"

definition writeTar :: "filesys \<Rightarrow> string list \<Rightarrow> string \<Rightarrow> error option \<times> Header list" where
  "writeTar fs filePaths dest = tarball fs filePaths dest"

definition writeTarGz :: "filesys \<Rightarrow> string list \<Rightarrow> string \<Rightarrow> error option \<times> Header list" where
  "writeTarGz fs filePaths dest = writeTar fs filePaths dest"

definition tar_Write :: "filesys \<Rightarrow> string list \<Rightarrow> error option \<times> Header list" where
  "tar_Write fs filePaths = writeTar fs filePaths ''''"

definition targz_Write :: "filesys \<Rightarrow> string list \<Rightarrow> error option \<times> Header list" where
  "targz_Write fs filePaths = writeTarGz fs filePaths ''''"

definition tar_Make :: "(Header list \<Rightarrow> string) \<Rightarrow> string \<Rightarrow> string list \<Rightarrow> filesys \<Rightarrow> error option \<times> filesys" where
  "tar_Make encode tarPath filePaths fs =
     (case createTrunc tarPath fs of
        (Some err, fs1) \<Rightarrow> (Some (ErrorString (''error creating '' @ tarPath @ '': '' @ Error err)), fs1)
      | (None, fs1) \<Rightarrow>
          (case writeTar fs1 filePaths tarPath of
             (err, hs) \<Rightarrow> (err, putNode (locate fs1 tarPath) (FFile (encode hs)) fs1)))"

definition targz_Make :: "(Header list \<Rightarrow> string) \<Rightarrow> string \<Rightarrow> string list \<Rightarrow> filesys \<Rightarrow> error option \<times> filesys" where
  "targz_Make encode targzPath filePaths fs =
     (case createTrunc targzPath fs of
        (Some err, fs1) \<Rightarrow> (Some (ErrorString (''error creating '' @ targzPath @ '': '' @ Error err)), fs1)
      | (None, fs1) \<Rightarrow>
          (case writeTarGz fs1 filePaths targzPath of
             (err, hs) \<Rightarrow> (err, putNode (locate fs1 targzPath) (FFile (encode hs)) fs1)))"

fun archiveLoop ::
  "(Header list \<Rightarrow> string) \<Rightarrow> string \<Rightarrow> string \<Rightarrow> (string \<times> bool) list \<Rightarrow> filesys \<Rightarrow> error option \<times> filesys" where
  "archiveLoop encode inDir outDir [] fs = (None, fs)"
| "archiveLoop encode inDir outDir ((name, isDir) # addons) fs =
     (if isDir
      then (let addonPath = pathJoin [inDir, name] in
            case ReadDir fs addonPath of
              Inl err \<Rightarrow> (Some (Wrapped err (''while reading addon '' @ [CHR 0x27] @ addonPath @ [CHR 0x27])), fs)
            | Inr addonContent \<Rightarrow>
                (let tarGzFile = pathJoin [outDir, name @ ''.tgz''] in
                 case targz_Make encode tarGzFile (map (\<lambda>elem. pathJoin [addonPath, fst elem]) addonContent) fs of
                   (Some err, fs1) \<Rightarrow>
                     (Some (Wrapped err (''while creating archive '' @ [CHR 0x27] @ tarGzFile @ [CHR 0x27])), fs1)
                 | (None, fs1) \<Rightarrow> archiveLoop encode inDir outDir addons fs1))
      else archiveLoop encode inDir outDir addons fs)"

definition archiveAddons :: "(Header list \<Rightarrow> string) \<Rightarrow> string \<Rightarrow> string \<Rightarrow> filesys \<Rightarrow> error option \<times> filesys" where
  "archiveAddons encode inDir outDir fs =
     (case ReadDir fs inDir of
        Inl err \<Rightarrow> (Some (Wrapped err ''while reading input directory''), fs)
      | Inr addons \<Rightarrow> archiveLoop encode inDir outDir addons fs)"

section \<open>Recognising archives\<close>

definition tarBlockSize :: nat where
  "tarBlockSize = 512"

text \<open>\<open>strconv.ParseUint\<close> in base eight for 64 bits.\<close>

fun parseOctal :: "nat \<Rightarrow> string \<Rightarrow> nat option" where
  "parseOctal acc [] = Some acc"
| "parseOctal acc (c # cs) =
     (if CHR ''0'' \<le> c \<and> c \<le> CHR ''7'' \<and> acc * 8 + (of_char c - 48) < 2 ^ 64
      then parseOctal (acc * 8 + (of_char c - 48)) cs else None)"

definition parseUint8 :: "string \<Rightarrow> 64 word option" where
  "parseUint8 s = (if s = '''' then None else map_option of_nat (parseOctal 0 s))"

text \<open>The two sums run over all bytes, with blanks for the bytes of the checksum itself.\<close>

definition sumByte :: "nat \<Rightarrow> 8 word \<Rightarrow> 8 word" where
  "sumByte i c = (if 148 \<le> i \<and> i < 156 then 0x20 else c)"

fun tarSums :: "nat \<Rightarrow> 8 word list \<Rightarrow> 64 word \<Rightarrow> 64 word \<Rightarrow> 64 word \<times> 64 word" where
  "tarSums i [] usum ssum = (usum, ssum)"
| "tarSums i (c # cs) usum ssum =
     tarSums (i + 1) cs (usum + ucast (sumByte i c)) (ssum + scast (sumByte i c))"

definition hasTarHeader :: "8 word list \<Rightarrow> bool" where
  "hasTarHeader buf =
     (if length buf < tarBlockSize then False
      else let b = strTrim (map (\<lambda>c. char_of (unat c)) (take 8 (drop 148 buf))) [CHR '' '', CHR 0x00] in
           if length b = 0 then False
           else (case parseUint8 b of
                   None \<Rightarrow> False
                 | Some hdrSum \<Rightarrow>
                     (case tarSums 0 buf 0 0 of (usum, ssum) \<Rightarrow> \<not> (hdrSum \<noteq> usum \<and> hdrSum \<noteq> ssum))))"

text \<open>The first block of a file; \<open>gunzip\<close> is what the first read of the decompressed file returns.\<close>

definition isTar :: "filesys \<Rightarrow> string \<Rightarrow> bool" where
  "isTar fs tarPath =
     (case Open fs tarPath of
        Inl err \<Rightarrow> False
      | Inr (Inl err) \<Rightarrow> False
      | Inr (Inr c) \<Rightarrow>
          if length c < tarBlockSize then False else hasTarHeader (map of_char (take tarBlockSize c)))"

definition isTarGz :: "(string \<Rightarrow> string result) \<Rightarrow> filesys \<Rightarrow> string \<Rightarrow> bool" where
  "isTarGz gunzip fs targzPath =
     (case Open fs targzPath of
        Inl err \<Rightarrow> False
      | Inr (Inl err) \<Rightarrow> False
      | Inr (Inr c) \<Rightarrow>
          (case gunzip c of
             Inl err \<Rightarrow> False
           | Inr buf \<Rightarrow> if length buf < tarBlockSize then False else hasTarHeader (map of_char (take tarBlockSize buf))))"

section \<open>The sums of a header\<close>

fun byteSum :: "(8 word \<Rightarrow> int) \<Rightarrow> nat \<Rightarrow> 8 word list \<Rightarrow> int" where
  "byteSum f i [] = 0"
| "byteSum f i (c # cs) = f (sumByte i c) + byteSum f (i + 1) cs"

lemma tarSums_eq: "tarSums i cs usum ssum = (usum + of_int (byteSum uint i cs), ssum + of_int (byteSum sint i cs))"
  by (induction i cs usum ssum rule: tarSums.induct) (simp_all add: add.assoc)

lemma byteSum_bounds:
  "0 \<le> byteSum uint i cs \<and> byteSum uint i cs \<le> 255 * int (length cs) \<and>
   - 128 * int (length cs) \<le> byteSum sint i cs \<and> byteSum sint i cs \<le> 127 * int (length cs)"
proof (induction cs arbitrary: i)
  case (Cons c cs)
  let ?b = "sumByte i c"
  have "0 \<le> uint ?b" "uint ?b \<le> 255" using uint_range_size [of ?b] by (auto simp: word_size)
  moreover have "- 128 \<le> sint ?b" "sint ?b \<le> 127" using sint_range_size [of ?b] by (auto simp: word_size)
  ultimately show ?case using Cons.IH [of "i + 1"] by simp
qed simp

lemma parseOctal_bound: "parseOctal acc s = Some h \<Longrightarrow> h < (acc + 1) * 8 ^ length s"
proof (induction acc s rule: parseOctal.induct)
  case (2 acc c cs)
  then have c: "c \<le> CHR ''7''" and h: "h < (acc * 8 + (of_char c - 48) + 1) * 8 ^ length cs" by (auto split: if_splits)
  from c have "(of_char c :: nat) \<le> 55" by (simp add: less_eq_char_def)
  then have "(acc * 8 + (of_char c - 48) + 1) \<le> (acc + 1) * 8" by simp
  then have "(acc * 8 + (of_char c - 48) + 1) * 8 ^ length cs \<le> (acc + 1) * 8 * 8 ^ length cs" by (rule mult_le_mono1)
  with h have "h < (acc + 1) * 8 * 8 ^ length cs" by (rule less_le_trans)
  then show ?case by (simp only: length_Cons power_Suc mult.assoc)
qed simp

lemma word_eq_small:
  assumes "0 \<le> h" "h < 2 ^ 24" "- (2 ^ 40) < S" "S < 2 ^ 40"
  shows "(of_int h :: 64 word) = of_int S \<longleftrightarrow> h = S"
proof -
  have h: "h mod 2 ^ 64 = h" using assms by simp
  have "S mod 2 ^ 64 = (if S < 0 then S + 2 ^ 64 else S)"
  proof (cases "S < 0")
    case True
    have "S mod 2 ^ 64 = (S + 2 ^ 64) mod 2 ^ 64" by simp
    also have "\<dots> = S + 2 ^ 64" using assms True by (intro mod_pos_pos_trivial) simp_all
    finally show ?thesis using True by simp
  qed (use assms in simp)
  with h assms show ?thesis by (auto simp: word_of_int_eq_iff take_bit_eq_mod split: if_splits)
qed

text \<open>
  The sums of a block do not wrap around: the check of a header compares its checksum, eight
  octal digits at most, with the sums of the bytes as integers.
\<close>

theorem hasTarHeader_exact:
  assumes "tarBlockSize \<le> length buf" "length buf < 2 ^ 32"
  defines "b \<equiv> strTrim (map (\<lambda>c. char_of (unat c)) (take 8 (drop 148 buf))) [CHR '' '', CHR 0x00]"
  shows "hasTarHeader buf \<longleftrightarrow> b \<noteq> '''' \<and>
    (\<exists>h. parseOctal 0 b = Some h \<and> (int h = byteSum uint 0 buf \<or> int h = byteSum sint 0 buf))"
proof -
  have len: "length b \<le> 8" unfolding b_def using length_strTrim [of "map (\<lambda>c. char_of (unat c)) (take 8 (drop 148 buf))"] by (rule le_trans) simp
  have small: "int h < 2 ^ 24" if "parseOctal 0 b = Some h" for h
  proof -
    have "h < 8 ^ length b" using parseOctal_bound [OF that] by simp
    also have "\<dots> \<le> (8::nat) ^ 8" using len by (intro power_increasing) simp_all
    finally show ?thesis by simp
  qed
  note bounds = byteSum_bounds [of 0 buf]
  have eq: "(of_nat h :: 64 word) = of_int S \<longleftrightarrow> int h = S"
    if "parseOctal 0 b = Some h" "S \<in> {byteSum uint 0 buf, byteSum sint 0 buf}" for h S
    using word_eq_small [of "int h" S] small [OF that(1)] that(2) bounds assms(2) by auto
  show ?thesis
    using assms(1) eq by (auto simp: hasTarHeader_def b_def [symmetric] parseUint8_def tarSums_eq Let_def split: option.splits)
qed
end
