(* ===== verification/TargzTree.thy ===== *)
theory TargzTree
  imports Targz
begin

text \<open>
  What the packer writes for the content of a directory, and that unpacking it to a fresh directory gives
  the same tree.
\<close>

section \<open>Paths in their canonical form\<close>

definition good :: "string list \<Rightarrow> bool" where
  "good q \<longleftrightarrow> list_all (\<lambda>s. segment s \<and> s \<noteq> ''..'') q"

definition canon :: "string list \<Rightarrow> string" where
  "canon q = ''/'' @ strJoin q ''/''"

lemma good_simps [simp]: "good []" "good (s # q) \<longleftrightarrow> segment s \<and> s \<noteq> ''..'' \<and> good q"
  "good (q @ r) \<longleftrightarrow> good q \<and> good r"
  by (simp_all add: good_def)

lemma good_segments: "good q \<Longrightarrow> pathSegments (strJoin q ''/'') = q"
  by (rule pathSegments_strJoin) (auto simp: good_def list_all_iff)

lemma good_no_dots: "good q \<Longrightarrow> ''..'' \<notin> set q"
  by (auto simp: good_def list_all_iff)

lemma rooted_canon [simp]: "rooted (canon q)"
  by (simp add: rooted_def canon_def)

lemma locate_canon: "good q \<Longrightarrow> locate fs (canon q) = q"
  using pathSegments_append [of "''''" "strJoin q ''/''"]
  by (simp add: locate_rooted) (simp add: canon_def good_segments cleanSegments_id good_no_dots)

lemma good_locate: "rooted p \<Longrightarrow> good (locate fs p)"
  using cleanSegments_rooted_no_dots [of "[]"] cleanSegments_segment [of "[]" "pathSegments p"] segment_pathSegments [of _ p]
  by (fastforce simp: locate_rooted good_def list_all_iff)

lemma pathClean_canon: "rooted p \<Longrightarrow> pathClean p = canon (locate fs p)"
  by (simp add: locate_rooted pathClean_def canon_def Let_def)

lemma strJoin_Cons: "q \<noteq> [] \<Longrightarrow> strJoin (s # q) sep = s @ sep @ strJoin q sep"
  by (cases q) simp_all

lemma strJoin_eq_Nil: "good q \<Longrightarrow> strJoin q ''/'' = '''' \<longleftrightarrow> q = []"
  by (cases q rule: remdups_adj.cases) (auto simp: segment_def)

lemma pathJoin_canon:
  assumes "rooted p" "good q"
  shows "pathJoin (p # q) = canon (locate fs p @ q)"
proof -
  have p: "p \<noteq> ''''" using assms(1) by (auto simp: rooted_def)
  have "filter (\<lambda>e. e \<noteq> '''') q = q" using assms(2) by (auto simp: good_def list_all_iff segment_def intro: filter_True)
  with p have j: "pathJoin (p # q) = pathClean (strJoin (p # q) ''/'')" by (simp add: pathJoin_def)
  show ?thesis
  proof (cases "q = []")
    case True
    with j assms(1) show ?thesis by (simp add: pathClean_canon [of _ fs])
  next
    case False
    then have e: "strJoin (p # q) ''/'' = p @ ''/'' @ strJoin q ''/''" by (simp add: strJoin_Cons)
    have "rooted (p @ ''/'' @ strJoin q ''/'')" using assms(1) by (rule rooted_append)
    moreover from this have "locate fs (p @ ''/'' @ strJoin q ''/'') = locate fs p @ q"
      using assms by (simp add: locate_rooted pathSegments_append [simplified] good_segments cleanSegments_append good_no_dots)
    ultimately show ?thesis using j e by (simp add: pathClean_canon [of _ fs])
  qed
qed

lemma strJoin_append: "p \<noteq> [] \<Longrightarrow> q \<noteq> [] \<Longrightarrow> strJoin (p @ q) sep = strJoin p sep @ sep @ strJoin q sep"
proof (induction p)
  case (Cons s p)
  then show ?case by (cases "p = []") (simp_all add: strJoin_Cons)
qed simp

lemma canon_append: "p \<noteq> [] \<Longrightarrow> canon (p @ q) = canon p @ (if q = [] then '''' else canon q)"
  by (simp add: canon_def strJoin_append)

lemma strTrimPrefix_append [simp]: "strTrimPrefix (p @ s) p = s"
  by (simp add: strTrimPrefix_def)

lemma pathBase_canon:
  assumes "segment s"
  shows "pathBase (canon (q @ [s])) = s"
proof -
  have "canon (q @ [s]) = (if q = [] then ''/'' else canon q @ ''/'') @ s"
    by (simp add: canon_append) (simp add: canon_def)
  moreover have "pathBase \<dots> = s" using assms by (intro pathBase_append) (auto simp: segment_def)
  ultimately show ?thesis by simp
qed

lemma not_rooted_strJoin:
  assumes "good (s # q)"
  shows "\<not> rooted (strJoin (s # q) ''/'')" "\<not> rooted (s @ r)"
proof -
  obtain c s' where "s = c # s'" "c \<noteq> CHR ''/''" using assms by (cases s) (auto simp: segment_def)
  then show "\<not> rooted (s @ r)" "\<not> rooted (strJoin (s # q) ''/'')"
    by (cases "q = []"; simp add: rooted_def strJoin_Cons)+
qed

lemma cleanSegments_good: "''..'' \<notin> set q \<Longrightarrow> cleanSegments r [] q = q"
  using cleanSegments_append [of q r "[]" "[]"] by simp

text \<open>The name an entry gets in the archive of a directory.\<close>

lemma pathJoin_base:
  assumes "good (s # q)"
  shows "pathJoin [s, if q = [] then '''' else canon q] = strJoin (s # q) ''/''"
proof (cases "q = []")
  case True
  have "pathClean s = s"
    using assms not_rooted_strJoin [OF assms] by (simp add: pathClean_def pathSegments_segment cleanSegments_good True)
  with True assms show ?thesis by (simp add: pathJoin_def segment_def)
next
  case False
  let ?p = "s @ ''/'' @ canon q"
  have "pathSegments (canon q) = q" using assms pathSegments_append [of "''''" "strJoin q ''/''"] by (simp add: canon_def good_segments)
  then have "pathSegments ?p = s # q" using assms by (simp add: pathSegments_append [simplified] pathSegments_segment)
  moreover have "\<not> rooted ?p" using not_rooted_strJoin(2) [OF assms] .
  moreover have "cleanSegments False [] (s # q) = s # q" using assms by (intro cleanSegments_good good_no_dots)
  ultimately have "pathClean ?p = strJoin (s # q) ''/''" by (simp add: pathClean_def Let_def del: cleanSegments.simps)
  with assms False show ?thesis by (simp add: pathJoin_def segment_def canon_def)
qed

section \<open>Well-formed trees\<close>

text \<open>Every node has a valid path, and lies in a directory.\<close>

definition fs_wf :: "filesys \<Rightarrow> bool" where
  "fs_wf fs \<longleftrightarrow> distinct (map fst (fs_nodes fs)) \<and>
     list_all (\<lambda>(k, n). k \<noteq> [] \<and> good k \<and> nodeAt fs (butlast k) = Some FDir) (fs_nodes fs)"

lemma fs_wf_node:
  assumes "fs_wf fs" "nodeAt fs k = Some n"
  shows "good k" "k \<noteq> [] \<Longrightarrow> nodeAt fs (butlast k) = Some FDir"
  using assms by (auto simp: fs_wf_def list_all_iff nodeAt_def split: if_splits dest: map_of_SomeD)

lemma fs_wf_parents:
  assumes "fs_wf fs" "nodeAt fs k = Some n"
  shows "parents_exist k fs"
  using assms(2)
proof (induction k arbitrary: n rule: rev_induct)
  case (snoc s k)
  then have d: "nodeAt fs k = Some FDir" using fs_wf_node(2) [OF assms(1) snoc.prems] by simp
  with snoc.IH [OF d] show ?case by (auto simp: parents_exist_def strict_prefix_def)
qed (simp add: parents_exist_def)

lemma parents_not_throughFile: "parents_exist k fs \<Longrightarrow> \<not> throughFile fs k"
proof -
  assume "parents_exist k fs"
  moreover have "strict_prefix p k" if "p \<in> set (butlast (prefixes k))" for p
    using that by (cases k rule: rev_cases) (auto simp: prefixes_snoc strict_prefix_def)
  ultimately show ?thesis by (fastforce simp: throughFile_def list_ex_iff parents_exist_def)
qed

lemma Stat_node:
  assumes "fs_wf fs" "nodeAt fs (locate fs p) = Some n" "fs_fault fs (locate fs p) = None"
  shows "Stat fs p = Inr n"
  using assms fs_wf_parents parents_not_throughFile by (simp add: Stat_def Let_def)

lemma node_in_nodes: "fs_wf fs \<Longrightarrow> k \<noteq> [] \<Longrightarrow> (k, n) \<in> set (fs_nodes fs) \<longleftrightarrow> nodeAt fs k = Some n"
  by (simp add: fs_wf_def nodeAt_def)

section \<open>The entries of an archive\<close>

definition entryHeader :: "string list \<times> fnode \<Rightarrow> Header" where
  "entryHeader qn = headerFor (strJoin (fst qn) ''/'' @ (if snd qn = FDir then ''/'' else '''')) (snd qn)"

definition entriesOf :: "filesys \<Rightarrow> string list \<Rightarrow> string \<Rightarrow> (string list \<times> fnode) list" where
  "entriesOf fs a s = map (\<lambda>(r, n). (s # r, n)) (walkNodes fs (canon (a @ [s])))"

lemma tarVisit_dir:
  assumes "good (a @ s # r)" "fs_fault fs (a @ s # r) = None" "rooted dest"
  shows "tarVisit fs s (canon (a @ [s])) dest (r, n) = Inr (Some (entryHeader (s # r, n)))"
proof -
  have "walkPath (canon (a @ [s])) r = canon (a @ s # r)"
    using assms(1) pathJoin_canon [of "canon (a @ [s])" r] by (simp add: walkPath_def locate_canon)
  moreover have "strTrimPrefix (canon (a @ s # r)) (canon (a @ [s])) = (if r = [] then '''' else canon r)"
    using canon_append [of "a @ [s]" r] by simp
  moreover have "pathJoin [s, if r = [] then '''' else canon r] = strJoin (s # r) ''/''"
    using assms(1) by (intro pathJoin_base) simp
  moreover have "s \<noteq> ''''" "strJoin (s # r) ''/'' \<noteq> dest"
    using assms not_rooted_strJoin [of s r] by (auto simp: segment_def)
  ultimately show ?thesis using assms by (simp add: tarVisit_def Let_def locate_canon entryHeader_def)
qed

lemma tarVisit_file:
  assumes "good (a @ [s])" "fs_fault fs (a @ [s]) = None" "rooted dest"
  shows "tarVisit fs '''' (canon (a @ [s])) dest ([], FFile c) = Inr (Some (entryHeader ([s], FFile c)))"
  using assms not_rooted_strJoin [of s "[]"]
  by (auto simp: tarVisit_def Let_def walkPath_def locate_canon pathBase_canon entryHeader_def)

lemma tarWalk_all:
  assumes "\<forall>rn \<in> set rns. tarVisit fs b source dest rn = Inr (Some (g rn))"
  shows "tarWalk fs b source dest rns = (None, map g rns)"
  using assms by (induction rns) auto

lemma walkNodes_set:
  assumes "fs_wf fs" "good k" "k \<noteq> []"
  shows "(r, n) \<in> set (walkNodes fs (canon k)) \<longleftrightarrow> nodeAt fs (k @ r) = Some n"
proof -
  have "(r, n) \<in> set (walkNodes fs (canon k)) \<longleftrightarrow> (k @ r, n) \<in> set (fs_nodes fs)"
    using assms by (force simp: walkNodes_def Let_def locate_canon prefix_def)
  with assms show ?thesis by (simp add: node_in_nodes)
qed

lemma walkNodes_file:
  assumes "fs_wf fs" "good k" "k \<noteq> []" "nodeAt fs k = Some (FFile c)" "(r, n) \<in> set (walkNodes fs (canon k))"
  shows "r = []"
proof (rule ccontr)
  assume "r \<noteq> []"
  with assms have "parents_exist (k @ r) fs" by (auto simp: walkNodes_set dest: fs_wf_parents)
  with \<open>r \<noteq> []\<close> assms(4) show False by (auto simp: parents_exist_def strict_prefix_def)
qed

lemma tarFile_entries:
  assumes "fs_wf fs" "\<forall>k. fs_fault fs k = None" "nodeAt fs (a @ [s]) = Some n" "rooted dest"
  shows "tarFile fs (canon (a @ [s])) dest = (None, map entryHeader (entriesOf fs a s))"
proof -
  let ?src = "canon (a @ [s])"
  have good: "good (a @ [s])" using fs_wf_node [OF assms(1,3)] by simp
  have stat: "Stat fs ?src = Inr n" using assms good by (intro Stat_node) (simp_all add: locate_canon)
  have node: "nodeAt fs (a @ s # r) = Some m" if "(r, m) \<in> set (walkNodes fs ?src)" for r m
    using that good assms(1) by (simp add: walkNodes_set)
  have "tarVisit fs (if n = FDir then pathBase ?src else '''') ?src dest rm = Inr (Some (entryHeader (s # fst rm, snd rm)))"
    if rm: "rm \<in> set (walkNodes fs ?src)" for rm
  proof -
    obtain r m where [simp]: "rm = (r, m)" by force
    from node rm have m: "nodeAt fs (a @ s # r) = Some m" by simp
    show ?thesis
    proof (cases n)
      case FDir
      with fs_wf_node(1) [OF assms(1) m] good assms show ?thesis by (simp add: pathBase_canon tarVisit_dir)
    next
      case (FFile c)
      then have "r = []" using walkNodes_file [OF assms(1) good _ _, of c r m] assms(3) rm by simp
      with m assms FFile good show ?thesis by (auto simp: tarVisit_file)
    qed
  qed
  then have "tarWalk fs (if n = FDir then pathBase ?src else '''') ?src dest (walkNodes fs ?src)
      = (None, map (\<lambda>rm. entryHeader (s # fst rm, snd rm)) (walkNodes fs ?src))" by (intro tarWalk_all) blast
  with stat show ?thesis by (simp add: tarFile_def entriesOf_def split_beta comp_def)
qed

lemma tarball_entries:
  assumes "fs_wf fs" "\<forall>k. fs_fault fs k = None" "\<forall>s \<in> set names. nodeAt fs (a @ [s]) \<noteq> None" "rooted dest"
  shows "tarball fs (map (\<lambda>s. canon (a @ [s])) names) dest = (None, map entryHeader (concat (map (entriesOf fs a) names)))"
  using assms(3)
proof (induction names)
  case (Cons s names)
  then obtain n where "nodeAt fs (a @ [s]) = Some n" by auto
  from tarFile_entries [OF assms(1,2) this assms(4)] Cons show ?case by simp
qed simp

section \<open>Unpacking what was packed\<close>

text \<open>Entries whose directories come before them, and which are not there yet.\<close>

fun installable :: "(string list \<Rightarrow> fnode option) \<Rightarrow> (string list \<times> fnode) list \<Rightarrow> bool" where
  "installable f [] = True"
| "installable f ((q, n) # xs) =
     (good q \<and> q \<noteq> [] \<and> f q = None \<and> (\<forall>p. strict_prefix p q \<longrightarrow> f p = Some FDir) \<and> installable (f(q \<mapsto> n)) xs)"

lemma strict_prefix_less: "strict_prefix p q \<Longrightarrow> p < (q :: 'a :: linorder list)"
  by (induction p q rule: list_induct2') auto

lemma sorted_installable:
  assumes "sorted (map fst xs)" "distinct (map fst xs)"
    and "\<forall>(q, n) \<in> set xs. good q \<and> q \<noteq> [] \<and> f q = None \<and>
      (\<forall>p. strict_prefix p q \<longrightarrow> f p = Some FDir \<or> (p, FDir) \<in> set xs)"
  shows "installable f xs"
  using assms
proof (induction f xs rule: installable.induct)
  case (2 f q n xs)
  have first: "f p = Some FDir" if "strict_prefix p q" for p
  proof -
    from that have "p < q" by (rule strict_prefix_less)
    with "2.prems"(1) have "(p, FDir) \<notin> set ((q, n) # xs)" by (auto simp: not_less [symmetric])
    with "2.prems"(3) that show ?thesis by auto
  qed
  have "installable (f(q \<mapsto> n)) xs"
  proof (rule "2.IH")
    show "\<forall>(q', n') \<in> set xs. good q' \<and> q' \<noteq> [] \<and> (f(q \<mapsto> n)) q' = None \<and>
      (\<forall>p. strict_prefix p q' \<longrightarrow> (f(q \<mapsto> n)) p = Some FDir \<or> (p, FDir) \<in> set xs)"
      using "2.prems"(2,3) by (fastforce simp: image_iff)
  qed (use "2.prems"(1,2) in simp_all)
  with first "2.prems"(3) show ?case by simp
qed simp

fun tarOf :: "Header list \<Rightarrow> archive" where
  "tarOf [] = TarEOF"
| "tarOf (h # hs) = TarNext h (tarOf hs)"

lemma locate_putNode [simp]: "locate (putNode k n fs) p = locate fs p"
  by (simp add: locate_def pathAbs_def putNode_def)

lemma fault_putNode [simp]: "fs_fault (putNode k n fs) = fs_fault fs"
  by (simp add: putNode_def)

lemma mkdirs_dirs: "\<forall>k \<in> set ks. nodeAt fs k = Some FDir \<Longrightarrow> mkdirs p (ks @ xs) fs = mkdirs p xs fs"
  by (induction ks) simp_all

lemma MkdirAll_new:
  assumes "parents_exist (locate fs p) fs" "nodeAt fs (locate fs p) = None" "fs_fault fs (locate fs p) = None"
  shows "MkdirAll p fs = (None, putNode (locate fs p) FDir fs)"
proof -
  obtain k s where k: "locate fs p = k @ [s]" using assms(2) by (cases "locate fs p" rule: rev_cases) (auto simp: nodeAt_def)
  have "\<forall>q \<in> set (prefixes k). nodeAt fs q = Some FDir"
    using assms(1) k by (auto simp: parents_exist_def strict_prefix_def prefix_def)
  from mkdirs_dirs [OF this] assms(2,3) k show ?thesis by (simp add: MkdirAll_def prefixes_snoc)
qed

lemma unpackEntry_new:
  assumes "rooted dir" "good q" "parents_exist (locate fs dir @ q) fs" "nodeAt fs (locate fs dir @ q) = None"
    and "fs_fault fs (locate fs dir @ q) = None"
  shows "unpackEntry dir (entryHeader (q, n)) fs = (None, putNode (locate fs dir @ q) n fs)"
proof -
  let ?k = "locate fs dir @ q" and ?p = "pathJoin [dir, hd_Name (entryHeader (q, n))]"
  have "pathSegments (hd_Name (entryHeader (q, n))) = q"
    using pathSegments_append [of "strJoin q ''/''" "''''"] assms(2)
    by (simp add: entryHeader_def headerFor_def good_segments)
  with assms(1,2) have k: "locate fs ?p = ?k" by (simp add: locate_pathJoin good_no_dots)
  note through = parents_not_throughFile [OF assms(3)]
  have "q \<noteq> [] \<or> locate fs dir \<noteq> []" using assms(4) by (auto simp: nodeAt_def)
  then have "strict_prefix (butlast ?k) ?k" by (simp add: strict_prefix_def prefixeq_butlast)
     (metis append_butlast_last_id append_is_Nil_conv not_Cons_self2 self_append_conv)
  with assms(3) have above: "nodeAt fs (butlast ?k) = Some FDir" by (simp add: parents_exist_def)
  show ?thesis
  proof (cases n)
    case FDir
    have "Stat fs ?p = Inl (PathNotExist ?p)" using k through assms(4,5) by (simp add: Stat_def Let_def)
    moreover have "MkdirAll ?p fs = (None, putNode ?k FDir fs)" using MkdirAll_new [of fs ?p] k assms by simp
    ultimately show ?thesis using FDir by (simp add: unpackEntry_def Let_def entryHeader_def headerFor_def IsNotExist_def)
  next
    case (FFile c)
    then have "OpenAndCopy ?p c None fs = (None, putNode ?k (FFile c) fs)"
      using k through assms(4,5) above by (simp add: OpenAndCopy_def Let_def)
    with FFile show ?thesis by (simp add: unpackEntry_def createFile_def Let_def entryHeader_def headerFor_def)
  qed
qed

lemma fs_wf_put:
  assumes "fs_wf fs" "good k" "nodeAt fs k = Some FDir \<Longrightarrow> n = FDir" "k \<noteq> []" "nodeAt fs (butlast k) = Some FDir"
  shows "fs_wf (putNode k n fs)"
proof -
  let ?fs = "putNode k n fs"
  have kk: "butlast k \<noteq> k" using assms(4) by (metis append_butlast_last_id not_Cons_self2 self_append_conv)
  have dist: "distinct (map fst (fs_nodes ?fs))" using assms(1) by (simp add: fs_wf_def putNode_def distinct_update)
  have "q \<noteq> [] \<and> good q \<and> nodeAt ?fs (butlast q) = Some FDir" if "(q, m) \<in> set (fs_nodes ?fs)" for q m
  proof (cases "q = k")
    case False
    with that set_update_subset [of k n "fs_nodes fs"] have "(q, m) \<in> set (fs_nodes fs)" by (auto simp: putNode_def)
    with assms(1) have "q \<noteq> []" "good q" "nodeAt fs (butlast q) = Some FDir" by (auto simp: fs_wf_def list_all_iff)
    with assms(3,4) show ?thesis by auto
  qed (use assms kk in simp)
  with dist show ?thesis by (auto simp: fs_wf_def list_all_iff)
qed

lemma unpack_installable:
  assumes "rooted dir" "\<forall>k. fs_fault fs k = None" "parents_exist (locate fs dir) fs" "distinct (map fst xs)" "fs_wf fs"
    and "installable (\<lambda>q. nodeAt fs (locate fs dir @ q)) xs"
  shows "\<exists>fs'. unpack dir (tarOf (map entryHeader xs)) fs = (None, fs') \<and>
    fs_wf fs' \<and> fs_fault fs' = fs_fault fs \<and> fs_cwd fs' = fs_cwd fs \<and>
    (\<forall>q. nodeAt fs' (locate fs dir @ q) = ((\<lambda>q. nodeAt fs (locate fs dir @ q)) ++ map_of xs) q)"
  using assms
proof (induction xs arbitrary: fs)
  case (Cons x xs)
  obtain q n where [simp]: "x = (q, n)" by force
  let ?d = "locate fs dir" and ?f = "\<lambda>q. nodeAt fs (locate fs dir @ q)" and ?fs = "putNode (locate fs dir @ q) n fs"
  from Cons.prems(6) have q: "good q" "q \<noteq> []" "?f q = None" and above: "\<forall>p. strict_prefix p q \<longrightarrow> ?f p = Some FDir"
    and rest: "installable (?f(q \<mapsto> n)) xs" by auto
  have "nodeAt fs ?d = Some FDir" using spec [OF above, of "[]"] q(2) by (simp add: strict_prefix_def)
  then have "parents_exist (?d @ q) fs"
    using Cons.prems(3) above by (fastforce simp: parents_exist_def strict_prefix_def prefix_append)
  with Cons.prems q have entry: "unpackEntry dir (entryHeader (q, n)) fs = (None, ?fs)" by (intro unpackEntry_new) auto
  have "strict_prefix (butlast q) q" using q(2) by (cases q rule: rev_cases) (auto simp: strict_prefix_def)
  with above q(2) have "nodeAt fs (butlast (?d @ q)) = Some FDir" by (simp add: butlast_append)
  then have wf: "fs_wf ?fs" using Cons.prems(5) q good_locate [OF Cons.prems(1)] by (intro fs_wf_put) auto
  have f: "(\<lambda>p. nodeAt ?fs (?d @ p)) = ?f(q \<mapsto> n)" using q by auto
  have "parents_exist ?d ?fs"
    using Cons.prems(3) q(2) by (auto simp: parents_exist_def strict_prefix_def)
  note ih = Cons.IH [of ?fs, unfolded locate_putNode fault_putNode f, OF Cons.prems(1,2) this _ wf rest]
  obtain fs' where fs': "unpack dir (tarOf (map entryHeader xs)) ?fs = (None, fs')"
    "fs_wf fs' \<and> fs_fault fs' = fs_fault fs \<and> fs_cwd fs' = fs_cwd ?fs"
    "\<forall>p. nodeAt fs' (?d @ p) = ((?f(q \<mapsto> n)) ++ map_of xs) p"
    using ih Cons.prems(4) by auto
  have "?f(q \<mapsto> n) ++ map_of xs = ?f ++ map_of (x # xs)"
    using Cons.prems(4) by (subst map_add_upd_left) (auto simp: dom_map_of_conv_image_fst)
  with fs'(3) have "\<forall>p. nodeAt fs' (?d @ p) = (?f ++ map_of (x # xs)) p" by simp
  moreover have "unpack dir (tarOf (map entryHeader (x # xs))) fs = (None, fs')" using fs'(1) entry by simp
  moreover have "fs_wf fs' \<and> fs_fault fs' = fs_fault fs \<and> fs_cwd fs' = fs_cwd fs" using fs'(2) by (simp add: putNode_def)
  ultimately show ?case by blast
qed auto

section \<open>The order of the entries\<close>

lemma append_less_append [simp]: "k @ x < k @ y \<longleftrightarrow> x < (y :: 'a :: linorder list)"
  by (induction k) auto

lemma distinct_sort_fst: "distinct (map fst (sort_key fst xs)) \<longleftrightarrow> distinct (map fst xs)"
  by (simp add: distinct_map)

lemma walkNodes_sorted:
  assumes "fs_wf fs" "good k"
  shows "sorted_wrt (<) (map fst (walkNodes fs (canon k)))"
proof -
  let ?zs = "sort_key fst (filter (\<lambda>(q, n). prefix k q) (fs_nodes fs))"
  have "distinct (map fst (filter (\<lambda>(q, n). prefix k q) (fs_nodes fs)))"
    using assms(1) by (auto simp: fs_wf_def distinct_map inj_on_def)
  then have "distinct (map fst ?zs)" by (simp only: distinct_sort_fst)
  then have "sorted_wrt (<) (map fst ?zs)" by (simp add: strict_sorted_iff)
  moreover have "map fst ?zs = map ((@) k) (map fst (walkNodes fs (canon k)))"
    using assms by (auto simp: walkNodes_def Let_def locate_canon prefix_def split_beta)
  ultimately show ?thesis by (simp only: sorted_wrt_map append_less_append)
qed

lemma children_names:
  assumes "fs_wf fs"
  shows "sorted_wrt (<) (map fst (children fs a))"
    and "s \<in> fst ` set (children fs a) \<longleftrightarrow> nodeAt fs (a @ [s]) \<noteq> None"
proof -
  let ?xs = "filter (\<lambda>(q, n). q \<noteq> [] \<and> butlast q = a) (fs_nodes fs)"
  have dist: "distinct (map fst (fs_nodes fs))" using assms by (simp add: fs_wf_def)
  have inj: "inj_on (\<lambda>x. last (fst x)) (set ?xs)"
  proof (rule inj_onI)
    fix x y assume xy: "x \<in> set ?xs" "y \<in> set ?xs" "last (fst x) = last (fst y)"
    then have "fst x = fst y" by (cases "fst x" rule: rev_cases; cases "fst y" rule: rev_cases) auto
    moreover have "x \<in> set (fs_nodes fs)" "y \<in> set (fs_nodes fs)" using xy by simp_all
    ultimately show "x = y" using dist by (metis eq_key_imp_eq_value prod.collapse)
  qed
  have "distinct ?xs" using dist by (simp add: distinct_map)
  with inj have "distinct (map (\<lambda>x. last (fst x)) ?xs)" by (simp add: distinct_map)
  then have "distinct (map fst (map (\<lambda>(q, n). (last q, n = FDir)) ?xs))" by (simp add: comp_def split_beta)
  then have "distinct (map fst (children fs a))" by (simp only: children_def distinct_sort_fst)
  then show "sorted_wrt (<) (map fst (children fs a))" by (simp add: strict_sorted_iff children_def)
  have snoc: "q \<noteq> [] \<and> butlast q = a \<longleftrightarrow> (\<exists>t. q = a @ [t])" for q by (metis snoc_eq_iff_butlast)
  have "s \<in> fst ` set (children fs a) \<longleftrightarrow> (\<exists>n. (a @ [s], n) \<in> set (fs_nodes fs))"
    unfolding children_def snoc by force
  with assms show "s \<in> fst ` set (children fs a) \<longleftrightarrow> nodeAt fs (a @ [s]) \<noteq> None" by (auto simp: node_in_nodes)
qed

lemma concat_sorted:
  assumes "sorted_wrt (<) names" "\<And>s. sorted_wrt (<) (map fst (g s))" "\<And>s x. x \<in> set (g s) \<Longrightarrow> \<exists>r. fst x = s # r"
  shows "sorted_wrt (<) (map fst (concat (map g names)))"
  using assms(1)
proof (induction names)
  case (Cons s names)
  have "fst x < fst y" if "x \<in> set (g s)" "t \<in> set names" "y \<in> set (g t)" for x t y
    using that assms(3) [of x s] assms(3) [of y t] Cons.prems by auto
  with Cons assms(2) show ?case by (auto simp: sorted_wrt_append)
qed simp

text \<open>All that is in the directory, and everything below it.\<close>

definition allEntries :: "filesys \<Rightarrow> string list \<Rightarrow> string list \<Rightarrow> (string list \<times> fnode) list" where
  "allEntries fs a names = concat (map (entriesOf fs a) names)"

lemma allEntries_facts:
  assumes "fs_wf fs" "good a" "sorted_wrt (<) names" "\<forall>s. s \<in> set names \<longleftrightarrow> nodeAt fs (a @ [s]) \<noteq> None"
  shows "sorted_wrt (<) (map fst (allEntries fs a names))"
    and "(q, n) \<in> set (allEntries fs a names) \<longleftrightarrow> q \<noteq> [] \<and> nodeAt fs (a @ q) = Some n"
proof -
  have walk: "(r, n) \<in> set (walkNodes fs (canon (a @ [s]))) \<longleftrightarrow> nodeAt fs (a @ s # r) = Some n"
    if "s \<in> set names" for s r n
    using that assms(1,2,4) walkNodes_set [of fs "a @ [s]" r n] fs_wf_node(1) [of fs "a @ [s]"] by auto
  have "sorted_wrt (<) (map fst (if s \<in> set names then entriesOf fs a s else []))" for s
    using assms walkNodes_sorted [of fs "a @ [s]"] fs_wf_node(1) [of fs "a @ [s]"]
    by (auto simp: entriesOf_def sorted_wrt_map split_beta)
  then have "sorted_wrt (<) (map fst (concat (map (\<lambda>s. if s \<in> set names then entriesOf fs a s else []) names)))"
    using assms(3) by (intro concat_sorted) (auto simp: entriesOf_def split: if_splits)
  then show "sorted_wrt (<) (map fst (allEntries fs a names))" by (simp add: allEntries_def cong: map_cong)
  have first: "s \<in> set names" if "nodeAt fs (a @ s # r) = Some m" for s r m
  proof (cases "r = []")
    case False
    with fs_wf_parents [OF assms(1) that] have "nodeAt fs (a @ [s]) = Some FDir"
      by (simp add: parents_exist_def strict_prefix_def)
    with assms(4) show ?thesis by simp
  qed (use that assms(4) in simp)
  show "(q, n) \<in> set (allEntries fs a names) \<longleftrightarrow> q \<noteq> [] \<and> nodeAt fs (a @ q) = Some n"
  proof (cases q)
    case (Cons s r)
    have "(q, n) \<in> set (allEntries fs a names) \<longleftrightarrow> s \<in> set names \<and> (r, n) \<in> set (walkNodes fs (canon (a @ [s])))"
      by (force simp: allEntries_def entriesOf_def Cons)
    with walk [of s r n] first [of s r n] show ?thesis by (auto simp: Cons)
  qed (auto simp: allEntries_def entriesOf_def)
qed

section \<open>The archive is written outside of the directory\<close>

lemma createTrunc_ok:
  assumes "fs_wf fs" "rooted p" "createTrunc p fs = (None, fs1)"
  shows "fs_wf fs1" "fs_fault fs1 = fs_fault fs" "locate fs1 q = locate fs q" "locate fs p \<noteq> []"
    and "nodeAt fs1 k = (if k = locate fs p then Some (FFile '''') else nodeAt fs k)"
proof -
  let ?k = "locate fs p"
  have ok: "nodeAt fs ?k \<noteq> Some FDir \<and> (\<exists>c. fs1 = putNode ?k (FFile '''') (putNode ?k (FFile c) fs)) \<and> \<not> throughFile fs ?k
      \<and> (nodeAt fs ?k = None \<longrightarrow> nodeAt fs (butlast ?k) \<noteq> None)"
    using assms(3) by (auto simp: createTrunc_def OpenAndCopy_def Let_def split: option.splits fnode.splits if_splits)
  then obtain c where fs1: "fs1 = putNode ?k (FFile '''') (putNode ?k (FFile c) fs)" by blast
  show k: "locate fs p \<noteq> []" using ok by (auto simp: nodeAt_def)
  then obtain a s where a: "?k = a @ [s]" by (cases ?k rule: rev_cases) auto
  have "nodeAt fs (butlast ?k) = Some FDir"
  proof (cases "nodeAt fs ?k")
    case None
    with ok obtain n where n: "nodeAt fs a = Some n" using a by auto
    moreover have "a \<in> set (butlast (prefixes ?k))" by (simp add: a prefixes_snoc)
    ultimately have "n = FDir" using ok by (cases n) (auto simp: throughFile_def list_ex_iff split: option.splits)
    with n a show ?thesis by simp
  qed (use fs_wf_node(2) [OF assms(1)] k in blast)
  moreover have "butlast ?k \<noteq> ?k" by (simp add: a)
  ultimately show "fs_wf fs1" using assms(1) ok k good_locate [OF assms(2)] by (auto simp: fs1 intro!: fs_wf_put)
  show "nodeAt fs1 q = (if q = ?k then Some (FFile '''') else nodeAt fs q)" for q using k by (simp add: fs1)
qed (use assms(3) in \<open>auto simp: createTrunc_def OpenAndCopy_def Let_def putNode_def locate_def pathAbs_def
       split: option.splits fnode.splits if_splits\<close>)

text \<open>A directory to unpack to: it is there, and there is nothing in it.\<close>

definition fresh_dir :: "string \<Rightarrow> filesys \<Rightarrow> bool" where
  "fresh_dir dir fs \<longleftrightarrow> rooted dir \<and> parents_exist (locate fs dir) fs \<and>
     (\<forall>r. nodeAt fs (locate fs dir @ r) = (if r = [] then Some FDir else None))"

definition same_tree :: "string list \<Rightarrow> filesys \<Rightarrow> string list \<Rightarrow> filesys \<Rightarrow> bool" where
  "same_tree a fs b fs' \<longleftrightarrow> (\<forall>r. nodeAt fs (a @ r) = nodeAt fs' (b @ r))"

lemma unpack_allEntries:
  assumes "fs_wf fs" "good a" "sorted_wrt (<) names" "\<forall>s. s \<in> set names \<longleftrightarrow> nodeAt fs (a @ [s]) \<noteq> None"
    and "nodeAt fs a = Some FDir" "fresh_dir dir fs2" "\<forall>k. fs_fault fs2 k = None" "fs_wf fs2"
  shows "\<exists>fs3. unpack dir (tarOf (map entryHeader (allEntries fs a names))) fs2 = (None, fs3) \<and>
    fs_wf fs3 \<and> fs_fault fs3 = fs_fault fs2 \<and> fs_cwd fs3 = fs_cwd fs2 \<and> same_tree a fs (locate fs2 dir) fs3"
proof -
  let ?xs = "allEntries fs a names" and ?f = "\<lambda>q. nodeAt fs2 (locate fs2 dir @ q)"
  note facts = allEntries_facts [OF assms(1-4)]
  have sorted: "sorted (map fst ?xs)" and dist: "distinct (map fst ?xs)" using facts(1) by (auto simp: strict_sorted_iff)
  have f: "nodeAt fs2 (locate fs2 dir @ q) = (if q = [] then Some FDir else None)" for q
    using assms(6) by (simp add: fresh_dir_def)
  have "good q \<and> q \<noteq> [] \<and> ?f q = None \<and> (\<forall>p. strict_prefix p q \<longrightarrow> ?f p = Some FDir \<or> (p, FDir) \<in> set ?xs)"
    if "(q, n) \<in> set ?xs" for q n
  proof -
    from that have q: "q \<noteq> []" "nodeAt fs (a @ q) = Some n" by (auto simp: facts(2))
    from fs_wf_parents [OF assms(1) q(2)] have "nodeAt fs (a @ p) = Some FDir" if "strict_prefix p q" for p
      using that by (simp add: parents_exist_def strict_prefix_def)
    with q fs_wf_node(1) [OF assms(1) q(2)] f show ?thesis by (auto simp: facts(2))
  qed
  then have "installable ?f ?xs" by (intro sorted_installable [OF sorted dist]) blast
  then obtain fs3 where fs3: "unpack dir (tarOf (map entryHeader ?xs)) fs2 = (None, fs3)"
    "fs_wf fs3 \<and> fs_fault fs3 = fs_fault fs2 \<and> fs_cwd fs3 = fs_cwd fs2"
    "\<forall>q. nodeAt fs3 (locate fs2 dir @ q) = (?f ++ map_of ?xs) q"
    using unpack_installable [OF _ assms(7) _ dist assms(8), of dir] assms(6) unfolding fresh_dir_def by blast
  have "(?f ++ map_of ?xs) q = nodeAt fs (a @ q)" for q
    using assms(5) dist facts(2) [of q] by (auto simp: f map_add_def split: option.splits)
      (metis map_of_eq_None_iff image_iff fst_conv option.exhaust)+
  with fs3 show ?thesis by (auto simp: same_tree_def)
qed

section \<open>Packing a directory and unpacking the archive\<close>

abbreviation contentPaths :: "string \<Rightarrow> (string \<times> bool) list \<Rightarrow> string list" where
  "contentPaths addonPath content \<equiv> map (\<lambda>elem. pathJoin [addonPath, fst elem]) content"

lemma ReadDir_Inr:
  assumes "ReadDir fs p = Inr content"
  shows "content = children fs (locate fs p)" "nodeAt fs (locate fs p) = Some FDir"
  using assms by (auto simp: ReadDir_def Stat_def Let_def split: sum.splits fnode.splits option.splits if_splits)

lemma targz_unpacked:
  assumes "fs_wf fs" "\<forall>k. fs_fault fs k = None" "rooted addonPath" "ReadDir fs addonPath = Inr content"
    and "rooted targzPath" "\<not> prefix (locate fs addonPath) (locate fs targzPath)" "createTrunc targzPath fs = (None, fs0)"
    and "fresh_dir dir fs2" "\<forall>k. fs_fault fs2 k = None" "fs_wf fs2"
  shows "\<exists>hs fs1 fs3. targz_Make encode targzPath (contentPaths addonPath content) fs = (None, fs1) \<and>
    ReadFile fs1 targzPath = Inr (encode hs) \<and> unpack dir (tarOf hs) fs2 = (None, fs3) \<and>
    fs_wf fs3 \<and> fs_fault fs3 = fs_fault fs2 \<and> fs_cwd fs3 = fs_cwd fs2 \<and> same_tree (locate fs addonPath) fs (locate fs2 dir) fs3"
proof -
  let ?a = "locate fs addonPath" and ?k = "locate fs targzPath" and ?names = "map fst content"
  note fs0 = createTrunc_ok [OF assms(1,5,7)]
  note content = ReadDir_Inr [OF assms(4)]
  have same: "nodeAt fs0 (?a @ r) = nodeAt fs (?a @ r)" for r using assms(6) by (metis fs0(5) prefixI)
  have names: "s \<in> set ?names \<longleftrightarrow> nodeAt fs (?a @ [s]) \<noteq> None" for s
    using children_names(2) [OF assms(1)] content(1) by simp
  have "pathJoin [addonPath, fst elem] = canon (?a @ [fst elem])" if "elem \<in> set content" for elem
  proof -
    have "fst elem \<in> set ?names" using that by simp
    then obtain n where "nodeAt fs (?a @ [fst elem]) = Some n" unfolding names by blast
    from fs_wf_node(1) [OF assms(1) this] show ?thesis using pathJoin_canon [OF assms(3)] by simp
  qed
  then have paths: "contentPaths addonPath content = map (\<lambda>s. canon (?a @ [s])) ?names" by simp
  define hs where "hs = map entryHeader (allEntries fs0 ?a ?names)"
  have "\<forall>s \<in> set ?names. nodeAt fs0 (?a @ [s]) \<noteq> None" unfolding same using names by blast
  then have "tarball fs0 (contentPaths addonPath content) targzPath = (None, hs)"
    unfolding paths hs_def allEntries_def using fs0(1,2) assms(2,5) by (intro tarball_entries) simp_all
  then have make: "targz_Make encode targzPath (contentPaths addonPath content) fs = (None, putNode ?k (FFile (encode hs)) fs0)"
    using assms(7) fs0(3) by (simp add: targz_Make_def writeTarGz_def writeTar_def)
  let ?fs1 = "putNode ?k (FFile (encode hs)) fs0"
  have "nodeAt fs0 (butlast ?k) = Some FDir" using fs_wf_node(2) [OF fs0(1)] fs0(4,5) by auto
  then have "fs_wf ?fs1" using fs0 good_locate [OF assms(5)] by (intro fs_wf_put) auto
  then have "Stat ?fs1 targzPath = Inr (FFile (encode hs))" using fs0 assms(2) by (intro Stat_node) auto
  then have read: "ReadFile ?fs1 targzPath = Inr (encode hs)" by (simp add: ReadFile_def)
  have "\<exists>fs3. unpack dir (tarOf hs) fs2 = (None, fs3) \<and>
      fs_wf fs3 \<and> fs_fault fs3 = fs_fault fs2 \<and> fs_cwd fs3 = fs_cwd fs2 \<and> same_tree ?a fs0 (locate fs2 dir) fs3"
    unfolding hs_def using children_names(1) [OF assms(1)] content names same fs0(1) good_locate [OF assms(3)] assms(8-10)
    by (intro unpack_allEntries) (auto simp: same [of "[]", simplified])
  with make read same show ?thesis by (auto simp: same_tree_def)
qed

end
