(* ===== verification/TargzRoundTrip.thy ===== *)
theory TargzRoundTrip
  imports TargzTree
begin

text \<open>
  An addon that was packed by \<open>cmd/targz\<close> is loaded from its archive as it is from its directory.
\<close>

section \<open>Loading from equal trees\<close>

text \<open>Two directories with the same content, in file systems that answer every call.\<close>

definition equal_dirs :: "string list \<Rightarrow> filesys \<Rightarrow> string list \<Rightarrow> filesys \<Rightarrow> bool" where
  "equal_dirs a fs b fs' \<longleftrightarrow> fs_wf fs \<and> fs_wf fs' \<and> (\<forall>k. fs_fault fs k = None) \<and> (\<forall>k. fs_fault fs' k = None) \<and>
     nodeAt fs a = Some FDir \<and> same_tree a fs b fs'"

text \<open>Results that agree but for the text of an error.\<close>

definition same_res :: "'a result \<Rightarrow> 'a result \<Rightarrow> bool" where
  "same_res x y \<longleftrightarrow> (case x of Inr v \<Rightarrow> y = Inr v | Inl e \<Rightarrow> (\<exists>e'. y = Inl e' \<and> IsNotExist e' = IsNotExist e))"

definition same_ok :: "'a result \<Rightarrow> 'a result \<Rightarrow> bool" where
  "same_ok x y \<longleftrightarrow> (\<forall>v. x = Inr v \<longleftrightarrow> y = Inr v)"

lemma throughFile_iff: "throughFile fs k \<longleftrightarrow> (\<exists>p c. strict_prefix p k \<and> nodeAt fs p = Some (FFile c))"
proof -
  have "p \<in> set (butlast (prefixes k)) \<longleftrightarrow> strict_prefix p k" for p
    by (cases k rule: rev_cases) (auto simp: prefixes_snoc strict_prefix_def)
  then show ?thesis by (auto simp: throughFile_def list_ex_iff split: option.splits fnode.splits)
      (metis fnode.exhaust)
qed

lemma equal_dirs_through:
  assumes "equal_dirs a fs b fs'" "throughFile fs (a @ r)"
  shows "throughFile fs' (b @ r)"
proof -
  from assms(2) obtain p c where p: "strict_prefix p (a @ r)" "nodeAt fs p = Some (FFile c)" by (auto simp: throughFile_iff)
  have "parents_exist a fs" using assms(1) by (auto simp: equal_dirs_def dest: fs_wf_parents)
  with p have "\<not> strict_prefix p a" by (auto simp: parents_exist_def)
  with p(1) obtain q where q: "p = a @ q" "strict_prefix q r"
    by (metis append_Nil2 prefix_append prefix_def same_prefix_prefix strict_prefix_def)
  with assms(1) p(2) have "nodeAt fs' (b @ q) = Some (FFile c)" by (simp add: equal_dirs_def same_tree_def)
  moreover have "strict_prefix (b @ q) (b @ r)" using q(2) by (simp add: strict_prefix_def)
  ultimately show ?thesis by (auto simp: throughFile_iff)
qed

lemma equal_dirs_sym: "equal_dirs a fs b fs' \<Longrightarrow> equal_dirs b fs' a fs"
  by (simp add: equal_dirs_def same_tree_def) (metis append_Nil2)

lemma Stat_same:
  assumes "equal_dirs a fs b fs'" "locate fs p = a @ r" "locate fs' p' = b @ r"
  shows "same_res (Stat fs p) (Stat fs' p')"
proof -
  have "throughFile fs (a @ r) \<longleftrightarrow> throughFile fs' (b @ r)"
    using assms(1) equal_dirs_through equal_dirs_sym by blast
  moreover have "nodeAt fs (a @ r) = nodeAt fs' (b @ r)" using assms(1) by (simp add: equal_dirs_def same_tree_def)
  ultimately show ?thesis
    using assms by (auto simp: equal_dirs_def Stat_def same_res_def IsNotExist_def notDirectory_def split: option.splits)
qed

lemma ReadFile_same:
  assumes "equal_dirs a fs b fs'" "locate fs p = a @ r" "locate fs' p' = b @ r"
  shows "same_res (ReadFile fs p) (ReadFile fs' p')"
  using Stat_same [OF assms]
  by (auto simp: ReadFile_def same_res_def IsNotExist_def isDirectory_def split: sum.splits fnode.splits)

lemma children_set:
  assumes "fs_wf fs"
  shows "set (children fs k) = {(s, n = FDir) | s n. nodeAt fs (k @ [s]) = Some n}"
proof -
  have snoc: "q \<noteq> [] \<and> butlast q = k \<longleftrightarrow> (\<exists>t. q = k @ [t])" for q by (metis snoc_eq_iff_butlast)
  have "set (children fs k) = {(s, n = FDir) | s n. (k @ [s], n) \<in> set (fs_nodes fs)}"
    unfolding children_def snoc by force
  with assms show ?thesis by (simp add: node_in_nodes)
qed

lemma children_same:
  assumes "equal_dirs a fs b fs'"
  shows "children fs (a @ r) = children fs' (b @ r)"
proof (rule map_sorted_distinct_set_unique [of fst])
  have "set (children fs (a @ r)) = set (children fs' (b @ r))"
    using assms by (simp add: equal_dirs_def children_set same_tree_def)
  moreover have "sorted_wrt (<) (map fst (children fs (a @ r)))" "sorted_wrt (<) (map fst (children fs' (b @ r)))"
    using assms children_names(1) by (auto simp: equal_dirs_def)
  ultimately show "set (children fs (a @ r)) = set (children fs' (b @ r))"
    "inj_on fst (set (children fs (a @ r)) \<union> set (children fs' (b @ r)))"
    "sorted (map fst (children fs (a @ r)))" "sorted (map fst (children fs' (b @ r)))"
    "distinct (map fst (children fs (a @ r)))" "distinct (map fst (children fs' (b @ r)))"
    by (simp_all add: strict_sorted_iff distinct_map)
qed

lemma ReadDir_same:
  assumes "equal_dirs a fs b fs'" "locate fs p = a @ r" "locate fs' p' = b @ r"
  shows "same_res (ReadDir fs p) (ReadDir fs' p')"
  using Stat_same [OF assms] children_same [OF assms(1)] assms(2,3)
  by (auto simp: ReadDir_def same_res_def IsNotExist_def notDirectory_def split: sum.splits fnode.splits)

section \<open>Reading an addon from equal directories\<close>

text \<open>Two paths to the same place of equal directories.\<close>

definition same_place :: "string list \<Rightarrow> filesys \<Rightarrow> string list \<Rightarrow> filesys \<Rightarrow> string list \<Rightarrow> string \<Rightarrow> string \<Rightarrow> bool" where
  "same_place a fs b fs' r p p' \<longleftrightarrow> equal_dirs a fs b fs' \<and> rooted p \<and> rooted p' \<and> locate fs p = a @ r \<and> locate fs' p' = b @ r"

lemma same_place_join:
  assumes "same_place a fs b fs' r p p'" "good (pathSegments name)"
  shows "same_place a fs b fs' (r @ pathSegments name) (pathJoin [p, name]) (pathJoin [p', name])"
proof -
  have "rooted (pathJoin [q, name])" if "rooted q" for q
  proof -
    have "q \<noteq> ''''" "rooted (q @ CHR ''/'' # name)" using that rooted_append by (auto simp: rooted_def)
    with that show ?thesis by (simp add: pathJoin_def)
  qed
  with assms show ?thesis by (simp add: same_place_def locate_pathJoin good_no_dots)
qed

lemma same_place_abs: "same_place a fs b fs' r p p' \<Longrightarrow> same_place a fs b fs' r (pathAbs fs p) (pathAbs fs' p')"
  by (simp add: same_place_def pathAbs_def locate_pathClean)

lemma same_place_ReadFile: "same_place a fs b fs' r p p' \<Longrightarrow> same_res (ReadFile fs p) (ReadFile fs' p')"
  by (auto simp: same_place_def intro: ReadFile_same)

lemma same_place_ReadDir: "same_place a fs b fs' r p p' \<Longrightarrow> same_res (ReadDir fs p) (ReadDir fs' p')"
  by (auto simp: same_place_def intro: ReadDir_same)

lemmas res_defs = same_res_def same_ok_def

lemma yamlUnmarshal_same:
  assumes "same_place a fs b fs' r p p'" "good (pathSegments name)"
  shows "same_ok (loader_yamlUnmarshal fs p name parse x req) (loader_yamlUnmarshal fs' p' name parse x req)"
  using same_place_ReadFile [OF same_place_join [OF assms]]
  by (auto simp: loader_yamlUnmarshal_def res_defs split: sum.splits)

lemma loadPlanSchema_same:
  assumes "same_place a fs b fs' r p p'" "good (pathSegments name)"
  shows "same_ok (loadPlanSchema l fs p name req) (loadPlanSchema l fs' p' name req)"
  using same_place_ReadFile [OF same_place_join [OF assms]]
  by (auto simp: loadPlanSchema_def res_defs split: sum.splits)

lemma loadRaw_same:
  assumes "same_place a fs b fs' r p p'" "good (pathSegments name)"
  shows "same_ok (loadRaw fs p name req) (loadRaw fs' p' name req)"
  using same_place_ReadFile [OF same_place_join [OF assms]]
  by (auto simp: loadRaw_def res_defs split: sum.splits)

text \<open>Steps whose results agree are followed by steps whose results agree.\<close>

lemma same_ok_simps [simp]:
  "same_ok (Inr a) (Inr b) \<longleftrightarrow> a = b" "same_ok (Inl e) (Inl e')" "\<not> same_ok (Inl e) (Inr b)" "\<not> same_ok (Inr a) (Inl e)"
  by (auto simp: same_ok_def)

lemma same_ok_case:
  assumes "same_ok x y" "\<And>v. x = Inr v \<Longrightarrow> same_ok (f v) (g v)" "\<And>e v. h e \<noteq> Inr v" "\<And>e v. h' e \<noteq> Inr v"
  shows "same_ok (case x of Inl e \<Rightarrow> h e | Inr v \<Rightarrow> f v) (case y of Inl e \<Rightarrow> h' e | Inr v \<Rightarrow> g v)"
proof (cases x)
  case (Inr v)
  with assms(1) have "y = Inr v" by (cases y) simp_all
  with Inr assms(2) show ?thesis by simp
next
  case (Inl e)
  with assms(1) obtain e' where "y = Inl e'" by (cases y) (auto simp: same_ok_def)
  with Inl assms(3,4) show ?thesis by (simp add: same_ok_def)
qed

lemma same_ok_refl [simp]: "same_ok x x"
  by (simp add: same_ok_def)

lemma same_res_ok: "same_res x y \<Longrightarrow> same_ok x y"
  by (auto simp: res_defs split: sum.splits)

lemma good_names:
  "good (pathSegments addonPlanMetaName)" "good (pathSegments addonPlanValuesFileName)"
  "good (pathSegments addonPlaSchemaCreateJSONName)" "good (pathSegments addonPlanSchemaBindJSONName)"
  "good (pathSegments addonPlanSchemaUpdateJSONName)" "good (pathSegments addonPlanBindTemplateFileName)"
  "good (pathSegments addonMetaName)" "good (pathSegments addonDocsMetaPath)" "good (pathSegments addonPlanDirName)"
  "good (pathSegments addonChartDirName)"
  by (simp_all add: go_consts pathSegments_def segment_def good_def)

lemma loadPlanDefinition_same:
  assumes "same_place a fs b fs' r p p'"
  shows "same_ok (loadPlanDefinition l fs p plan) (loadPlanDefinition l fs' p' plan)"
proof -
  note place = same_place_abs [OF assms]
  show ?thesis unfolding loadPlanDefinition_def Let_def
    by (intro same_ok_case yamlUnmarshal_same [OF place] loadPlanSchema_same [OF place] loadRaw_same [OF place] good_names)
      simp_all
qed

lemma loadPlans_same:
  assumes "same_place a fs b fs' r p p'" "\<forall>f \<in> set files. good [fst f]"
  shows "same_ok (loadPlans l fs p files plans) (loadPlans l fs' p' files plans)"
  using assms(2)
proof (induction files arbitrary: plans)
  case (Cons f files)
  obtain name d where f: "f = (name, d)" by force
  have "good (pathSegments name)" using Cons.prems f by (simp add: pathSegments_segment)
  note plan = loadPlanDefinition_same [OF same_place_join [OF assms(1) this]]
  have "same_ok (loadPlans l fs p files plans') (loadPlans l fs' p' files plans')" for plans' using Cons by simp
  then have "same_ok (loadPlans l fs p ((name, True) # files) plans) (loadPlans l fs' p' ((name, True) # files) plans)"
    unfolding loadPlans.simps if_True by (intro same_ok_case plan) simp_all
  with Cons show ?case by (cases d) (simp_all add: f)
qed (simp add: same_ok_def)

lemma children_good: "fs_wf fs \<Longrightarrow> f \<in> set (children fs k) \<Longrightarrow> good [fst f]"
  using fs_wf_node(1) by (fastforce simp: children_set)

lemma ReadDir_good:
  assumes "same_place a fs b fs' r p p'" "ReadDir fs p = Inr files" "f \<in> set files"
  shows "good [fst f]"
  using ReadDir_Inr(1) [OF assms(2)] assms(1,3) children_good [of fs f] by (simp add: same_place_def equal_dirs_def)

lemma createForm_same:
  assumes "same_place a fs b fs' r p p'"
  shows "same_ok (createFormFromAddonDir l fs p) (createFormFromAddonDir l fs' p')"
proof -
  note join = same_place_join [OF assms]
  have meta: "same_ok (ReadFile fs (pathJoin [p, addonMetaName])) (ReadFile fs' (pathJoin [p', addonMetaName]))"
    by (intro same_res_ok same_place_ReadFile [OF join] good_names)
  have docs: "same_ok (case ReadFile fs (pathJoin [p, addonDocsMetaPath]) of
       Inl err \<Rightarrow> if \<not> IsNotExist err then Inl err else Inr '''' | Inr b \<Rightarrow> Inr b)
     (case ReadFile fs' (pathJoin [p', addonDocsMetaPath]) of
       Inl err \<Rightarrow> if \<not> IsNotExist err then Inl err else Inr '''' | Inr b \<Rightarrow> Inr b)"
    using same_place_ReadFile [OF join [OF good_names(8)]] by (auto simp: res_defs split: sum.splits)
  note plans = join [OF good_names(9)]
  note files = same_res_ok [OF same_place_ReadDir [OF plans]]
  show ?thesis unfolding createFormFromAddonDir_def Let_def
    by (intro same_ok_case meta docs files same_ok_refl loadPlans_same [OF plans])
      (auto dest: ReadDir_good [OF plans] split: if_splits)
qed

text \<open>The loader of charts depends on nothing but the tree of the directory it is given.\<close>

definition loads_tree :: "Loader \<Rightarrow> bool" where
  "loads_tree l \<longleftrightarrow> (\<forall>a fs b fs' r p p'. same_place a fs b fs' r p p' \<longrightarrow> same_ok (ld_loadChart l fs p) (ld_loadChart l fs' p'))"

lemma loadChart_same:
  assumes "loads_tree l" "same_place a fs b fs' r p p'"
  shows "same_ok (loadChartFromDir l fs p) (loadChartFromDir l fs' p')"
proof -
  note chart = same_place_join [OF assms(2) good_names(10)]
  have dir: "same_res (ReadDir fs (pathJoin [p, addonChartDirName])) (ReadDir fs' (pathJoin [p', addonChartDirName]))"
    by (rule same_place_ReadDir [OF chart])
  show ?thesis
  proof (cases "\<exists>c. discoverPathToHelmChart fs p = Inr c")
    case False
    with dir show ?thesis
      by (auto simp: loadChartFromDir_def discoverPathToHelmChart_def res_defs Let_def split: sum.splits if_splits)
  next
    case True
    then obtain c where c: "discoverPathToHelmChart fs p = Inr c" ..
    then obtain files where files: "ReadDir fs (pathJoin [p, addonChartDirName]) = Inr files"
      by (auto simp: discoverPathToHelmChart_def Let_def split: sum.splits if_splits)
    let ?n = "fst (splitForDirectoriesAndFiles files) ! 0"
    have "length (fst (splitForDirectoriesAndFiles files)) \<noteq> 0" "\<not> length (fst (splitForDirectoriesAndFiles files)) > 1" and
      ds: "discoverPathToHelmChart fs p = Inr (pathJoin [pathJoin [p, addonChartDirName], ?n])"
      using c files by (auto simp: discoverPathToHelmChart_def Let_def split: if_splits)
    then have one: "length (fst (splitForDirectoriesAndFiles files)) = 1" by linarith
    then have "?n \<in> set (fst (splitForDirectoriesAndFiles files))" by simp
    then obtain f where "f \<in> set files" "?n = fst f" by (auto simp: splitForDirectoriesAndFiles_def)
    then have "good [?n]" using ReadDir_good [OF chart files] by simp
    then have "same_place a fs b fs' (r @ pathSegments addonChartDirName @ pathSegments ?n)
        (pathJoin [pathJoin [p, addonChartDirName], ?n]) (pathJoin [pathJoin [p', addonChartDirName], ?n])"
      using same_place_join [OF chart, of ?n] by (simp add: pathSegments_segment)
    with assms(1) have "same_ok (ld_loadChart l fs (pathJoin [pathJoin [p, addonChartDirName], ?n]))
        (ld_loadChart l fs' (pathJoin [pathJoin [p', addonChartDirName], ?n]))" by (auto simp: loads_tree_def)
    moreover have "discoverPathToHelmChart fs' p' = Inr (pathJoin [pathJoin [p', addonChartDirName], ?n])"
      using dir files one by (auto simp: discoverPathToHelmChart_def Let_def same_res_def)
    ultimately show ?thesis using ds by (auto simp: loadChartFromDir_def intro!: same_ok_case split: if_splits)
  qed
qed

lemma loadDir_same:
  assumes "loads_tree l" "same_place a fs b fs' r p p'"
  shows "loadDir l fs p = Some (Inr x) \<longleftrightarrow> loadDir l fs' p' = Some (Inr x)"
  using loadChart_same [OF assms] createForm_same [OF assms(2), of l]
  by (cases "loadChartFromDir l fs p"; cases "loadChartFromDir l fs' p'";
      cases "createFormFromAddonDir l fs p"; cases "createFormFromAddonDir l fs' p'")
    (auto simp: loadDir_def)

section \<open>Packing and loading\<close>

lemma makes_tmp_dir_fresh:
  assumes "makes_tmp_dir l fs dir" "fs_wf fs"
  shows "fresh_dir dir (putNode (locate fs dir) FDir fs)" "fs_wf (putNode (locate fs dir) FDir fs)"
proof -
  let ?d = "locate fs dir" and ?fs = "putNode (locate fs dir) FDir fs"
  have d: "?d \<noteq> []" "rooted dir" "parents_exist ?d fs" using assms(1) by (auto simp: makes_tmp_dir_def)
  have none: "nodeAt fs (?d @ r) = None" for r
    using assms(1) by (fastforce simp: makes_tmp_dir_def nodeAt_def map_of_eq_None_iff)
  with d show "fresh_dir dir ?fs" by (auto simp: fresh_dir_def parents_exist_def strict_prefix_def)
  have "strict_prefix (butlast ?d) ?d" using d(1) by (cases ?d rule: rev_cases) (auto simp: strict_prefix_def)
  with d show "fs_wf ?fs" using assms(2) good_locate [OF d(2)] by (intro fs_wf_put) (auto simp: parents_exist_def)
qed


section \<open>An example\<close>

definition example_repo :: filesys where
  "example_repo = \<lparr>fs_cwd = ''/'', fs_nodes =
     [([''tmp''], FDir), ([''out''], FDir), ([''repo''], FDir), ([''repo'', ''redis''], FDir),
      ([''repo'', ''redis'', ''plans'', ''micro'', ''meta.yaml''], FFile ''p-1''),
      ([''repo'', ''redis'', ''plans'', ''micro''], FDir), ([''repo'', ''redis'', ''plans''], FDir),
      ([''repo'', ''redis'', ''meta.yaml''], FFile ''redis''), ([''repo'', ''redis'', ''chart''], FDir),
      ([''repo'', ''redis'', ''chart'', ''redis''], FDir)], fs_fault = \<lambda>k. None\<rparr>"

lemma example_loads_tree: "loads_tree example_loader"
  unfolding loads_tree_def same_place_def
  by (auto simp: example_loader_def intro!: same_ok_case same_res_ok [OF Stat_same])

lemma example_repo_wf: "fs_wf example_repo"
  by code_simp

lemma example_repo_tmp: "makes_tmp_dir example_loader example_repo ''/tmp/unpacked-addon1''"
proof -
  have loc: "locate example_repo ''/tmp/unpacked-addon1'' = [''tmp'', ''unpacked-addon1'']" by code_simp
  have "parents_exist [''tmp'', ''unpacked-addon1''] example_repo"
    by (auto simp: parents_exist_def strict_prefix_def prefix_Cons nodeAt_def example_repo_def)
  moreover have "ld_createTmpDir example_loader (ld_tmpDir example_loader) ''unpacked-addon'' example_repo =
      (Inr ''/tmp/unpacked-addon1'', putNode (locate example_repo ''/tmp/unpacked-addon1'') FDir example_repo)"
    by (simp add: example_loader_def Let_def)
  ultimately show ?thesis unfolding makes_tmp_dir_def loc by (simp add: example_repo_def rooted_def)
qed


text \<open>
  The archive is recognised by its path, which is compared with the names within it: with a relative
  path a file of the addon that has the name of the archive is left out.
\<close>

lemma namesake_left_out:
  "snd (tarFile (putNode [''repo'', ''redis'', ''redis.tgz''] (FFile ''x'') example_repo) ''/repo/redis/redis.tgz'' ''redis.tgz'') = []"
  by code_simp

end
