(* ===== verification/Platform.thy ===== *)
theory Platform
  imports Controller Broker_World Catalog
begin

text \<open>
  The reconcilers and the broker over one storage, as \<open>SetupAndStartController\<close> and
  \<open>broker.New\<close> are given the same factory (\<open>test/integration/suite_test.go\<close> runs the two in one
  process; the chart gives both the same etcd). The world of the broker is the state of the
  controller too: \<open>ctlDeps\<close> gives \<open>common\<close> the addon and chart storages of that world, and what
  is outside of the process, the repositories and the API server, is the parameter \<open>ce\<close> over the
  state \<open>'x\<close>. What a run of \<open>OnAdd\<close> does to the addons is proved over the interface
  \<open>controller_storage\<close> and then read off the catalog of the broker.
\<close>

section \<open>The wired controller\<close>

record 'x CtlExternal =
  cx_semverParse :: "string \<Rightarrow> Version option"
  cx_newGetter :: "string \<Rightarrow> 'x \<Rightarrow> Getter result"
  cx_templateURL :: "SpecRepository \<Rightarrow> 'x \<Rightarrow> string result"
  cx_ensureAssetGroup :: "Addon \<Rightarrow> 'x \<Rightarrow> error option \<times> 'x"
  cx_ensureAssetGroupRemoved :: "AddonID \<Rightarrow> 'x \<Rightarrow> error option \<times> 'x"
  cx_brokerExist :: "'x \<Rightarrow> bool result"
  cx_brokerSync :: "'x \<Rightarrow> error option \<times> 'x"
  cx_listConfigurations :: "'x \<Rightarrow> CommonAddon list result"
  cx_reprocessRequest :: "string \<Rightarrow> 'x \<Rightarrow> error option \<times> 'x"
  cx_updateConfiguration :: "CommonAddon \<Rightarrow> 'x \<Rightarrow> int result \<times> 'x"
  cx_updateConfigurationStatus :: "CommonAddon \<Rightarrow> 'x \<Rightarrow> error option \<times> 'x"
  cx_timeNow :: "'x \<Rightarrow> time"

definition onExt :: "('x \<Rightarrow> 'a \<times> 'x) \<Rightarrow> 'x World \<Rightarrow> 'a \<times> 'x World" where
  "onExt f s = apsnd (\<lambda>x. s\<lparr>w_ext := x\<rparr>) (f (w_ext s))"

definition onAddons :: "(MemAddon \<Rightarrow> 'a \<times> MemAddon) \<Rightarrow> 'x World \<Rightarrow> 'a \<times> 'x World" where
  "onAddons f s = apsnd (\<lambda>m. s\<lparr>w_addons := m\<rparr>) (f (w_addons s))"

definition onCharts :: "(MemChart \<Rightarrow> 'a \<times> MemChart) \<Rightarrow> 'x World \<Rightarrow> 'a \<times> 'x World" where
  "onCharts f s = apsnd (\<lambda>m. s\<lparr>w_charts := m\<rparr>) (f (w_charts s))"

definition ctlDeps :: "'x CtlExternal \<Rightarrow> 'x World cdeps" where
  "ctlDeps ce = \<lparr>
     semverParse = cx_semverParse ce,
     newGetter = \<lambda>u s. cx_newGetter ce u (w_ext s),
     templateURL = \<lambda>r s. cx_templateURL ce r (w_ext s),
     addonUpsert = \<lambda>ns a. onAddons (mem_ad_Upsert ns (Some a)),
     addonGet = \<lambda>ns n v. onAddons (mem_ad_Get ns n v),
     addonRemove = \<lambda>ns n v. onAddons (mem_ad_Remove ns n v),
     chartUpsert = \<lambda>ns c. onCharts (mem_ch_Upsert ns (Some c)),
     chartRemove = \<lambda>ns n v. onCharts (mem_ch_Remove ns n v),
     ensureAssetGroup = \<lambda>a. onExt (cx_ensureAssetGroup ce a),
     ensureAssetGroupRemoved = \<lambda>i. onExt (cx_ensureAssetGroupRemoved ce i),
     brokerExist = \<lambda>s. cx_brokerExist ce (w_ext s),
     brokerSync = onExt (cx_brokerSync ce),
     listConfigurations = \<lambda>s. cx_listConfigurations ce (w_ext s),
     reprocessRequest = \<lambda>n. onExt (cx_reprocessRequest ce n),
     updateConfiguration = \<lambda>c. onExt (cx_updateConfiguration ce c),
     updateConfigurationStatus = \<lambda>c. onExt (cx_updateConfigurationStatus ce c),
     timeNow = \<lambda>s. cx_timeNow ce (w_ext s)\<rparr>"

lemma on_simps [simp]:
  "w_addons (snd (onExt f s)) = w_addons s"
  "w_addons (snd (onCharts h s)) = w_addons s"
  "w_addons (snd (onAddons g s)) = snd (g (w_addons s))"
  "fst (onAddons g s) = fst (g (w_addons s))"
  by (simp_all add: onExt_def onCharts_def onAddons_def)

section \<open>Saving the entries of a collection\<close>

definition savable :: "Addon \<Rightarrow> bool" where
  "savable a \<longleftrightarrow> ad_Name a \<noteq> [] \<and> Original (ad_Version a) \<noteq> []"

text \<open>What the entries add to the addons of the namespace, the last one first.\<close>

definition upserts :: "Entry list \<Rightarrow> (AddonID, Addon) gomap" where
  "upserts es = rev (map (\<lambda>e. (ad_ID (en_Addon e), en_Addon e))
     (filter (\<lambda>e. Entry_IsReady e \<and> savable (en_Addon e)) es))"

lemma upserts_simps [simp]:
  "upserts [] = []"
  "upserts (e # es) = upserts es @
     (if Entry_IsReady e \<and> savable (en_Addon e) then [(ad_ID (en_Addon e), en_Addon e)] else [])"
  by (simp_all add: upserts_def)

lemma upserts_set:
  "(k, a) \<in> set (upserts es) \<longleftrightarrow>
     (\<exists>e \<in> set es. Entry_IsReady e \<and> savable a \<and> a = en_Addon e \<and> k = ad_ID a)"
  by (auto simp: upserts_def)

lemma map_add_snoc: "m(k \<mapsto> v) ++ map_of xs = m ++ map_of (xs @ [(k, v)])"
  by (rule ext) (simp add: map_add_def split: option.splits)

text \<open>Saving the repositories one after the other is saving the flat list of their entries.\<close>

lemma saveEntries_append:
  "saveEntries d ns (xs @ ys) s =
     (let (b, xs', s1) = saveEntries d ns xs s; (c, ys', s2) = saveEntries d ns ys s1
      in (b \<or> c, xs' @ ys', s2))"
  by (induction xs arbitrary: s) (auto simp: Let_def case_prod_beta)

lemma saveAddons_flat:
  "saveAddons d ns rc s = (b, rc', s') \<Longrightarrow>
   saveEntries d ns (collectionAddons rc) s = (b, collectionAddons rc', s')"
proof (induction rc arbitrary: b rc' s s')
  case (Cons r rs)
  obtain b1 es s1 where e: "saveEntries d ns (rep_Addons r) s = (b1, es, s1)" by (metis prod_cases3)
  obtain b2 rs' s2 where a: "saveAddons d ns rs s1 = (b2, rs', s2)" by (metis prod_cases3)
  from Cons.prems e a have "b = (b1 \<or> b2)" "rc' = r\<lparr>rep_Addons := es\<rparr> # rs'" "s' = s2" by simp_all
  with e Cons.IH [OF a] show ?case
    by (simp add: collectionAddons_def saveEntries_append)
qed (simp add: collectionAddons_def)

text \<open>An entry that is saved stays what it is or is marked as failed.\<close>

definition entry_after :: "Entry \<Rightarrow> Entry \<Rightarrow> bool" where
  "entry_after e e' \<longleftrightarrow> ad_Name (en_Addon e') = ad_Name (en_Addon e) \<and>
     ad_Version (en_Addon e') = ad_Version (en_Addon e) \<and> (Entry_IsReady e' \<longrightarrow> e' = e)"

lemma entry_after_simps [simp]:
  "entry_after e e"
  "entry_after e (Entry_RegisteringError err e)"
  "\<not> Entry_IsReady (Entry_RegisteringError err e)"
  by (simp_all add: entry_after_def Entry_RegisteringError_def setEntryStatus_def Entry_failed_def
      upd_addon_def Entry_IsReady_def)

section \<open>The identifiers of the entries\<close>

text \<open>A ready entry carries the identifier of its addon, and no two ready entries the same one.\<close>

definition keyed :: "Entry \<Rightarrow> bool" where
  "keyed e \<longleftrightarrow> (Entry_IsReady e \<longrightarrow> Entry_IsComplete e \<and> en_ID e = ad_ID (en_Addon e))"

lemma createEntries_keyed:
  assumes "\<And>e c. g_GetCompleteAddon g e = Inr c \<Longrightarrow> ad_ID (awc_Addon c) \<noteq> []"
    and "createEntries d g URL ies = Some es" and "e \<in> set es"
  shows "keyed e"
  using assms(2,3)
proof (induction ies arbitrary: es)
  case (Cons i ies)
  then show ?case
    using assms(1) [of i]
    by (auto simp: Let_def keyed_def Entry_IsComplete_def Entry_IsReady_def Entry_FetchingError_def
        Entry_LoadingError_def setEntryStatus_def Entry_failed_def upd_addon_def
        split: option.splits sum.splits if_splits)
qed simp

lemma case_cons_Some:
  "(case t of None \<Rightarrow> None | Some r \<Rightarrow> map_option ((#) r) u) = Some rc \<Longrightarrow>
   \<exists>r rc0. t = Some r \<and> u = Some rc0 \<and> rc = r # rc0"
  by (auto split: option.splits)

lemma loadRepositories_keyed:
  assumes ids: "\<And>u g e c. newGetter d u s = Inr g \<Longrightarrow> g_GetCompleteAddon g e = Inr c \<Longrightarrow> ad_ID (awc_Addon c) \<noteq> []"
    and "loadRepositories d specs s = Some rc" and "e \<in> set (collectionAddons rc)"
  shows "keyed e"
  using assms(2,3)
proof (induction specs arbitrary: rc)
  case (Cons spec specs)
  have new: "keyed e" if "createAddons d u s = Some (Inr es)" "e \<in> set es" for u es
  proof -
    from that(1) obtain g ies where g: "newGetter d u s = Inr g" and es: "createEntries d g u ies = Some es"
      by (auto simp: createAddons_def split: sum.splits)
    from createEntries_keyed [OF ids [OF g] es that(2)] show ?thesis .
  qed
  have failed: "rep_Addons (Repository_FetchingError err (NewAddonsRepository u)) = []"
    "rep_Addons (Repository_EmptyURLError err (NewAddonsRepository u)) = []"
    "rep_Addons (Repository_TemplatingError err (NewAddonsRepository u)) = []" for err u
    by (simp_all add: Repository_FetchingError_def Repository_EmptyURLError_def Repository_TemplatingError_def
        setRepositoryStatus_def Repository_Failed_def NewAddonsRepository_def)
  let ?loaded = "if sp_URL spec = []
      then Some (Repository_EmptyURLError (ErrorString ''URL must not be empty'') (NewAddonsRepository (sp_URL spec)))
      else case templateURL d spec s of
        Inl err \<Rightarrow> Some (Repository_TemplatingError err (NewAddonsRepository (sp_URL spec)))
      | Inr addonsURL \<Rightarrow>
          (case createAddons d addonsURL s of
             None \<Rightarrow> None
           | Some (Inl err) \<Rightarrow> Some (Repository_FetchingError err (NewAddonsRepository (sp_URL spec)))
           | Some (Inr adds) \<Rightarrow> Some ((NewAddonsRepository (sp_URL spec))\<lparr>rep_Addons := adds\<rparr>))"
  from Cons.prems(1) have "(case ?loaded of None \<Rightarrow> None
      | Some r \<Rightarrow> map_option ((#) r) (loadRepositories d specs s)) = Some rc"
    by (simp only: loadRepositories.simps Let_def)
  from case_cons_Some [OF this] obtain r rc0 where
    rc: "rc = r # rc0" "loadRepositories d specs s = Some rc0" and r: "?loaded = Some r" by blast
  from r have "rep_Addons r = [] \<or> (\<exists>u. createAddons d u s = Some (Inr (rep_Addons r)))"
    by (auto simp: failed split: if_splits sum.splits option.splits)
  with new Cons.IH [OF rc(2)] Cons.prems(2) show ?case by (auto simp: collectionAddons_def rc(1))
qed (simp add: collectionAddons_def)

lemma reviseEntries_ready:
  "Entry_IsReady e \<Longrightarrow> e \<in> set (snd (reviseEntries ids as)) \<Longrightarrow> e \<in> set as"
proof (induction as arbitrary: ids)
  case (Cons a as)
  then show ?case by (auto split: if_splits option.splits)
qed simp

lemma distinct_live_map:
  assumes "distinct (map en_ID (filter live es))" "\<And>e. f e = e \<or> \<not> Entry_IsReady (f e)"
  shows "distinct (map en_ID (filter live (map f es))) \<and>
    set (filter live (map f es)) \<subseteq> set (filter live es)"
  using assms(1)
proof (induction es)
  case (Cons e es)
  then have IH: "distinct (map en_ID (filter live (map f es)))"
    "set (filter live (map f es)) \<subseteq> set (filter live es)" by (auto split: if_splits)
  show ?case
  proof (cases "live (f e)")
    case True
    with assms(2) [of e] have e: "f e = e" by (auto simp: live_def)
    with Cons.prems True have "en_ID e \<notin> en_ID ` set (filter live es)" by simp
    with IH(2) have "en_ID e \<notin> en_ID ` set (filter live (map f es))" by blast
    with IH True e show ?thesis by auto
  qed (use IH in auto)
qed simp

lemma IsRepositoriesFailed_addons:
  "collectionAddons (snd (IsRepositoriesFailed rc)) = collectionAddons rc"
  by (auto simp: collectionAddons_def IsRepositoriesFailed_def markFailed_def Repository_Failed_def comp_def
      intro!: arg_cong [where f = concat] map_cong)

lemma ReviseInStorage_addons:
  "collectionAddons (ReviseAddonDuplicationInStorage list rc) =
     map (\<lambda>e. if Entry_IsComplete e then findExistingAddon list e else e) (collectionAddons rc)"
  by (induction rc) (auto simp: collectionAddons_def ReviseAddonDuplicationInStorage_def)

lemma revised_distinct:
  assumes "\<And>e. e \<in> set (collectionAddons rc) \<Longrightarrow> keyed e"
    and "IsRepositoriesFailed (ReviseAddonDuplicationInStorage list (ReviseAddonDuplicationInRepository rc)) = (b, rc2)"
  shows "distinct (map (\<lambda>e. ad_ID (en_Addon e)) (filter Entry_IsReady (collectionAddons rc2)))"
proof -
  let ?f = "\<lambda>e. if Entry_IsComplete e then findExistingAddon list e else e"
  obtain i es where r: "reviseEntries [] (collectionAddons rc) = (i, es)" by (meson surj_pair)
  have rc2: "collectionAddons rc2 = map ?f es"
    using IsRepositoriesFailed_addons [of "ReviseAddonDuplicationInStorage list (ReviseAddonDuplicationInRepository rc)"]
      assms(2) r
    by (simp add: ReviseInStorage_addons ReviseAddonDuplicationInRepository_def reviseRepositories_addons)
  have f: "?f e = e \<or> \<not> Entry_IsReady (?f e)" for e
    using findExistingAddon_cases [of list e] by (auto split: if_splits)
  define zs where "zs = map ?f es"
  have live: "live e = Entry_IsReady e" "live e \<Longrightarrow> en_ID e = ad_ID (en_Addon e)" if "e \<in> set zs" for e
  proof -
    from that obtain x where x: "x \<in> set es" "e = ?f x" by (auto simp: zs_def)
    have "keyed e"
    proof (cases "Entry_IsReady e")
      case True
      with f [of x] x(2) have "e = x" by blast
      with x(1) True reviseEntries_ready [of e "[]" "collectionAddons rc"] have "e \<in> set (collectionAddons rc)"
        by (simp add: r)
      then show ?thesis by (rule assms(1))
    qed (simp add: keyed_def)
    then show "live e = Entry_IsReady e" "live e \<Longrightarrow> en_ID e = ad_ID (en_Addon e)"
      by (auto simp: live_def keyed_def)
  qed
  have ready: "filter Entry_IsReady zs = filter live zs"
    using live(1) by (intro filter_cong) simp_all
  have ids: "map (\<lambda>e. ad_ID (en_Addon e)) (filter live zs) = map en_ID (filter live zs)"
    using live(2) by (intro map_cong) simp_all
  have "distinct (map en_ID (filter live zs))"
    using distinct_live_map [of es ?f] reviseEntries_live [OF r] f unfolding zs_def by blast
  then show ?thesis unfolding rc2 zs_def [symmetric] ready ids .
qed

section \<open>The storage the reconciler relies on\<close>

text \<open>The addons a state of the collaborators holds, and what the calls that \<open>saveAddons\<close> and the
  end of \<open>OnAdd\<close> make do to them.\<close>

locale controller_storage =
  fixes d :: "'s cdeps"
    and addons :: "'s \<Rightarrow> Namespace \<Rightarrow> AddonID \<Rightarrow> Addon option"
    and invar :: "'s \<Rightarrow> bool"
  assumes addonUpsert_refused: "\<not> savable a \<Longrightarrow>
      (\<exists>e. fst (addonUpsert d ns a s) = Inl e) \<and> addons (snd (addonUpsert d ns a s)) = addons s"
    and addonUpsert_ok: "savable a \<Longrightarrow> (\<exists>r. fst (addonUpsert d ns a s) = Inr r) \<and>
      addons (snd (addonUpsert d ns a s)) = (addons s)(ns := (addons s ns)(ad_ID a \<mapsto> a))"
    and addonUpsert_invar: "invar s \<Longrightarrow> invar (snd (addonUpsert d ns a s))"
    and chartUpsert_addons: "addons (snd (chartUpsert d ns c s)) = addons s \<and>
      (invar s \<longrightarrow> invar (snd (chartUpsert d ns c s)))"
    and ensureAssetGroup_addons: "addons (snd (ensureAssetGroup d a s)) = addons s \<and>
      (invar s \<longrightarrow> invar (snd (ensureAssetGroup d a s)))"
    and brokerSync_addons: "addons (snd (brokerSync d s)) = addons s \<and>
      (invar s \<longrightarrow> invar (snd (brokerSync d s)))"
    and updateStatus_addons: "addons (snd (updateConfigurationStatus d ca s)) = addons s \<and>
      (invar s \<longrightarrow> invar (snd (updateConfigurationStatus d ca s)))"
begin

lemma saveCharts_addons:
  "addons (snd (saveCharts d ns cs s)) = addons s \<and> (invar s \<longrightarrow> invar (snd (saveCharts d ns cs s)))"
proof (induction cs arbitrary: s)
  case (Cons c cs)
  with chartUpsert_addons [of ns c s] show ?case by (auto split: prod.splits sum.splits)
qed simp

lemma saveEntry_addons:
  assumes "saveEntry d ns e s = (b, e', s')"
  shows "addons s' = (if savable (en_Addon e)
      then (addons s)(ns := (addons s ns)(ad_ID (en_Addon e) \<mapsto> en_Addon e)) else addons s) \<and>
    entry_after e e' \<and> (Entry_IsReady e' \<longrightarrow> savable (en_Addon e)) \<and> (invar s \<longrightarrow> invar s')"
proof -
  let ?a = "en_Addon e"
  define s1 where "s1 = (if length (ad_Docs ?a) = 1 then snd (ensureAssetGroup d ?a s) else s)"
  have s1: "addons s1 = addons s" "invar s \<Longrightarrow> invar s1" by (simp_all add: s1_def ensureAssetGroup_addons)
  obtain r s2 where u: "addonUpsert d ns ?a s1 = (r, s2)" by (meson surj_pair)
  obtain c s3 where c: "saveCharts d ns (awc_Charts (en_AddonWithCharts e)) s2 = (c, s3)" by (meson surj_pair)
  have s3: "addons s3 = addons s2" "invar s2 \<Longrightarrow> invar s3"
    using saveCharts_addons [of ns "awc_Charts (en_AddonWithCharts e)" s2] by (simp_all add: c)
  from assms have "(e' = e \<or> (\<exists>err. e' = Entry_RegisteringError err e)) \<and>
      (case r of Inl err \<Rightarrow> s' = s2 \<and> \<not> Entry_IsReady e' | Inr _ \<Rightarrow> s' = s3)"
    unfolding saveEntry_def Let_def s1_def [symmetric] u
    by (auto simp: c split: sum.splits option.splits)
  with addonUpsert_refused [of ?a ns s1] addonUpsert_ok [of ?a ns s1] addonUpsert_invar [of s1 ns ?a] s1 s3 show ?thesis
    by (auto simp: u split: sum.splits)
qed

lemma saveEntries_addons:
  assumes "saveEntries d ns es s = (b, es', s')"
  shows "addons s' = (addons s)(ns := addons s ns ++ map_of (upserts es)) \<and>
    list_all2 entry_after es es' \<and> (\<forall>e' \<in> set es'. Entry_IsReady e' \<longrightarrow> savable (en_Addon e')) \<and>
    (invar s \<longrightarrow> invar s')"
  using assms
proof (induction es arbitrary: b es' s s')
  case (Cons e es)
  obtain b1 e1 s1 where one: "(if Entry_IsReady e then saveEntry d ns e s else (False, e, s)) = (b1, e1, s1)"
    by (metis prod_cases3)
  obtain b2 es1 s2 where rest: "saveEntries d ns es s1 = (b2, es1, s2)" by (metis prod_cases3)
  from Cons.prems one rest have eq: "es' = e1 # es1" "s' = s2" by (simp_all add: Let_def)
  have first: "addons s1 = (if Entry_IsReady e \<and> savable (en_Addon e)
      then (addons s)(ns := (addons s ns)(ad_ID (en_Addon e) \<mapsto> en_Addon e)) else addons s) \<and>
    entry_after e e1 \<and> (Entry_IsReady e1 \<longrightarrow> savable (en_Addon e1)) \<and> (invar s \<longrightarrow> invar s1)"
    using one saveEntry_addons [of ns e s b1 e1 s1]
    by (auto simp: entry_after_def split: if_splits)
  have s2: "addons s2 = (addons s1)(ns := addons s1 ns ++ map_of (upserts es))"
    using Cons.IH [OF rest] by blast
  have "addons s2 = (addons s)(ns := addons s ns ++ map_of (upserts (e # es)))"
  proof (cases "Entry_IsReady e \<and> savable (en_Addon e)")
    case True
    with first have "addons s1 = (addons s)(ns := (addons s ns)(ad_ID (en_Addon e) \<mapsto> en_Addon e))" by simp
    with s2 show ?thesis unfolding upserts_simps if_P [OF True] map_add_snoc [symmetric] by simp
  next
    case False
    with first have "addons s1 = addons s" by simp
    with s2 show ?thesis unfolding upserts_simps if_not_P [OF False] by simp
  qed
  with Cons.IH [OF rest] first show ?case by (simp add: eq)
qed simp

lemma onAdd_notify_addons:
  "addons (snd (onAdd_notify d list saved [] s)) = addons s \<and>
   (invar s \<longrightarrow> invar (snd (onAdd_notify d list saved [] s)))"
  using brokerSync_addons [of s]
  by (auto simp: onAdd_notify_def ensureBroker_def split: sum.splits bool.splits prod.splits option.splits)

lemma updateAddonStatus_addons:
  assumes "updateAddonStatus d ca s = (err, ca', s')"
  shows "addons s' = addons s \<and> st_Phase (ca_Status ca') = st_Phase (ca_Status ca) \<and>
    st_Repositories (ca_Status ca') = st_Repositories (ca_Status ca) \<and> (invar s \<longrightarrow> invar s')"
proof -
  from assms have "ca' = ca\<lparr>ca_Status := (ca_Status ca)\<lparr>st_ObservedGeneration := meta_Generation (ca_Meta ca),
      st_LastProcessedTime := Some (timeNow d s)\<rparr>\<rparr>" "s' = snd (updateConfigurationStatus d ca' s)"
    by (auto simp: updateAddonStatus_def Let_def split: prod.splits)
  with updateStatus_addons [of ca' s] show ?thesis by simp
qed

lemma onAdd_ready_addons:
  assumes "onAdd_ready d ns ca lastStatus list rc s = Some (None, ca', s')"
    and "st_Phase lastStatus \<noteq> AddonsConfigurationReady"
  shows "(invar s \<longrightarrow> invar s') \<and>
    addons s' = (addons s)(ns := addons s ns ++ map_of (upserts (collectionAddons rc))) \<and>
    st_Phase (ca_Status ca') = st_Phase (ca_Status ca) \<and>
    (\<exists>es'. statusAddons (st_Repositories (ca_Status ca')) = map snapshotAddon es' \<and>
      list_all2 entry_after (collectionAddons rc) es' \<and>
      (\<forall>e' \<in> set es'. Entry_IsReady e' \<longrightarrow> savable (en_Addon e')))"
proof -
  obtain saved rc' s1 where sv: "saveAddons d ns rc s = (saved, rc', s1)" by (metis prod_cases3)
  obtain err ca1 s2 where up: "updateAddonStatus d (snapshot rc' ca) s1 = (err, ca1, s2)" by (metis prod_cases3)
  from assms sv up have "err = None" "ca' = ca1" "s' = snd (onAdd_notify d list saved [] s2)"
    by (auto simp: onAdd_ready_def split: option.splits prod.splits if_splits)
  moreover have "statusAddons (st_Repositories (ca_Status (snapshot rc' ca))) = map snapshotAddon (collectionAddons rc')"
    by (simp add: statusAddons_def snapshot_def statusSnapshot_def collectionAddons_def map_concat comp_def)
  moreover have "st_Phase (ca_Status (snapshot rc' ca)) = st_Phase (ca_Status ca)"
    by (simp add: snapshot_def statusSnapshot_def)
  ultimately show ?thesis
    using saveEntries_addons [OF saveAddons_flat [OF sv]] updateAddonStatus_addons [OF up] onAdd_notify_addons
    by auto
qed

lemma onAdd_failed_addons:
  assumes "onAdd_failed d ns ca lastStatus list rc s = Some (None, ca', s')"
    and "st_Phase lastStatus \<noteq> AddonsConfigurationReady"
  shows "(invar s \<longrightarrow> invar s') \<and> addons s' = addons s \<and> st_Phase (ca_Status ca') = st_Phase (ca_Status ca)"
proof -
  obtain err ca1 s2 where up: "updateAddonStatus d (snapshot rc ca) s = (err, ca1, s2)" by (metis prod_cases3)
  from assms up have "ca' = ca1" "s' = snd (onAdd_notify d list False [] s2)"
    by (auto simp: onAdd_failed_def split: option.splits prod.splits if_splits)
  with updateAddonStatus_addons [OF up] onAdd_notify_addons show ?thesis
    by (simp add: snapshot_def statusSnapshot_def)
qed

text \<open>The addons after a run on a configuration that was not ready before.\<close>

lemma OnAdd_first_addons:
  assumes run: "OnAdd d ns ca lastStatus s = Some (None, ca', s')"
    and last: "st_Phase lastStatus \<noteq> AddonsConfigurationReady"
    and ids: "\<And>u g e c. newGetter d u s = Inr g \<Longrightarrow> g_GetCompleteAddon g e = Inr c \<Longrightarrow> ad_ID (awc_Addon c) \<noteq> []"
  shows "(invar s \<longrightarrow> invar s') \<and> (if st_Phase (ca_Status ca') = AddonsConfigurationReady
    then \<exists>es es'. addons s' = (addons s)(ns := addons s ns ++ map_of (upserts es)) \<and>
      distinct (map fst (upserts es)) \<and> list_all2 entry_after es es' \<and>
      statusAddons (st_Repositories (ca_Status ca')) = map snapshotAddon es' \<and>
      (\<forall>e' \<in> set es'. Entry_IsReady e' \<longrightarrow> savable (en_Addon e'))
    else addons s' = addons s)"
proof -
  from run obtain rc where load: "loadRepositories d (spec_Repositories (ca_Spec ca)) s = Some rc"
    and ok: "\<not> IsRepositoriesFetchingError rc"
    by (auto simp: OnAdd_def onAdd_fetching_def Let_def split: option.splits if_splits prod.splits)
  from run load ok obtain list failed rc2 where
    mark: "IsRepositoriesFailed (ReviseAddonDuplicationInStorage list
      (ReviseAddonDuplicationInRepository rc)) = (failed, rc2)" and
    branch: "if failed then onAdd_failed d ns (set_phase AddonsConfigurationFailed ca) lastStatus list rc2 s =
        Some (None, ca', s')
      else onAdd_ready d ns (set_phase AddonsConfigurationReady ca) lastStatus list rc2 s = Some (None, ca', s')"
    by (auto simp: OnAdd_def Let_def split: sum.splits prod.splits bool.splits)
  have "distinct (map (\<lambda>e. ad_ID (en_Addon e)) (filter Entry_IsReady (collectionAddons rc2)))"
    by (rule revised_distinct [OF loadRepositories_keyed [OF ids load] mark])
  then have "distinct (map fst (upserts (collectionAddons rc2)))"
    by (simp add: upserts_def rev_map [symmetric] comp_def distinct_map_filter flip: filter_filter)
  with branch onAdd_failed_addons [OF _ last] onAdd_ready_addons [OF _ last] show ?thesis
    by (cases failed) fastforce+
qed

end

interpretation cw: controller_storage "ctlDeps ce" "\<lambda>s. mem_ad_addons (w_addons s)"
  "\<lambda>s. mem_ad_invar (w_addons s)" for ce :: "'x CtlExternal"
proof unfold_locales
  fix ns a and s :: "'x World"
  show "\<not> savable a \<Longrightarrow> (\<exists>e. fst (addonUpsert (ctlDeps ce) ns a s) = Inl e) \<and>
      mem_ad_addons (w_addons (snd (addonUpsert (ctlDeps ce) ns a s))) = mem_ad_addons (w_addons s)"
    using mad.Upsert_refused [of a ns "w_addons s"] by (auto simp: ctlDeps_def savable_def)
  show "savable a \<Longrightarrow> (\<exists>r. fst (addonUpsert (ctlDeps ce) ns a s) = Inr r) \<and>
      mem_ad_addons (w_addons (snd (addonUpsert (ctlDeps ce) ns a s))) =
        (mem_ad_addons (w_addons s))(ns := (mem_ad_addons (w_addons s) ns)(ad_ID a \<mapsto> a))"
    using mad.Upsert_ok [of a ns "w_addons s"] by (auto simp: ctlDeps_def savable_def)
  show "mem_ad_invar (w_addons s) \<Longrightarrow> mem_ad_invar (w_addons (snd (addonUpsert (ctlDeps ce) ns a s)))"
    using mad.Upsert_invar [of "w_addons s" ns a] by (simp add: ctlDeps_def)
qed (simp_all add: ctlDeps_def)

section \<open>The catalog after a run\<close>

lemma list_all2_in1: "list_all2 P xs ys \<Longrightarrow> x \<in> set xs \<Longrightarrow> \<exists>y \<in> set ys. P x y"
  by (induction rule: list_all2_induct) auto

lemma list_all2_in2: "list_all2 P xs ys \<Longrightarrow> y \<in> set ys \<Longrightarrow> \<exists>x \<in> set xs. P x y"
  by (induction rule: list_all2_induct) auto

lemma Convert_simps [simp]:
  "os_ID (projr (Convert a)) = ad_ID a" "os_Name (projr (Convert a)) = ad_Name a"
  by (simp_all add: Convert_def)

lemma GetCatalog_ran:
  assumes "mem_ad_invar (w_addons s)"
  shows "\<exists>services. GetCatalog (memDeps ex) ctx s = Inr services \<and> distinct (map os_ID services) \<and>
    set services = (\<lambda>a. projr (Convert a)) ` ran (mem_ad_addons (w_addons s) (ctx_BrokerNamespace ctx))"
  using mad.FindAll_ok [OF assms, of "ctx_BrokerNamespace ctx"]
  by (auto simp: GetCatalog_def convertAll_eq comp_def)

text \<open>The addons of the namespace and the status of the configuration.\<close>

lemma upserts_status:
  assumes "list_all2 entry_after es es'" "sas = map snapshotAddon es'"
    and "\<forall>e' \<in> set es'. Entry_IsReady e' \<longrightarrow> savable (en_Addon e')" and "distinct (map fst (upserts es))"
  shows "sa \<in> set sas \<Longrightarrow> sa_Status sa = AddonStatusReady \<Longrightarrow>
      \<exists>a. (m ++ map_of (upserts es)) (ad_ID a) = Some a \<and> ad_Name a = sa_Name sa \<and>
        Original (ad_Version a) = sa_Version sa"
    and "a \<in> ran (m ++ map_of (upserts es)) \<Longrightarrow> a \<in> ran m \<or>
      (\<exists>sa \<in> set sas. sa_Name sa = ad_Name a \<and> sa_Version sa = Original (ad_Version a))"
proof -
  assume "sa \<in> set sas" "sa_Status sa = AddonStatusReady"
  with assms(2) obtain e' where e': "e' \<in> set es'" "sa = snapshotAddon e'" "Entry_IsReady e'"
    by (auto simp: snapshotAddon_def Entry_IsReady_def)
  with list_all2_in2 [OF assms(1)] assms(3) have "e' \<in> set es" "savable (en_Addon e')"
    by (auto simp: entry_after_def)
  with e'(3) have "(ad_ID (en_Addon e'), en_Addon e') \<in> set (upserts es)" by (auto simp: upserts_set)
  with assms(4) have "map_of (upserts es) (ad_ID (en_Addon e')) = Some (en_Addon e')" by simp
  then show "\<exists>a. (m ++ map_of (upserts es)) (ad_ID a) = Some a \<and> ad_Name a = sa_Name sa \<and>
      Original (ad_Version a) = sa_Version sa"
    by (intro exI [of _ "en_Addon e'"]) (simp add: e'(2) snapshotAddon_def)
next
  assume "a \<in> ran (m ++ map_of (upserts es))"
  then consider "a \<in> ran m" | k where "(k, a) \<in> set (upserts es)"
    by (auto simp: ran_def map_add_Some_iff dest: map_of_SomeD)
  then show "a \<in> ran m \<or> (\<exists>sa \<in> set sas. sa_Name sa = ad_Name a \<and> sa_Version sa = Original (ad_Version a))"
  proof cases
    case 2
    then obtain e where "e \<in> set es" "a = en_Addon e" by (auto simp: upserts_set)
    with list_all2_in1 [OF assms(1)] assms(2) show ?thesis
      by (fastforce simp: entry_after_def snapshotAddon_def)
  qed simp
qed

text \<open>
  C27. What the status of a configuration promises is what the broker offers. After a run without
  error on a configuration that was not ready, the catalog of its namespace changes only if the
  configuration is ready now: every addon its status shows as ready is offered, under the
  identifier of an addon with that name and version, everything else that is offered was offered
  before or belongs to the configuration, and no identifier that was offered is lost. The addons
  of other namespaces stay as they are. (The identifiers that the repository gives are not empty;
  the loader checks that.)
\<close>

theorem OnAdd_catalog:
  assumes "OnAdd (ctlDeps ce) (ctx_BrokerNamespace ctx) ca lastStatus s = Some (None, ca', s')"
    and "st_Phase lastStatus \<noteq> AddonsConfigurationReady" and "mem_ad_invar (w_addons s)"
    and "\<And>u g e c. cx_newGetter ce u (w_ext s) = Inr g \<Longrightarrow> g_GetCompleteAddon g e = Inr c \<Longrightarrow>
      ad_ID (awc_Addon c) \<noteq> []"
  shows "\<exists>before services. GetCatalog (memDeps ex) ctx s = Inr before \<and>
    GetCatalog (memDeps ex) ctx s' = Inr services \<and> distinct (map os_ID services) \<and>
    os_ID ` set before \<subseteq> os_ID ` set services \<and>
    (\<forall>ns. ns \<noteq> ctx_BrokerNamespace ctx \<longrightarrow>
       mem_ad_addons (w_addons s') ns = mem_ad_addons (w_addons s) ns) \<and>
    (let status = statusAddons (st_Repositories (ca_Status ca')) in
     if st_Phase (ca_Status ca') = AddonsConfigurationReady
     then (\<forall>sa \<in> set status. sa_Status sa = AddonStatusReady \<longrightarrow>
            (\<exists>a. mem_ad_GetByID (ctx_BrokerNamespace ctx) (ad_ID a) (w_addons s') = Inr a \<and>
               ad_Name a = sa_Name sa \<and> Original (ad_Version a) = sa_Version sa \<and>
               (\<exists>svc \<in> set services. os_ID svc = ad_ID a \<and> os_Name svc = sa_Name sa))) \<and>
          (\<forall>svc \<in> set services. svc \<in> set before \<or> (\<exists>sa \<in> set status. sa_Name sa = os_Name svc))
     else set services = set before)"
proof -
  let ?ns = "ctx_BrokerNamespace ctx"
  let ?m = "mem_ad_addons (w_addons s)" and ?m' = "mem_ad_addons (w_addons s')"
  let ?status = "statusAddons (st_Repositories (ca_Status ca'))"
  have end_state: "(mem_ad_invar (w_addons s) \<longrightarrow> mem_ad_invar (w_addons s')) \<and>
    (if st_Phase (ca_Status ca') = AddonsConfigurationReady
     then \<exists>es es'. ?m' = ?m(?ns := ?m ?ns ++ map_of (upserts es)) \<and>
       distinct (map fst (upserts es)) \<and> list_all2 entry_after es es' \<and> ?status = map snapshotAddon es' \<and>
       (\<forall>e' \<in> set es'. Entry_IsReady e' \<longrightarrow> savable (en_Addon e'))
     else ?m' = ?m)"
    by (rule cw.OnAdd_first_addons [OF assms(1,2)]) (use assms(4) in \<open>simp add: ctlDeps_def\<close>)
  then have inv': "mem_ad_invar (w_addons s')" using assms(3) by blast
  obtain before where b: "GetCatalog (memDeps ex) ctx s = Inr before"
    "set before = (\<lambda>a. projr (Convert a)) ` ran (?m ?ns)" using GetCatalog_ran [OF assms(3)] by blast
  obtain services where v: "GetCatalog (memDeps ex) ctx s' = Inr services" "distinct (map os_ID services)"
    "set services = (\<lambda>a. projr (Convert a)) ` ran (?m' ?ns)" using GetCatalog_ran [OF inv'] by blast
  have ids: "os_ID ` set before = dom (?m ?ns)" "os_ID ` set services = dom (?m' ?ns)"
    using mad.stored_under_ID [OF assms(3)] mad.stored_under_ID [OF inv']
    by (force simp: b(2) v(3) image_image ran_def dom_def)+
  show ?thesis
  proof (cases "st_Phase (ca_Status ca') = AddonsConfigurationReady")
    case True
    with end_state obtain es es' where m': "?m' = ?m(?ns := ?m ?ns ++ map_of (upserts es))"
      and es: "list_all2 entry_after es es'" "?status = map snapshotAddon es'"
        "\<forall>e' \<in> set es'. Entry_IsReady e' \<longrightarrow> savable (en_Addon e')" "distinct (map fst (upserts es))" by auto
    have ns: "?m' ?ns = ?m ?ns ++ map_of (upserts es)" by (simp add: m')
    have "\<exists>a. mem_ad_GetByID ?ns (ad_ID a) (w_addons s') = Inr a \<and>
        ad_Name a = sa_Name sa \<and> Original (ad_Version a) = sa_Version sa \<and>
        (\<exists>svc \<in> set services. os_ID svc = ad_ID a \<and> os_Name svc = sa_Name sa)"
      if sa: "sa \<in> set ?status" "sa_Status sa = AddonStatusReady" for sa
    proof -
      from upserts_status(1) [OF es sa, of "?m ?ns", folded ns] obtain a where
        a: "?m' ?ns (ad_ID a) = Some a" "ad_Name a = sa_Name sa" "Original (ad_Version a) = sa_Version sa"
        by (elim exE conjE)
      then have "projr (Convert a) \<in> set services" unfolding v(3) by (auto intro: ranI)
      with a show ?thesis
        by (intro exI [of _ a] conjI bexI [of _ "projr (Convert a)"]) (simp_all add: mad.GetByID_eq)
    qed
    moreover have "svc \<in> set before \<or> (\<exists>sa \<in> set ?status. sa_Name sa = os_Name svc)" if svc: "svc \<in> set services" for svc
    proof -
      from svc obtain a where a: "a \<in> ran (?m ?ns ++ map_of (upserts es))" "svc = projr (Convert a)"
        unfolding v(3) ns by blast
      from upserts_status(2) [OF es a(1)] a(2) show ?thesis by (auto simp: b(2))
    qed
    moreover have "os_ID ` set before \<subseteq> os_ID ` set services" unfolding ids ns by auto
    ultimately show ?thesis using b(1) v(1,2) True by (simp add: m')
  next
    case False
    with end_state have "?m' = ?m" by simp
    with b v ids False show ?thesis by simp
  qed
qed

section \<open>An addon that comes in a new version\<close>

text \<open>A repository with one addon; the state outside of the process is its version.\<close>

definition example_ctl :: "string CtlExternal" where
  "example_ctl = \<lparr>cx_semverParse = \<lambda>v. Some \<lparr>Original = v, String = v\<rparr>,
     cx_newGetter = \<lambda>u x. Inr \<lparr>g_GetIndex = Inr \<lparr>idx_Entries = [(''redis'',
         [\<lparr>ie_Name = ''redis'', ie_DisplayName = ''Redis'', ie_Description = '''', ie_Version = x\<rparr>])]\<rparr>,
       g_GetCompleteAddon = \<lambda>e. Inr \<lparr>awc_Addon = example_addon\<lparr>ad_Version := \<lparr>Original = x, String = x\<rparr>\<rparr>,
         awc_Charts = []\<rparr>\<rparr>,
     cx_templateURL = \<lambda>r x. Inr (sp_URL r), cx_ensureAssetGroup = \<lambda>a x. (None, x),
     cx_ensureAssetGroupRemoved = \<lambda>i x. (None, x), cx_brokerExist = \<lambda>x. Inr True,
     cx_brokerSync = \<lambda>x. (None, x), cx_listConfigurations = \<lambda>x. Inr [],
     cx_reprocessRequest = \<lambda>n x. (None, x), cx_updateConfiguration = \<lambda>c x. (Inr 1, x),
     cx_updateConfigurationStatus = \<lambda>c x. (None, x), cx_timeNow = \<lambda>x. 7\<rparr>"

definition example_platform :: "string \<Rightarrow> string World" where
  "example_platform x = \<lparr>w_ops = NewInstanceOperation 0, w_bops = NewBindOperation 0, w_insts = NewInstance,
     w_ibds = NewInstanceBindData, w_addons = NewAddon, w_charts = NewChart, w_ext = x\<rparr>"

definition new_generation :: "CommonAddon \<Rightarrow> CommonAddon" where
  "new_generation ca = ca\<lparr>ca_Meta := (ca_Meta ca)\<lparr>meta_Generation := meta_Generation (ca_Meta ca) + 1\<rparr>\<rparr>"

definition first_run :: "((ReconcileResult \<times> error option) \<times> CommonAddon \<times> string World) option" where
  "first_run = Reconcile (ctlDeps example_ctl) ''stage'' 5 example_fresh ''cfg'' (example_platform ''0.0.1'')"

definition second_run :: "((ReconcileResult \<times> error option) \<times> CommonAddon \<times> string World) option" where
  "second_run = (case first_run of None \<Rightarrow> None
     | Some (_, ca, s) \<Rightarrow> Reconcile (ctlDeps example_ctl) ''stage'' 5 (new_generation ca) ''cfg'' (s\<lparr>w_ext := ''0.0.2''\<rparr>))"

lemma first_run_eval:
  "case first_run of None \<Rightarrow> False
   | Some (r, ca, s) \<Rightarrow> r = (NoRequeue, None) \<and> map ad_ID (projr (mem_ad_FindAll ''stage'' (w_addons s))) = [''a-1'']"
  by code_simp

lemma second_run_eval:
  "case second_run of None \<Rightarrow> False
   | Some (r, ca, s) \<Rightarrow> r = (NoRequeue, None) \<and> mem_ad_FindAll ''stage'' (w_addons s) = Inr [] \<and>
       st_Phase (ca_Status ca) = AddonsConfigurationReady \<and>
       map (\<lambda>sa. (sa_Name sa, sa_Version sa, sa_Status sa)) (statusAddons (st_Repositories (ca_Status ca))) =
         [(''redis'', ''0.0.2'', AddonStatusReady)] \<and>
       meta_DeletionTimestamp (ca_Meta ca) = None \<and> \<not> IsReadyForInitialProcessing ca \<and> \<not> IsReadyForReprocessing ca"
  by code_simp


lemma example_add_eval:
  "case OnAdd (ctlDeps example_ctl) ''stage'' example_fresh EmptyStatus (example_platform ''0.0.1'') of None \<Rightarrow> False
   | Some (err, ca, s) \<Rightarrow> err = None \<and> st_Phase (ca_Status ca) = AddonsConfigurationReady \<and>
       map (\<lambda>sa. (sa_Name sa, sa_Status sa)) (statusAddons (st_Repositories (ca_Status ca))) = [(''redis'', AddonStatusReady)]"
  by code_simp

theorem OnAdd_catalog_witness:
  "\<exists>ca s. OnAdd (ctlDeps example_ctl) ''stage'' example_fresh EmptyStatus (example_platform ''0.0.1'') =
       Some (None, ca, s) \<and>
     (\<forall>ex. \<exists>services. GetCatalog (memDeps ex) \<lparr>ctx_APIVersion = '''', ctx_OriginatingIdentity = '''',
       ctx_BrokerNamespace = ''stage''\<rparr> s = Inr services \<and> (\<exists>svc \<in> set services. os_Name svc = ''redis''))"
proof -
  let ?ctx = "\<lparr>ctx_APIVersion = [], ctx_OriginatingIdentity = [], ctx_BrokerNamespace = ''stage''\<rparr>"
  obtain ca s where run: "OnAdd (ctlDeps example_ctl) ''stage'' example_fresh EmptyStatus (example_platform ''0.0.1'') =
      Some (None, ca, s)" and phase: "st_Phase (ca_Status ca) = AddonsConfigurationReady"
    and status: "map (\<lambda>sa. (sa_Name sa, sa_Status sa)) (statusAddons (st_Repositories (ca_Status ca))) =
      [(''redis'', AddonStatusReady)]"
    using example_add_eval by (auto split: option.splits)
  from status obtain sa where sa: "sa \<in> set (statusAddons (st_Repositories (ca_Status ca)))"
    "sa_Name sa = ''redis''" "sa_Status sa = AddonStatusReady" by auto
  have run': "OnAdd (ctlDeps example_ctl) (ctx_BrokerNamespace ?ctx) example_fresh EmptyStatus (example_platform ''0.0.1'') =
      Some (None, ca, s)" using run by simp
  have "st_Phase EmptyStatus \<noteq> AddonsConfigurationReady" by (simp add: EmptyStatus_def)
  moreover have "mem_ad_invar (w_addons (example_platform ''0.0.1''))"
    by (simp add: example_platform_def mem_ad_invar_def NewAddon_def mem_ad_addons_def)
  moreover have "cx_newGetter example_ctl u (w_ext (example_platform ''0.0.1'')) = Inr g \<Longrightarrow>
      g_GetCompleteAddon g e = Inr c \<Longrightarrow> ad_ID (awc_Addon c) \<noteq> []" for u g e c
    by (auto simp: example_ctl_def example_addon_def)
  ultimately have "\<exists>services. GetCatalog (memDeps ex) ?ctx s = Inr services \<and>
      (\<forall>sa \<in> set (statusAddons (st_Repositories (ca_Status ca))). sa_Status sa = AddonStatusReady \<longrightarrow>
         (\<exists>svc \<in> set services. os_Name svc = sa_Name sa))" for ex
    using OnAdd_catalog [OF run', of ex] phase by (fastforce simp: Let_def)
  with sa have "\<exists>services. GetCatalog (memDeps ex) ?ctx s = Inr services \<and>
      (\<exists>svc \<in> set services. os_Name svc = ''redis'')" for ex
    by metis
  with run show ?thesis by blast
qed

end
