(* ===== verification/Spec2Isabelle.thy ===== *)
theory Spec2Isabelle
  imports ServerProperties EtcdAddon BindResolver Setup Migration StorageFactory Health Webhook HelmClient
    IndexBuilder TargzRoundTrip Platform
begin

text \<open>
  \<^bold>\<open>Helm Broker.\<close> A service broker (Open Service Broker API) that provisions Helm charts. The program
  has two halves that share a storage. The \<^emph>\<open>broker\<close> (\<open>internal/broker\<close>) answers the platform: it
  provisions, deprovisions and binds instances of addons, each by an operation record that is
  stored as in progress and ended by a goroutine. The \<^emph>\<open>controller\<close> (\<open>internal/controller\<close>) watches
  addons configurations, loads the addons of their repositories into the storage, and keeps the
  service broker objects of the cluster.

  \<^bold>\<open>Prelude, Model.\<close> Go errors, results and maps, strings, JSON (\<open>Prelude\<close>); the entities of
  \<open>internal/model.go\<close> and of the API types of \<open>pkg/apis/addons/v1alpha1\<close> as records, the methods
  \<open>IsProvisioningAllowed\<close>, \<open>IsReadyForInitialProcessing\<close>, \<open>IsReadyForReprocessing\<close> and the comparison
  of statuses (\<open>Model\<close>). A Go map is an association list with distinct keys; iterating over a map is
  iterating over that list, and the properties do not depend on its order.

  \<^bold>\<open>Storage.\<close> \<open>Storage_Interface\<close> holds the contracts of \<open>internal/storage/ext.go\<close> as locales:
  \<open>operation_storage\<close> (at most one operation of an instance in progress), \<open>entity_storage\<close> and
  \<open>addon_storage\<close>. \<open>MemoryOperation\<close> and \<open>MemoryEntities\<close> model every method of the in-memory driver
  (\<open>internal/storage/driver/memory\<close>) and interpret the locales; the driver's lock makes each method
  one step, so that a method is a function on the state. The state of the operation storage is
  also a step relation whose reachable states have at most one operation in progress.

  \<^bold>\<open>Broker.\<close> \<open>Broker_Interface\<close> is the record of the collaborators of \<open>broker.go\<close> over an abstract
  state. \<open>OperationState\<close> (\<open>operation_state.go\<close>), \<open>Values\<close> and \<open>Provision\<close> (\<open>provision.go\<close>),
  \<open>Deprovision\<close> (\<open>deprovision.go\<close>, \<open>lastop.go\<close>) and \<open>Bind\<close> (\<open>bind.go\<close>, \<open>unbind.go\<close>) hold the
  handlers and their tasks over that record, branch by branch. \<open>Broker_Env\<close> proves what holds for every
  collaborator that keeps the storage contract (locale \<open>broker_env\<close>); \<open>Broker_World\<close> wires the
  in-memory driver as \<open>newWithIDProvider\<close> does (\<open>memDeps\<close>) and interprets the locale, with Helm and the
  identifier source as parameters. \<open>BrokerSystem\<close> interleaves requests, the start and the end of tasks
  and the environment as a step relation; \<open>BrokerProperties\<close> holds the properties.

  \<^bold>\<open>Catalog and server.\<close> \<open>Catalog\<close> converts addons to services (\<open>catalog.go\<close>). \<open>Server\<close> models the routes of
  \<open>server.go\<close> with the middleware, the decoding of bodies, sanitizing and the answer of every action;
  \<open>ServerProperties\<close> composes them with the broker over the in-memory driver.

  \<^bold>\<open>Etcd driver.\<close> \<open>Etcd_Interface\<close> is the key-value store as a locale, interpreted on a store with faults;
  \<open>Gob\<close> is the encoding of the stored forms, with the values gob refuses. \<open>EtcdOperation\<close>,
  \<open>EtcdEntities\<close> and \<open>EtcdAddon\<close> model every method of \<open>internal/storage/driver/etcd\<close>. The operation storage
  refines the one in memory as long as insertions do not interleave.

  \<^bold>\<open>Storage factory, migration.\<close> \<open>StorageFactory\<close> models \<open>internal/storage/storage.go\<close>, which chooses the driver of
  every entity; \<open>Migration\<close> models \<open>internal/migration\<close>: \<open>Execute\<close> takes the order in which the messages of
  the two goroutines reach the channel, and \<open>schedules\<close> is the set of all orders.

  \<^bold>\<open>Bind templates and Helm.\<close> \<open>BindResolver\<close> models \<open>internal/bind\<close> (credentials and their precedence);
  \<open>HelmClient\<close> is \<open>internal/helm/client.go\<close> over the actions of Helm.

  \<^bold>\<open>Controller.\<close> \<open>Repository\<close> models entries, repositories, collections, conflict detection and URL
  templates (\<open>internal/controller/repository\<close>); \<open>Controller\<close> the reconciler (\<open>common.go\<close>,
  \<open>protection.go\<close>) and \<open>AddonErrors\<close> the error kinds (\<open>internal/addon/errors.go\<close>). \<open>Kube_Interface\<close> is the
  Kubernetes API as a record of calls with the contracts \<open>broker_api\<close> and \<open>config_api\<close>, both interpreted on a store of
  API objects; \<open>BrokerController\<close> models the controllers, facades and syncers of the broker objects, and
  \<open>CommonClient\<close> the client with its retries and the two configuration reconcilers. \<open>Docs\<close> models the two providers of
  asset groups (\<open>internal/controller/docs\<close>), \<open>Health\<close> the probes of \<open>internal/health\<close>, with the live probe
  against the reconciler, and \<open>Webhook\<close> the admission handler of \<open>internal/webhook\<close>. \<open>Setup\<close> holds what \<open>setup.go\<close> decides:
  the getters that are allowed, the documentation providers and the wait for the manager.

  \<^bold>\<open>Both halves.\<close> \<open>Platform\<close> gives the reconciler the storages of the broker's world (\<open>ctlDeps\<close>) and states what it
  relies on as the locale \<open>controller_storage\<close>, interpreted on the in-memory driver. From it follow the catalog that the
  broker offers after a run, and that an addon which comes in a new version under its old identifier is lost; with
  etcd the storage does the same (\<open>etcd_ad_successor_removed\<close> in \<open>EtcdAddon\<close>).

  \<^bold>\<open>Addons.\<close> \<open>FileSystem\<close> is the part of the packages \<open>path\<close>, \<open>path/filepath\<close>, \<open>os\<close> and \<open>ioutil\<close> the program
  uses, over a tree without links whose calls may fail. On it rest \<open>AddonForm\<close> and \<open>AddonLoader\<close>
  (\<open>internal/addon/form.go\<close>, \<open>loader.go\<close>), \<open>AddonProvider\<close> (\<open>internal/addon/provider\<close>: client, getters, factory)
  with the upload client \<open>Rafter\<close> (\<open>internal/rafter\<close>), and two commands: \<open>IndexBuilder\<close>
  (\<open>cmd/indexbuilder\<close>) and \<open>Targz\<close> (\<open>cmd/targz\<close>). \<open>TargzTree\<close> shows that unpacking a packed directory gives the
  same tree, and \<open>TargzRoundTrip\<close> that the loader reads the same addon from the archive as from the directory.
  Archives are sequences of entries; compression is a parameter.

  \<^bold>\<open>What is shown.\<close> C1 to C3: no two operations of an instance in progress, every operation in progress
  has a task that ends it, and the system can always come to rest. C4 to C20: the handlers, tasks and routes
  on every branch, idempotence, credentials that are read once, and the pure parts of the broker (catalog, credentials,
  merged values, release names). C21 to C23: the etcd driver against the one in memory and a round trip. C24 to
  C29 and C40: convergence of reconciling, retries, finalizers, conflicts, the broker objects, and what the broker
  offers after a run of the controller. C30 to C34: loading, fetching and packing addons. C35 to C39: migration, storage factory, live probe and documentation.

  \<^bold>\<open>Bounds.\<close> Loops are structural recursions. \<open>wait.Poll\<close>, \<open>wait.PollImmediate\<close> and \<open>retry.RetryOnConflict\<close> take the
  number of attempts as a parameter; the theorems that the code returns hold for every number of them, C39 bounds the
  calls by it, and C37 needs one attempt at least.

  \<^bold>\<open>Not modelled.\<close> Logging and metrics. The main functions of broker, controller, checker and webhook, the wiring of the
  controller manager and the loading of configurations, which only wire components or call libraries. The client that
  connects to etcd, the downloads of go-getter and the HTTP servers, which are input and output. The unpacking and
  the registry of formats of \<open>cmd/targz/archiver\<close>, which no command calls. Generated code: deep copies, clientsets,
  informers, listers and mocks.
\<close>

end
